(* ===== verification/Prelude.thy ===== *)
theory Prelude
  imports
    Main
    "HOL-Library.AList"
    "HOL-Library.Word"
    "HOL-Library.Char_ord"
    "HOL-Library.List_Lexorder"
begin

text \<open>
  The shared layer of the development: how the Go values that every component uses are
  represented, and the generic lemmas about them.

  \<^item> \<open>time.Time\<close> is \<open>time\<close>, the nanoseconds since the zero \<open>Time\<close>
    (so \<open>t.IsZero()\<close> is \<open>t = 0\<close>), and \<open>time.Duration\<close> is \<open>duration\<close>.
    Time zones carry no information here, so \<open>t.UTC()\<close> is \<open>t\<close>.
  \<^item> \<open>int\<close> and \<open>int64\<close> are \<open>int\<close>, with \<open>wrap64\<close> written where the code
    adds or subtracts; \<open>uint64\<close> is \<open>64 word\<close>.
  \<^item> a Go map is an association list with distinct keys (\<open>gomap\<close>). The order of the
    list is the order in which a \<open>range\<close> loop visits the map, which Go leaves open;
    a theorem over all such lists is a theorem over all iteration orders.
  \<^item> Go strings are byte lists, compared bytewise (\<open>HOL-Library.List_Lexorder\<close>).
  \<^item> \<open>sort.Slice\<close> is \<open>sort_by\<close> and \<open>sort.Search\<close> is the same binary search
    (\<open>sort_Search\<close>), right or wrong as its predicate is monotone or not.
\<close>

named_theorems go_lib "facts on Go maps, strings, sorting and searching"

type_synonym time = int
type_synonym duration = int
type_synonym u64 = "64 word"
type_synonym u32 = "32 word"
type_synonym ('k, 'v) gomap = "('k \<times> 'v) list"
type_synonym strmap = "(string, string) gomap"

section \<open>Go maps\<close>

abbreviation map_put :: "'k \<Rightarrow> 'v \<Rightarrow> ('k, 'v) gomap \<Rightarrow> ('k, 'v) gomap" where
  "map_put \<equiv> AList.update"

abbreviation map_del :: "'k \<Rightarrow> ('k, 'v) gomap \<Rightarrow> ('k, 'v) gomap" where
  "map_del \<equiv> AList.delete"

definition map_get :: "'v \<Rightarrow> ('k, 'v) gomap \<Rightarrow> 'k \<Rightarrow> 'v" where
  \<comment> \<open>\<open>m[k]\<close> in its one-result form: the zero value where the key is missing\<close>
  "map_get z m k = (case map_of m k of None \<Rightarrow> z | Some v \<Rightarrow> v)"

definition map_wf :: "('k, 'v) gomap \<Rightarrow> bool" where
  "map_wf m \<longleftrightarrow> distinct (map fst m)"

lemma map_of_put [simp]:
  "map_of (map_put k v m) k' = (if k' = k then Some v else map_of m k')"
  by (simp add: update_conv')

lemma map_of_del [simp]:
  "map_of (map_del k m) k' = (if k' = k then None else map_of m k')"
  by (simp add: delete_conv')

lemma map_get_Some [simp]: "map_of m k = Some v \<Longrightarrow> map_get z m k = v"
  by (simp add: map_get_def)

lemma map_get_None [simp]: "map_of m k = None \<Longrightarrow> map_get z m k = z"
  by (simp add: map_get_def)

lemma map_wf_Nil [simp]: "map_wf []"
  by (simp add: map_wf_def)

lemma map_wf_put [simp]: "map_wf m \<Longrightarrow> map_wf (map_put k v m)"
  by (simp add: map_wf_def distinct_update)

lemma map_wf_del [simp]: "map_wf m \<Longrightarrow> map_wf (map_del k m)"
  by (simp add: map_wf_def distinct_delete)

lemma map_wf_filter [simp]: "map_wf m \<Longrightarrow> map_wf (filter P m)"
  by (simp add: map_wf_def distinct_map_filter)

lemma map_wf_mem: "map_wf m \<Longrightarrow> (k, v) \<in> set m \<longleftrightarrow> map_of m k = Some v"
  by (simp add: map_wf_def)

lemma map_of_filter_wf:
  "map_wf m \<Longrightarrow> map_of (filter P m) k =
     (case map_of m k of None \<Rightarrow> None | Some v \<Rightarrow> if P (k, v) then Some v else None)"
proof (induction m)
  case Nil
  then show ?case by simp
next
  case (Cons p m)
  then have wf: "map_wf m" and new: "fst p \<notin> fst ` set m"
    by (simp_all add: map_wf_def)
  have none: "map_of m (fst p) = None" using new by (simp add: map_of_eq_None_iff)
  then have "map_of (filter P m) (fst p) = None" using Cons.IH [OF wf] new
    by (auto simp: map_of_eq_None_iff)
  then show ?case using Cons.IH [OF wf] none by (cases p) (auto split: option.splits)
qed

lemma length_map_put:
  "length (map_put k v m) = (if map_of m k = None then Suc (length m) else length m)"
  by (induction m) auto

lemma map_put_Nil_iff: "map_of m k = None \<Longrightarrow> map_put k v m = m @ [(k, v)]"
  by (induction m) auto

lemma set_map_put:
  "map_wf m \<Longrightarrow> set (map_put k v m) = insert (k, v) {p \<in> set m. fst p \<noteq> k}"
  by (induction m) (auto simp: map_wf_def, force)

lemma set_map_del: "set (map_del k m) = {p \<in> set m. fst p \<noteq> k}"
  by (induction m) auto

text \<open>The map interface the repository relies on, as a contract: what a lookup returns
  after an update or a deletion, and that both keep the keys distinct.\<close>

locale go_map =
  fixes empty :: 'm
    and put :: "'k \<Rightarrow> 'v \<Rightarrow> 'm \<Rightarrow> 'm"
    and del :: "'k \<Rightarrow> 'm \<Rightarrow> 'm"
    and get :: "'m \<Rightarrow> 'k \<Rightarrow> 'v option"
    and wf :: "'m \<Rightarrow> bool"
  assumes get_empty: "get empty k = None"
    and get_put: "wf m \<Longrightarrow> get (put k v m) k' = (if k' = k then Some v else get m k')"
    and get_del: "wf m \<Longrightarrow> get (del k m) k' = (if k' = k then None else get m k')"
    and wf_empty: "wf empty"
    and wf_put: "wf m \<Longrightarrow> wf (put k v m)"
    and wf_del: "wf m \<Longrightarrow> wf (del k m)"
begin

lemma put_put_get: "wf m \<Longrightarrow> get (put k v (put k v' m)) = get (put k v m)"
  by (rule ext) (simp add: get_put wf_put)

lemma del_put_get: "wf m \<Longrightarrow> get m k = None \<Longrightarrow> get (del k (put k v m)) = get m"
  by (rule ext) (simp add: get_put get_del wf_put)

lemma put_swap_get:
  "wf m \<Longrightarrow> k \<noteq> l \<Longrightarrow> get (put k v (put l w m)) = get (put l w (put k v m))"
  by (rule ext) (simp add: get_put wf_put)

end

interpretation alist_map: go_map "[]" map_put map_del map_of map_wf
  by unfold_locales auto

section \<open>Strings\<close>

definition HasPrefix :: "string \<Rightarrow> string \<Rightarrow> bool" where
  "HasPrefix s p \<longleftrightarrow> take (length p) s = p"

definition TrimPrefix :: "string \<Rightarrow> string \<Rightarrow> string" where
  "TrimPrefix s p = (if HasPrefix s p then drop (length p) s else s)"

fun strings_Index :: "string \<Rightarrow> string \<Rightarrow> nat option" where
  "strings_Index [] sub = (if sub = [] then Some 0 else None)"
| "strings_Index (c # cs) sub =
     (if HasPrefix (c # cs) sub then Some 0 else map_option Suc (strings_Index cs sub))"

lemma HasPrefix_append [simp]: "HasPrefix (p @ s) p"
  by (simp add: HasPrefix_def)

lemma HasPrefixE: "HasPrefix s p \<Longrightarrow> \<exists>r. s = p @ r"
  by (metis HasPrefix_def append_take_drop_id)

lemma HasPrefix_iff: "HasPrefix s p \<longleftrightarrow> (\<exists>r. s = p @ r)"
  by (auto dest: HasPrefixE)

lemma HasPrefix_trans: "HasPrefix s t \<Longrightarrow> HasPrefix t p \<Longrightarrow> HasPrefix s p"
  by (auto simp: HasPrefix_iff)

lemma HasPrefix_TrimPrefix: "HasPrefix s p \<Longrightarrow> p @ TrimPrefix s p = s"
  by (auto simp: TrimPrefix_def HasPrefix_iff)

lemma strings_Index_Some:
  "strings_Index s sub = Some i \<Longrightarrow> take (i + length sub) s = take i s @ sub \<and> i + length sub \<le> length s"
proof (induction s arbitrary: i)
  case Nil
  then show ?case by (simp split: if_splits)
next
  case (Cons c cs)
  show ?case
  proof (cases "HasPrefix (c # cs) sub")
    case True
    then obtain r where r: "c # cs = sub @ r" by (auto simp: HasPrefix_iff)
    then have "length sub \<le> length (c # cs)" by (metis le_add1 length_append)
    moreover have "i = 0" using True Cons.prems by simp
    ultimately show ?thesis using True by (simp add: HasPrefix_def)
  next
    case False
    with Cons.prems obtain j where "strings_Index cs sub = Some j" "i = Suc j" by auto
    with Cons.IH show ?thesis by simp
  qed
qed

text \<open>\<open>strings.TrimSpace\<close>: the UTF-8 encodings of the runes \<open>unicode.IsSpace\<close> accepts.\<close>

definition unicode_spaces :: "string list" where
  "unicode_spaces =
     [[CHR 0x20], [CHR 0x09], [CHR 0x0A], [CHR 0x0B], [CHR 0x0C], [CHR 0x0D],
      [CHR 0xC2, CHR 0x85], [CHR 0xC2, CHR 0xA0], [CHR 0xE1, CHR 0x9A, CHR 0x80],
      [CHR 0xE2, CHR 0x80, CHR 0x80], [CHR 0xE2, CHR 0x80, CHR 0x81],
      [CHR 0xE2, CHR 0x80, CHR 0x82], [CHR 0xE2, CHR 0x80, CHR 0x83],
      [CHR 0xE2, CHR 0x80, CHR 0x84], [CHR 0xE2, CHR 0x80, CHR 0x85],
      [CHR 0xE2, CHR 0x80, CHR 0x86], [CHR 0xE2, CHR 0x80, CHR 0x87],
      [CHR 0xE2, CHR 0x80, CHR 0x88], [CHR 0xE2, CHR 0x80, CHR 0x89],
      [CHR 0xE2, CHR 0x80, CHR 0x8A], [CHR 0xE2, CHR 0x80, CHR 0xA8],
      [CHR 0xE2, CHR 0x80, CHR 0xA9], [CHR 0xE2, CHR 0x80, CHR 0xAF],
      [CHR 0xE2, CHR 0x81, CHR 0x9F], [CHR 0xE3, CHR 0x80, CHR 0x80]]"

function trim_with :: "string list \<Rightarrow> string \<Rightarrow> string" where
  "trim_with ws s =
     (case find (\<lambda>w. w \<noteq> [] \<and> HasPrefix s w) ws of
        None \<Rightarrow> s
      | Some w \<Rightarrow> trim_with ws (drop (length w) s))"
  by pat_completeness auto
termination
proof (relation "measure (\<lambda>(ws, s). length s)")
  fix ws :: "string list" and s w
  assume "find (\<lambda>w. w \<noteq> [] \<and> HasPrefix s w) ws = Some w"
  then have "w \<noteq> []" "HasPrefix s w" by (auto simp: find_Some_iff)
  then have "length w \<noteq> 0" "s \<noteq> []" by (auto simp: HasPrefix_iff)
  then show "((ws, drop (length w) s), (ws, s)) \<in> measure (\<lambda>(ws, s). length s)" by auto
qed auto

declare trim_with.simps [simp del]

definition TrimSpace :: "string \<Rightarrow> string" where
  "TrimSpace s =
     rev (trim_with (map rev unicode_spaces) (rev (trim_with unicode_spaces s)))"

lemma trim_with_suffix: "\<exists>p. s = p @ trim_with ws s"
proof (induction ws s rule: trim_with.induct)
  case (1 ws s)
  show ?case
  proof (cases "find (\<lambda>w. w \<noteq> [] \<and> HasPrefix s w) ws")
    case None
    then show ?thesis by (simp add: trim_with.simps [of ws s])
  next
    case (Some w)
    then obtain p where "drop (length w) s = p @ trim_with ws (drop (length w) s)"
      using 1 by blast
    moreover have "s = take (length w) s @ drop (length w) s" by simp
    ultimately have "s = (take (length w) s @ p) @ trim_with ws (drop (length w) s)"
      by (metis append_assoc)
    moreover have "trim_with ws s = trim_with ws (drop (length w) s)"
      using Some by (simp add: trim_with.simps [of ws s])
    ultimately show ?thesis by metis
  qed
qed

lemma trim_with_done: "w \<in> set ws \<Longrightarrow> w \<noteq> [] \<Longrightarrow> \<not> HasPrefix (trim_with ws s) w"
proof (induction ws s rule: trim_with.induct)
  case (1 ws s)
  show ?case
  proof (cases "find (\<lambda>w. w \<noteq> [] \<and> HasPrefix s w) ws")
    case None
    then have "trim_with ws s = s" by (simp add: trim_with.simps [of ws s])
    with None 1 show ?thesis by (auto simp: find_None_iff)
  next
    case (Some w')
    with 1 show ?thesis by (simp add: trim_with.simps [of ws s])
  qed
qed

lemma trim_with_id: "(\<And>w. w \<in> set ws \<Longrightarrow> w \<noteq> [] \<Longrightarrow> \<not> HasPrefix s w) \<Longrightarrow> trim_with ws s = s"
  by (subst trim_with.simps) (auto split: option.split simp: find_Some_iff)

lemma TrimSpace_idem [simp]: "TrimSpace (TrimSpace s) = TrimSpace s"
proof -
  define l where "l = trim_with unicode_spaces s"
  define r where "r = trim_with (map rev unicode_spaces) (rev l)"
  obtain p where p: "rev l = p @ r" using trim_with_suffix r_def by blast
  then have "HasPrefix l (rev r)" by (metis HasPrefix_append rev_append rev_rev_ident)
  then have "trim_with unicode_spaces (rev r) = rev r"
    using trim_with_done HasPrefix_trans unfolding l_def by (intro trim_with_id) blast
  moreover have "trim_with (map rev unicode_spaces) r = r"
    using trim_with_done unfolding r_def by (intro trim_with_id) blast
  ultimately show ?thesis by (simp add: TrimSpace_def l_def [symmetric] r_def [symmetric])
qed

lemma TrimSpace_Nil [simp]: "TrimSpace [] = []"
proof -
  have "trim_with ws [] = []" for ws
    using trim_with_suffix [of "[]" ws] by simp
  then show ?thesis by (simp add: TrimSpace_def)
qed

text \<open>\<open>strings.ToLower\<close> and \<open>strings.EqualFold\<close> on the ASCII letters; bytes outside
  ASCII are left alone.\<close>

definition ascii_lower :: "char \<Rightarrow> char" where
  "ascii_lower c = (if CHR ''A'' \<le> c \<and> c \<le> CHR ''Z'' then char_of (of_char c + (32 :: nat)) else c)"

definition ToLower :: "string \<Rightarrow> string" where
  "ToLower = map ascii_lower"

definition EqualFold :: "string \<Rightarrow> string \<Rightarrow> bool" where
  "EqualFold s t \<longleftrightarrow> ToLower s = ToLower t"

lemma EqualFold_refl [simp]: "EqualFold s s"
  by (simp add: EqualFold_def)

section \<open>Sorting\<close>

fun insert_by :: "('a \<Rightarrow> 'a \<Rightarrow> bool) \<Rightarrow> 'a \<Rightarrow> 'a list \<Rightarrow> 'a list" where
  "insert_by lt x [] = [x]"
| "insert_by lt x (y # ys) = (if lt y x then y # insert_by lt x ys else x # y # ys)"

definition sort_by :: "('a \<Rightarrow> 'a \<Rightarrow> bool) \<Rightarrow> 'a list \<Rightarrow> 'a list" where
  "sort_by lt xs = foldr (insert_by lt) xs []"

text \<open>What a comparison function passed to \<open>sort.Slice\<close> must be on the elements sorted
  for the result to be determined: a strict order that compares any two of them.\<close>

definition strict_total_on :: "'a set \<Rightarrow> ('a \<Rightarrow> 'a \<Rightarrow> bool) \<Rightarrow> bool" where
  "strict_total_on A lt \<longleftrightarrow>
     (\<forall>x\<in>A. \<not> lt x x) \<and>
     (\<forall>x\<in>A. \<forall>y\<in>A. \<forall>z\<in>A. lt x y \<longrightarrow> lt y z \<longrightarrow> lt x z) \<and>
     (\<forall>x\<in>A. \<forall>y\<in>A. x \<noteq> y \<longrightarrow> lt x y \<or> lt y x)"

lemma strict_total_on_subset: "strict_total_on A lt \<Longrightarrow> B \<subseteq> A \<Longrightarrow> strict_total_on B lt"
  unfolding strict_total_on_def by blast

lemma strict_total_on_key:
  "inj_on f A \<Longrightarrow> strict_total_on A (\<lambda>x y. f x < (f y :: 'b :: linorder))"
  by (auto simp: strict_total_on_def inj_on_def) (metis neq_iff)

lemma set_insert_by [simp]: "set (insert_by lt x xs) = insert x (set xs)"
  by (induction xs) auto

lemma length_insert_by [simp]: "length (insert_by lt x xs) = Suc (length xs)"
  by (induction xs) auto

lemma distinct_insert_by [simp]: "distinct (insert_by lt x xs) = (x \<notin> set xs \<and> distinct xs)"
  by (induction xs) auto

lemma sort_by_Nil [simp]: "sort_by lt [] = []"
  by (simp add: sort_by_def)

lemma sort_by_Cons [simp]: "sort_by lt (x # xs) = insert_by lt x (sort_by lt xs)"
  by (simp add: sort_by_def)

lemma set_sort_by [simp]: "set (sort_by lt xs) = set xs"
  by (induction xs) auto

lemma length_sort_by [simp]: "length (sort_by lt xs) = length xs"
  by (induction xs) auto

lemma distinct_sort_by [simp]: "distinct (sort_by lt xs) = distinct xs"
  by (induction xs) auto

lemma sorted_wrt_insert_by:
  "sorted_wrt lt xs \<Longrightarrow> x \<notin> set xs \<Longrightarrow> strict_total_on (insert x (set xs)) lt \<Longrightarrow>
     sorted_wrt lt (insert_by lt x xs)"
proof (induction xs)
  case Nil
  then show ?case by simp
next
  case (Cons y ys)
  have tot: "strict_total_on (insert x (set ys)) lt"
    using Cons.prems(3) by (rule strict_total_on_subset) auto
  show ?case
  proof (cases "lt y x")
    case True
    with Cons tot show ?thesis by simp
  next
    case False
    with Cons.prems have "lt x y" unfolding strict_total_on_def by (metis insertCI list.set_intros(1))
    moreover have "lt x z" if "z \<in> set ys" for z
      using Cons.prems that \<open>lt x y\<close> unfolding strict_total_on_def
      by (metis insertCI list.set_intros sorted_wrt.simps(2))
    ultimately show ?thesis using False Cons.prems by simp
  qed
qed

lemma sorted_wrt_sort_by:
  "distinct xs \<Longrightarrow> strict_total_on (set xs) lt \<Longrightarrow> sorted_wrt lt (sort_by lt xs)"
proof (induction xs)
  case Nil
  then show ?case by simp
next
  case (Cons x xs)
  have "strict_total_on (set xs) lt"
    using Cons.prems(2) by (rule strict_total_on_subset) auto
  with Cons show ?case by (simp add: sorted_wrt_insert_by)
qed

lemma sorted_wrt_unique:
  "sorted_wrt lt xs \<Longrightarrow> sorted_wrt lt ys \<Longrightarrow> set xs = set ys \<Longrightarrow>
     strict_total_on (set xs) lt \<Longrightarrow> xs = ys"
proof (induction xs arbitrary: ys)
  case Nil
  then show ?case by simp
next
  case (Cons x xs)
  then obtain y zs where ys: "ys = y # zs" by (cases ys) auto
  note st = Cons.prems(4) [unfolded strict_total_on_def]
  have irr: "\<not> lt u u" if "u \<in> set (x # xs)" for u using st that by blast
  have "x = y"
  proof (rule ccontr)
    assume "x \<noteq> y"
    with Cons.prems ys have "lt y x" "lt x y" by (auto simp: set_eq_iff)
    with st irr Cons.prems(3) ys show False by (metis list.set_intros(1))
  qed
  moreover have "x \<notin> set xs" "y \<notin> set zs" using Cons.prems ys irr by auto
  ultimately have "set xs = set zs" using Cons.prems(3) ys by auto
  moreover have "strict_total_on (set xs) lt"
    using Cons.prems(4) by (rule strict_total_on_subset) auto
  ultimately show ?case using Cons ys \<open>x = y\<close> by auto
qed

text \<open>The result of a sort does not depend on the order in which a map was visited.\<close>

lemma sort_by_cong:
  assumes "distinct xs" "distinct ys" "set xs = set ys" "strict_total_on (set xs) lt"
  shows "sort_by lt xs = sort_by lt ys"
  using assms by (intro sorted_wrt_unique [where lt = lt]) (auto simp: sorted_wrt_sort_by)

section \<open>Binary search\<close>

function search_loop :: "(nat \<Rightarrow> bool) \<Rightarrow> nat \<Rightarrow> nat \<Rightarrow> nat" where
  "search_loop f i j =
     (if i < j
      then (let h = (i + j) div 2 in if \<not> f h then search_loop f (h + 1) j else search_loop f i h)
      else i)"
  by pat_completeness auto
termination
  by (relation "measure (\<lambda>(f, i, j). j - i)") auto

declare search_loop.simps [simp del]

definition sort_Search :: "nat \<Rightarrow> (nat \<Rightarrow> bool) \<Rightarrow> nat" where
  "sort_Search n f = search_loop f 0 n"

lemma search_loop_stop: "j \<le> i \<Longrightarrow> search_loop f i j = i"
  by (subst search_loop.simps) simp

lemma search_loop_hit:
  "i < j \<Longrightarrow> f ((i + j) div 2) \<Longrightarrow> search_loop f i j = search_loop f i ((i + j) div 2)"
  by (subst search_loop.simps) (simp add: Let_def)

lemma search_loop_miss:
  "i < j \<Longrightarrow> \<not> f ((i + j) div 2) \<Longrightarrow> search_loop f i j = search_loop f (Suc ((i + j) div 2)) j"
  by (subst search_loop.simps) (simp add: Let_def)

lemma search_loop_range: "i \<le> j \<Longrightarrow> i \<le> search_loop f i j \<and> search_loop f i j \<le> j"
proof (induction "j - i" arbitrary: i j rule: less_induct)
  case less
  show ?case
  proof (cases "i < j")
    case True
    define h where "h = (i + j) div 2"
    have h: "i \<le> h" "h < j" using True by (auto simp: h_def)
    show ?thesis
    proof (cases "f h")
      case True
      have "i \<le> search_loop f i h \<and> search_loop f i h \<le> h" using h by (intro less) auto
      with True \<open>i < j\<close> h show ?thesis by (simp add: search_loop_hit h_def)
    next
      case False
      have "Suc h \<le> search_loop f (Suc h) j \<and> search_loop f (Suc h) j \<le> j"
        using h by (intro less) auto
      with False \<open>i < j\<close> h show ?thesis by (simp add: search_loop_miss h_def)
    qed
  next
    case False
    with less.prems show ?thesis by (simp add: search_loop_stop)
  qed
qed

lemma sort_Search_le: "sort_Search n f \<le> n"
  using search_loop_range [of 0 n f] by (simp add: sort_Search_def)

lemma search_loop_correct:
  assumes mono: "\<And>a b. a \<le> b \<Longrightarrow> b < n \<Longrightarrow> f a \<Longrightarrow> f b"
  shows "i \<le> j \<Longrightarrow> j \<le> n \<Longrightarrow> (\<forall>k<i. \<not> f k) \<Longrightarrow> (\<forall>k. j \<le> k \<longrightarrow> k < n \<longrightarrow> f k) \<Longrightarrow>
    (\<forall>k < search_loop f i j. \<not> f k) \<and> (\<forall>k. search_loop f i j \<le> k \<longrightarrow> k < n \<longrightarrow> f k)"
proof (induction "j - i" arbitrary: i j rule: less_induct)
  case less
  show ?case
  proof (cases "i < j")
    case True
    define h where "h = (i + j) div 2"
    have h: "i \<le> h" "h < j" using True by (auto simp: h_def)
    show ?thesis
    proof (cases "f h")
      case fh: True
      then have "search_loop f i j = search_loop f i h"
        using True by (simp add: search_loop_hit h_def)
      moreover have up: "\<forall>k. h \<le> k \<longrightarrow> k < n \<longrightarrow> f k" using fh mono by blast
      have "(\<forall>k < search_loop f i h. \<not> f k) \<and>
          (\<forall>k. search_loop f i h \<le> k \<longrightarrow> k < n \<longrightarrow> f k)"
        by (rule less.hyps [OF _ h(1) _ less.prems(3) up]) (use h less.prems(2) in simp_all)
      ultimately show ?thesis by (simp only:)
    next
      case fh: False
      then have "search_loop f i j = search_loop f (Suc h) j"
        using True by (simp add: search_loop_miss h_def)
      moreover have down: "\<forall>k<Suc h. \<not> f k"
        using fh mono [of _ h] h less.prems(2) by (meson less_Suc_eq_le order_less_le_trans)
      have "(\<forall>k < search_loop f (Suc h) j. \<not> f k) \<and>
          (\<forall>k. search_loop f (Suc h) j \<le> k \<longrightarrow> k < n \<longrightarrow> f k)"
        by (rule less.hyps [OF _ _ less.prems(2) down less.prems(4)]) (use h in simp_all)
      ultimately show ?thesis by (simp only:)
    qed
  next
    case False
    then have "search_loop f i j = i" by (simp add: search_loop_stop)
    moreover have "i = j" using False less.prems(1) by simp
    ultimately show ?thesis using less.prems(3,4) by simp
  qed
qed

text \<open>On a list along which the predicate only turns from false to true, slicing at the
  searched index keeps exactly the elements that satisfy it.\<close>

lemma drop_sort_Search:
  assumes "sorted_wrt (\<lambda>x y. P x \<longrightarrow> P y) xs"
  shows "drop (sort_Search (length xs) (\<lambda>i. P (xs ! i))) xs = filter P xs"
proof -
  let ?n = "sort_Search (length xs) (\<lambda>i. P (xs ! i))"
  have mono: "P (xs ! b)" if "a \<le> b" "b < length xs" "P (xs ! a)" for a b
    using that assms unfolding sorted_wrt_iff_nth_less by (metis le_neq_implies_less)
  have "(\<forall>k < ?n. \<not> P (xs ! k)) \<and> (\<forall>k. ?n \<le> k \<longrightarrow> k < length xs \<longrightarrow> P (xs ! k))"
    unfolding sort_Search_def by (rule search_loop_correct [OF mono]) auto
  then have low: "\<And>k. k < ?n \<Longrightarrow> \<not> P (xs ! k)"
    and high: "\<And>k. ?n \<le> k \<Longrightarrow> k < length xs \<Longrightarrow> P (xs ! k)" by blast+
  have "filter P (take ?n xs) = []"
    unfolding filter_empty_conv set_conv_nth using low by auto
  moreover have "filter P (drop ?n xs) = drop ?n xs"
    unfolding filter_id_conv set_conv_nth using high by auto
  moreover have "filter P xs = filter P (take ?n xs) @ filter P (drop ?n xs)"
    by (simp only: filter_append [symmetric] append_take_drop_id)
  ultimately show ?thesis by simp
qed

end
