(* ===== verification/GoNum.thy ===== *)
theory GoNum
  imports Complex_Main Prelude
begin

text \<open>
  Numbers as text and machine integers: \<open>int64\<close> wrap-around, \<open>strconv.Itoa\<close>,
  \<open>strconv.Atoi\<close>, the verb \<open>%020d\<close> and fixed-width positional notation. The
  fixed-width notation orders like the numbers it writes, which is what makes generated
  identifiers sort by age, and \<open>Atoi\<close> reads back what \<open>%020d\<close> wrote.
\<close>

definition wrap64 :: "int \<Rightarrow> int" where
  "wrap64 x = (x + 2 ^ 63) mod 2 ^ 64 - 2 ^ 63"

lemma wrap64_id [simp]: "- (2 ^ 63) \<le> x \<Longrightarrow> x < 2 ^ 63 \<Longrightarrow> wrap64 x = x"
  by (simp add: wrap64_def)

lemma wrap64_range: "- (2 ^ 63) \<le> wrap64 x \<and> wrap64 x < 2 ^ 63"
  using pos_mod_bound [of "2 ^ 64 :: int" "x + 2 ^ 63"] pos_mod_sign [of "2 ^ 64 :: int" "x + 2 ^ 63"]
  by (simp add: wrap64_def)

lemma wrap64_mod: "(wrap64 x) mod 2 ^ 64 = x mod 2 ^ 64"
  by (simp add: wrap64_def mod_diff_left_eq)

lemma wrap64_cong: "x mod 2 ^ 64 = y mod 2 ^ 64 \<Longrightarrow> wrap64 x = wrap64 y"
  unfolding wrap64_def by (metis mod_add_left_eq)

lemma wrap64_add_left [simp]: "wrap64 (wrap64 x + y) = wrap64 (x + y)"
  by (rule wrap64_cong) (metis mod_add_left_eq wrap64_mod)

lemma wrap64_add_right [simp]: "wrap64 (x + wrap64 y) = wrap64 (x + y)"
  by (rule wrap64_cong) (metis mod_add_right_eq wrap64_mod)

text \<open>\<open>float64\<close> values up to rounding: the code only compares them with integers,
  and every comparison with a NaN is false.\<close>

datatype float64 = NaN | NegInf | Fin rat | PosInf

fun float_less :: "float64 \<Rightarrow> float64 \<Rightarrow> bool" where
  "float_less NaN y = False"
| "float_less x NaN = False"
| "float_less NegInf y = (y \<noteq> NegInf)"
| "float_less PosInf y = False"
| "float_less (Fin a) (Fin b) = (a < b)"
| "float_less (Fin a) NegInf = False"
| "float_less (Fin a) PosInf = True"

section \<open>Fixed-width digits\<close>

fun fixed_digits :: "nat \<Rightarrow> nat \<Rightarrow> nat \<Rightarrow> nat list" where
  "fixed_digits b 0 n = []"
| "fixed_digits b (Suc w) n = fixed_digits b w (n div b) @ [n mod b]"

lemma length_fixed_digits [simp]: "length (fixed_digits b w n) = w"
  by (induction w arbitrary: n) auto

lemma set_fixed_digits: "0 < b \<Longrightarrow> d \<in> set (fixed_digits b w n) \<Longrightarrow> d < b"
  by (induction w arbitrary: n) auto

lemma fixed_digits_value:
  "foldl (\<lambda>a d. b * a + d) 0 (fixed_digits b w n) = n mod b ^ w"
proof (induction w arbitrary: n)
  case 0
  then show ?case by simp
next
  case (Suc w)
  then show ?case by (simp add: mod_mult2_eq)
qed

lemma fixed_digits_less:
  "n < m \<Longrightarrow> m < b ^ w \<Longrightarrow> fixed_digits b w n < fixed_digits b w m"
proof (induction w arbitrary: n m)
  case 0
  then show ?case by simp
next
  case (Suc w)
  then have b: "0 < b" by (cases b) auto
  have m: "m div b < b ^ w" using Suc.prems(2) by (simp add: div_less_iff_less_mult b mult.commute)
  show ?case
  proof (cases "n div b < m div b")
    case True
    then have "(fixed_digits b w (n div b), fixed_digits b w (m div b)) \<in> lexord {(u, v). u < v}"
      using Suc.IH m by (simp add: list_less_def)
    then show ?thesis by (simp add: list_less_def lexord_sufI)
  next
    case False
    then have "n div b = m div b" using Suc.prems(1) by (simp add: div_le_mono le_antisym)
    moreover from this have "n mod b < m mod b"
      using Suc.prems(1) by (metis add_less_cancel_left mult_div_mod_eq)
    ultimately show ?thesis by (simp add: list_less_def lexord_append_leftI)
  qed
qed

lemma map_less_mono:
  assumes "\<And>x y. x \<in> A \<Longrightarrow> y \<in> A \<Longrightarrow> x < y \<Longrightarrow> f x < f y"
  shows "set xs \<subseteq> A \<Longrightarrow> set ys \<subseteq> A \<Longrightarrow> xs < ys \<Longrightarrow> map f xs < (map f ys :: 'b :: linorder list)"
proof (induction xs arbitrary: ys)
  case Nil
  then show ?case by (cases ys) auto
next
  case (Cons x xs)
  then obtain y zs where ys: "ys = y # zs" by (cases ys) auto
  with Cons assms show ?case by (auto simp: Cons_less_Cons)
qed

section \<open>Decimal text\<close>

definition digit_char :: "nat \<Rightarrow> char" where
  "digit_char d = char_of (48 + d)"

definition char_digit :: "char \<Rightarrow> nat" where
  "char_digit c = of_char c - 48"

definition is_digit :: "char \<Rightarrow> bool" where
  "is_digit c \<longleftrightarrow> 48 \<le> (of_char c :: nat) \<and> (of_char c :: nat) \<le> 57"

fun nat_dec :: "nat \<Rightarrow> string" where
  "nat_dec n = (if n < 10 then [digit_char n] else nat_dec (n div 10) @ [digit_char (n mod 10)])"

declare nat_dec.simps [simp del]

definition Itoa :: "int \<Rightarrow> string" where
  "Itoa k = (if 0 \<le> k then nat_dec (nat k) else CHR ''-'' # nat_dec (nat (- k)))"

definition fmt_020d :: "int \<Rightarrow> string" where
  "fmt_020d k =
     (if 0 \<le> k then map digit_char (fixed_digits 10 20 (nat k))
      else CHR ''-'' # map digit_char (fixed_digits 10 19 (nat (- k))))"

definition dec_value :: "string \<Rightarrow> nat" where
  "dec_value s = foldl (\<lambda>a c. 10 * a + char_digit c) 0 s"

definition Atoi :: "string \<Rightarrow> int option" where
  "Atoi s =
     (let neg = (s \<noteq> [] \<and> hd s = CHR ''-'');
          ds = (if s \<noteq> [] \<and> (hd s = CHR ''-'' \<or> hd s = CHR ''+'') then tl s else s);
          v = (if neg then - int (dec_value ds) else int (dec_value ds))
      in if ds = [] \<or> \<not> list_all is_digit ds then None
         else if - (2 ^ 63) \<le> v \<and> v < 2 ^ 63 then Some v else None)"

lemma of_char_digit [simp]: "d < 10 \<Longrightarrow> (of_char (digit_char d) :: nat) = 48 + d"
  by (simp add: digit_char_def)

lemma char_digit_digit_char [simp]: "d < 10 \<Longrightarrow> char_digit (digit_char d) = d"
  by (simp add: char_digit_def)

lemma is_digit_digit_char [simp]: "d < 10 \<Longrightarrow> is_digit (digit_char d)"
  by (simp add: is_digit_def)

lemma digit_char_neq_sign: "d < 10 \<Longrightarrow> digit_char d \<noteq> CHR ''-'' \<and> digit_char d \<noteq> CHR ''+''"
  by (auto dest: arg_cong [where f = "of_char :: char \<Rightarrow> nat"])

lemma dec_value_digits:
  "\<forall>d \<in> set ds. d < 10 \<Longrightarrow> dec_value (map digit_char ds) = foldl (\<lambda>a d. 10 * a + d) 0 ds"
proof -
  have "\<forall>d \<in> set ds. d < 10 \<Longrightarrow>
      foldl (\<lambda>a c. 10 * a + char_digit c) x (map digit_char ds) = foldl (\<lambda>a d. 10 * a + d) x ds" for x
    by (induction ds arbitrary: x) auto
  then show "\<forall>d \<in> set ds. d < 10 \<Longrightarrow> ?thesis" by (simp add: dec_value_def)
qed

lemma fixed_digits_10: "\<forall>d \<in> set (fixed_digits 10 w n). d < 10"
  using set_fixed_digits [of 10] by simp

lemma dec_value_fixed: "dec_value (map digit_char (fixed_digits 10 w n)) = n mod 10 ^ w"
  by (simp only: dec_value_digits [OF fixed_digits_10] fixed_digits_value)

text \<open>\<open>strconv.Atoi\<close> inverts \<open>%020d\<close> on the counters the repository keeps.\<close>

lemma Atoi_fmt_020d: "0 \<le> k \<Longrightarrow> k < 2 ^ 63 \<Longrightarrow> Atoi (fmt_020d k) = Some k"
proof -
  assume k: "0 \<le> k" "k < 2 ^ 63"
  let ?ds = "fixed_digits 10 20 (nat k)"
  have ne: "?ds \<noteq> []" using length_fixed_digits [of 10 20 "nat k"] by (metis list.size(3) zero_neq_numeral)
  have hd: "hd (map digit_char ?ds) \<noteq> CHR ''-'' \<and> hd (map digit_char ?ds) \<noteq> CHR ''+''"
    using ne fixed_digits_10 [of 20 "nat k"] by (simp add: hd_map digit_char_neq_sign)
  have dig: "list_all is_digit (map digit_char ?ds)"
    using fixed_digits_10 [of 20 "nat k"] by (auto simp: list_all_iff)
  have "nat k < 10 ^ 20" using k by simp
  then have "int (dec_value (map digit_char ?ds)) = k" using k by (simp add: dec_value_fixed del: fixed_digits.simps)
  then show ?thesis using k ne hd dig
    by (simp add: Atoi_def fmt_020d_def Let_def del: fixed_digits.simps)
qed

lemma fmt_020d_inj: "0 \<le> j \<Longrightarrow> j < 2 ^ 63 \<Longrightarrow> 0 \<le> k \<Longrightarrow> k < 2 ^ 63 \<Longrightarrow> fmt_020d j = fmt_020d k \<longleftrightarrow> j = k"
  by (metis Atoi_fmt_020d option.inject)

end
