(* ===== verification/Model.thy ===== *)
theory Model
  imports GoNum
begin

text \<open>
  The data model, one record per struct and one datatype per string enumeration of
  \<open>internal/meta/model/model.go\<close>, \<open>internal/storage/storage.go\<close>,
  \<open>internal/auth/policy.go\<close> and the errors of \<open>internal/meta/errors.go\<close>.
  Field names carry a prefix of their struct (\<open>ov_Key\<close> is \<open>ObjectVersion.Key\<close>).

  A Go string enumeration is open: a constructor per constant, \<open>..._Unset\<close> for the
  empty string where no constant names it, and \<open>..._Other\<close> for any other text a
  caller may pass. \<open>AuditAction\<close>, \<open>WorkerControlState\<close> and \<open>VolumePoolState\<close>
  stay strings, because the code takes them apart as text. \<open>zero_X\<close> is the zero value
  of the struct \<open>X\<close>, what a read of a missing map entry returns.

  Records are values here, so the \<open>clone...\<close> functions of the source, which copy slices
  and maps to avoid sharing, are the identity and do not appear.
\<close>


section \<open>Errors\<close>

text \<open>The sentinel errors. \<open>fmt.Errorf("%w: ...")\<close> keeps the sentinel for
  \<open>errors.Is\<close>, which is how callers read an error; the message is dropped.
  \<open>ErrObjectManifestTooLarge\<close> stands for the error that wraps both it and
  \<open>ErrInvalidArgument\<close>.\<close>

datatype error =
    ErrNotFound
  | ErrAlreadyExists
  | ErrBucketNotEmpty
  | ErrCASConflict
  | ErrInvalidArgument
  | ErrObjectManifestTooLarge
  | ErrObjectLocked
  | ErrKMSKeyUnavailable
  | ErrQuotaExceeded
  | ErrUnavailable
  | ErrWorkerPaused
  | ErrWorkerCanceled


section \<open>Segments and placements\<close>

datatype DeleteReason =
    DeleteReason_Unset
  | DeleteReasonPublishFailed
  | DeleteReasonObjectOverwritten
  | DeleteReasonMultipartAborted
  | DeleteReasonManualGC
  | DeleteReasonDedupeReplaced
  | DeleteReasonVolumeDrained
  | DeleteReason_Other string

record StorageClassSnapshot =
  ss_StorageClassID :: string
  ss_Backend :: string
  ss_Parameters :: strmap

record PlacementChunk =
  pc_LogicalOffsetBytes :: u64
  pc_SizeBytes :: u64
  pc_VolumeID :: string
  pc_OffsetBytes :: u64
  pc_LengthBytes :: u64
  pc_StoreID :: string
  pc_ShardID :: u32
  pc_ChunkID :: u64
  pc_Role :: string

record PlacementSnapshot =
  ps_Backend :: string
  ps_Layout :: string
  ps_RedundancyBackend :: string
  ps_ProfileID :: string
  ps_ProfileGeneration :: u64
  ps_ChunkSizeBytes :: u64
  ps_Parameters :: strmap
  ps_Chunks :: "PlacementChunk list"

record Digest =
  dg_Algorithm :: string
  dg_Hex :: string

record EncryptionEnvelope =
  ee_Algorithm :: string
  ee_KeyID :: string
  ee_KeyVersion :: string
  ee_WrappedDEK :: string
  ee_Nonce :: string
  ee_PlaintextSizeBytes :: u64
  ee_CiphertextSizeBytes :: u64
  ee_Context :: strmap

record SegmentRef =
  sg_SegmentID :: string
  sg_StorageClass :: StorageClassSnapshot
  sg_Placement :: PlacementSnapshot
  sg_SizeBytes :: u64
  sg_Digest :: Digest
  sg_Encryption :: EncryptionEnvelope
  sg_CreatedAt :: time
  sg_SharedObjectID :: string

definition zero_StorageClassSnapshot :: StorageClassSnapshot where
  "zero_StorageClassSnapshot =
    \<lparr>ss_StorageClassID = [],
     ss_Backend = [],
     ss_Parameters = []\<rparr>"

definition zero_PlacementSnapshot :: PlacementSnapshot where
  "zero_PlacementSnapshot =
    \<lparr>ps_Backend = [],
     ps_Layout = [],
     ps_RedundancyBackend = [],
     ps_ProfileID = [],
     ps_ProfileGeneration = 0,
     ps_ChunkSizeBytes = 0,
     ps_Parameters = [],
     ps_Chunks = []\<rparr>"

definition zero_Digest :: Digest where
  "zero_Digest =
    \<lparr>dg_Algorithm = [],
     dg_Hex = []\<rparr>"

definition zero_EncryptionEnvelope :: EncryptionEnvelope where
  "zero_EncryptionEnvelope =
    \<lparr>ee_Algorithm = [],
     ee_KeyID = [],
     ee_KeyVersion = [],
     ee_WrappedDEK = [],
     ee_Nonce = [],
     ee_PlaintextSizeBytes = 0,
     ee_CiphertextSizeBytes = 0,
     ee_Context = []\<rparr>"

definition zero_SegmentRef :: SegmentRef where
  "zero_SegmentRef =
    \<lparr>sg_SegmentID = [],
     sg_StorageClass = zero_StorageClassSnapshot,
     sg_Placement = zero_PlacementSnapshot,
     sg_SizeBytes = 0,
     sg_Digest = zero_Digest,
     sg_Encryption = zero_EncryptionEnvelope,
     sg_CreatedAt = 0,
     sg_SharedObjectID = []\<rparr>"

section \<open>Bucket policies\<close>

record PolicyStatement =
  pst_Sid :: string
  pst_Effect :: string
  pst_Principals :: "string list"
  pst_Actions :: "string list"
  pst_Resources :: "string list"

record PolicyDocument =
  pd_Version :: string
  pd_Statements :: "PolicyStatement list"

definition zero_PolicyDocument :: PolicyDocument where
  "zero_PolicyDocument =
    \<lparr>pd_Version = [],
     pd_Statements = []\<rparr>"

section \<open>Tenants, keys and schema\<close>

record Tenant =
  tn_TenantID :: string
  tn_DisplayName :: string
  tn_CreatedAt :: time

record MetadataSchemaRecord =
  ms_SchemaVersion :: int
  ms_MinReaderVersion :: int
  ms_MinWriterVersion :: int
  ms_UpdatedBy :: string
  ms_CreatedAt :: time
  ms_UpdatedAt :: time

datatype MetadataMigrationOperationStatus =
    MetadataMigrationOperationStatus_Unset
  | MetadataMigrationOperationPlanned
  | MetadataMigrationOperationRunning
  | MetadataMigrationOperationSucceeded
  | MetadataMigrationOperationRetryPending
  | MetadataMigrationOperationFailed
  | MetadataMigrationOperationCanceled
  | MetadataMigrationOperationStatus_Other string

datatype MetadataMigrationStepStatus =
    MetadataMigrationStepStatus_Unset
  | MetadataMigrationStepPlanned
  | MetadataMigrationStepSucceeded
  | MetadataMigrationStepRepairNeeded
  | MetadataMigrationStepFailed
  | MetadataMigrationStepSkipped
  | MetadataMigrationStepStatus_Other string

record MetadataMigrationStep =
  mst_Name :: string
  mst_Status :: MetadataMigrationStepStatus
  mst_Message :: string
  mst_RepairNeeded :: bool
  mst_RecordsScanned :: int
  mst_RecordsRepaired :: int

record MetadataMigrationOperationRecord =
  mo_OperationID :: string
  mo_ResumeOfOperationID :: string
  mo_TargetSchemaVersion :: int
  mo_Status :: MetadataMigrationOperationStatus
  mo_DryRun :: bool
  mo_Apply :: bool
  mo_OwnerID :: string
  mo_Cursor :: string
  mo_Steps :: "MetadataMigrationStep list"
  mo_StartedAt :: time
  mo_FinishedAt :: time
  mo_CreatedAt :: time

record TenantQuota =
  tq_TenantID :: string
  tq_MaxBytes :: int
  tq_MaxObjects :: int
  tq_MaxActiveUploads :: int
  tq_CreatedAt :: time
  tq_UpdatedAt :: time

record TenantUsage =
  tu_TenantID :: string
  tu_ObjectBytes :: int
  tu_ObjectCount :: int
  tu_ActiveUploads :: int
  tu_ReconciledAt :: time
  tu_UpdatedAt :: time
  tu_CreatedAt :: time
  tu_ReconciliationID :: string
  tu_ReconciliationErr :: string

datatype AccessKeyStatus =
    AccessKeyStatus_Unset
  | AccessKeyActive
  | AccessKeyDisabled
  | AccessKeyStatus_Other string

record AccessKey =
  ak_TenantID :: string
  ak_AccessKeyID :: string
  ak_SecretHash :: string
  ak_Status :: AccessKeyStatus
  ak_Permissions :: "string list"
  ak_CreatedAt :: time

definition zero_TenantQuota :: TenantQuota where
  "zero_TenantQuota =
    \<lparr>tq_TenantID = [],
     tq_MaxBytes = 0,
     tq_MaxObjects = 0,
     tq_MaxActiveUploads = 0,
     tq_CreatedAt = 0,
     tq_UpdatedAt = 0\<rparr>"

definition zero_TenantUsage :: TenantUsage where
  "zero_TenantUsage =
    \<lparr>tu_TenantID = [],
     tu_ObjectBytes = 0,
     tu_ObjectCount = 0,
     tu_ActiveUploads = 0,
     tu_ReconciledAt = 0,
     tu_UpdatedAt = 0,
     tu_CreatedAt = 0,
     tu_ReconciliationID = [],
     tu_ReconciliationErr = []\<rparr>"

section \<open>Buckets\<close>

datatype BucketVersioningState =
    BucketVersioningUnversioned
  | BucketVersioningEnabled
  | BucketVersioningSuspended
  | BucketVersioningState_Other string

record CORSRule =
  cr_AllowedOrigins :: "string list"
  cr_AllowedMethods :: "string list"
  cr_AllowedHeaders :: "string list"
  cr_ExposeHeaders :: "string list"
  cr_MaxAgeSeconds :: int

datatype LifecycleRuleStatus =
    LifecycleRuleStatus_Unset
  | LifecycleRuleEnabled
  | LifecycleRuleDisabled
  | LifecycleRuleStatus_Other string

record LifecycleExpiration =
  le_Days :: int
  le_Date :: time
  le_ExpiredObjectDeleteMarker :: bool

record LifecycleNoncurrentVersionExpiration =
  lnv_NoncurrentDays :: int

record LifecycleAbortIncompleteMultipartUpload =
  lab_DaysAfterInitiation :: int

record LifecycleRule =
  lr_ID :: string
  lr_Status :: LifecycleRuleStatus
  lr_Prefix :: string
  lr_Expiration :: LifecycleExpiration
  lr_NoncurrentVersionExpiration :: LifecycleNoncurrentVersionExpiration
  lr_AbortIncompleteMultipartUpload :: LifecycleAbortIncompleteMultipartUpload

record BucketLifecycleConfiguration =
  blc_Rules :: "LifecycleRule list"

datatype ObjectLockMode =
    ObjectLockMode_Unset
  | ObjectLockModeGovernance
  | ObjectLockModeCompliance
  | ObjectLockMode_Other string

datatype ObjectLockLegalHoldStatus =
    ObjectLockLegalHoldStatus_Unset
  | ObjectLockLegalHoldOn
  | ObjectLockLegalHoldOff
  | ObjectLockLegalHoldStatus_Other string

record BucketObjectLockDefaultRetention =
  bdr_Mode :: ObjectLockMode
  bdr_Days :: int
  bdr_Years :: int

record BucketObjectLockConfiguration =
  bol_Enabled :: bool
  bol_DefaultRetention :: BucketObjectLockDefaultRetention

record ObjectLockRetention =
  olr_Mode :: ObjectLockMode
  olr_RetainUntilDate :: time

datatype ServerSideEncryptionAlgorithm =
    ServerSideEncryptionNone
  | ServerSideEncryptionAES256
  | ServerSideEncryptionAWSKMS
  | ServerSideEncryptionAlgorithm_Other string

record ServerSideEncryption =
  sse_Algorithm :: ServerSideEncryptionAlgorithm
  sse_KeyID :: string
  sse_KeyVersion :: string

record Bucket =
  bk_BucketID :: string
  bk_TenantID :: string
  bk_Name :: string
  bk_Region :: string
  bk_VersioningState :: BucketVersioningState
  bk_CORSRules :: "CORSRule list"
  bk_Lifecycle :: BucketLifecycleConfiguration
  bk_DefaultEncryption :: ServerSideEncryption
  bk_ObjectLock :: BucketObjectLockConfiguration
  bk_Policy :: PolicyDocument
  bk_CreatedAt :: time

record BucketQuota =
  bq_BucketID :: string
  bq_MaxObjectSizeBytes :: int
  bq_CreatedAt :: time
  bq_UpdatedAt :: time

definition zero_BucketLifecycleConfiguration :: BucketLifecycleConfiguration where
  "zero_BucketLifecycleConfiguration =
    \<lparr>blc_Rules = []\<rparr>"

definition zero_BucketObjectLockDefaultRetention :: BucketObjectLockDefaultRetention where
  "zero_BucketObjectLockDefaultRetention =
    \<lparr>bdr_Mode = ObjectLockMode_Unset,
     bdr_Days = 0,
     bdr_Years = 0\<rparr>"

definition zero_BucketObjectLockConfiguration :: BucketObjectLockConfiguration where
  "zero_BucketObjectLockConfiguration =
    \<lparr>bol_Enabled = False,
     bol_DefaultRetention = zero_BucketObjectLockDefaultRetention\<rparr>"

definition zero_ObjectLockRetention :: ObjectLockRetention where
  "zero_ObjectLockRetention =
    \<lparr>olr_Mode = ObjectLockMode_Unset,
     olr_RetainUntilDate = 0\<rparr>"

definition zero_ServerSideEncryption :: ServerSideEncryption where
  "zero_ServerSideEncryption =
    \<lparr>sse_Algorithm = ServerSideEncryptionNone,
     sse_KeyID = [],
     sse_KeyVersion = []\<rparr>"

definition zero_Bucket :: Bucket where
  "zero_Bucket =
    \<lparr>bk_BucketID = [],
     bk_TenantID = [],
     bk_Name = [],
     bk_Region = [],
     bk_VersioningState = BucketVersioningUnversioned,
     bk_CORSRules = [],
     bk_Lifecycle = zero_BucketLifecycleConfiguration,
     bk_DefaultEncryption = zero_ServerSideEncryption,
     bk_ObjectLock = zero_BucketObjectLockConfiguration,
     bk_Policy = zero_PolicyDocument,
     bk_CreatedAt = 0\<rparr>"

definition zero_BucketQuota :: BucketQuota where
  "zero_BucketQuota =
    \<lparr>bq_BucketID = [],
     bq_MaxObjectSizeBytes = 0,
     bq_CreatedAt = 0,
     bq_UpdatedAt = 0\<rparr>"

section \<open>Encryption keys, compliance profiles and audit\<close>

datatype KMSKeyState =
    KMSKeyState_Unset
  | KMSKeyActive
  | KMSKeyDisabled
  | KMSKeyPendingDeletion
  | KMSKeyDeleted
  | KMSKeyState_Other string

record KMSKeyRecord =
  kk_KeyID :: string
  kk_KeyVersion :: string
  kk_State :: KMSKeyState
  kk_CreatedAt :: time
  kk_UpdatedAt :: time

record ComplianceProfileAttachment =
  cp_ProfileID :: string
  cp_Regulation :: string
  cp_RecordClass :: string
  cp_BucketID :: string
  cp_Prefix :: string
  cp_ObjectClass :: string
  cp_RetentionMode :: ObjectLockMode
  cp_RetentionDays :: int
  cp_RetentionYears :: int
  cp_LegalHoldPolicy :: string
  cp_GovernanceBypassPolicy :: string
  cp_EvidenceExportPolicy :: string
  cp_CreatedAt :: time
  cp_UpdatedAt :: time

type_synonym AuditAction = string

record AuditPrincipal =
  ap_TenantID :: string
  ap_AccessKeyID :: string
  ap_DisplayName :: string
  ap_Subject :: string
  ap_Groups :: "string list"
  ap_Roles :: "string list"
  ap_SessionID :: string
  ap_ExternalIssuer :: string
  ap_PolicyVersion :: string
  ap_SourceIdentity :: string
  ap_Root :: bool

record AuditEvent =
  ae_EventID :: string
  ae_Action :: AuditAction
  ae_BucketID :: string
  ae_Key :: string
  ae_VersionID :: string
  ae_RequestID :: string
  ae_Reason :: string
  ae_Principal :: AuditPrincipal
  ae_Details :: strmap
  ae_PreviousHash :: string
  ae_EventHash :: string
  ae_CreatedAt :: time

definition zero_KMSKeyRecord :: KMSKeyRecord where
  "zero_KMSKeyRecord =
    \<lparr>kk_KeyID = [],
     kk_KeyVersion = [],
     kk_State = KMSKeyState_Unset,
     kk_CreatedAt = 0,
     kk_UpdatedAt = 0\<rparr>"

definition zero_ComplianceProfileAttachment :: ComplianceProfileAttachment where
  "zero_ComplianceProfileAttachment =
    \<lparr>cp_ProfileID = [],
     cp_Regulation = [],
     cp_RecordClass = [],
     cp_BucketID = [],
     cp_Prefix = [],
     cp_ObjectClass = [],
     cp_RetentionMode = ObjectLockMode_Unset,
     cp_RetentionDays = 0,
     cp_RetentionYears = 0,
     cp_LegalHoldPolicy = [],
     cp_GovernanceBypassPolicy = [],
     cp_EvidenceExportPolicy = [],
     cp_CreatedAt = 0,
     cp_UpdatedAt = 0\<rparr>"

definition zero_AuditPrincipal :: AuditPrincipal where
  "zero_AuditPrincipal =
    \<lparr>ap_TenantID = [],
     ap_AccessKeyID = [],
     ap_DisplayName = [],
     ap_Subject = [],
     ap_Groups = [],
     ap_Roles = [],
     ap_SessionID = [],
     ap_ExternalIssuer = [],
     ap_PolicyVersion = [],
     ap_SourceIdentity = [],
     ap_Root = False\<rparr>"

definition zero_AuditEvent :: AuditEvent where
  "zero_AuditEvent =
    \<lparr>ae_EventID = [],
     ae_Action = [],
     ae_BucketID = [],
     ae_Key = [],
     ae_VersionID = [],
     ae_RequestID = [],
     ae_Reason = [],
     ae_Principal = zero_AuditPrincipal,
     ae_Details = [],
     ae_PreviousHash = [],
     ae_EventHash = [],
     ae_CreatedAt = 0\<rparr>"

section \<open>Protected references, garbage collection, deduplication, drains\<close>

datatype ProtectedRefReason =
    ProtectedRefReason_Unset
  | ProtectedRefReasonObjectLock
  | ProtectedRefReason_Other string

record ProtectedRef =
  pr_RefID :: string
  pr_Reason :: ProtectedRefReason
  pr_BucketID :: string
  pr_Key :: string
  pr_VersionID :: string
  pr_SegmentID :: string
  pr_SegmentRef :: SegmentRef
  pr_RetentionMode :: ObjectLockMode
  pr_RetainUntilDate :: time
  pr_LegalHold :: ObjectLockLegalHoldStatus
  pr_CreatedAt :: time
  pr_UpdatedAt :: time

datatype GCOperationAttemptStatus =
    GCOperationAttemptStatus_Unset
  | GCOperationAttemptDeleted
  | GCOperationAttemptSkipped
  | GCOperationAttemptRetryable
  | GCOperationAttemptStatus_Other string

datatype GCOperationStatus =
    GCOperationStatus_Unset
  | GCOperationSucceeded
  | GCOperationRetryPending
  | GCOperationFailed
  | GCOperationStatus_Other string

record GCOperationAttempt =
  gat_SegmentID :: string
  gat_SharedObjectID :: string
  gat_Reason :: DeleteReason
  gat_Status :: GCOperationAttemptStatus
  gat_Retryable :: bool
  gat_Error :: string

record GCOperationRecord =
  gop_OperationID :: string
  gop_ResumeOfOperationID :: string
  gop_Status :: GCOperationStatus
  gop_StartedAt :: time
  gop_FinishedAt :: time
  gop_Scanned :: int
  gop_Deleted :: int
  gop_Skipped :: int
  gop_Retryable :: int
  gop_Attempts :: "GCOperationAttempt list"
  gop_CreatedAt :: time

record GCCandidateRecord =
  gcr_SegmentID :: string
  gcr_SegmentRef :: SegmentRef
  gcr_Reason :: DeleteReason
  gcr_CreatedAt :: time
  gcr_UpdatedAt :: time

datatype DedupeOperationAttemptStatus =
    DedupeOperationAttemptStatus_Unset
  | DedupeOperationAttemptAcked
  | DedupeOperationAttemptSkipped
  | DedupeOperationAttemptRetryable
  | DedupeOperationAttemptStatus_Other string

datatype DedupeOperationStatus =
    DedupeOperationStatus_Unset
  | DedupeOperationSucceeded
  | DedupeOperationRetryPending
  | DedupeOperationFailed
  | DedupeOperationStatus_Other string

record DedupeOperationAttempt =
  dat_BucketID :: string
  dat_Key :: string
  dat_SourceVersion :: string
  dat_CandidateVersion :: string
  dat_PlanStatus :: string
  dat_PlanReason :: string
  dat_Status :: DedupeOperationAttemptStatus
  dat_SharedObjectID :: string
  dat_OrphansMarked :: int
  dat_Retryable :: bool
  dat_Error :: string

record DedupeOperationRecord =
  dop_OperationID :: string
  dop_ResumeOfOperationID :: string
  dop_Status :: DedupeOperationStatus
  dop_StartedAt :: time
  dop_FinishedAt :: time
  dop_Scanned :: int
  dop_Acked :: int
  dop_Skipped :: int
  dop_Retryable :: int
  dop_Attempts :: "DedupeOperationAttempt list"
  dop_CreatedAt :: time

record DedupeOperationLock =
  dlk_LockID :: string
  dlk_OwnerID :: string
  dlk_AcquiredAt :: time
  dlk_UpdatedAt :: time
  dlk_ExpiresAt :: time

datatype VolumeDrainOperationStatus =
    VolumeDrainOperationStatus_Unset
  | VolumeDrainOperationRunning
  | VolumeDrainOperationSucceeded
  | VolumeDrainOperationRetryPending
  | VolumeDrainOperationFailed
  | VolumeDrainOperationCanceled
  | VolumeDrainOperationStatus_Other string

datatype VolumeDrainAttemptStatus =
    VolumeDrainAttemptStatus_Unset
  | VolumeDrainAttemptCopied
  | VolumeDrainAttemptQueuedGC
  | VolumeDrainAttemptSkipped
  | VolumeDrainAttemptProtected
  | VolumeDrainAttemptRetryable
  | VolumeDrainAttemptFailed
  | VolumeDrainAttemptStatus_Other string

record VolumeDrainAttempt =
  vat_BucketID :: string
  vat_Key :: string
  vat_VersionID :: string
  vat_SourceSegmentID :: string
  vat_SourceRef :: SegmentRef
  vat_TargetSegmentID :: string
  vat_TargetRef :: SegmentRef
  vat_Status :: VolumeDrainAttemptStatus
  vat_Protected :: bool
  vat_Retryable :: bool
  vat_Error :: string

record VolumeDrainOperationRecord =
  vop_OperationID :: string
  vop_ResumeOfOperationID :: string
  vop_PoolID :: string
  vop_SourceVolumeID :: string
  vop_TargetVolumeID :: string
  vop_OwnerID :: string
  vop_Status :: VolumeDrainOperationStatus
  vop_Cursor :: string
  vop_StartedAt :: time
  vop_FinishedAt :: time
  vop_Scanned :: int
  vop_Copied :: int
  vop_Skipped :: int
  vop_Protected :: int
  vop_Retryable :: int
  vop_Attempts :: "VolumeDrainAttempt list"
  vop_CreatedAt :: time

definition zero_GCCandidateRecord :: GCCandidateRecord where
  "zero_GCCandidateRecord =
    \<lparr>gcr_SegmentID = [],
     gcr_SegmentRef = zero_SegmentRef,
     gcr_Reason = DeleteReason_Unset,
     gcr_CreatedAt = 0,
     gcr_UpdatedAt = 0\<rparr>"

section \<open>Objects\<close>

datatype ObjectVersionState =
    ObjectVersionState_Unset
  | ObjectVersionPending
  | ObjectVersionCommitted
  | ObjectVersionState_Other string

datatype ObjectManifestEncoding =
    ObjectManifestEncoding_Unset
  | ObjectManifestEncodingChunked
  | ObjectManifestEncoding_Other string

record ObjectManifestDescriptor =
  omd_Encoding :: ObjectManifestEncoding
  omd_RefCount :: int
  omd_ChunkCount :: int

record ObjectManifestChunk =
  omc_BucketID :: string
  omc_Key :: string
  omc_VersionID :: string
  omc_ChunkNumber :: int
  omc_SegmentRefs :: "SegmentRef list"
  omc_CreatedAt :: time

record ObjectHead =
  oh_BucketID :: string
  oh_Key :: string
  oh_VersionID :: string
  oh_Revision :: u64
  oh_SizeBytes :: int
  oh_ETag :: string
  oh_ContentType :: string
  oh_StorageClass :: StorageClassSnapshot
  oh_ServerSideEncryption :: ServerSideEncryption
  oh_SegmentRef :: SegmentRef
  oh_SegmentRefs :: "SegmentRef list"
  oh_Manifest :: ObjectManifestDescriptor
  oh_UserMetadata :: strmap
  oh_Tags :: strmap
  oh_ObjectLockRetention :: ObjectLockRetention
  oh_ObjectLockLegalHold :: ObjectLockLegalHoldStatus
  oh_LastModified :: time
  oh_DeleteMarker :: bool

record ObjectVersion =
  ov_BucketID :: string
  ov_Key :: string
  ov_VersionID :: string
  ov_VersionSortKey :: string
  ov_SizeBytes :: int
  ov_ETag :: string
  ov_ContentType :: string
  ov_StorageClass :: StorageClassSnapshot
  ov_ServerSideEncryption :: ServerSideEncryption
  ov_SegmentRef :: SegmentRef
  ov_SegmentRefs :: "SegmentRef list"
  ov_Manifest :: ObjectManifestDescriptor
  ov_UserMetadata :: strmap
  ov_Tags :: strmap
  ov_ObjectLockRetention :: ObjectLockRetention
  ov_ObjectLockLegalHold :: ObjectLockLegalHoldStatus
  ov_State :: ObjectVersionState
  ov_CreatedAt :: time
  ov_CommittedAt :: time
  ov_DeleteMarker :: bool

record PendingObjectVersion =
  pov_Version :: ObjectVersion
  pov_BaseHeadVersionID :: string
  pov_BaseHead :: ObjectHead
  pov_BaseHeadFound :: bool

record DeleteResult =
  dr_Deleted :: bool
  dr_DeletedVersionID :: string
  dr_DeleteMarker :: bool
  dr_DeletedVersion :: ObjectVersion

record ListObjectsResult =
  lor_Contents :: "ObjectHead list"
  lor_CommonPrefixes :: "string list"
  lor_IsTruncated :: bool
  lor_NextContinuationToken :: string

record ObjectVersionEntry =
  ove_Version :: ObjectVersion
  ove_IsLatest :: bool

record ListObjectVersionsResult =
  lvr_Versions :: "ObjectVersionEntry list"
  lvr_DeleteMarkers :: "ObjectVersionEntry list"
  lvr_CommonPrefixes :: "string list"
  lvr_IsTruncated :: bool
  lvr_NextKeyMarker :: string
  lvr_NextVersionIDMarker :: string

definition zero_ObjectManifestDescriptor :: ObjectManifestDescriptor where
  "zero_ObjectManifestDescriptor =
    \<lparr>omd_Encoding = ObjectManifestEncoding_Unset,
     omd_RefCount = 0,
     omd_ChunkCount = 0\<rparr>"

definition zero_ObjectHead :: ObjectHead where
  "zero_ObjectHead =
    \<lparr>oh_BucketID = [],
     oh_Key = [],
     oh_VersionID = [],
     oh_Revision = 0,
     oh_SizeBytes = 0,
     oh_ETag = [],
     oh_ContentType = [],
     oh_StorageClass = zero_StorageClassSnapshot,
     oh_ServerSideEncryption = zero_ServerSideEncryption,
     oh_SegmentRef = zero_SegmentRef,
     oh_SegmentRefs = [],
     oh_Manifest = zero_ObjectManifestDescriptor,
     oh_UserMetadata = [],
     oh_Tags = [],
     oh_ObjectLockRetention = zero_ObjectLockRetention,
     oh_ObjectLockLegalHold = ObjectLockLegalHoldStatus_Unset,
     oh_LastModified = 0,
     oh_DeleteMarker = False\<rparr>"

definition zero_ObjectVersion :: ObjectVersion where
  "zero_ObjectVersion =
    \<lparr>ov_BucketID = [],
     ov_Key = [],
     ov_VersionID = [],
     ov_VersionSortKey = [],
     ov_SizeBytes = 0,
     ov_ETag = [],
     ov_ContentType = [],
     ov_StorageClass = zero_StorageClassSnapshot,
     ov_ServerSideEncryption = zero_ServerSideEncryption,
     ov_SegmentRef = zero_SegmentRef,
     ov_SegmentRefs = [],
     ov_Manifest = zero_ObjectManifestDescriptor,
     ov_UserMetadata = [],
     ov_Tags = [],
     ov_ObjectLockRetention = zero_ObjectLockRetention,
     ov_ObjectLockLegalHold = ObjectLockLegalHoldStatus_Unset,
     ov_State = ObjectVersionState_Unset,
     ov_CreatedAt = 0,
     ov_CommittedAt = 0,
     ov_DeleteMarker = False\<rparr>"

definition zero_DeleteResult :: DeleteResult where
  "zero_DeleteResult =
    \<lparr>dr_Deleted = False,
     dr_DeletedVersionID = [],
     dr_DeleteMarker = False,
     dr_DeletedVersion = zero_ObjectVersion\<rparr>"

definition zero_ListObjectsResult :: ListObjectsResult where
  "zero_ListObjectsResult =
    \<lparr>lor_Contents = [],
     lor_CommonPrefixes = [],
     lor_IsTruncated = False,
     lor_NextContinuationToken = []\<rparr>"

definition zero_ListObjectVersionsResult :: ListObjectVersionsResult where
  "zero_ListObjectVersionsResult =
    \<lparr>lvr_Versions = [],
     lvr_DeleteMarkers = [],
     lvr_CommonPrefixes = [],
     lvr_IsTruncated = False,
     lvr_NextKeyMarker = [],
     lvr_NextVersionIDMarker = []\<rparr>"

section \<open>Shared objects\<close>

datatype SharedObjectReleaseStatus =
    SharedObjectReleaseStatus_Unset
  | SharedObjectReleasePending
  | SharedObjectReleaseStatus_Other string

record SharedObjectRelease =
  sr_ReleaseID :: string
  sr_SharedObjectID :: string
  sr_SegmentID :: string
  sr_SegmentRef :: SegmentRef
  sr_Reason :: DeleteReason
  sr_Status :: SharedObjectReleaseStatus
  sr_CreatedAt :: time
  sr_UpdatedAt :: time

record SharedObject =
  so_SharedObjectID :: string
  so_TenantID :: string
  so_BucketID :: string
  so_Key :: string
  so_SourceVersionID :: string
  so_SizeBytes :: int
  so_Digest :: Digest
  so_StorageClass :: StorageClassSnapshot
  so_SegmentRefs :: "SegmentRef list"
  so_RefCount :: int
  so_ProtectedRootCount :: int
  so_CreatedAt :: time
  so_UpdatedAt :: time

record SharedObjectRef =
  sor_RefID :: string
  sor_SharedObjectID :: string
  sor_BucketID :: string
  sor_Key :: string
  sor_VersionID :: string
  sor_SegmentRefs :: "SegmentRef list"
  sor_CreatedAt :: time
  sor_UpdatedAt :: time

record AttachSharedObjectResult =
  asr_Version :: ObjectVersion
  asr_SharedObject :: SharedObject
  asr_Ref :: SharedObjectRef
  asr_PreviousSegmentRefs :: "SegmentRef list"

record SharedObjectRepairResult =
  srr_Scanned :: int
  srr_Updated :: int

record ListIndexRepairResult =
  lir_ScannedObjectHeads :: int
  lir_ScannedObjectListEntries :: int
  lir_MissingObjectListEntries :: int
  lir_StaleObjectListEntries :: int
  lir_RepairedObjectListEntries :: int
  lir_RemovedObjectListEntries :: int
  lir_ScannedMultipartUploads :: int
  lir_ScannedMultipartUploadIndexes :: int
  lir_MissingMultipartUploadIndexes :: int
  lir_StaleMultipartUploadIndexes :: int
  lir_RepairedMultipartUploadIndexes :: int
  lir_RemovedMultipartUploadIndexes :: int

definition zero_SharedObjectRelease :: SharedObjectRelease where
  "zero_SharedObjectRelease =
    \<lparr>sr_ReleaseID = [],
     sr_SharedObjectID = [],
     sr_SegmentID = [],
     sr_SegmentRef = zero_SegmentRef,
     sr_Reason = DeleteReason_Unset,
     sr_Status = SharedObjectReleaseStatus_Unset,
     sr_CreatedAt = 0,
     sr_UpdatedAt = 0\<rparr>"

definition zero_ListIndexRepairResult :: ListIndexRepairResult where
  "zero_ListIndexRepairResult =
    \<lparr>lir_ScannedObjectHeads = 0,
     lir_ScannedObjectListEntries = 0,
     lir_MissingObjectListEntries = 0,
     lir_StaleObjectListEntries = 0,
     lir_RepairedObjectListEntries = 0,
     lir_RemovedObjectListEntries = 0,
     lir_ScannedMultipartUploads = 0,
     lir_ScannedMultipartUploadIndexes = 0,
     lir_MissingMultipartUploadIndexes = 0,
     lir_StaleMultipartUploadIndexes = 0,
     lir_RepairedMultipartUploadIndexes = 0,
     lir_RemovedMultipartUploadIndexes = 0\<rparr>"

section \<open>Multipart uploads\<close>

datatype MultipartUploadState =
    MultipartUploadState_Unset
  | MultipartUploadActive
  | MultipartUploadCompleted
  | MultipartUploadAborted
  | MultipartUploadState_Other string

datatype MultipartPartsCleanupState =
    MultipartPartsCleanupState_Unset
  | MultipartPartsCleanupPending
  | MultipartPartsCleanupDone
  | MultipartPartsCleanupState_Other string

datatype MultipartCompletionState =
    MultipartCompletionState_Unset
  | MultipartCompletionPrepared
  | MultipartCompletionPublished
  | MultipartCompletionCompleted
  | MultipartCompletionState_Other string

record MultipartUpload =
  mu_UploadID :: string
  mu_BucketID :: string
  mu_Key :: string
  mu_ContentType :: string
  mu_StorageClass :: StorageClassSnapshot
  mu_ServerSideEncryption :: ServerSideEncryption
  mu_UserMetadata :: strmap
  mu_Tags :: strmap
  mu_ObjectLockRetention :: ObjectLockRetention
  mu_ObjectLockLegalHold :: ObjectLockLegalHoldStatus
  mu_State :: MultipartUploadState
  mu_PartCount :: int
  mu_TotalPartSizeBytes :: int
  mu_MaxPartNumber :: int
  mu_PartsUpdatedAt :: time
  mu_CompletedVersionID :: string
  mu_CompletedETag :: string
  mu_CompletedSizeBytes :: int
  mu_CompletedPartCount :: int
  mu_CompletedAt :: time
  mu_PartsCleanupState :: MultipartPartsCleanupState
  mu_PartsCleanupDeleted :: int
  mu_PartsCleanupUpdatedAt :: time
  mu_CreatedAt :: time
  mu_UpdatedAt :: time

record MultipartCompletionRecord =
  mcr_BucketID :: string
  mcr_Key :: string
  mcr_UploadID :: string
  mcr_ObjectVersionID :: string
  mcr_ExpectedHeadVersionID :: string
  mcr_ETag :: string
  mcr_SizeBytes :: int
  mcr_PartCount :: int
  mcr_State :: MultipartCompletionState
  mcr_CreatedAt :: time
  mcr_UpdatedAt :: time

record MultipartPart =
  mp_UploadID :: string
  mp_PartNumber :: int
  mp_SizeBytes :: int
  mp_ETag :: string
  mp_SegmentRef :: SegmentRef
  mp_CreatedAt :: time
  mp_UpdatedAt :: time

record ListMultipartUploadsResult =
  lmr_Uploads :: "MultipartUpload list"
  lmr_CommonPrefixes :: "string list"
  lmr_IsTruncated :: bool
  lmr_NextKeyMarker :: string
  lmr_NextUploadIDMarker :: string

definition zero_MultipartUpload :: MultipartUpload where
  "zero_MultipartUpload =
    \<lparr>mu_UploadID = [],
     mu_BucketID = [],
     mu_Key = [],
     mu_ContentType = [],
     mu_StorageClass = zero_StorageClassSnapshot,
     mu_ServerSideEncryption = zero_ServerSideEncryption,
     mu_UserMetadata = [],
     mu_Tags = [],
     mu_ObjectLockRetention = zero_ObjectLockRetention,
     mu_ObjectLockLegalHold = ObjectLockLegalHoldStatus_Unset,
     mu_State = MultipartUploadState_Unset,
     mu_PartCount = 0,
     mu_TotalPartSizeBytes = 0,
     mu_MaxPartNumber = 0,
     mu_PartsUpdatedAt = 0,
     mu_CompletedVersionID = [],
     mu_CompletedETag = [],
     mu_CompletedSizeBytes = 0,
     mu_CompletedPartCount = 0,
     mu_CompletedAt = 0,
     mu_PartsCleanupState = MultipartPartsCleanupState_Unset,
     mu_PartsCleanupDeleted = 0,
     mu_PartsCleanupUpdatedAt = 0,
     mu_CreatedAt = 0,
     mu_UpdatedAt = 0\<rparr>"

definition zero_ListMultipartUploadsResult :: ListMultipartUploadsResult where
  "zero_ListMultipartUploadsResult =
    \<lparr>lmr_Uploads = [],
     lmr_CommonPrefixes = [],
     lmr_IsTruncated = False,
     lmr_NextKeyMarker = [],
     lmr_NextUploadIDMarker = []\<rparr>"

section \<open>Volume pools and workers\<close>

type_synonym VolumePoolState = string

record VolumePoolMember =
  vm_VolumeID :: string
  vm_AdminEndpoint :: string
  vm_DataEndpoint :: string
  vm_GatewayID :: string
  vm_AttachmentID :: string
  vm_Generation :: u64
  vm_ChunkSizeBytes :: u64
  vm_State :: VolumePoolState
  vm_ReadOnly :: bool
  vm_Weight :: int
  vm_CapacityBytes :: u64
  vm_AvailableBytes :: u64
  vm_UsedPercent :: float64
  vm_HighWatermarkPercent :: float64
  vm_LastObservedAt :: time

record VolumePool =
  vp_PoolID :: string
  vp_Generation :: u64
  vp_DurabilityClass :: string
  vp_StorageClassIDs :: "string list"
  vp_Members :: "VolumePoolMember list"
  vp_CreatedAt :: time
  vp_UpdatedAt :: time

record WorkerLease =
  wl_LeaseID :: string
  wl_WorkerKind :: string
  wl_ShardID :: string
  wl_OwnerID :: string
  wl_Generation :: u64
  wl_Cursor :: string
  wl_AcquiredAt :: time
  wl_UpdatedAt :: time
  wl_ExpiresAt :: time

datatype WorkerOperationStatus =
    WorkerOperationStatus_Unset
  | WorkerOperationRunning
  | WorkerOperationSucceeded
  | WorkerOperationRetryPending
  | WorkerOperationFailed
  | WorkerOperationCanceled
  | WorkerOperationPaused
  | WorkerOperationStatus_Other string

type_synonym WorkerControlState = string

record WorkerOperationRecord =
  wop_OperationID :: string
  wop_WorkerKind :: string
  wop_ShardID :: string
  wop_OwnerID :: string
  wop_LeaseID :: string
  wop_Status :: WorkerOperationStatus
  wop_Cursor :: string
  wop_Scanned :: int
  wop_Processed :: int
  wop_Skipped :: int
  wop_Retryable :: int
  wop_LastError :: string
  wop_StartedAt :: time
  wop_FinishedAt :: time
  wop_CreatedAt :: time

record WorkerControlRecord =
  wc_WorkerKind :: string
  wc_ShardID :: string
  wc_State :: WorkerControlState
  wc_Reason :: string
  wc_UpdatedBy :: string
  wc_UpdatedAt :: time
  wc_CreatedAt :: time

definition zero_VolumePool :: VolumePool where
  "zero_VolumePool =
    \<lparr>vp_PoolID = [],
     vp_Generation = 0,
     vp_DurabilityClass = [],
     vp_StorageClassIDs = [],
     vp_Members = [],
     vp_CreatedAt = 0,
     vp_UpdatedAt = 0\<rparr>"

definition zero_WorkerLease :: WorkerLease where
  "zero_WorkerLease =
    \<lparr>wl_LeaseID = [],
     wl_WorkerKind = [],
     wl_ShardID = [],
     wl_OwnerID = [],
     wl_Generation = 0,
     wl_Cursor = [],
     wl_AcquiredAt = 0,
     wl_UpdatedAt = 0,
     wl_ExpiresAt = 0\<rparr>"

definition zero_WorkerControlRecord :: WorkerControlRecord where
  "zero_WorkerControlRecord =
    \<lparr>wc_WorkerKind = [],
     wc_ShardID = [],
     wc_State = [],
     wc_Reason = [],
     wc_UpdatedBy = [],
     wc_UpdatedAt = 0,
     wc_CreatedAt = 0\<rparr>"

end
