(* ===== verification/Requests.thy ===== *)
theory Requests
  imports Model
begin

text \<open>
  The request and result structs of the metadata interface \<open>meta.Repository\<close>
  (\<open>internal/meta/repository.go\<close>), one record each.
\<close>


record AuditContext =
  ac_RequestID :: string
  ac_Reason :: string
  ac_Principal :: AuditPrincipal

record CreateTenantRequest =
  q_ct_TenantID :: string
  q_ct_DisplayName :: string

record PutMetadataSchemaRequest =
  q_ms_SchemaVersion :: int
  q_ms_MinReaderVersion :: int
  q_ms_MinWriterVersion :: int
  q_ms_UpdatedBy :: string

record TenantQuotaRequest =
  q_tq_TenantID :: string
  q_tq_MaxBytes :: int
  q_tq_MaxObjects :: int
  q_tq_MaxActiveUploads :: int

record TenantUsageRequest =
  q_tu_TenantID :: string
  q_tu_ObjectBytes :: int
  q_tu_ObjectCount :: int
  q_tu_ActiveUploads :: int
  q_tu_ReconciledAt :: time
  q_tu_ReconciliationID :: string
  q_tu_ReconciliationErr :: string

record PutAccessKeyRequest =
  q_ak_TenantID :: string
  q_ak_AccessKeyID :: string
  q_ak_SecretHash :: string
  q_ak_Status :: AccessKeyStatus
  q_ak_Permissions :: "string list"

record PutKMSKeyRequest =
  q_kk_KeyID :: string
  q_kk_KeyVersion :: string
  q_kk_State :: KMSKeyState

record ListKMSKeysRequest =
  q_lkk_Limit :: int

record PutComplianceProfileAttachmentRequest =
  q_cp_ProfileID :: string
  q_cp_Regulation :: string
  q_cp_RecordClass :: string
  q_cp_BucketID :: string
  q_cp_Prefix :: string
  q_cp_ObjectClass :: string
  q_cp_RetentionMode :: ObjectLockMode
  q_cp_RetentionDays :: int
  q_cp_RetentionYears :: int
  q_cp_LegalHoldPolicy :: string
  q_cp_GovernanceBypassPolicy :: string
  q_cp_EvidenceExportPolicy :: string

record ListComplianceProfileAttachmentsRequest =
  q_lcp_BucketID :: string
  q_lcp_Limit :: int

record CreateBucketRequest =
  q_cb_TenantID :: string
  q_cb_Name :: string
  q_cb_Region :: string
  q_cb_ObjectLockEnabled :: bool

record PutBucketVersioningRequest =
  q_bv_BucketID :: string
  q_bv_State :: BucketVersioningState

record BucketCORSRequest =
  q_bc_BucketID :: string
  q_bc_Rules :: "CORSRule list"

record BucketLifecycleRequest =
  q_bl_BucketID :: string
  q_bl_Configuration :: BucketLifecycleConfiguration
  q_bl_Audit :: AuditContext

record BucketEncryptionRequest =
  q_be_BucketID :: string
  q_be_Encryption :: ServerSideEncryption
  q_be_Audit :: AuditContext

record BucketQuotaRequest =
  q_bq_BucketID :: string
  q_bq_MaxObjectSizeBytes :: int

record BucketPolicyRequest =
  q_bp_BucketID :: string
  q_bp_Policy :: PolicyDocument
  q_bp_Audit :: AuditContext

record BucketObjectLockRequest =
  q_bo_BucketID :: string
  q_bo_Configuration :: BucketObjectLockConfiguration
  q_bo_Audit :: AuditContext

record BeginPutObjectRequest =
  q_po_BucketID :: string
  q_po_Key :: string
  q_po_SizeBytes :: int
  q_po_ETag :: string
  q_po_ContentType :: string
  q_po_StorageClass :: StorageClassSnapshot
  q_po_ServerSideEncryption :: ServerSideEncryption
  q_po_SegmentRef :: SegmentRef
  q_po_SegmentRefs :: "SegmentRef list"
  q_po_UserMetadata :: strmap
  q_po_Tags :: strmap
  q_po_ObjectLockRetention :: ObjectLockRetention
  q_po_ObjectLockLegalHold :: ObjectLockLegalHoldStatus

record CommitObjectVersionRequest =
  q_co_BucketID :: string
  q_co_Key :: string
  q_co_VersionID :: string
  q_co_ExpectedHeadVersionID :: string

record PutObjectVersionResult =
  pvr_Head :: ObjectHead
  pvr_ReplacedHead :: ObjectHead
  pvr_ReplacedHeadFound :: bool

record DeleteObjectRequest =
  q_do_BucketID :: string
  q_do_Key :: string
  q_do_VersionID :: string
  q_do_BypassGovernanceRetention :: bool
  q_do_BypassAudit :: AuditContext

record ListObjectsRequest =
  q_lo_BucketID :: string
  q_lo_Prefix :: string
  q_lo_Delimiter :: string
  q_lo_ContinuationToken :: string
  q_lo_MaxKeys :: int

record ListObjectVersionsRequest =
  q_lv_BucketID :: string
  q_lv_Prefix :: string
  q_lv_Delimiter :: string
  q_lv_KeyMarker :: string
  q_lv_VersionIDMarker :: string
  q_lv_MaxKeys :: int

record ObjectTagsRequest =
  q_ot_BucketID :: string
  q_ot_Key :: string
  q_ot_VersionID :: string
  q_ot_Tags :: strmap

record ObjectRetentionRequest =
  q_or_BucketID :: string
  q_or_Key :: string
  q_or_VersionID :: string
  q_or_Retention :: ObjectLockRetention
  q_or_BypassGovernanceRetention :: bool
  q_or_BypassAudit :: AuditContext
  q_or_Audit :: AuditContext

record ObjectLegalHoldRequest =
  q_lh_BucketID :: string
  q_lh_Key :: string
  q_lh_VersionID :: string
  q_lh_LegalHold :: ObjectLockLegalHoldStatus
  q_lh_Audit :: AuditContext

record ListAuditEventsRequest =
  q_la_BucketID :: string
  q_la_Key :: string
  q_la_Action :: AuditAction
  q_la_Limit :: int

record PutAdminAuditEventRequest =
  q_aa_Action :: AuditAction
  q_aa_BucketID :: string
  q_aa_Key :: string
  q_aa_VersionID :: string
  q_aa_Details :: strmap
  q_aa_Audit :: AuditContext

record PutAdminAuditEventsRequest =
  q_aas_Events :: "PutAdminAuditEventRequest list"

record ImportOperationalMetadataRequest =
  q_im_MetadataSchema :: "MetadataSchemaRecord option"
  q_im_MetadataMigrationOperations :: "MetadataMigrationOperationRecord list"
  q_im_KMSKeys :: "KMSKeyRecord list"
  q_im_AuditEvents :: "AuditEvent list"
  q_im_GCOperations :: "GCOperationRecord list"
  q_im_DedupeOperations :: "DedupeOperationRecord list"
  q_im_SharedObjects :: "SharedObject list"
  q_im_SharedObjectReleases :: "SharedObjectRelease list"
  q_im_VolumePools :: "VolumePool list"
  q_im_VolumeDrainOperations :: "VolumeDrainOperationRecord list"
  q_im_WorkerLeases :: "WorkerLease list"
  q_im_WorkerOperations :: "WorkerOperationRecord list"
  q_im_RequireEmptyTarget :: bool

record ImportOperationalMetadataResult =
  imr_MetadataSchema :: int
  imr_MetadataMigrationOperations :: int
  imr_KMSKeys :: int
  imr_AuditEvents :: int
  imr_GCOperations :: int
  imr_DedupeOperations :: int
  imr_SharedObjects :: int
  imr_SharedObjectReleases :: int
  imr_VolumePools :: int
  imr_VolumeDrainOperations :: int
  imr_WorkerLeases :: int
  imr_WorkerOperations :: int

record PutMetadataMigrationOperationRequest =
  q_mo_ResumeOfOperationID :: string
  q_mo_TargetSchemaVersion :: int
  q_mo_Status :: MetadataMigrationOperationStatus
  q_mo_DryRun :: bool
  q_mo_Apply :: bool
  q_mo_OwnerID :: string
  q_mo_Cursor :: string
  q_mo_Steps :: "MetadataMigrationStep list"
  q_mo_StartedAt :: time
  q_mo_FinishedAt :: time

record ListMetadataMigrationOperationsRequest =
  q_lmo_Status :: MetadataMigrationOperationStatus
  q_lmo_Limit :: int

record ListProtectedRefsRequest =
  q_lpr_BucketID :: string
  q_lpr_Key :: string
  q_lpr_VersionID :: string
  q_lpr_SegmentID :: string
  q_lpr_ActiveOnly :: bool
  q_lpr_Limit :: int

record PutGCCandidateRequest =
  q_gc_SegmentRef :: SegmentRef
  q_gc_Reason :: DeleteReason

record ListGCCandidatesRequest =
  q_lgc_Limit :: int

record PutGCOperationRequest =
  q_go_ResumeOfOperationID :: string
  q_go_Status :: GCOperationStatus
  q_go_StartedAt :: time
  q_go_FinishedAt :: time
  q_go_Scanned :: int
  q_go_Deleted :: int
  q_go_Skipped :: int
  q_go_Retryable :: int
  q_go_Attempts :: "GCOperationAttempt list"

record ListGCOperationsRequest =
  q_lgo_Limit :: int

record PutDedupeOperationRequest =
  q_dp_ResumeOfOperationID :: string
  q_dp_Status :: DedupeOperationStatus
  q_dp_StartedAt :: time
  q_dp_FinishedAt :: time
  q_dp_Scanned :: int
  q_dp_Acked :: int
  q_dp_Skipped :: int
  q_dp_Retryable :: int
  q_dp_Attempts :: "DedupeOperationAttempt list"

record ListDedupeOperationsRequest =
  q_ldp_Limit :: int

record AcquireDedupeOperationLockRequest =
  q_al_LockID :: string
  q_al_OwnerID :: string
  q_al_TTL :: duration

record ReleaseDedupeOperationLockRequest =
  q_rl_LockID :: string
  q_rl_OwnerID :: string

record PutSharedObjectReleaseRequest =
  q_sr_SharedObjectID :: string
  q_sr_SegmentRef :: SegmentRef
  q_sr_Reason :: DeleteReason
  q_sr_Status :: SharedObjectReleaseStatus

record ListSharedObjectReleasesRequest =
  q_lsr_SharedObjectID :: string
  q_lsr_Status :: SharedObjectReleaseStatus
  q_lsr_Limit :: int

record PutVolumePoolRequest =
  q_vp_PoolID :: string
  q_vp_Generation :: u64
  q_vp_DurabilityClass :: string
  q_vp_StorageClassIDs :: "string list"
  q_vp_Members :: "VolumePoolMember list"

record ListVolumePoolsRequest =
  q_lvp_Limit :: int

record PutVolumeDrainOperationRequest =
  q_vd_ResumeOfOperationID :: string
  q_vd_PoolID :: string
  q_vd_SourceVolumeID :: string
  q_vd_TargetVolumeID :: string
  q_vd_OwnerID :: string
  q_vd_Status :: VolumeDrainOperationStatus
  q_vd_Cursor :: string
  q_vd_StartedAt :: time
  q_vd_FinishedAt :: time
  q_vd_Scanned :: int
  q_vd_Copied :: int
  q_vd_Skipped :: int
  q_vd_Protected :: int
  q_vd_Retryable :: int
  q_vd_Attempts :: "VolumeDrainAttempt list"

record ListVolumeDrainOperationsRequest =
  q_lvd_SourceVolumeID :: string
  q_lvd_TargetVolumeID :: string
  q_lvd_Status :: VolumeDrainOperationStatus
  q_lvd_Limit :: int

record AcquireWorkerLeaseRequest =
  q_wl_WorkerKind :: string
  q_wl_ShardID :: string
  q_wl_OwnerID :: string
  q_wl_TTL :: duration
  q_wl_Cursor :: string

record ReleaseWorkerLeaseRequest =
  q_rw_WorkerKind :: string
  q_rw_ShardID :: string
  q_rw_OwnerID :: string

record ListWorkerLeasesRequest =
  q_lwl_WorkerKind :: string
  q_lwl_ShardID :: string
  q_lwl_Limit :: int

record PutWorkerOperationRequest =
  q_wo_WorkerKind :: string
  q_wo_ShardID :: string
  q_wo_OwnerID :: string
  q_wo_LeaseID :: string
  q_wo_Status :: WorkerOperationStatus
  q_wo_Cursor :: string
  q_wo_Scanned :: int
  q_wo_Processed :: int
  q_wo_Skipped :: int
  q_wo_Retryable :: int
  q_wo_LastError :: string
  q_wo_StartedAt :: time
  q_wo_FinishedAt :: time

record ListWorkerOperationsRequest =
  q_lwo_WorkerKind :: string
  q_lwo_ShardID :: string
  q_lwo_Status :: WorkerOperationStatus
  q_lwo_Limit :: int

record PutWorkerControlRequest =
  q_wc_WorkerKind :: string
  q_wc_ShardID :: string
  q_wc_State :: WorkerControlState
  q_wc_Reason :: string
  q_wc_UpdatedBy :: string

record GetWorkerControlRequest =
  q_gwc_WorkerKind :: string
  q_gwc_ShardID :: string

record PublishSharedObjectRequest =
  q_ps_BucketID :: string
  q_ps_Key :: string
  q_ps_VersionID :: string

record ListSharedObjectsRequest =
  q_lso_TenantID :: string
  q_lso_BucketID :: string
  q_lso_Key :: string
  q_lso_Limit :: int

record AttachObjectVersionToSharedObjectRequest =
  q_as_SharedObjectID :: string
  q_as_BucketID :: string
  q_as_Key :: string
  q_as_VersionID :: string

record PublishObjectVersionRefsRequest =
  q_pr_BucketID :: string
  q_pr_Key :: string
  q_pr_VersionID :: string
  q_pr_ExpectedSourceVolumeID :: string
  q_pr_SegmentRefs :: "SegmentRef list"

record PublishObjectVersionRefsResult =
  prr_Version :: ObjectVersion
  prr_PreviousSegmentRefs :: "SegmentRef list"

record ListSharedObjectRefsRequest =
  q_lsf_SharedObjectID :: string
  q_lsf_BucketID :: string
  q_lsf_Key :: string
  q_lsf_VersionID :: string
  q_lsf_Limit :: int

record RepairSharedObjectRefCountsRequest =
  q_rs_SharedObjectID :: string
  q_rs_Limit :: int

record RepairListIndexesRequest =
  q_ri_BucketID :: string
  q_ri_Limit :: int
  q_ri_Apply :: bool

record CreateMultipartUploadRequest =
  q_cm_BucketID :: string
  q_cm_Key :: string
  q_cm_ContentType :: string
  q_cm_StorageClass :: StorageClassSnapshot
  q_cm_ServerSideEncryption :: ServerSideEncryption
  q_cm_UserMetadata :: strmap
  q_cm_Tags :: strmap
  q_cm_ObjectLockRetention :: ObjectLockRetention
  q_cm_ObjectLockLegalHold :: ObjectLockLegalHoldStatus

record ListMultipartUploadsRequest =
  q_lm_BucketID :: string
  q_lm_Prefix :: string
  q_lm_Delimiter :: string
  q_lm_KeyMarker :: string
  q_lm_UploadIDMarker :: string
  q_lm_MaxUploads :: int

record MultipartUploadRequest =
  q_mu_BucketID :: string
  q_mu_Key :: string
  q_mu_UploadID :: string

record GetMultipartPartsRequest =
  q_gp_BucketID :: string
  q_gp_Key :: string
  q_gp_UploadID :: string
  q_gp_PartNumbers :: "int list"

record PrepareMultipartCompletionRequest =
  q_pm_BucketID :: string
  q_pm_Key :: string
  q_pm_UploadID :: string
  q_pm_ObjectVersionID :: string
  q_pm_ExpectedHeadVersionID :: string
  q_pm_ETag :: string
  q_pm_SizeBytes :: int
  q_pm_PartCount :: int

record MultipartCompletionStateRequest =
  q_ms2_BucketID :: string
  q_ms2_Key :: string
  q_ms2_UploadID :: string

record CompleteMultipartUploadRequest =
  q_cu_BucketID :: string
  q_cu_Key :: string
  q_cu_UploadID :: string
  q_cu_ObjectVersionID :: string
  q_cu_ETag :: string
  q_cu_SizeBytes :: int
  q_cu_PartCount :: int

record CleanupMultipartUploadPartsRequest =
  q_cl_BucketID :: string
  q_cl_Key :: string
  q_cl_UploadID :: string
  q_cl_Limit :: int

record CleanupMultipartUploadPartsResult =
  clr_Upload :: MultipartUpload
  clr_DeletedParts :: int
  clr_HasMore :: bool

record PutMultipartPartRequest =
  q_pp_BucketID :: string
  q_pp_Key :: string
  q_pp_UploadID :: string
  q_pp_PartNumber :: int
  q_pp_SizeBytes :: int
  q_pp_ETag :: string
  q_pp_SegmentRef :: SegmentRef

type_synonym PutObjectVersionRequest = BeginPutObjectRequest


end
