(* ===== verification/Repo.thy ===== *)
theory Repo
  imports Requests
begin

text \<open>
  The state of the in-memory metadata repository
  (\<open>internal/meta/memory/repository.go\<close>) and what its operations take from outside.

  \<^item> The mutex makes every operation one atomic step, so an operation is a function from
    its arguments and the repository to a result and the repository after the call:
    \<open>(error + 'a) \<times> Repository\<close>.
  \<^item> \<open>r.now()\<close>: an operation takes the readings it makes as arguments, \<open>now\<close>
    where it reads the clock once and \<open>clk\<close> (\<open>clk i\<close> is the i-th reading) where
    it reads it several times. Nothing ties the readings to each other.
  \<^item> \<open>r.ids.NewID\<close>: an operation that draws identifiers takes the successive answers of
    the generator as \<open>ids\<close>; \<open>ids i\<close> is the answer of the i-th attempt, \<open>None\<close>
    an error.
  \<^item> SHA-256, JSON encoding and RFC 3339 time formatting are the fields of \<open>Env\<close>: the
    code uses the digest as an identifier, the JSON text of a version or chunk only for its
    length and that of an audit payload only as the input of the digest.
\<close>

named_theorems repo_ops "the operations of the repository"
named_theorems repo_aux "its internal helpers"

type_synonym 'a result = "error + 'a"
type_synonym clock = "nat \<Rightarrow> time"
type_synonym id_source = "nat \<Rightarrow> string option"

text \<open>The struct \<open>auditEventHash\<close> encodes: the event without its own hash, its time as text.\<close>

record AuditPayload =
  apl_EventID :: string
  apl_Action :: AuditAction
  apl_BucketID :: string
  apl_Key :: string
  apl_VersionID :: string
  apl_RequestID :: string
  apl_Reason :: string
  apl_Principal :: AuditPrincipal
  apl_Details :: strmap
  apl_PreviousHash :: string
  apl_CreatedAt :: string

record Env =
  sha256_hex :: "string \<Rightarrow> string"
  json_version_len :: "ObjectVersion \<Rightarrow> int option"
  json_chunk_len :: "ObjectManifestChunk \<Rightarrow> int option"
  json_audit :: "AuditPayload \<Rightarrow> string"
  rfc3339nano :: "time \<Rightarrow> string"

type_synonym objectKey = "string \<times> string"
type_synonym versionKey = "string \<times> string \<times> string"
type_synonym uploadKey = "string \<times> string \<times> string"
type_synonym partKey = "string \<times> string \<times> string \<times> int"
type_synonym sharedObjectReleaseKey = "string \<times> string"

record Repository =
  r_metadataSchema :: MetadataSchemaRecord
  r_tenants :: "(string, Tenant) gomap"
  r_tenantQuotas :: "(string, TenantQuota) gomap"
  r_tenantUsages :: "(string, TenantUsage) gomap"
  r_accessKeys :: "(string, AccessKey) gomap"
  r_kmsKeys :: "(string, KMSKeyRecord) gomap"
  r_profiles :: "(string, ComplianceProfileAttachment) gomap"
  r_bucketsByID :: "(string, Bucket) gomap"
  r_bucketNameToID :: "(string, string) gomap"
  r_bucketQuotas :: "(string, BucketQuota) gomap"
  r_heads :: "(objectKey, ObjectHead) gomap"
  r_versions :: "(versionKey, ObjectVersion) gomap"
  r_uploads :: "(uploadKey, MultipartUpload) gomap"
  r_completions :: "(uploadKey, MultipartCompletionRecord) gomap"
  r_parts :: "(partKey, MultipartPart) gomap"
  r_nextAuditID :: int
  r_auditHeadHash :: string
  r_auditEvents :: "AuditEvent list"
  r_protectedRefs :: "(string, ProtectedRef) gomap"
  r_gcCandidates :: "(string, GCCandidateRecord) gomap"
  r_nextMigrationOpID :: int
  r_migrationOps :: "MetadataMigrationOperationRecord list"
  r_nextGCOpID :: int
  r_gcOperations :: "GCOperationRecord list"
  r_nextDedupeOpID :: int
  r_dedupeOps :: "DedupeOperationRecord list"
  r_dedupeLocks :: "(string, DedupeOperationLock) gomap"
  r_nextWorkerOpID :: int
  r_workerOps :: "WorkerOperationRecord list"
  r_workerLeases :: "(string, WorkerLease) gomap"
  r_workerControls :: "(string, WorkerControlRecord) gomap"
  r_sharedReleases :: "(sharedObjectReleaseKey, SharedObjectRelease) gomap"
  r_sharedObjects :: "(string, SharedObject) gomap"
  r_sharedRefs :: "(string, SharedObjectRef) gomap"
  r_volumePools :: "(string, VolumePool) gomap"
  r_nextDrainOpID :: int
  r_drainOps :: "VolumeDrainOperationRecord list"

section \<open>The metadata schema record\<close>

definition CurrentMetadataSchemaVersion :: int where
  "CurrentMetadataSchemaVersion = 1"

definition MinimumMetadataReaderVersion :: int where
  "MinimumMetadataReaderVersion = 1"

definition MinimumMetadataWriterVersion :: int where
  "MinimumMetadataWriterVersion = 1"

definition DefaultMetadataSchemaRecord :: "time \<Rightarrow> MetadataSchemaRecord" where
  "DefaultMetadataSchemaRecord now =
     \<lparr>ms_SchemaVersion = CurrentMetadataSchemaVersion,
      ms_MinReaderVersion = MinimumMetadataReaderVersion,
      ms_MinWriterVersion = MinimumMetadataWriterVersion,
      ms_UpdatedBy = ''namros'', ms_CreatedAt = now, ms_UpdatedAt = now\<rparr>"

definition ValidateMetadataSchemaRecord :: "MetadataSchemaRecord \<Rightarrow> error option" where
  "ValidateMetadataSchemaRecord rec =
     (if ms_SchemaVersion rec \<le> 0 then Some ErrInvalidArgument
      else if ms_MinReaderVersion rec \<le> 0 then Some ErrInvalidArgument
      else if ms_MinWriterVersion rec \<le> 0 then Some ErrInvalidArgument
      else if ms_MinReaderVersion rec > ms_SchemaVersion rec then Some ErrInvalidArgument
      else if ms_MinWriterVersion rec > ms_SchemaVersion rec then Some ErrInvalidArgument
      else None)"

definition MetadataSchemaRecordFromRequest ::
  "PutMetadataSchemaRequest \<Rightarrow> time \<Rightarrow> MetadataSchemaRecord \<Rightarrow> MetadataSchemaRecord result" where
  "MetadataSchemaRecordFromRequest req now existing =
     (let by = TrimSpace (q_ms_UpdatedBy req);
          rec = \<lparr>ms_SchemaVersion = q_ms_SchemaVersion req,
             ms_MinReaderVersion =
               (if q_ms_MinReaderVersion req = 0 then q_ms_SchemaVersion req
                else q_ms_MinReaderVersion req),
             ms_MinWriterVersion =
               (if q_ms_MinWriterVersion req = 0 then q_ms_SchemaVersion req
                else q_ms_MinWriterVersion req),
             ms_UpdatedBy = (if by = [] then ''namros'' else by),
             ms_CreatedAt = (if ms_CreatedAt existing = 0 then now else ms_CreatedAt existing),
             ms_UpdatedAt = now\<rparr>
      in case ValidateMetadataSchemaRecord rec of Some e \<Rightarrow> Inl e | None \<Rightarrow> Inr rec)"

datatype MetadataSchemaStatus =
    MetadataSchemaStatusCurrent
  | MetadataSchemaStatusMigration
  | MetadataSchemaStatusUnsupported
  | MetadataSchemaStatusError

record MetadataSchemaPosture =
  msp_Status :: MetadataSchemaStatus
  msp_Reason :: string
  msp_CurrentVersion :: int
  msp_MinimumReaderVersion :: int
  msp_MinimumWriterVersion :: int
  msp_Record :: "MetadataSchemaRecord option" \<comment> \<open>\<open>None\<close> for the zero record\<close>
  msp_MigrationRequired :: bool
  msp_UnsupportedFuture :: bool
  msp_Error :: bool \<comment> \<open>whether the error text is set\<close>

definition MetadataSchemaPostureForRecord :: "MetadataSchemaRecord \<Rightarrow> MetadataSchemaPosture" where
  "MetadataSchemaPostureForRecord rec =
     (let out = \<lparr>msp_Status = MetadataSchemaStatusCurrent, msp_Reason = ''ok'',
             msp_CurrentVersion = CurrentMetadataSchemaVersion,
             msp_MinimumReaderVersion = MinimumMetadataReaderVersion,
             msp_MinimumWriterVersion = MinimumMetadataWriterVersion,
             msp_Record = Some rec, msp_MigrationRequired = False,
             msp_UnsupportedFuture = False, msp_Error = False\<rparr>
      in case ValidateMetadataSchemaRecord rec of
        Some e \<Rightarrow> out\<lparr>msp_Status := MetadataSchemaStatusMigration,
            msp_Reason := ''schema_record_invalid'', msp_MigrationRequired := True,
            msp_Error := True\<rparr>
      | None \<Rightarrow>
          if ms_SchemaVersion rec > CurrentMetadataSchemaVersion \<or>
             ms_MinReaderVersion rec > CurrentMetadataSchemaVersion
          then out\<lparr>msp_Status := MetadataSchemaStatusUnsupported,
                 msp_Reason := ''schema_version_future'', msp_UnsupportedFuture := True\<rparr>
          else if ms_SchemaVersion rec < CurrentMetadataSchemaVersion \<or>
             ms_MinWriterVersion rec < MinimumMetadataWriterVersion
          then out\<lparr>msp_Status := MetadataSchemaStatusMigration,
                 msp_Reason := ''schema_version_behind'', msp_MigrationRequired := True\<rparr>
          else out)"

definition NewWithClock :: "time \<Rightarrow> Repository" where
  "NewWithClock now =
     \<lparr>r_metadataSchema = DefaultMetadataSchemaRecord now,
      r_tenants = [], r_tenantQuotas = [], r_tenantUsages = [], r_accessKeys = [],
      r_kmsKeys = [], r_profiles = [], r_bucketsByID = [], r_bucketNameToID = [],
      r_bucketQuotas = [], r_heads = [], r_versions = [], r_uploads = [], r_completions = [],
      r_parts = [], r_nextAuditID = 0, r_auditHeadHash = [], r_auditEvents = [],
      r_protectedRefs = [], r_gcCandidates = [], r_nextMigrationOpID = 0, r_migrationOps = [],
      r_nextGCOpID = 0, r_gcOperations = [], r_nextDedupeOpID = 0, r_dedupeOps = [],
      r_dedupeLocks = [], r_nextWorkerOpID = 0, r_workerOps = [], r_workerLeases = [],
      r_workerControls = [], r_sharedReleases = [], r_sharedObjects = [], r_sharedRefs = [],
      r_volumePools = [], r_nextDrainOpID = 0, r_drainOps = []\<rparr>"

definition GetMetadataSchema :: "Repository \<Rightarrow> MetadataSchemaRecord result" where
  "GetMetadataSchema r =
     (if ms_SchemaVersion (r_metadataSchema r) = 0 then Inl ErrNotFound
      else Inr (r_metadataSchema r))"

definition CheckMetadataSchema :: "Repository option \<Rightarrow> MetadataSchemaPosture" where
  "CheckMetadataSchema repo =
     (let out = \<lparr>msp_Status = MetadataSchemaStatusError,
             msp_Reason = ''metadata_repository_missing'',
             msp_CurrentVersion = CurrentMetadataSchemaVersion,
             msp_MinimumReaderVersion = MinimumMetadataReaderVersion,
             msp_MinimumWriterVersion = MinimumMetadataWriterVersion,
             msp_Record = None, msp_MigrationRequired = False,
             msp_UnsupportedFuture = False, msp_Error = True\<rparr>
      in case repo of
        None \<Rightarrow> out
      | Some r \<Rightarrow>
          (case GetMetadataSchema r of
             Inl ErrNotFound \<Rightarrow>
               out\<lparr>msp_Status := MetadataSchemaStatusMigration,
                   msp_Reason := ''schema_record_missing'', msp_MigrationRequired := True,
                   msp_Error := False\<rparr>
           | Inl e \<Rightarrow> out\<lparr>msp_Reason := ''schema_record_unavailable'', msp_Error := True\<rparr>
           | Inr rec \<Rightarrow> MetadataSchemaPostureForRecord rec))"

definition PutMetadataSchema ::
  "time \<Rightarrow> PutMetadataSchemaRequest \<Rightarrow> Repository \<Rightarrow> MetadataSchemaRecord result \<times> Repository" where
  "PutMetadataSchema now req r =
     (case MetadataSchemaRecordFromRequest req now (r_metadataSchema r) of
        Inl e \<Rightarrow> (Inl e, r)
      | Inr rec \<Rightarrow> (Inr rec, r\<lparr>r_metadataSchema := rec\<rparr>))"

lemma MetadataSchemaRecordFromRequest_valid:
  "MetadataSchemaRecordFromRequest req now old = Inr rec \<Longrightarrow>
     ValidateMetadataSchemaRecord rec = None"
  by (auto simp: MetadataSchemaRecordFromRequest_def Let_def split: option.splits)

lemma NewWithClock_schema_valid:
  "ValidateMetadataSchemaRecord (r_metadataSchema (NewWithClock now)) = None"
  by (simp add: NewWithClock_def DefaultMetadataSchemaRecord_def ValidateMetadataSchemaRecord_def
      CurrentMetadataSchemaVersion_def MinimumMetadataReaderVersion_def
      MinimumMetadataWriterVersion_def)

lemma PutMetadataSchema_valid:
  "ValidateMetadataSchemaRecord (r_metadataSchema r) = None \<Longrightarrow>
     ValidateMetadataSchemaRecord (r_metadataSchema (snd (PutMetadataSchema now req r))) = None"
  by (auto simp: PutMetadataSchema_def dest: MetadataSchemaRecordFromRequest_valid
      split: sum.splits)

text \<open>A concrete environment, at which theorems about any environment are instantiated: the
  digest is the identity, a segment reference takes 8 MiB of JSON, times print as integers.\<close>

definition demo_env :: Env where
  "demo_env =
     \<lparr>sha256_hex = (\<lambda>s. s),
      json_version_len = (\<lambda>v. Some (8388608 * int (length (ov_SegmentRefs v)))),
      json_chunk_len = (\<lambda>c. Some (8388608 * int (length (omc_SegmentRefs c)))),
      json_audit = (\<lambda>p. apl_EventID p @ CHR 0x2F # apl_Reason p @ CHR 0x2F # apl_PreviousHash p),
      rfc3339nano = Itoa\<rparr>"

lemma demo_env_simps [simp]:
  "sha256_hex demo_env s = s"
  "json_version_len demo_env v = Some (8388608 * int (length (ov_SegmentRefs v)))"
  "json_chunk_len demo_env c = Some (8388608 * int (length (omc_SegmentRefs c)))"
  "json_audit demo_env p = apl_EventID p @ CHR 0x2F # apl_Reason p @ CHR 0x2F # apl_PreviousHash p"
  "rfc3339nano demo_env t = Itoa t"
  by (simp_all add: demo_env_def)

end
