(* ===== verification/Ids.thy ===== *)
theory Ids
  imports Repo
begin

text \<open>
  Identifier generation (\<open>internal/meta/id/id.go\<close>) and the bounded retry loop with
  which the repository draws identifiers that are not taken.

  \<open>ProcessGenerator.NewID\<close> gives up its lock while it waits for the clock, so its unit of
  atomicity is one turn of the loop in \<open>nextTimestampAndSequenceLocked\<close>: it issues a
  (timestamp, sequence) pair, fails, or retries. The theorems speak of any sequence of turns,
  by any callers: the pairs issued strictly increase, and so do the identifiers of a kind as
  strings, which is why the newest version of an object has the greatest sort key.
\<close>

section \<open>The generator\<close>

datatype Kind = KindBucket | KindVersion | KindUpload | Kind_Other string

primrec Kind_text :: "Kind \<Rightarrow> string" where
  "Kind_text KindBucket = ''bkt''"
| "Kind_text KindVersion = ''ver''"
| "Kind_text KindUpload = ''upl''"
| "Kind_text (Kind_Other s) = s"

definition Kind_Valid :: "Kind \<Rightarrow> bool" where
  "Kind_Valid k = (case k of KindBucket \<Rightarrow> True | KindVersion \<Rightarrow> True | KindUpload \<Rightarrow> True
                   | Kind_Other s \<Rightarrow> False)"

definition timeWidth :: nat where "timeWidth = 13"
definition generatorWidth :: nat where "generatorWidth = 10"
definition sequenceWidth :: nat where "sequenceWidth = 4"
definition entropyWidth :: nat where "entropyWidth = 6"
definition maxSequence :: u64 where "maxSequence = 36 * 36 * 36 * 36 - 1"

record ProcessGenerator =
  pg_generatorID :: string
  pg_lastUnixNano :: u64
  pg_sequence :: u64

definition base36_char :: "nat \<Rightarrow> char" where
  "base36_char d = (if d < 10 then char_of (48 + d) else char_of (87 + d))"

definition formatBase36 :: "u64 \<Rightarrow> nat \<Rightarrow> string" where
  "formatBase36 value width = map base36_char (fixed_digits 36 width (unat value))"

definition crockfordAlphabet :: string where
  "crockfordAlphabet = ''0123456789abcdefghjkmnpqrstvwxyz''"

definition randomCrockford :: "string option \<Rightarrow> nat \<Rightarrow> string option" where
  \<comment> \<open>the bytes the entropy reader delivers for one \<open>io.ReadFull\<close>, or its error\<close>
  "randomCrockford bytes width =
     (case bytes of
        None \<Rightarrow> None
      | Some bs \<Rightarrow> if length bs < width then None
                   else Some (map (\<lambda>c. crockfordAlphabet ! (of_char c mod 32)) (take width bs)))"

definition validToken :: "string \<Rightarrow> nat \<Rightarrow> string \<Rightarrow> bool" where
  "validToken value width alphabet \<longleftrightarrow> length value = width \<and> list_all (\<lambda>c. c \<in> set alphabet) value"

datatype turn = Clock_Error | Issued u64 u64 | Retry

definition timestamp_turn :: "int \<Rightarrow> ProcessGenerator \<Rightarrow> turn \<times> ProcessGenerator" where
  "timestamp_turn now g =
     (if now < 0 then (Clock_Error, g)
      else let timestamp = word_of_int now :: u64
           in if timestamp > pg_lastUnixNano g
              then (Issued timestamp 0, g\<lparr>pg_lastUnixNano := timestamp, pg_sequence := 0\<rparr>)
              else if timestamp = pg_lastUnixNano g \<and> pg_sequence g < maxSequence
              then (Issued timestamp (pg_sequence g + 1), g\<lparr>pg_sequence := pg_sequence g + 1\<rparr>)
              else (Retry, g))"

partial_function (option) nextTimestampAndSequenceLocked ::
  "(nat \<Rightarrow> int) \<Rightarrow> nat \<Rightarrow> ProcessGenerator \<Rightarrow> ((u64 \<times> u64) option \<times> ProcessGenerator) option" where
  "nextTimestampAndSequenceLocked clk i g =
     (case timestamp_turn (clk i) g of
        (Clock_Error, g') \<Rightarrow> Some (None, g')
      | (Issued t s, g') \<Rightarrow> Some (Some (t, s), g')
      | (Retry, g') \<Rightarrow> nextTimestampAndSequenceLocked clk (Suc i) g')"

definition format_id :: "Kind \<Rightarrow> string \<Rightarrow> u64 \<Rightarrow> u64 \<Rightarrow> string \<Rightarrow> string" where
  "format_id kind gid timestamp sq entropy =
     Kind_text kind @ ''_'' @ formatBase36 timestamp timeWidth @ ''_'' @ gid @ ''_'' @
     formatBase36 sq sequenceWidth @ ''_'' @ entropy"

definition NewID ::
  "(nat \<Rightarrow> int) \<Rightarrow> string option \<Rightarrow> Kind \<Rightarrow> ProcessGenerator \<Rightarrow> (string option \<times> ProcessGenerator) option" where
  "NewID clk bytes kind g =
     (if \<not> Kind_Valid kind then Some (None, g)
      else case nextTimestampAndSequenceLocked clk 0 g of
        None \<Rightarrow> None
      | Some (None, g') \<Rightarrow> Some (None, g')
      | Some (Some (t, s), g') \<Rightarrow>
          (case randomCrockford bytes entropyWidth of
             None \<Rightarrow> Some (None, g')
           | Some entropy \<Rightarrow> Some (Some (format_id kind (pg_generatorID g') t s entropy), g')))"

text \<open>The generator tests use: a fixed list of identifiers per kind.\<close>

record DeterministicGenerator =
  dg_values :: "(Kind, string list) gomap"
  dg_next :: "(Kind, nat) gomap"

definition NewDeterministicGenerator :: "(Kind, string list) gomap \<Rightarrow> DeterministicGenerator" where
  "NewDeterministicGenerator values = \<lparr>dg_values = values, dg_next = []\<rparr>"

definition Deterministic_NewID ::
  "Kind \<Rightarrow> DeterministicGenerator \<Rightarrow> string option \<times> DeterministicGenerator" where
  "Deterministic_NewID kind g =
     (if \<not> Kind_Valid kind then (None, g)
      else let index = map_get 0 (dg_next g) kind; ids = map_get [] (dg_values g) kind
           in if index \<ge> length ids then (None, g)
              else (Some (ids ! index), g\<lparr>dg_next := map_put kind (index + 1) (dg_next g)\<rparr>))"

section \<open>Issued pairs increase\<close>

fun run_turns :: "int list \<Rightarrow> ProcessGenerator \<Rightarrow> (u64 \<times> u64) list \<times> ProcessGenerator" where
  "run_turns [] g = ([], g)"
| "run_turns (now # nows) g =
     (case timestamp_turn now g of
        (Issued t s, g') \<Rightarrow> (case run_turns nows g' of (ps, g'') \<Rightarrow> ((t, s) # ps, g''))
      | (_, g') \<Rightarrow> run_turns nows g')"

definition pair_less :: "u64 \<times> u64 \<Rightarrow> u64 \<times> u64 \<Rightarrow> bool" where
  "pair_less p q \<longleftrightarrow> fst p < fst q \<or> fst p = fst q \<and> snd p < snd q"

lemma pair_less_trans: "pair_less p q \<Longrightarrow> pair_less q s \<Longrightarrow> pair_less p s"
  by (auto simp: pair_less_def)

lemma timestamp_turn_issued:
  assumes "timestamp_turn now g = (Issued t s, g')" "pg_sequence g \<le> maxSequence"
  shows "pair_less (pg_lastUnixNano g, pg_sequence g) (t, s)"
    and "pg_lastUnixNano g' = t" "pg_sequence g' = s" "s \<le> maxSequence"
proof -
  have inc: "pg_sequence g < pg_sequence g + 1" if "pg_sequence g < maxSequence"
    using that by (metis inc_less_eq_self_iff_eq linorder_not_less word_order.extremum leD)
  show "pair_less (pg_lastUnixNano g, pg_sequence g) (t, s)"
    using assms inc by (auto simp: timestamp_turn_def Let_def pair_less_def split: if_splits)
  show "pg_lastUnixNano g' = t" "pg_sequence g' = s"
    using assms by (auto simp: timestamp_turn_def Let_def split: if_splits)
  show "s \<le> maxSequence"
    using assms by (auto simp: timestamp_turn_def Let_def inc_le split: if_splits)
qed

lemma timestamp_turn_other:
  "timestamp_turn now g = (Retry, g') \<Longrightarrow> g' = g"
  "timestamp_turn now g = (Clock_Error, g') \<Longrightarrow> g' = g"
  by (auto simp: timestamp_turn_def Let_def split: if_splits)

lemma run_turns_increasing:
  "run_turns nows g = (ps, g') \<Longrightarrow> pg_sequence g \<le> maxSequence \<Longrightarrow>
     sorted_wrt pair_less ((pg_lastUnixNano g, pg_sequence g) # ps)"
proof (induction nows arbitrary: g ps g')
  case Nil
  then show ?case by simp
next
  case (Cons now nows)
  obtain tn g1 where turn: "timestamp_turn now g = (tn, g1)" by fastforce
  show ?case
  proof (cases tn)
    case (Issued t s)
    with turn have tt: "timestamp_turn now g = (Issued t s, g1)" by simp
    obtain qs where qs: "run_turns nows g1 = (qs, g')" and ps: "ps = (t, s) # qs"
      using Cons.prems(1) tt by (auto split: prod.splits)
    note issued = timestamp_turn_issued [OF tt Cons.prems(2)]
    have "sorted_wrt pair_less ((t, s) # qs)"
      using Cons.IH [OF qs] issued by simp
    with issued(1) ps show ?thesis by (auto intro: pair_less_trans)
  next
    case Clock_Error
    with turn Cons show ?thesis by (auto dest: timestamp_turn_other)
  next
    case Retry
    with turn Cons show ?thesis by (auto dest: timestamp_turn_other)
  qed
qed

section \<open>Identifiers sort by age\<close>

lemma base36_mono: "x < y \<Longrightarrow> y < 36 \<Longrightarrow> base36_char x < base36_char y"
  by (auto simp: base36_char_def less_char_def)

lemma formatBase36_less:
  assumes "v < v'" "unat v' < 36 ^ w"
  shows "formatBase36 v w < formatBase36 v' w"
proof -
  have "fixed_digits 36 w (unat v) < fixed_digits 36 w (unat v')"
    using assms by (intro fixed_digits_less) (auto simp: word_less_nat_alt)
  moreover have "set (fixed_digits 36 w n) \<subseteq> {..<36}" for n
    using set_fixed_digits [of 36] by auto
  ultimately show ?thesis unfolding formatBase36_def
    by (intro map_less_mono [where A = "{..<36}"]) (auto intro: base36_mono)
qed

lemma length_formatBase36 [simp]: "length (formatBase36 v w) = w"
  by (simp add: formatBase36_def)

lemma append_less_append:
  "xs < ys \<Longrightarrow> length xs = length ys \<Longrightarrow> xs @ us < (ys @ vs :: 'a :: linorder list)"
  by (simp add: list_less_def lexord_sufI)

lemma append_left_less: "us < vs \<Longrightarrow> xs @ us < (xs @ vs :: 'a :: linorder list)"
  by (simp add: list_less_def lexord_append_leftI)

lemma time_fits: "unat (v :: u64) < 36 ^ timeWidth"
proof -
  have "unat v < 2 ^ 64" using unsigned_less [of v] by simp
  then show ?thesis by (simp add: timeWidth_def)
qed

lemma sequence_fits: "v \<le> maxSequence \<Longrightarrow> unat v < 36 ^ sequenceWidth"
  by (simp add: word_le_nat_alt maxSequence_def sequenceWidth_def)

lemma format_id_less:
  assumes "pair_less (t, s) (t', s')" "s' \<le> maxSequence"
  shows "format_id kind gid t s e < format_id kind gid t' s' e'"
proof (cases "t < t'")
  case True
  then have "formatBase36 t timeWidth < formatBase36 t' timeWidth"
    by (rule formatBase36_less) (rule time_fits)
  then show ?thesis unfolding format_id_def
    by (intro append_left_less append_less_append) simp_all
next
  case False
  with assms(1) have "t = t'" "s < s'" by (auto simp: pair_less_def)
  then have "formatBase36 s sequenceWidth < formatBase36 s' sequenceWidth"
    using assms(2) by (intro formatBase36_less sequence_fits)
  then show ?thesis unfolding format_id_def \<open>t = t'\<close>
    by (intro append_left_less append_less_append) simp_all
qed

text \<open>The loop ends as soon as the clock passes the last timestamp.\<close>

lemma next_returns:
  assumes "\<And>j. 0 \<le> clk j" "unat (pg_lastUnixNano g) < nat (clk (i + n))" "clk (i + n) < 2 ^ 63"
  shows "\<exists>t s g'. nextTimestampAndSequenceLocked clk i g = Some (Some (t, s), g')"
  using assms(2,3)
proof (induction n arbitrary: i)
  case 0
  have "pg_lastUnixNano g < word_of_int (clk i)"
    using 0 by (simp add: word_less_nat_alt unsigned_of_int take_bit_int_eq_self nat_take_bit_eq)
  moreover have "\<not> clk i < 0" using 0 by auto
  ultimately show ?case
    by (subst nextTimestampAndSequenceLocked.simps) (simp add: timestamp_turn_def Let_def)
next
  case (Suc n)
  obtain tn g1 where turn: "timestamp_turn (clk i) g = (tn, g1)" by fastforce
  have IH: "\<exists>t s g'. nextTimestampAndSequenceLocked clk (Suc i) g = Some (Some (t, s), g')"
    using Suc.prems by (intro Suc.IH) simp_all
  have "tn \<noteq> Clock_Error"
    using turn assms(1) [of i] by (auto simp: timestamp_turn_def Let_def split: if_splits)
  then show ?case
    using turn IH timestamp_turn_other
    by (subst nextTimestampAndSequenceLocked.simps) (cases tn; fastforce)
qed

section \<open>Drawing a fresh identifier\<close>

definition idCollisionRetryLimit :: nat where
  "idCollisionRetryLimit = 8"

fun draw_id :: "(string \<Rightarrow> bool) \<Rightarrow> id_source \<Rightarrow> nat \<Rightarrow> nat \<Rightarrow> string result" where
  "draw_id taken ids i 0 = Inl ErrUnavailable"
| "draw_id taken ids i (Suc n) =
     (case ids i of
        None \<Rightarrow> Inl ErrUnavailable
      | Some x \<Rightarrow> if taken x then draw_id taken ids (Suc i) n else Inr x)"

lemma draw_id_fresh: "draw_id taken ids i n = Inr x \<Longrightarrow> \<not> taken x"
  by (induction n arbitrary: i) (auto split: option.splits if_splits)

lemma draw_id_source: "draw_id taken ids i n = Inr x \<Longrightarrow> \<exists>j. i \<le> j \<and> j < i + n \<and> ids j = Some x"
proof (induction n arbitrary: i)
  case 0
  then show ?case by simp
next
  case (Suc n)
  then obtain y where y: "ids i = Some y" by (auto split: option.splits)
  show ?case
  proof (cases "taken y")
    case True
    with Suc.prems y have "draw_id taken ids (Suc i) n = Inr x" by simp
    from Suc.IH [OF this] obtain j where "Suc i \<le> j" "j < Suc i + n" "ids j = Some x" by blast
    then show ?thesis by (intro exI [of _ j]) simp
  next
    case False
    with Suc.prems y show ?thesis by (intro exI [of _ i]) simp
  qed
qed

lemma draw_id_error: "draw_id taken ids i n = Inl e \<Longrightarrow> e = ErrUnavailable"
  by (induction n arbitrary: i) (auto split: option.splits if_splits)

lemma draw_id_first: "ids i = Some x \<Longrightarrow> \<not> taken x \<Longrightarrow> draw_id taken ids i (Suc n) = Inr x"
  by simp

text \<open>The contract of the three allocation loops of the repository: an identifier they
  return is not taken and comes from the generator within the retry budget; they fail only
  with \<open>ErrUnavailable\<close>, and never when the first answer is free.\<close>

locale id_allocator =
  fixes alloc :: "id_source \<Rightarrow> 's \<Rightarrow> string result"
    and taken :: "'s \<Rightarrow> string \<Rightarrow> bool"
  assumes alloc_fresh: "alloc ids s = Inr x \<Longrightarrow> \<not> taken s x"
    and alloc_source: "alloc ids s = Inr x \<Longrightarrow> \<exists>i < idCollisionRetryLimit. ids i = Some x"
    and alloc_error: "alloc ids s = Inl e \<Longrightarrow> e = ErrUnavailable"
    and alloc_first: "ids 0 = Some x \<Longrightarrow> \<not> taken s x \<Longrightarrow> alloc ids s = Inr x"
begin

lemma alloc_nonempty: "(\<And>i. ids i \<noteq> Some []) \<Longrightarrow> alloc ids s = Inr x \<Longrightarrow> x \<noteq> []"
  using alloc_source by blast

lemma alloc_predicate:
  "(\<And>i x. ids i = Some x \<Longrightarrow> P x) \<Longrightarrow> alloc ids s = Inr x \<Longrightarrow> P x"
  using alloc_source by blast

lemma alloc_total: "alloc ids s = Inl ErrUnavailable \<or> (\<exists>x. alloc ids s = Inr x)"
  using alloc_error by (cases "alloc ids s") auto

end

section \<open>Properties\<close>

lemma run_turns_bound:
  "run_turns nows g = (ps, g') \<Longrightarrow> pg_sequence g \<le> maxSequence \<Longrightarrow> \<forall>p \<in> set ps. snd p \<le> maxSequence"
proof (induction nows arbitrary: g ps g')
  case Nil
  then show ?case by simp
next
  case (Cons now nows)
  obtain tn g1 where turn: "timestamp_turn now g = (tn, g1)" by fastforce
  show ?case
  proof (cases tn)
    case (Issued t s)
    with turn have tt: "timestamp_turn now g = (Issued t s, g1)" by simp
    obtain qs where qs: "run_turns nows g1 = (qs, g')" and ps: "ps = (t, s) # qs"
      using Cons.prems(1) tt by (auto split: prod.splits)
    note issued = timestamp_turn_issued [OF tt Cons.prems(2)]
    show ?thesis using Cons.IH [OF qs] issued ps by simp
  next
    case Clock_Error
    with turn Cons.prems have "run_turns nows g = (ps, g')" by (auto dest: timestamp_turn_other)
    with Cons show ?thesis by blast
  next
    case Retry
    with turn Cons.prems have "run_turns nows g = (ps, g')" by (auto dest: timestamp_turn_other)
    with Cons show ?thesis by blast
  qed
qed



text \<open>C34 Drawing an identifier ends: with entropy available and a clock that at some later
  reading is past the last timestamp used, \<open>NewID\<close> returns an identifier, even if the
  clock stood still or ran backwards for any number of readings before.\<close>

theorem NewID_terminates:
  assumes "Kind_Valid kind" "entropyWidth \<le> length bytes" "\<And>j. 0 \<le> clk j"
    and "unat (pg_lastUnixNano g) < nat (clk n)" "clk n < 2 ^ 63"
  shows "\<exists>x g'. NewID clk (Some bytes) kind g = Some (Some x, g')"
proof -
  obtain t s g' where "nextTimestampAndSequenceLocked clk 0 g = Some (Some (t, s), g')"
    using next_returns [of clk g 0 n] assms(3-5) by auto
  then show ?thesis using assms(1,2) by (simp add: NewID_def randomCrockford_def)
qed

theorem NewID_terminates_witness:
  "\<exists>x g'. NewID (\<lambda>i. if i < 5 then 3 else 8) (Some ''abcdef'') KindUpload
     \<lparr>pg_generatorID = ''0000000000'', pg_lastUnixNano = 7, pg_sequence = 0\<rparr> = Some (Some x, g')"
  by (rule NewID_terminates [where n = 6]) (simp_all add: Kind_Valid_def entropyWidth_def)

end
