(* ===== verification/AuditLog.thy ===== *)
theory AuditLog
  imports Repo
begin

text \<open>
  The audit log: events are numbered, stamped and chained by hash
  (\<open>appendAuditEventLocked\<close>, \<open>auditEventHash\<close>), read back by filter
  (\<open>ListAuditEvents\<close>) and appended by operators (\<open>PutAdminAuditEvent(s)\<close>).
  The lemmas show that the chain is intact after any number of appends, that an append
  only ever adds, and that a chain is determined by its last hash.
\<close>

definition AuditActionGovernanceBypassDeleteObject :: AuditAction where
  "AuditActionGovernanceBypassDeleteObject = ''governance_bypass_delete_object''"
definition AuditActionGovernanceBypassPutObjectRetention :: AuditAction where
  "AuditActionGovernanceBypassPutObjectRetention = ''governance_bypass_put_object_retention''"
definition AuditActionPutBucketPolicy :: AuditAction where
  "AuditActionPutBucketPolicy = ''put_bucket_policy''"
definition AuditActionDeleteBucketPolicy :: AuditAction where
  "AuditActionDeleteBucketPolicy = ''delete_bucket_policy''"
definition AuditActionPutBucketLifecycle :: AuditAction where
  "AuditActionPutBucketLifecycle = ''put_bucket_lifecycle''"
definition AuditActionDeleteBucketLifecycle :: AuditAction where
  "AuditActionDeleteBucketLifecycle = ''delete_bucket_lifecycle''"
definition AuditActionPutBucketEncryption :: AuditAction where
  "AuditActionPutBucketEncryption = ''put_bucket_encryption''"
definition AuditActionDeleteBucketEncryption :: AuditAction where
  "AuditActionDeleteBucketEncryption = ''delete_bucket_encryption''"
definition AuditActionPutBucketObjectLock :: AuditAction where
  "AuditActionPutBucketObjectLock = ''put_bucket_object_lock''"
definition AuditActionPutObjectRetention :: AuditAction where
  "AuditActionPutObjectRetention = ''put_object_retention''"
definition AuditActionPutObjectLegalHold :: AuditAction where
  "AuditActionPutObjectLegalHold = ''put_object_legal_hold''"

section \<open>Building and appending events\<close>

definition auditEventHash :: "Env \<Rightarrow> AuditEvent \<Rightarrow> string" where
  "auditEventHash E ev =
     sha256_hex E (json_audit E
       \<lparr>apl_EventID = ae_EventID ev, apl_Action = ae_Action ev, apl_BucketID = ae_BucketID ev,
        apl_Key = ae_Key ev, apl_VersionID = ae_VersionID ev, apl_RequestID = ae_RequestID ev,
        apl_Reason = ae_Reason ev, apl_Principal = ae_Principal ev,
        apl_Details = ae_Details ev, apl_PreviousHash = ae_PreviousHash ev,
        apl_CreatedAt = rfc3339nano E (ae_CreatedAt ev)\<rparr>)"

definition appendAuditEventLocked :: "Env \<Rightarrow> time \<Rightarrow> AuditEvent \<Rightarrow> Repository \<Rightarrow> Repository" where
  "appendAuditEventLocked E now event r =
     (let n = wrap64 (r_nextAuditID r + 1);
          ev1 = event\<lparr>ae_EventID := ''audit-'' @ fmt_020d n, ae_CreatedAt := now,
                     ae_PreviousHash := r_auditHeadHash r\<rparr>;
          ev2 = ev1\<lparr>ae_EventHash := auditEventHash E ev1\<rparr>
      in r\<lparr>r_nextAuditID := n, r_auditHeadHash := ae_EventHash ev2,
           r_auditEvents := r_auditEvents r @ [ev2]\<rparr>)"

definition validGovernanceBypassAudit :: "AuditContext \<Rightarrow> bool" where
  "validGovernanceBypassAudit audit \<longleftrightarrow>
     TrimSpace (ac_Reason audit) \<noteq> [] \<and> TrimSpace (ap_AccessKeyID (ac_Principal audit)) \<noteq> []"

definition governanceBypassAuditEvent ::
  "DeleteObjectRequest \<Rightarrow> AuditAction \<Rightarrow> string \<Rightarrow> strmap \<Rightarrow> AuditEvent" where
  "governanceBypassAuditEvent req action versionID details =
     zero_AuditEvent\<lparr>ae_Action := action, ae_BucketID := q_do_BucketID req,
       ae_Key := q_do_Key req, ae_VersionID := versionID,
       ae_RequestID := ac_RequestID (q_do_BypassAudit req),
       ae_Reason := TrimSpace (ac_Reason (q_do_BypassAudit req)),
       ae_Principal := ac_Principal (q_do_BypassAudit req), ae_Details := details\<rparr>"

definition transitionAuditEvent ::
  "AuditContext \<Rightarrow> AuditAction \<Rightarrow> string \<Rightarrow> string \<Rightarrow> string \<Rightarrow> strmap \<Rightarrow> AuditEvent" where
  "transitionAuditEvent audit action bucketID key versionID details =
     (let trimmed = TrimSpace (ac_Reason audit);
          reason = (if trimmed = [] then action else trimmed)
      in zero_AuditEvent\<lparr>ae_Action := action, ae_BucketID := bucketID, ae_Key := key,
           ae_VersionID := versionID, ae_RequestID := ac_RequestID audit,
           ae_Reason := reason, ae_Principal := ac_Principal audit, ae_Details := details\<rparr>)"

definition FormatBool :: "bool \<Rightarrow> string" where
  "FormatBool b = (if b then ''true'' else ''false'')"

primrec ObjectLockMode_text :: "ObjectLockMode \<Rightarrow> string" where
  "ObjectLockMode_text ObjectLockMode_Unset = []"
| "ObjectLockMode_text ObjectLockModeGovernance = ''GOVERNANCE''"
| "ObjectLockMode_text ObjectLockModeCompliance = ''COMPLIANCE''"
| "ObjectLockMode_text (ObjectLockMode_Other s) = s"

primrec ObjectLockLegalHoldStatus_text :: "ObjectLockLegalHoldStatus \<Rightarrow> string" where
  "ObjectLockLegalHoldStatus_text ObjectLockLegalHoldStatus_Unset = []"
| "ObjectLockLegalHoldStatus_text ObjectLockLegalHoldOn = ''ON''"
| "ObjectLockLegalHoldStatus_text ObjectLockLegalHoldOff = ''OFF''"
| "ObjectLockLegalHoldStatus_text (ObjectLockLegalHoldStatus_Other s) = s"

primrec ServerSideEncryptionAlgorithm_text :: "ServerSideEncryptionAlgorithm \<Rightarrow> string" where
  "ServerSideEncryptionAlgorithm_text ServerSideEncryptionNone = []"
| "ServerSideEncryptionAlgorithm_text ServerSideEncryptionAES256 = ''AES256''"
| "ServerSideEncryptionAlgorithm_text ServerSideEncryptionAWSKMS = ''aws:kms''"
| "ServerSideEncryptionAlgorithm_text (ServerSideEncryptionAlgorithm_Other s) = s"

definition bucketObjectLockAuditDetails :: "BucketObjectLockConfiguration \<Rightarrow> strmap" where
  "bucketObjectLockAuditDetails config =
     (let ret = bol_DefaultRetention config;
          d0 = [(''enabled'', FormatBool (bol_Enabled config))];
          d1 = (if bdr_Mode ret \<noteq> ObjectLockMode_Unset
                then map_put ''default_retention_mode'' (ObjectLockMode_text (bdr_Mode ret)) d0 else d0);
          d2 = (if bdr_Days ret > 0
                then map_put ''default_retention_days'' (Itoa (bdr_Days ret)) d1 else d1)
      in if bdr_Years ret > 0
         then map_put ''default_retention_years'' (Itoa (bdr_Years ret)) d2 else d2)"

definition formatAuditTime :: "Env \<Rightarrow> time \<Rightarrow> string" where
  "formatAuditTime E t = (if t = 0 then [] else rfc3339nano E t)"

section \<open>Reading and operator appends\<close>

definition ListAuditEvents :: "ListAuditEventsRequest \<Rightarrow> Repository \<Rightarrow> AuditEvent list result" where
  "ListAuditEvents req r =
     (let limit = (if q_la_Limit req \<le> 0 then 1000 else q_la_Limit req);
          wanted = (\<lambda>ev. (q_la_BucketID req = [] \<or> ae_BucketID ev = q_la_BucketID req) \<and>
                         (q_la_Key req = [] \<or> ae_Key ev = q_la_Key req) \<and>
                         (q_la_Action req = [] \<or> ae_Action ev = q_la_Action req))
      in Inr (take (nat limit) (filter wanted (r_auditEvents r))))"

definition PutAdminAuditEvent ::
  "Env \<Rightarrow> time \<Rightarrow> PutAdminAuditEventRequest \<Rightarrow> Repository \<Rightarrow> AuditEvent result \<times> Repository" where
  "PutAdminAuditEvent E now req r =
     (if q_aa_Action req = [] then (Inl ErrInvalidArgument, r)
      else let r' = appendAuditEventLocked E now
                 (transitionAuditEvent (q_aa_Audit req) (q_aa_Action req) (q_aa_BucketID req)
                    (q_aa_Key req) (q_aa_VersionID req) (q_aa_Details req)) r
           in (Inr (last (r_auditEvents r')), r'))"

fun appendAdminAuditEvents ::
  "Env \<Rightarrow> clock \<Rightarrow> nat \<Rightarrow> PutAdminAuditEventRequest list \<Rightarrow> Repository \<Rightarrow> AuditEvent list \<times> Repository"
where
  "appendAdminAuditEvents E clk i [] r = ([], r)"
| "appendAdminAuditEvents E clk i (q # qs) r =
     (let r' = appendAuditEventLocked E (clk i)
            (transitionAuditEvent (q_aa_Audit q) (q_aa_Action q) (q_aa_BucketID q)
               (q_aa_Key q) (q_aa_VersionID q) (q_aa_Details q)) r;
          (evs, r'') = appendAdminAuditEvents E clk (Suc i) qs r'
      in (last (r_auditEvents r') # evs, r''))"

definition PutAdminAuditEvents ::
  "Env \<Rightarrow> clock \<Rightarrow> PutAdminAuditEventsRequest \<Rightarrow> Repository \<Rightarrow> AuditEvent list result \<times> Repository" where
  "PutAdminAuditEvents E clk req r =
     (if q_aas_Events req = [] then (Inr [], r)
      else if list_ex (\<lambda>q. q_aa_Action q = []) (q_aas_Events req) then (Inl ErrInvalidArgument, r)
      else let (evs, r') = appendAdminAuditEvents E clk 0 (q_aas_Events req) r in (Inr evs, r'))"

section \<open>What an append leaves alone\<close>

lemma append_audit_frame [simp]:
  "r_bucketsByID (appendAuditEventLocked E now ev r) = r_bucketsByID r"
  "r_bucketNameToID (appendAuditEventLocked E now ev r) = r_bucketNameToID r"
  "r_bucketQuotas (appendAuditEventLocked E now ev r) = r_bucketQuotas r"
  "r_heads (appendAuditEventLocked E now ev r) = r_heads r"
  "r_versions (appendAuditEventLocked E now ev r) = r_versions r"
  "r_uploads (appendAuditEventLocked E now ev r) = r_uploads r"
  "r_completions (appendAuditEventLocked E now ev r) = r_completions r"
  "r_parts (appendAuditEventLocked E now ev r) = r_parts r"
  "r_protectedRefs (appendAuditEventLocked E now ev r) = r_protectedRefs r"
  "r_tenants (appendAuditEventLocked E now ev r) = r_tenants r"
  "r_tenantQuotas (appendAuditEventLocked E now ev r) = r_tenantQuotas r"
  "r_tenantUsages (appendAuditEventLocked E now ev r) = r_tenantUsages r"
  "r_kmsKeys (appendAuditEventLocked E now ev r) = r_kmsKeys r"
  "r_sharedObjects (appendAuditEventLocked E now ev r) = r_sharedObjects r"
  "r_sharedRefs (appendAuditEventLocked E now ev r) = r_sharedRefs r"
  "r_metadataSchema (appendAuditEventLocked E now ev r) = r_metadataSchema r"
  "r_workerLeases (appendAuditEventLocked E now ev r) = r_workerLeases r"
  "r_dedupeLocks (appendAuditEventLocked E now ev r) = r_dedupeLocks r"
  by (simp_all add: appendAuditEventLocked_def Let_def)

lemma append_audit_events:
  "r_auditEvents (appendAuditEventLocked E now ev r) =
     r_auditEvents r @
     [let e = ev\<lparr>ae_EventID := ''audit-'' @ fmt_020d (wrap64 (r_nextAuditID r + 1)),
                ae_CreatedAt := now, ae_PreviousHash := r_auditHeadHash r\<rparr>
      in e\<lparr>ae_EventHash := auditEventHash E e\<rparr>]"
  by (simp add: appendAuditEventLocked_def Let_def)

section \<open>The hash chain\<close>

fun chained :: "Env \<Rightarrow> string \<Rightarrow> AuditEvent list \<Rightarrow> bool" where
  "chained E h [] = True"
| "chained E h (ev # evs) =
     (ae_PreviousHash ev = h \<and> ae_EventHash ev = auditEventHash E ev \<and> chained E (ae_EventHash ev) evs)"

fun last_hash :: "string \<Rightarrow> AuditEvent list \<Rightarrow> string" where
  "last_hash h [] = h"
| "last_hash h (ev # evs) = last_hash (ae_EventHash ev) evs"

definition audit_inv :: "Env \<Rightarrow> Repository \<Rightarrow> bool" where
  "audit_inv E r \<longleftrightarrow>
     chained E [] (r_auditEvents r) \<and> r_auditHeadHash r = last_hash [] (r_auditEvents r)"

lemma last_hash_snoc [simp]: "last_hash h (evs @ [ev]) = ae_EventHash ev"
  by (induction evs arbitrary: h) auto

lemma chained_snoc:
  "chained E h (evs @ [ev]) \<longleftrightarrow>
     chained E h evs \<and> ae_PreviousHash ev = last_hash h evs \<and> ae_EventHash ev = auditEventHash E ev"
  by (induction evs arbitrary: h) auto

lemma auditEventHash_ignores_hash [simp]:
  "auditEventHash E (ev\<lparr>ae_EventHash := h\<rparr>) = auditEventHash E ev"
  by (simp add: auditEventHash_def)

lemma audit_inv_New: "audit_inv E (NewWithClock now)"
  by (simp add: audit_inv_def NewWithClock_def)

lemma audit_inv_append: "audit_inv E r \<Longrightarrow> audit_inv E (appendAuditEventLocked E now ev r)"
  by (simp add: audit_inv_def appendAuditEventLocked_def Let_def chained_snoc)

lemma audit_inv_appendAdmin:
  "audit_inv E r \<Longrightarrow> audit_inv E (snd (appendAdminAuditEvents E clk i qs r))"
  by (induction qs arbitrary: i r) (auto simp: Let_def audit_inv_append case_prod_beta)

lemma audit_inv_PutAdminAuditEvent:
  "audit_inv E r \<Longrightarrow> audit_inv E (snd (PutAdminAuditEvent E now req r))"
  by (simp add: PutAdminAuditEvent_def Let_def audit_inv_append)

lemma audit_inv_PutAdminAuditEvents:
  "audit_inv E r \<Longrightarrow> audit_inv E (snd (PutAdminAuditEvents E clk req r))"
  using audit_inv_appendAdmin [of E r clk 0 "q_aas_Events req"]
  by (auto simp: PutAdminAuditEvents_def split: prod.splits)

lemma appendAdmin_length:
  "length (r_auditEvents (snd (appendAdminAuditEvents E clk i qs r))) =
     length (r_auditEvents r) + length qs"
  by (induction qs arbitrary: i r)
    (auto simp: Let_def append_audit_events case_prod_beta)

text \<open>Two chains of the same length with the same last hash are the same chain, when the
  hash does not collide on their events: changing, dropping or reordering an event of the
  log changes the head hash.\<close>

definition no_collision :: "Env \<Rightarrow> AuditEvent set \<Rightarrow> bool" where
  "no_collision E A \<longleftrightarrow>
     (\<forall>a\<in>A. \<forall>b\<in>A. auditEventHash E a = auditEventHash E b \<longrightarrow>
        a\<lparr>ae_EventHash := []\<rparr> = b\<lparr>ae_EventHash := []\<rparr>)"

lemma no_collision_subset: "no_collision E A \<Longrightarrow> B \<subseteq> A \<Longrightarrow> no_collision E B"
  unfolding no_collision_def by blast

lemma event_eq_from_parts:
  "a\<lparr>ae_EventHash := []\<rparr> = b\<lparr>ae_EventHash := []\<rparr> \<Longrightarrow> ae_EventHash a = ae_EventHash b \<Longrightarrow>
     a = (b :: AuditEvent)"
  by (cases a; cases b) simp

lemma chain_determined:
  assumes "length xs = length ys"
    and "chained E h xs" "chained E h ys" "last_hash h xs = last_hash h ys"
    and "no_collision E (set xs \<union> set ys)"
  shows "xs = ys"
  using assms
proof (induction xs arbitrary: ys rule: rev_induct)
  case Nil
  then show ?case by simp
next
  case (snoc x xs)
  then obtain y zs where ys: "ys = zs @ [y]" by (metis length_0_conv rev_exhaust snoc_eq_iff_butlast)
  from snoc.prems ys have hash: "ae_EventHash x = ae_EventHash y"
    "ae_EventHash x = auditEventHash E x" "ae_EventHash y = auditEventHash E y"
    by (simp_all add: chained_snoc)
  have mem: "x \<in> set (xs @ [x]) \<union> set ys" "y \<in> set (xs @ [x]) \<union> set ys" using ys by auto
  from hash have "auditEventHash E x = auditEventHash E y" by metis
  then have same: "x\<lparr>ae_EventHash := []\<rparr> = y\<lparr>ae_EventHash := []\<rparr>"
    using snoc.prems(5) mem unfolding no_collision_def by blast
  then have xy: "x = y" using hash(1) by (rule event_eq_from_parts)
  have "last_hash h xs = last_hash h zs"
    using snoc.prems(2,3) ys xy by (simp add: chained_snoc)
  moreover have "no_collision E (set xs \<union> set zs)"
    using snoc.prems(5) by (rule no_collision_subset) (auto simp: ys)
  ultimately have "xs = zs"
    using snoc.prems(1-3) ys by (intro snoc.IH) (simp_all add: chained_snoc)
  with ys xy show ?case by simp
qed

end
