(* ===== verification/Tenants.thy ===== *)
theory Tenants
  imports AuditLog
begin

text \<open>
  Tenants, their quotas and usage counters, access keys, KMS keys and compliance profiles:
  \<open>internal/meta/memory/repository.go\<close> with the record builders of
  \<open>internal/meta/quota.go\<close> and the key states of \<open>internal/meta/model/model.go\<close>.

  The builders replace a zero reading of the repository clock by \<open>time.Now()\<close>; that
  second clock is the argument \<open>wall\<close>.
\<close>

section \<open>Tenants\<close>

definition CreateTenant ::
  "time \<Rightarrow> CreateTenantRequest \<Rightarrow> Repository \<Rightarrow> Tenant result \<times> Repository" where
  "CreateTenant now req r =
     (if q_ct_TenantID req = [] then (Inl ErrInvalidArgument, r)
      else if map_of (r_tenants r) (q_ct_TenantID req) \<noteq> None then (Inl ErrAlreadyExists, r)
      else let tenant = \<lparr>tn_TenantID = q_ct_TenantID req,
                  tn_DisplayName = q_ct_DisplayName req, tn_CreatedAt = now\<rparr>
           in (Inr tenant, r\<lparr>r_tenants := map_put (tn_TenantID tenant) tenant (r_tenants r)\<rparr>))"

definition GetTenant :: "string \<Rightarrow> Repository \<Rightarrow> Tenant result" where
  "GetTenant tenantID r =
     (case map_of (r_tenants r) tenantID of None \<Rightarrow> Inl ErrNotFound | Some t \<Rightarrow> Inr t)"

section \<open>Quotas and usage\<close>

definition BuildBucketQuota ::
  "BucketQuota \<Rightarrow> BucketQuotaRequest \<Rightarrow> time \<Rightarrow> time \<Rightarrow> BucketQuota result" where
  "BuildBucketQuota existing req now0 wall =
     (if q_bq_BucketID req = [] then Inl ErrInvalidArgument
      else if q_bq_MaxObjectSizeBytes req < 0 then Inl ErrInvalidArgument
      else let now = (if now0 = 0 then wall else now0)
           in Inr \<lparr>bq_BucketID = q_bq_BucketID req,
                   bq_MaxObjectSizeBytes = q_bq_MaxObjectSizeBytes req,
                   bq_CreatedAt = (if bq_CreatedAt existing = 0 then now else bq_CreatedAt existing),
                   bq_UpdatedAt = now\<rparr>)"

definition BuildTenantQuota ::
  "TenantQuota \<Rightarrow> TenantQuotaRequest \<Rightarrow> time \<Rightarrow> time \<Rightarrow> TenantQuota result" where
  "BuildTenantQuota existing req now0 wall =
     (if q_tq_TenantID req = [] then Inl ErrInvalidArgument
      else if q_tq_MaxBytes req < 0 then Inl ErrInvalidArgument
      else if q_tq_MaxObjects req < 0 then Inl ErrInvalidArgument
      else if q_tq_MaxActiveUploads req < 0 then Inl ErrInvalidArgument
      else let now = (if now0 = 0 then wall else now0)
           in Inr \<lparr>tq_TenantID = q_tq_TenantID req, tq_MaxBytes = q_tq_MaxBytes req,
                   tq_MaxObjects = q_tq_MaxObjects req,
                   tq_MaxActiveUploads = q_tq_MaxActiveUploads req,
                   tq_CreatedAt = (if tq_CreatedAt existing = 0 then now else tq_CreatedAt existing),
                   tq_UpdatedAt = now\<rparr>)"

definition BuildTenantUsage ::
  "TenantUsage \<Rightarrow> TenantUsageRequest \<Rightarrow> time \<Rightarrow> time \<Rightarrow> TenantUsage result" where
  "BuildTenantUsage existing req now0 wall =
     (if q_tu_TenantID req = [] then Inl ErrInvalidArgument
      else if q_tu_ObjectBytes req < 0 then Inl ErrInvalidArgument
      else if q_tu_ObjectCount req < 0 then Inl ErrInvalidArgument
      else if q_tu_ActiveUploads req < 0 then Inl ErrInvalidArgument
      else let now = (if now0 = 0 then wall else now0);
               reconciledAt = (if q_tu_ReconciledAt req = 0 then now else q_tu_ReconciledAt req)
           in Inr \<lparr>tu_TenantID = q_tu_TenantID req, tu_ObjectBytes = q_tu_ObjectBytes req,
                   tu_ObjectCount = q_tu_ObjectCount req,
                   tu_ActiveUploads = q_tu_ActiveUploads req,
                   tu_ReconciledAt = reconciledAt, tu_UpdatedAt = now,
                   tu_CreatedAt = (if tu_CreatedAt existing = 0 then now else tu_CreatedAt existing),
                   tu_ReconciliationID = q_tu_ReconciliationID req,
                   tu_ReconciliationErr = q_tu_ReconciliationErr req\<rparr>)"

definition ApplyTenantActiveUploadDelta ::
  "TenantUsage \<Rightarrow> string \<Rightarrow> int \<Rightarrow> time \<Rightarrow> time \<Rightarrow> TenantUsage result" where
  "ApplyTenantActiveUploadDelta existing tenantID delta now0 wall =
     (if tenantID = [] then Inl ErrInvalidArgument
      else if tu_TenantID existing \<noteq> [] \<and> tu_TenantID existing \<noteq> tenantID
      then Inl ErrInvalidArgument
      else let now = (if now0 = 0 then wall else now0);
               active = wrap64 (tu_ActiveUploads existing + delta)
           in Inr (existing\<lparr>tu_TenantID := tenantID,
                     tu_ActiveUploads := (if active < 0 then 0 else active),
                     tu_UpdatedAt := now,
                     tu_CreatedAt := (if tu_CreatedAt existing = 0 then now
                                      else tu_CreatedAt existing)\<rparr>))"

definition PutTenantQuota ::
  "clock \<Rightarrow> TenantQuotaRequest \<Rightarrow> Repository \<Rightarrow> TenantQuota result \<times> Repository" where
  "PutTenantQuota clk req r =
     (if map_of (r_tenants r) (q_tq_TenantID req) = None then (Inl ErrNotFound, r)
      else case BuildTenantQuota (map_get zero_TenantQuota (r_tenantQuotas r) (q_tq_TenantID req))
              req (clk 0) (clk 1) of
        Inl e \<Rightarrow> (Inl e, r)
      | Inr quota \<Rightarrow>
          (Inr quota, r\<lparr>r_tenantQuotas := map_put (tq_TenantID quota) quota (r_tenantQuotas r)\<rparr>))"

definition GetTenantQuota :: "string \<Rightarrow> Repository \<Rightarrow> TenantQuota result" where
  "GetTenantQuota tenantID r =
     (if map_of (r_tenants r) tenantID = None then Inl ErrNotFound
      else case map_of (r_tenantQuotas r) tenantID of None \<Rightarrow> Inl ErrNotFound | Some q \<Rightarrow> Inr q)"

definition DeleteTenantQuota :: "string \<Rightarrow> Repository \<Rightarrow> unit result \<times> Repository" where
  "DeleteTenantQuota tenantID r =
     (if map_of (r_tenants r) tenantID = None then (Inl ErrNotFound, r)
      else if map_of (r_tenantQuotas r) tenantID = None then (Inl ErrNotFound, r)
      else (Inr (), r\<lparr>r_tenantQuotas := map_del tenantID (r_tenantQuotas r)\<rparr>))"

definition PutTenantUsage ::
  "clock \<Rightarrow> TenantUsageRequest \<Rightarrow> Repository \<Rightarrow> TenantUsage result \<times> Repository" where
  "PutTenantUsage clk req r =
     (if map_of (r_tenants r) (q_tu_TenantID req) = None then (Inl ErrNotFound, r)
      else case BuildTenantUsage (map_get zero_TenantUsage (r_tenantUsages r) (q_tu_TenantID req))
              req (clk 0) (clk 1) of
        Inl e \<Rightarrow> (Inl e, r)
      | Inr usage \<Rightarrow>
          (Inr usage, r\<lparr>r_tenantUsages := map_put (tu_TenantID usage) usage (r_tenantUsages r)\<rparr>))"

definition GetTenantUsage :: "string \<Rightarrow> Repository \<Rightarrow> TenantUsage result" where
  "GetTenantUsage tenantID r =
     (if map_of (r_tenants r) tenantID = None then Inl ErrNotFound
      else case map_of (r_tenantUsages r) tenantID of None \<Rightarrow> Inl ErrNotFound | Some u \<Rightarrow> Inr u)"

definition checkTenantActiveUploadQuotaLocked :: "string \<Rightarrow> Repository \<Rightarrow> error option" where
  "checkTenantActiveUploadQuotaLocked tenantID r =
     (if tenantID = [] then None
      else case map_of (r_tenantQuotas r) tenantID of
        None \<Rightarrow> None
      | Some quota \<Rightarrow>
          if tq_MaxActiveUploads quota \<le> 0 then None
          else if tu_ActiveUploads (map_get zero_TenantUsage (r_tenantUsages r) tenantID)
                    \<ge> tq_MaxActiveUploads quota
          then Some ErrQuotaExceeded else None)"

definition applyTenantActiveUploadDeltaLocked ::
  "string \<Rightarrow> int \<Rightarrow> time \<Rightarrow> time \<Rightarrow> Repository \<Rightarrow> Repository" where
  "applyTenantActiveUploadDeltaLocked tenantID delta now wall r =
     (if tenantID = [] then r
      else if map_of (r_tenants r) tenantID = None then r
      else case ApplyTenantActiveUploadDelta
              (map_get zero_TenantUsage (r_tenantUsages r) tenantID) tenantID delta now wall of
        Inl e \<Rightarrow> r
      | Inr usage \<Rightarrow> r\<lparr>r_tenantUsages := map_put tenantID usage (r_tenantUsages r)\<rparr>)"

definition applyTenantActiveUploadDeltaForBucketLocked ::
  "string \<Rightarrow> int \<Rightarrow> time \<Rightarrow> time \<Rightarrow> Repository \<Rightarrow> Repository" where
  "applyTenantActiveUploadDeltaForBucketLocked bucketID delta now wall r =
     (case map_of (r_bucketsByID r) bucketID of
        None \<Rightarrow> r
      | Some bucket \<Rightarrow> applyTenantActiveUploadDeltaLocked (bk_TenantID bucket) delta now wall r)"

section \<open>Access keys\<close>

definition PutAccessKey ::
  "time \<Rightarrow> PutAccessKeyRequest \<Rightarrow> Repository \<Rightarrow> AccessKey result \<times> Repository" where
  "PutAccessKey now req r =
     (if q_ak_TenantID req = [] \<or> q_ak_AccessKeyID req = [] \<or> q_ak_SecretHash req = []
      then (Inl ErrInvalidArgument, r)
      else let status = (if q_ak_Status req = AccessKeyStatus_Unset then AccessKeyActive
                         else q_ak_Status req);
               accessKey = \<lparr>ak_TenantID = q_ak_TenantID req, ak_AccessKeyID = q_ak_AccessKeyID req,
                  ak_SecretHash = q_ak_SecretHash req, ak_Status = status,
                  ak_Permissions = q_ak_Permissions req, ak_CreatedAt = now\<rparr>
           in (Inr accessKey,
               r\<lparr>r_accessKeys := map_put (ak_AccessKeyID accessKey) accessKey (r_accessKeys r)\<rparr>))"

definition GetAccessKey :: "string \<Rightarrow> Repository \<Rightarrow> AccessKey result" where
  "GetAccessKey accessKeyID r =
     (case map_of (r_accessKeys r) accessKeyID of None \<Rightarrow> Inl ErrNotFound | Some k \<Rightarrow> Inr k)"

section \<open>KMS keys\<close>

definition NormalizeKMSKeyState :: "KMSKeyState \<Rightarrow> KMSKeyState" where
  "NormalizeKMSKeyState state =
     (case state of
        KMSKeyState_Unset \<Rightarrow> KMSKeyActive
      | KMSKeyActive \<Rightarrow> KMSKeyActive
      | KMSKeyDisabled \<Rightarrow> KMSKeyDisabled
      | KMSKeyPendingDeletion \<Rightarrow> KMSKeyPendingDeletion
      | KMSKeyDeleted \<Rightarrow> KMSKeyDeleted
      | KMSKeyState_Other s \<Rightarrow> KMSKeyDisabled)"

definition KMSKeyAllowsDecrypt :: "KMSKeyState \<Rightarrow> bool" where
  "KMSKeyAllowsDecrypt state \<longleftrightarrow> NormalizeKMSKeyState state = KMSKeyActive"

definition KMSKeyAllowsDelete :: "KMSKeyState \<Rightarrow> bool" where
  "KMSKeyAllowsDelete state \<longleftrightarrow> NormalizeKMSKeyState state = KMSKeyActive"

definition PutKMSKey ::
  "time \<Rightarrow> PutKMSKeyRequest \<Rightarrow> Repository \<Rightarrow> KMSKeyRecord result \<times> Repository" where
  "PutKMSKey now req r =
     (let keyID = TrimSpace (q_kk_KeyID req)
      in if keyID = [] then (Inl ErrInvalidArgument, r)
         else let old = map_get zero_KMSKeyRecord (r_kmsKeys r) keyID;
                  base = (if kk_KeyID old = [] then old\<lparr>kk_KeyID := keyID, kk_CreatedAt := now\<rparr>
                          else old);
                  rec = base\<lparr>kk_KeyVersion := TrimSpace (q_kk_KeyVersion req),
                             kk_State := NormalizeKMSKeyState (q_kk_State req),
                             kk_UpdatedAt := now\<rparr>
              in (Inr rec, r\<lparr>r_kmsKeys := map_put keyID rec (r_kmsKeys r)\<rparr>))"

definition GetKMSKey :: "string \<Rightarrow> Repository \<Rightarrow> KMSKeyRecord result" where
  "GetKMSKey keyID r =
     (case map_of (r_kmsKeys r) (TrimSpace keyID) of None \<Rightarrow> Inl ErrNotFound | Some k \<Rightarrow> Inr k)"

definition ListKMSKeys :: "ListKMSKeysRequest \<Rightarrow> Repository \<Rightarrow> KMSKeyRecord list result" where
  "ListKMSKeys req r =
     (let limit = (if q_lkk_Limit req \<le> 0 then 1000 else q_lkk_Limit req);
          records = sort_by (\<lambda>a b. kk_KeyID a < kk_KeyID b) (map snd (r_kmsKeys r))
      in Inr (take (nat limit) records))"

definition checkDeleteKMSAdmissionLocked :: "ServerSideEncryption \<Rightarrow> Repository \<Rightarrow> error option" where
  "checkDeleteKMSAdmissionLocked encryption r =
     (if sse_Algorithm encryption \<noteq> ServerSideEncryptionAWSKMS then None
      else let keyID = TrimSpace (sse_KeyID encryption)
           in if keyID = [] then None
              else case map_of (r_kmsKeys r) keyID of
                None \<Rightarrow> None
              | Some key \<Rightarrow> if \<not> KMSKeyAllowsDelete (kk_State key) then Some ErrKMSKeyUnavailable else None)"

section \<open>Compliance profiles\<close>

definition PutComplianceProfileAttachment ::
  "time \<Rightarrow> PutComplianceProfileAttachmentRequest \<Rightarrow> Repository \<Rightarrow>
     ComplianceProfileAttachment result \<times> Repository" where
  "PutComplianceProfileAttachment now req r =
     (let profileID = TrimSpace (q_cp_ProfileID req)
      in if profileID = [] then (Inl ErrInvalidArgument, r)
         else if TrimSpace (q_cp_Regulation req) = [] \<or> TrimSpace (q_cp_RecordClass req) = []
         then (Inl ErrInvalidArgument, r)
         else if q_cp_RetentionMode req \<noteq> ObjectLockModeGovernance \<and>
                 q_cp_RetentionMode req \<noteq> ObjectLockModeCompliance
         then (Inl ErrInvalidArgument, r)
         else if q_cp_RetentionDays req < 0 \<or> q_cp_RetentionYears req < 0
         then (Inl ErrInvalidArgument, r)
         else if q_cp_RetentionDays req \<le> 0 \<and> q_cp_RetentionYears req \<le> 0
         then (Inl ErrInvalidArgument, r)
         else if q_cp_RetentionDays req > 0 \<and> q_cp_RetentionYears req > 0
         then (Inl ErrInvalidArgument, r)
         else let old = map_get zero_ComplianceProfileAttachment (r_profiles r) profileID;
                  base = (if cp_ProfileID old = []
                          then old\<lparr>cp_ProfileID := profileID, cp_CreatedAt := now\<rparr> else old);
                  rec = base\<lparr>cp_Regulation := TrimSpace (q_cp_Regulation req),
                     cp_RecordClass := TrimSpace (q_cp_RecordClass req),
                     cp_BucketID := TrimSpace (q_cp_BucketID req),
                     cp_Prefix := TrimSpace (q_cp_Prefix req),
                     cp_ObjectClass := TrimSpace (q_cp_ObjectClass req),
                     cp_RetentionMode := q_cp_RetentionMode req,
                     cp_RetentionDays := q_cp_RetentionDays req,
                     cp_RetentionYears := q_cp_RetentionYears req,
                     cp_LegalHoldPolicy := TrimSpace (q_cp_LegalHoldPolicy req),
                     cp_GovernanceBypassPolicy := TrimSpace (q_cp_GovernanceBypassPolicy req),
                     cp_EvidenceExportPolicy := TrimSpace (q_cp_EvidenceExportPolicy req),
                     cp_UpdatedAt := now\<rparr>
              in (Inr rec, r\<lparr>r_profiles := map_put profileID rec (r_profiles r)\<rparr>))"

definition ListComplianceProfileAttachments ::
  "ListComplianceProfileAttachmentsRequest \<Rightarrow> Repository \<Rightarrow> ComplianceProfileAttachment list result" where
  "ListComplianceProfileAttachments req r =
     (let limit = (if q_lcp_Limit req \<le> 0 then 1000 else q_lcp_Limit req);
          records = filter (\<lambda>p. q_lcp_BucketID req = [] \<or> cp_BucketID p = q_lcp_BucketID req)
                      (map snd (r_profiles r))
      in Inr (take (nat limit) (sort_by (\<lambda>a b. cp_ProfileID a < cp_ProfileID b) records)))"

end
