(* ===== verification/ObjectLock.thy ===== *)
theory ObjectLock
  imports AuditLog
begin

text \<open>
  Object lock: when a version is protected (\<open>objectLockProtected\<close>), when its retention may
  change (\<open>retentionUpdateBlocked\<close>), and the table of protected segment references that
  garbage collection consults (\<open>syncProtectedRefsForVersionLocked\<close> and its relatives),
  from \<open>internal/meta/memory/repository.go\<close>.

  The lemmas relate the two views of protection, the version's own and that of the
  references written for it: they agree at every later time.
\<close>

section \<open>Segment references of a version\<close>

definition normalizeSegmentRefs :: "SegmentRef \<Rightarrow> SegmentRef list \<Rightarrow> SegmentRef list" where
  "normalizeSegmentRefs single refs =
     (if refs \<noteq> [] then refs else if sg_SegmentID single = [] then [] else [single])"

definition objectSegmentRefsFromVersion :: "ObjectVersion \<Rightarrow> SegmentRef list" where
  "objectSegmentRefsFromVersion version =
     normalizeSegmentRefs (ov_SegmentRef version) (ov_SegmentRefs version)"

definition firstSegmentRef :: "SegmentRef list \<Rightarrow> SegmentRef" where
  "firstSegmentRef refs = (case refs of [] \<Rightarrow> zero_SegmentRef | s # _ \<Rightarrow> s)"

section \<open>Protection\<close>

definition isValidObjectLockMode :: "ObjectLockMode \<Rightarrow> bool" where
  "isValidObjectLockMode mode \<longleftrightarrow>
     mode = ObjectLockModeGovernance \<or> mode = ObjectLockModeCompliance"

definition validateObjectLockState ::
  "ObjectLockRetention \<Rightarrow> ObjectLockLegalHoldStatus \<Rightarrow> error option" where
  "validateObjectLockState retention legalHold =
     (let holdCheck = (case legalHold of
            ObjectLockLegalHoldStatus_Unset \<Rightarrow> None
          | ObjectLockLegalHoldOn \<Rightarrow> None
          | ObjectLockLegalHoldOff \<Rightarrow> None
          | ObjectLockLegalHoldStatus_Other s \<Rightarrow> Some ErrInvalidArgument)
      in if olr_Mode retention = ObjectLockMode_Unset
         then (if olr_RetainUntilDate retention \<noteq> 0 then Some ErrInvalidArgument else holdCheck)
         else if \<not> isValidObjectLockMode (olr_Mode retention) then Some ErrInvalidArgument
         else if olr_RetainUntilDate retention = 0 then Some ErrInvalidArgument
         else holdCheck)"

definition validateBucketObjectLockConfiguration :: "BucketObjectLockConfiguration \<Rightarrow> error option" where
  "validateBucketObjectLockConfiguration configuration =
     (if \<not> bol_Enabled configuration then Some ErrInvalidArgument
      else let retention = bol_DefaultRetention configuration
           in if bdr_Mode retention = ObjectLockMode_Unset \<and> bdr_Days retention = 0 \<and>
                 bdr_Years retention = 0 then None
              else if \<not> isValidObjectLockMode (bdr_Mode retention) then Some ErrInvalidArgument
              else if bdr_Days retention \<le> 0 \<and> bdr_Years retention \<le> 0 then Some ErrInvalidArgument
              else if bdr_Days retention > 0 \<and> bdr_Years retention > 0 then Some ErrInvalidArgument
              else None)"

definition objectLockProtected ::
  "bool \<Rightarrow> ObjectLockRetention \<Rightarrow> ObjectLockLegalHoldStatus \<Rightarrow> time \<Rightarrow> bool \<Rightarrow> bool" where
  "objectLockProtected deleteMarker retention legalHold now bypassGovernance =
     (if deleteMarker then False
      else if legalHold = ObjectLockLegalHoldOn then True
      else if olr_Mode retention = ObjectLockMode_Unset then False
      else if olr_RetainUntilDate retention = 0 then True
      else if \<not> now < olr_RetainUntilDate retention then False
      else (case olr_Mode retention of
              ObjectLockModeCompliance \<Rightarrow> True
            | ObjectLockModeGovernance \<Rightarrow> \<not> bypassGovernance
            | _ \<Rightarrow> True))"

definition objectHeadProtectedByObjectLock :: "ObjectHead \<Rightarrow> time \<Rightarrow> bool \<Rightarrow> bool" where
  "objectHeadProtectedByObjectLock head now bypass =
     objectLockProtected (oh_DeleteMarker head) (oh_ObjectLockRetention head)
       (oh_ObjectLockLegalHold head) now bypass"

definition objectVersionProtectedByObjectLock :: "ObjectVersion \<Rightarrow> time \<Rightarrow> bool \<Rightarrow> bool" where
  "objectVersionProtectedByObjectLock version now bypass =
     objectLockProtected (ov_DeleteMarker version) (ov_ObjectLockRetention version)
       (ov_ObjectLockLegalHold version) now bypass"

definition retentionUpdateBlocked ::
  "ObjectLockRetention \<Rightarrow> ObjectLockRetention \<Rightarrow> time \<Rightarrow> bool \<Rightarrow> bool" where
  "retentionUpdateBlocked current next now bypassGovernance =
     (if olr_Mode current = ObjectLockMode_Unset then False
      else if olr_RetainUntilDate current = 0 then True
      else if \<not> now < olr_RetainUntilDate current then False
      else (case olr_Mode current of
              ObjectLockModeCompliance \<Rightarrow>
                olr_Mode next \<noteq> ObjectLockModeCompliance \<or>
                olr_RetainUntilDate next < olr_RetainUntilDate current
            | ObjectLockModeGovernance \<Rightarrow> \<not> bypassGovernance
            | _ \<Rightarrow> True))"

lemma protected_bypass: "objectLockProtected d ret hold now True \<Longrightarrow> objectLockProtected d ret hold now b"
  by (auto simp: objectLockProtected_def split: if_splits ObjectLockMode.splits)

lemma legal_hold_protects [simp]: "objectLockProtected False ret ObjectLockLegalHoldOn now b"
  by (simp add: objectLockProtected_def)

lemma compliance_protects:
  "olr_Mode ret = ObjectLockModeCompliance \<Longrightarrow> now < olr_RetainUntilDate ret \<Longrightarrow>
     objectLockProtected False ret hold now b"
  by (simp add: objectLockProtected_def)

lemma delete_marker_unprotected [simp]: "\<not> objectLockProtected True ret hold now b"
  by (simp add: objectLockProtected_def)

lemma unprotected_later:
  "\<not> objectLockProtected d ret hold now b \<Longrightarrow> now \<le> t \<Longrightarrow> \<not> objectLockProtected d ret hold t b"
  by (auto simp: objectLockProtected_def split: if_splits ObjectLockMode.splits)

lemma compliance_never_shortened:
  "\<not> retentionUpdateBlocked cur nxt now b \<Longrightarrow> olr_Mode cur = ObjectLockModeCompliance \<Longrightarrow>
     now < olr_RetainUntilDate cur \<Longrightarrow>
     olr_RetainUntilDate cur = 0 \<or> olr_Mode nxt = ObjectLockModeCompliance \<and>
       olr_RetainUntilDate cur \<le> olr_RetainUntilDate nxt"
  by (auto simp: retentionUpdateBlocked_def split: if_splits)

lemma update_blocked_bypass:
  "retentionUpdateBlocked cur nxt now True \<Longrightarrow> retentionUpdateBlocked cur nxt now b"
  by (auto simp: retentionUpdateBlocked_def split: if_splits ObjectLockMode.splits)

section \<open>Protected references\<close>

definition protectedRefID :: "Env \<Rightarrow> ObjectVersion \<Rightarrow> SegmentRef \<Rightarrow> string" where
  "protectedRefID E version segmentRef =
     sha256_hex E (ov_BucketID version @ [CHR 0x00] @ ov_Key version @ [CHR 0x00] @
       ov_VersionID version @ [CHR 0x00] @ sg_SegmentID segmentRef)"

definition protectedRefFromVersion ::
  "Env \<Rightarrow> ObjectVersion \<Rightarrow> SegmentRef \<Rightarrow> time \<Rightarrow> ProtectedRef" where
  "protectedRefFromVersion E version segmentRef now =
     \<lparr>pr_RefID = protectedRefID E version segmentRef,
      pr_Reason = ProtectedRefReasonObjectLock,
      pr_BucketID = ov_BucketID version, pr_Key = ov_Key version,
      pr_VersionID = ov_VersionID version, pr_SegmentID = sg_SegmentID segmentRef,
      pr_SegmentRef = segmentRef,
      pr_RetentionMode = olr_Mode (ov_ObjectLockRetention version),
      pr_RetainUntilDate = olr_RetainUntilDate (ov_ObjectLockRetention version),
      pr_LegalHold = ov_ObjectLockLegalHold version,
      pr_CreatedAt = now, pr_UpdatedAt = now\<rparr>"

definition protectedRefActive :: "ProtectedRef \<Rightarrow> time \<Rightarrow> bool" where
  "protectedRefActive ref now =
     (if pr_LegalHold ref = ObjectLockLegalHoldOn then True
      else if pr_RetentionMode ref = ObjectLockMode_Unset then False
      else if pr_RetainUntilDate ref = 0 then True
      else now < pr_RetainUntilDate ref)"

definition refs_of_version :: "string \<Rightarrow> string \<Rightarrow> string \<Rightarrow> ProtectedRef \<Rightarrow> bool" where
  "refs_of_version bucketID key versionID ref \<longleftrightarrow>
     pr_BucketID ref = bucketID \<and> pr_Key ref = key \<and> pr_VersionID ref = versionID"

definition deleteProtectedRefsForVersionLocked ::
  "string \<Rightarrow> string \<Rightarrow> string \<Rightarrow> Repository \<Rightarrow> Repository" where
  "deleteProtectedRefsForVersionLocked bucketID key versionID r =
     r\<lparr>r_protectedRefs :=
         filter (\<lambda>(refID, ref). \<not> refs_of_version bucketID key versionID ref) (r_protectedRefs r)\<rparr>"

fun putProtectedRefs ::
  "Env \<Rightarrow> ObjectVersion \<Rightarrow> time \<Rightarrow> SegmentRef list \<Rightarrow> (string, ProtectedRef) gomap \<Rightarrow>
     (string, ProtectedRef) gomap" where
  "putProtectedRefs E version now [] m = m"
| "putProtectedRefs E version now (s # ss) m =
     (if sg_SegmentID s = [] then putProtectedRefs E version now ss m
      else putProtectedRefs E version now ss
             (map_put (protectedRefID E version s) (protectedRefFromVersion E version s now) m))"

definition syncProtectedRefsForVersionLocked ::
  "Env \<Rightarrow> ObjectVersion \<Rightarrow> time \<Rightarrow> Repository \<Rightarrow> Repository" where
  "syncProtectedRefsForVersionLocked E version now r =
     (let r1 = deleteProtectedRefsForVersionLocked (ov_BucketID version) (ov_Key version)
                 (ov_VersionID version) r
      in if \<not> objectVersionProtectedByObjectLock version now False then r1
         else r1\<lparr>r_protectedRefs :=
                putProtectedRefs E version now (objectSegmentRefsFromVersion version)
                  (r_protectedRefs r1)\<rparr>)"

definition ListProtectedRefs :: "time \<Rightarrow> ListProtectedRefsRequest \<Rightarrow> Repository \<Rightarrow> ProtectedRef list result" where
  "ListProtectedRefs now req r =
     (let limit = (if q_lpr_Limit req \<le> 0 then 1000 else q_lpr_Limit req);
          wanted = (\<lambda>ref. (q_lpr_BucketID req = [] \<or> pr_BucketID ref = q_lpr_BucketID req) \<and>
             (q_lpr_Key req = [] \<or> pr_Key ref = q_lpr_Key req) \<and>
             (q_lpr_VersionID req = [] \<or> pr_VersionID ref = q_lpr_VersionID req) \<and>
             (q_lpr_SegmentID req = [] \<or> pr_SegmentID ref = q_lpr_SegmentID req) \<and>
             (\<not> q_lpr_ActiveOnly req \<or> protectedRefActive ref now));
          refs = take (nat limit) (filter wanted (map snd (r_protectedRefs r)))
      in Inr (sort_by (\<lambda>a b. pr_RefID a < pr_RefID b) refs))"

lemma protectedRefActive_from_version [simp]:
  "protectedRefActive (protectedRefFromVersion E v s n) now \<longleftrightarrow>
     objectLockProtected False (ov_ObjectLockRetention v) (ov_ObjectLockLegalHold v) now False"
  by (auto simp: protectedRefActive_def protectedRefFromVersion_def objectLockProtected_def
      split: ObjectLockMode.splits)

lemma protected_imp_ref_active:
  "objectVersionProtectedByObjectLock v now b \<Longrightarrow> protectedRefActive (protectedRefFromVersion E v s n) now"
  by (cases b; cases "ov_DeleteMarker v")
    (auto simp: objectVersionProtectedByObjectLock_def dest: protected_bypass)

lemma refs_of_version_from [simp]:
  "refs_of_version b k i (protectedRefFromVersion E v s n) \<longleftrightarrow>
     ov_BucketID v = b \<and> ov_Key v = k \<and> ov_VersionID v = i"
  by (simp add: refs_of_version_def protectedRefFromVersion_def)

text \<open>Reference identifiers are digests of NUL-separated fields. The object key may contain
  NULs, the other three fields may not, and then the encoding is unambiguous.\<close>

definition nul_free :: "string \<Rightarrow> bool" where
  "nul_free s \<longleftrightarrow> CHR 0x00 \<notin> set s"

lemma split_at_first_nul:
  "a @ [CHR 0x00] @ x = b @ [CHR 0x00] @ y \<Longrightarrow> nul_free a \<Longrightarrow> nul_free b \<Longrightarrow> a = b \<and> x = y"
proof (induction a arbitrary: b)
  case Nil
  then show ?case by (cases b) (auto simp: nul_free_def)
next
  case (Cons c a)
  then obtain b' where b: "b = c # b'" by (cases b) (auto simp: nul_free_def)
  with Cons show ?case by (auto simp: nul_free_def)
qed

lemma split_at_last_nul:
  assumes "x @ [CHR 0x00] @ a = y @ [CHR 0x00] @ b" "nul_free a" "nul_free b"
  shows "a = b \<and> x = y"
proof -
  have "rev a @ [CHR 0x00] @ rev x = rev b @ [CHR 0x00] @ rev y"
    using arg_cong [OF assms(1), of rev] by simp
  then have "rev a = rev b \<and> rev x = rev y"
    using assms(2,3) by (intro split_at_first_nul) (simp_all add: nul_free_def)
  then show ?thesis by simp
qed

lemma nul_fields_unique:
  assumes "b @ [CHR 0x00] @ k @ [CHR 0x00] @ v @ [CHR 0x00] @ s =
      b' @ [CHR 0x00] @ k' @ [CHR 0x00] @ v' @ [CHR 0x00] @ s'"
    and "nul_free b" "nul_free v" "nul_free s" "nul_free b'" "nul_free v'" "nul_free s'"
  shows "b = b' \<and> k = k' \<and> v = v' \<and> s = s'"
proof -
  have b: "b = b'" and r1: "k @ [CHR 0x00] @ v @ [CHR 0x00] @ s = k' @ [CHR 0x00] @ v' @ [CHR 0x00] @ s'"
    using split_at_first_nul [OF assms(1,2,5)] by simp_all
  have "(k @ [CHR 0x00] @ v) @ [CHR 0x00] @ s = (k' @ [CHR 0x00] @ v') @ [CHR 0x00] @ s'"
    using r1 by simp
  then have s: "s = s'" and r2: "k @ [CHR 0x00] @ v = k' @ [CHR 0x00] @ v'"
    using split_at_last_nul assms(4,7) by blast+
  then show ?thesis using b split_at_last_nul [OF r2 assms(3,6)] by simp
qed

definition version_nul_free :: "ObjectVersion \<Rightarrow> bool" where
  "version_nul_free v \<longleftrightarrow> nul_free (ov_BucketID v) \<and> nul_free (ov_VersionID v) \<and>
     (\<forall>s \<in> set (objectSegmentRefsFromVersion v). nul_free (sg_SegmentID s))"

lemma protectedRefID_inj:
  assumes "inj (sha256_hex E)" "protectedRefID E v s = protectedRefID E w u"
    and "version_nul_free v" "s \<in> set (objectSegmentRefsFromVersion v)"
    and "version_nul_free w" "u \<in> set (objectSegmentRefsFromVersion w)"
  shows "ov_BucketID v = ov_BucketID w \<and> ov_Key v = ov_Key w \<and> ov_VersionID v = ov_VersionID w \<and>
    sg_SegmentID s = sg_SegmentID u"
proof -
  have "ov_BucketID v @ [CHR 0x00] @ ov_Key v @ [CHR 0x00] @ ov_VersionID v @ [CHR 0x00] @ sg_SegmentID s =
      ov_BucketID w @ [CHR 0x00] @ ov_Key w @ [CHR 0x00] @ ov_VersionID w @ [CHR 0x00] @ sg_SegmentID u"
    using assms(1,2) unfolding protectedRefID_def by (rule injD)
  then show ?thesis
    using assms(3-6) by (intro nul_fields_unique) (auto simp: version_nul_free_def)
qed

lemma putProtectedRefs_wf: "map_wf m \<Longrightarrow> map_wf (putProtectedRefs E v now ss m)"
  by (induction ss arbitrary: m) auto

lemma putProtectedRefs_other:
  "(\<And>s. s \<in> set ss \<Longrightarrow> sg_SegmentID s \<noteq> [] \<Longrightarrow> protectedRefID E v s \<noteq> i) \<Longrightarrow>
     map_of (putProtectedRefs E v now ss m) i = map_of m i"
  by (induction ss arbitrary: m) auto

lemma putProtectedRefs_keeps:
  "map_of m i = Some r0 \<Longrightarrow>
     map_of (putProtectedRefs E v now ss m) i = Some r0 \<or>
     (\<exists>u \<in> set ss. map_of (putProtectedRefs E v now ss m) i = Some (protectedRefFromVersion E v u now) \<and>
        protectedRefID E v u = i)"
proof (induction ss arbitrary: m r0)
  case Nil
  then show ?case by simp
next
  case (Cons x ss)
  show ?case
  proof (cases "sg_SegmentID x = []")
    case True
    with Cons.IH [OF Cons.prems] show ?thesis by auto
  next
    case False
    let ?m = "map_put (protectedRefID E v x) (protectedRefFromVersion E v x now) m"
    have "map_of ?m i = Some (if i = protectedRefID E v x then protectedRefFromVersion E v x now else r0)"
      using Cons.prems by simp
    from Cons.IH [OF this] False show ?thesis by (auto split: if_splits)
  qed
qed

lemma putProtectedRefs_hit:
  assumes "s \<in> set ss" "sg_SegmentID s \<noteq> []"
  shows "\<exists>u \<in> set ss. map_of (putProtectedRefs E v now ss m) (protectedRefID E v s) =
      Some (protectedRefFromVersion E v u now) \<and> protectedRefID E v u = protectedRefID E v s"
  using assms
proof (induction ss arbitrary: m)
  case Nil
  then show ?case by simp
next
  case (Cons x ss)
  show ?case
  proof (cases "s \<in> set ss")
    case True
    with Cons show ?thesis by auto
  next
    case False
    with Cons.prems have x: "x = s" by auto
    let ?m = "map_put (protectedRefID E v s) (protectedRefFromVersion E v s now) m"
    have "map_of (putProtectedRefs E v now ss ?m) (protectedRefID E v s) =
        Some (protectedRefFromVersion E v s now) \<or>
      (\<exists>u \<in> set ss. map_of (putProtectedRefs E v now ss ?m) (protectedRefID E v s) =
        Some (protectedRefFromVersion E v u now) \<and> protectedRefID E v u = protectedRefID E v s)"
      by (rule putProtectedRefs_keeps) simp
    with x Cons.prems(2) show ?thesis by auto
  qed
qed

end
