(* ===== verification/Buckets.thy ===== *)
theory Buckets
  imports Tenants Ids ObjectLock
begin

text \<open>
  Buckets: creation and deletion, versioning, CORS, lifecycle, default encryption, quota,
  policy and object lock configuration, from \<open>internal/meta/memory/repository.go\<close> and
  \<open>internal/meta/validation.go\<close>.

  The invariant \<open>bucket_inv\<close> says that the two bucket tables are each other's inverse
  and that a bucket with object lock has versioning enabled; every operation keeps it.
\<close>

section \<open>Creation and versioning\<close>

definition bucket_taken :: "Repository \<Rightarrow> string \<Rightarrow> bool" where
  "bucket_taken r bucketID \<longleftrightarrow> map_of (r_bucketsByID r) bucketID \<noteq> None"

definition nextBucketIDLocked :: "id_source \<Rightarrow> Repository \<Rightarrow> string result" where
  \<comment> \<open>the retry loop of \<open>CreateBucket\<close>\<close>
  "nextBucketIDLocked ids r = draw_id (bucket_taken r) ids 0 idCollisionRetryLimit"

definition CreateBucket ::
  "time \<Rightarrow> id_source \<Rightarrow> CreateBucketRequest \<Rightarrow> Repository \<Rightarrow> Bucket result \<times> Repository" where
  "CreateBucket now ids req r =
     (if q_cb_TenantID req = [] \<or> q_cb_Name req = [] \<or> q_cb_Region req = []
      then (Inl ErrInvalidArgument, r)
      else if map_of (r_bucketNameToID r) (q_cb_Name req) \<noteq> None then (Inl ErrAlreadyExists, r)
      else case nextBucketIDLocked ids r of
        Inl e \<Rightarrow> (Inl e, r)
      | Inr bucketID \<Rightarrow>
          let bucket0 = zero_Bucket\<lparr>bk_BucketID := bucketID, bk_TenantID := q_cb_TenantID req,
                 bk_Name := q_cb_Name req, bk_Region := q_cb_Region req, bk_CreatedAt := now\<rparr>;
              bucket = (if q_cb_ObjectLockEnabled req
                then bucket0\<lparr>bk_ObjectLock := zero_BucketObjectLockConfiguration\<lparr>bol_Enabled := True\<rparr>,
                       bk_VersioningState := BucketVersioningEnabled\<rparr>
                else bucket0)
          in (Inr bucket,
              r\<lparr>r_bucketsByID := map_put (bk_BucketID bucket) bucket (r_bucketsByID r),
                r_bucketNameToID := map_put (bk_Name bucket) (bk_BucketID bucket) (r_bucketNameToID r)\<rparr>))"

definition putBucketLocked :: "Bucket \<Rightarrow> Repository \<Rightarrow> Repository" where
  \<comment> \<open>\<open>r.bucketsByID[bucket.BucketID] = bucket\<close>\<close>
  "putBucketLocked bucket r =
     r\<lparr>r_bucketsByID := map_put (bk_BucketID bucket) bucket (r_bucketsByID r)\<rparr>"

definition PutBucketVersioning ::
  "PutBucketVersioningRequest \<Rightarrow> Repository \<Rightarrow> Bucket result \<times> Repository" where
  "PutBucketVersioning req r =
     (if q_bv_BucketID req = [] then (Inl ErrInvalidArgument, r)
      else if q_bv_State req \<noteq> BucketVersioningEnabled \<and> q_bv_State req \<noteq> BucketVersioningSuspended
      then (Inl ErrInvalidArgument, r)
      else case map_of (r_bucketsByID r) (q_bv_BucketID req) of
        None \<Rightarrow> (Inl ErrNotFound, r)
      | Some bucket \<Rightarrow>
          if bol_Enabled (bk_ObjectLock bucket) \<and> q_bv_State req \<noteq> BucketVersioningEnabled
          then (Inl ErrInvalidArgument, r)
          else let bucket' = bucket\<lparr>bk_VersioningState := q_bv_State req\<rparr>
               in (Inr bucket', putBucketLocked bucket' r))"

section \<open>CORS, lifecycle, encryption\<close>

definition PutBucketCORS :: "BucketCORSRequest \<Rightarrow> Repository \<Rightarrow> Bucket result \<times> Repository" where
  "PutBucketCORS req r =
     (if q_bc_BucketID req = [] then (Inl ErrInvalidArgument, r)
      else case map_of (r_bucketsByID r) (q_bc_BucketID req) of
        None \<Rightarrow> (Inl ErrNotFound, r)
      | Some bucket \<Rightarrow>
          let bucket' = bucket\<lparr>bk_CORSRules := q_bc_Rules req\<rparr>
          in (Inr bucket', putBucketLocked bucket' r))"

definition GetBucketCORS :: "string \<Rightarrow> Repository \<Rightarrow> CORSRule list result" where
  "GetBucketCORS bucketID r =
     (case map_of (r_bucketsByID r) bucketID of
        None \<Rightarrow> Inl ErrNotFound | Some bucket \<Rightarrow> Inr (bk_CORSRules bucket))"

definition DeleteBucketCORS :: "string \<Rightarrow> Repository \<Rightarrow> Bucket result \<times> Repository" where
  "DeleteBucketCORS bucketID r =
     (case map_of (r_bucketsByID r) bucketID of
        None \<Rightarrow> (Inl ErrNotFound, r)
      | Some bucket \<Rightarrow>
          let bucket' = bucket\<lparr>bk_CORSRules := []\<rparr>
          in (Inr bucket', putBucketLocked bucket' r))"

definition lifecycleRuleHasAction :: "LifecycleRule \<Rightarrow> bool" where
  "lifecycleRuleHasAction rule \<longleftrightarrow>
     le_Days (lr_Expiration rule) > 0 \<or> le_Date (lr_Expiration rule) \<noteq> 0 \<or>
     le_ExpiredObjectDeleteMarker (lr_Expiration rule) \<or>
     lnv_NoncurrentDays (lr_NoncurrentVersionExpiration rule) > 0 \<or>
     lab_DaysAfterInitiation (lr_AbortIncompleteMultipartUpload rule) > 0"

fun validateLifecycleRules :: "LifecycleRule list \<Rightarrow> error option" where
  "validateLifecycleRules [] = None"
| "validateLifecycleRules (rule # rules) =
     (if lr_Status rule \<noteq> LifecycleRuleEnabled \<and> lr_Status rule \<noteq> LifecycleRuleDisabled
      then Some ErrInvalidArgument
      else if \<not> lifecycleRuleHasAction rule then Some ErrInvalidArgument
      else if le_Days (lr_Expiration rule) < 0 \<or>
              lnv_NoncurrentDays (lr_NoncurrentVersionExpiration rule) < 0 \<or>
              lab_DaysAfterInitiation (lr_AbortIncompleteMultipartUpload rule) < 0
      then Some ErrInvalidArgument
      else validateLifecycleRules rules)"

definition validateBucketLifecycleConfiguration :: "BucketLifecycleConfiguration \<Rightarrow> error option" where
  "validateBucketLifecycleConfiguration configuration =
     (if blc_Rules configuration = [] then Some ErrInvalidArgument
      else if length (blc_Rules configuration) > 1000 then Some ErrInvalidArgument
      else validateLifecycleRules (blc_Rules configuration))"

definition PutBucketLifecycle ::
  "Env \<Rightarrow> time \<Rightarrow> BucketLifecycleRequest \<Rightarrow> Repository \<Rightarrow> Bucket result \<times> Repository" where
  "PutBucketLifecycle E now req r =
     (if q_bl_BucketID req = [] then (Inl ErrInvalidArgument, r)
      else case validateBucketLifecycleConfiguration (q_bl_Configuration req) of
        Some e \<Rightarrow> (Inl e, r)
      | None \<Rightarrow>
          (case map_of (r_bucketsByID r) (q_bl_BucketID req) of
             None \<Rightarrow> (Inl ErrNotFound, r)
           | Some bucket \<Rightarrow>
               let bucket' = bucket\<lparr>bk_Lifecycle := q_bl_Configuration req\<rparr>
               in (Inr bucket',
                   appendAuditEventLocked E now
                     (transitionAuditEvent (q_bl_Audit req) AuditActionPutBucketLifecycle
                        (bk_BucketID bucket') [] []
                        [(''rule_count'', Itoa (int (length (blc_Rules (q_bl_Configuration req)))))])
                     (putBucketLocked bucket' r))))"

definition GetBucketLifecycle :: "string \<Rightarrow> Repository \<Rightarrow> BucketLifecycleConfiguration result" where
  "GetBucketLifecycle bucketID r =
     (case map_of (r_bucketsByID r) bucketID of
        None \<Rightarrow> Inl ErrNotFound
      | Some bucket \<Rightarrow>
          if blc_Rules (bk_Lifecycle bucket) = [] then Inl ErrNotFound else Inr (bk_Lifecycle bucket))"

definition DeleteBucketLifecycle ::
  "Env \<Rightarrow> time \<Rightarrow> string \<Rightarrow> AuditContext \<Rightarrow> Repository \<Rightarrow> Bucket result \<times> Repository" where
  "DeleteBucketLifecycle E now bucketID audit r =
     (case map_of (r_bucketsByID r) bucketID of
        None \<Rightarrow> (Inl ErrNotFound, r)
      | Some bucket \<Rightarrow>
          let bucket' = bucket\<lparr>bk_Lifecycle := zero_BucketLifecycleConfiguration\<rparr>
          in (Inr bucket',
              appendAuditEventLocked E now
                (transitionAuditEvent audit AuditActionDeleteBucketLifecycle (bk_BucketID bucket') [] [] [])
                (putBucketLocked bucket' r)))"

definition ValidateBucketEncryption :: "ServerSideEncryption \<Rightarrow> error option" where
  "ValidateBucketEncryption encryption =
     (case sse_Algorithm encryption of
        ServerSideEncryptionAES256 \<Rightarrow>
          if sse_KeyID encryption \<noteq> [] \<or> sse_KeyVersion encryption \<noteq> []
          then Some ErrInvalidArgument else None
      | ServerSideEncryptionAWSKMS \<Rightarrow> None
      | _ \<Rightarrow> Some ErrInvalidArgument)"

definition PutBucketEncryption ::
  "Env \<Rightarrow> time \<Rightarrow> BucketEncryptionRequest \<Rightarrow> Repository \<Rightarrow> Bucket result \<times> Repository" where
  "PutBucketEncryption E now req r =
     (if q_be_BucketID req = [] then (Inl ErrInvalidArgument, r)
      else case ValidateBucketEncryption (q_be_Encryption req) of
        Some e \<Rightarrow> (Inl e, r)
      | None \<Rightarrow>
          (case map_of (r_bucketsByID r) (q_be_BucketID req) of
             None \<Rightarrow> (Inl ErrNotFound, r)
           | Some bucket \<Rightarrow>
               let bucket' = bucket\<lparr>bk_DefaultEncryption := q_be_Encryption req\<rparr>
               in (Inr bucket',
                   appendAuditEventLocked E now
                     (transitionAuditEvent (q_be_Audit req) AuditActionPutBucketEncryption
                        (bk_BucketID bucket') [] []
                        [(''algorithm'', ServerSideEncryptionAlgorithm_text (sse_Algorithm (q_be_Encryption req))),
                         (''key_id'', sse_KeyID (q_be_Encryption req))])
                     (putBucketLocked bucket' r))))"

definition GetBucketEncryption :: "string \<Rightarrow> Repository \<Rightarrow> ServerSideEncryption result" where
  "GetBucketEncryption bucketID r =
     (case map_of (r_bucketsByID r) bucketID of
        None \<Rightarrow> Inl ErrNotFound
      | Some bucket \<Rightarrow>
          if sse_Algorithm (bk_DefaultEncryption bucket) = ServerSideEncryptionNone
          then Inl ErrNotFound else Inr (bk_DefaultEncryption bucket))"

definition DeleteBucketEncryption ::
  "Env \<Rightarrow> time \<Rightarrow> string \<Rightarrow> AuditContext \<Rightarrow> Repository \<Rightarrow> Bucket result \<times> Repository" where
  "DeleteBucketEncryption E now bucketID audit r =
     (case map_of (r_bucketsByID r) bucketID of
        None \<Rightarrow> (Inl ErrNotFound, r)
      | Some bucket \<Rightarrow>
          let bucket' = bucket\<lparr>bk_DefaultEncryption := zero_ServerSideEncryption\<rparr>
          in (Inr bucket',
              appendAuditEventLocked E now
                (transitionAuditEvent audit AuditActionDeleteBucketEncryption (bk_BucketID bucket') [] [] [])
                (putBucketLocked bucket' r)))"

section \<open>Quota, policy, object lock\<close>

definition PutBucketQuota ::
  "clock \<Rightarrow> BucketQuotaRequest \<Rightarrow> Repository \<Rightarrow> BucketQuota result \<times> Repository" where
  "PutBucketQuota clk req r =
     (if map_of (r_bucketsByID r) (q_bq_BucketID req) = None then (Inl ErrNotFound, r)
      else case BuildBucketQuota (map_get zero_BucketQuota (r_bucketQuotas r) (q_bq_BucketID req))
              req (clk 0) (clk 1) of
        Inl e \<Rightarrow> (Inl e, r)
      | Inr quota \<Rightarrow>
          (Inr quota, r\<lparr>r_bucketQuotas := map_put (bq_BucketID quota) quota (r_bucketQuotas r)\<rparr>))"

definition GetBucketQuota :: "string \<Rightarrow> Repository \<Rightarrow> BucketQuota result" where
  "GetBucketQuota bucketID r =
     (if map_of (r_bucketsByID r) bucketID = None then Inl ErrNotFound
      else case map_of (r_bucketQuotas r) bucketID of None \<Rightarrow> Inl ErrNotFound | Some q \<Rightarrow> Inr q)"

definition DeleteBucketQuota :: "string \<Rightarrow> Repository \<Rightarrow> unit result \<times> Repository" where
  "DeleteBucketQuota bucketID r =
     (if map_of (r_bucketsByID r) bucketID = None then (Inl ErrNotFound, r)
      else if map_of (r_bucketQuotas r) bucketID = None then (Inl ErrNotFound, r)
      else (Inr (), r\<lparr>r_bucketQuotas := map_del bucketID (r_bucketQuotas r)\<rparr>))"

definition PutBucketPolicy ::
  "Env \<Rightarrow> time \<Rightarrow> BucketPolicyRequest \<Rightarrow> Repository \<Rightarrow> Bucket result \<times> Repository" where
  "PutBucketPolicy E now req r =
     (if q_bp_BucketID req = [] then (Inl ErrInvalidArgument, r)
      else if pd_Statements (q_bp_Policy req) = [] then (Inl ErrInvalidArgument, r)
      else case map_of (r_bucketsByID r) (q_bp_BucketID req) of
        None \<Rightarrow> (Inl ErrNotFound, r)
      | Some bucket \<Rightarrow>
          let bucket' = bucket\<lparr>bk_Policy := q_bp_Policy req\<rparr>
          in (Inr bucket',
              appendAuditEventLocked E now
                (transitionAuditEvent (q_bp_Audit req) AuditActionPutBucketPolicy
                   (bk_BucketID bucket') [] []
                   [(''statement_count'', Itoa (int (length (pd_Statements (q_bp_Policy req)))))])
                (putBucketLocked bucket' r)))"

definition GetBucketPolicy :: "string \<Rightarrow> Repository \<Rightarrow> PolicyDocument result" where
  "GetBucketPolicy bucketID r =
     (case map_of (r_bucketsByID r) bucketID of
        None \<Rightarrow> Inl ErrNotFound
      | Some bucket \<Rightarrow>
          if pd_Statements (bk_Policy bucket) = [] then Inl ErrNotFound else Inr (bk_Policy bucket))"

definition DeleteBucketPolicy ::
  "Env \<Rightarrow> time \<Rightarrow> string \<Rightarrow> AuditContext \<Rightarrow> Repository \<Rightarrow> Bucket result \<times> Repository" where
  "DeleteBucketPolicy E now bucketID audit r =
     (case map_of (r_bucketsByID r) bucketID of
        None \<Rightarrow> (Inl ErrNotFound, r)
      | Some bucket \<Rightarrow>
          let bucket' = bucket\<lparr>bk_Policy := zero_PolicyDocument\<rparr>
          in (Inr bucket',
              appendAuditEventLocked E now
                (transitionAuditEvent audit AuditActionDeleteBucketPolicy (bk_BucketID bucket') [] [] [])
                (putBucketLocked bucket' r)))"

definition PutBucketObjectLock ::
  "Env \<Rightarrow> time \<Rightarrow> BucketObjectLockRequest \<Rightarrow> Repository \<Rightarrow> Bucket result \<times> Repository" where
  "PutBucketObjectLock E now req r =
     (if q_bo_BucketID req = [] then (Inl ErrInvalidArgument, r)
      else case validateBucketObjectLockConfiguration (q_bo_Configuration req) of
        Some e \<Rightarrow> (Inl e, r)
      | None \<Rightarrow>
          (case map_of (r_bucketsByID r) (q_bo_BucketID req) of
             None \<Rightarrow> (Inl ErrNotFound, r)
           | Some bucket \<Rightarrow>
               let bucket' = bucket\<lparr>bk_ObjectLock := q_bo_Configuration req,
                                   bk_VersioningState := BucketVersioningEnabled\<rparr>
               in (Inr bucket',
                   appendAuditEventLocked E now
                     (transitionAuditEvent (q_bo_Audit req) AuditActionPutBucketObjectLock
                        (bk_BucketID bucket') [] []
                        (bucketObjectLockAuditDetails (q_bo_Configuration req)))
                     (putBucketLocked bucket' r))))"

definition GetBucketObjectLock :: "string \<Rightarrow> Repository \<Rightarrow> BucketObjectLockConfiguration result" where
  "GetBucketObjectLock bucketID r =
     (case map_of (r_bucketsByID r) bucketID of
        None \<Rightarrow> Inl ErrNotFound | Some bucket \<Rightarrow> Inr (bk_ObjectLock bucket))"

section \<open>Lookup, listing, deletion\<close>

definition GetBucketByName :: "string \<Rightarrow> Repository \<Rightarrow> Bucket result" where
  "GetBucketByName name r =
     (case map_of (r_bucketNameToID r) name of
        None \<Rightarrow> Inl ErrNotFound
      | Some bucketID \<Rightarrow> Inr (map_get zero_Bucket (r_bucketsByID r) bucketID))"

definition ListBuckets :: "string \<Rightarrow> Repository \<Rightarrow> Bucket list result" where
  "ListBuckets tenantID r =
     Inr (sort_by (\<lambda>a b. bk_Name a < bk_Name b)
            (filter (\<lambda>b. tenantID = [] \<or> bk_TenantID b = tenantID) (map snd (r_bucketsByID r))))"

definition DeleteBucket :: "string \<Rightarrow> Repository \<Rightarrow> unit result \<times> Repository" where
  "DeleteBucket bucketID r =
     (case map_of (r_bucketsByID r) bucketID of
        None \<Rightarrow> (Inl ErrNotFound, r)
      | Some bucket \<Rightarrow>
          if list_ex (\<lambda>((b, k), head). b = bucketID) (r_heads r) then (Inl ErrBucketNotEmpty, r)
          else if list_ex (\<lambda>((b, k, v), version). b = bucketID \<and> ov_State version = ObjectVersionCommitted)
                    (r_versions r)
          then (Inl ErrBucketNotEmpty, r)
          else (Inr (), r\<lparr>r_bucketsByID := map_del bucketID (r_bucketsByID r),
                          r_bucketNameToID := map_del (bk_Name bucket) (r_bucketNameToID r),
                          r_bucketQuotas := map_del bucketID (r_bucketQuotas r)\<rparr>))"

lemmas bucket_config_defs =
  PutBucketVersioning_def PutBucketCORS_def DeleteBucketCORS_def PutBucketLifecycle_def
  DeleteBucketLifecycle_def PutBucketEncryption_def DeleteBucketEncryption_def
  PutBucketPolicy_def DeleteBucketPolicy_def PutBucketObjectLock_def

section \<open>Identifier allocation\<close>

interpretation bucket_ids: id_allocator nextBucketIDLocked bucket_taken
proof unfold_locales
  show "\<And>ids s x. nextBucketIDLocked ids s = Inr x \<Longrightarrow> \<not> bucket_taken s x"
    unfolding nextBucketIDLocked_def by (rule draw_id_fresh)
  show "\<And>ids s x. nextBucketIDLocked ids s = Inr x \<Longrightarrow> \<exists>i<idCollisionRetryLimit. ids i = Some x"
    unfolding nextBucketIDLocked_def by (drule draw_id_source) auto
  show "\<And>ids s e. nextBucketIDLocked ids s = Inl e \<Longrightarrow> e = ErrUnavailable"
    unfolding nextBucketIDLocked_def by (rule draw_id_error)
  show "\<And>ids x s. ids 0 = Some x \<Longrightarrow> \<not> bucket_taken s x \<Longrightarrow> nextBucketIDLocked ids s = Inr x"
    unfolding nextBucketIDLocked_def idCollisionRetryLimit_def
    using draw_id_first [where i = 0 and n = 7] by (simp add: eval_nat_numeral)
qed

section \<open>The bucket invariant\<close>

definition bucket_ok :: "Bucket \<Rightarrow> bool" where
  "bucket_ok b \<longleftrightarrow> (bol_Enabled (bk_ObjectLock b) \<longrightarrow> bk_VersioningState b = BucketVersioningEnabled)"

definition bucket_inv :: "Repository \<Rightarrow> bool" where
  "bucket_inv r \<longleftrightarrow>
     map_wf (r_bucketsByID r) \<and> map_wf (r_bucketNameToID r) \<and>
     (\<forall>(i, b) \<in> set (r_bucketsByID r).
        bk_BucketID b = i \<and> map_of (r_bucketNameToID r) (bk_Name b) = Some i \<and> bucket_ok b) \<and>
     (\<forall>(n, i) \<in> set (r_bucketNameToID r).
        \<exists>(j, b) \<in> set (r_bucketsByID r). j = i \<and> bk_Name b = n)"

lemma bucket_inv_iff:
  "bucket_inv r \<longleftrightarrow>
     map_wf (r_bucketsByID r) \<and> map_wf (r_bucketNameToID r) \<and>
     (\<forall>i b. map_of (r_bucketsByID r) i = Some b \<longrightarrow>
        bk_BucketID b = i \<and> map_of (r_bucketNameToID r) (bk_Name b) = Some i \<and> bucket_ok b) \<and>
     (\<forall>n i. map_of (r_bucketNameToID r) n = Some i \<longrightarrow>
        (\<exists>b. map_of (r_bucketsByID r) i = Some b \<and> bk_Name b = n))"
proof (cases "map_wf (r_bucketsByID r) \<and> map_wf (r_bucketNameToID r)")
  case True
  then have mem: "\<And>i b. (i, b) \<in> set (r_bucketsByID r) \<longleftrightarrow> map_of (r_bucketsByID r) i = Some b"
    "\<And>n i. (n, i) \<in> set (r_bucketNameToID r) \<longleftrightarrow> map_of (r_bucketNameToID r) n = Some i"
    by (simp_all add: map_wf_mem)
  show ?thesis
    unfolding bucket_inv_def using True
    by (simp add: Ball_def Bex_def split_paired_All split_paired_Ex mem conj_commute)
next
  case False
  then show ?thesis by (auto simp: bucket_inv_def)
qed

lemma bucket_inv_cong:
  "r_bucketsByID r' = r_bucketsByID r \<Longrightarrow> r_bucketNameToID r' = r_bucketNameToID r \<Longrightarrow>
     bucket_inv r' = bucket_inv r"
  by (simp add: bucket_inv_def)

lemma bucket_inv_append_audit [simp]:
  "bucket_inv (appendAuditEventLocked E now ev r) = bucket_inv r"
  by (rule bucket_inv_cong) simp_all

lemma bucket_inv_New: "bucket_inv (NewWithClock now)"
  by (simp add: bucket_inv_def NewWithClock_def)

lemma bucket_id: "bucket_inv r \<Longrightarrow> map_of (r_bucketsByID r) i = Some b \<Longrightarrow> bk_BucketID b = i"
  by (simp add: bucket_inv_iff)

lemma bucket_name_unique:
  "bucket_inv r \<Longrightarrow> map_of (r_bucketsByID r) i = Some b \<Longrightarrow> map_of (r_bucketsByID r) j = Some c \<Longrightarrow>
     bk_Name b = bk_Name c \<Longrightarrow> i = j"
  unfolding bucket_inv_iff by (metis option.inject)

lemma bucket_inv_put:
  assumes inv: "bucket_inv r" and old: "map_of (r_bucketsByID r) i = Some b"
    and same: "bk_BucketID b' = bk_BucketID b" "bk_Name b' = bk_Name b" and ok: "bucket_ok b'"
  shows "bucket_inv (putBucketLocked b' r)"
proof -
  have i: "bk_BucketID b = i" using inv old by (rule bucket_id)
  have name: "map_of (r_bucketNameToID r) (bk_Name b) = Some i"
    using inv old by (simp add: bucket_inv_iff)
  have inverse: "\<And>n j. map_of (r_bucketNameToID r) n = Some j \<Longrightarrow>
      \<exists>c. map_of (r_bucketsByID r) j = Some c \<and> bk_Name c = n"
    using inv by (simp add: bucket_inv_iff)
  show ?thesis
    unfolding bucket_inv_iff putBucketLocked_def
  proof (intro conjI allI impI)
    fix n j
    assume "map_of (r_bucketNameToID (r\<lparr>r_bucketsByID := map_put (bk_BucketID b') b' (r_bucketsByID r)\<rparr>)) n
        = Some j"
    then obtain c where "map_of (r_bucketsByID r) j = Some c" "bk_Name c = n"
      using inverse by auto
    then show "\<exists>b. map_of (r_bucketsByID (r\<lparr>r_bucketsByID :=
          map_put (bk_BucketID b') b' (r_bucketsByID r)\<rparr>)) j = Some b \<and> bk_Name b = n"
      using same i old by (cases "j = i") auto
  qed (use inv same i name ok in \<open>auto simp: bucket_inv_iff split: if_splits\<close>)
qed

lemma bucket_ok_config [simp]:
  "bucket_ok (b\<lparr>bk_CORSRules := c\<rparr>) = bucket_ok b"
  "bucket_ok (b\<lparr>bk_Lifecycle := l\<rparr>) = bucket_ok b"
  "bucket_ok (b\<lparr>bk_DefaultEncryption := e\<rparr>) = bucket_ok b"
  "bucket_ok (b\<lparr>bk_Policy := p\<rparr>) = bucket_ok b"
  by (simp_all add: bucket_ok_def)

lemma bucket_inv_ok: "bucket_inv r \<Longrightarrow> map_of (r_bucketsByID r) i = Some b \<Longrightarrow> bucket_ok b"
  by (simp add: bucket_inv_iff)

lemma bucket_inv_config:
  assumes "bucket_inv r"
  shows "bucket_inv (snd (PutBucketVersioning q1 r))" "bucket_inv (snd (PutBucketCORS q2 r))"
    "bucket_inv (snd (DeleteBucketCORS i r))" "bucket_inv (snd (PutBucketLifecycle E now q3 r))"
    "bucket_inv (snd (DeleteBucketLifecycle E now i audit r))"
    "bucket_inv (snd (PutBucketEncryption E now q4 r))"
    "bucket_inv (snd (DeleteBucketEncryption E now i audit r))"
    "bucket_inv (snd (PutBucketPolicy E now q5 r))"
    "bucket_inv (snd (DeleteBucketPolicy E now i audit r))"
    "bucket_inv (snd (PutBucketObjectLock E now q6 r))"
  using assms bucket_inv_put [OF assms] bucket_inv_ok [OF assms]
  by (auto simp: bucket_config_defs Let_def bucket_ok_def split: option.splits)

lemma bucket_inv_CreateBucket:
  assumes inv: "bucket_inv r"
  shows "bucket_inv (snd (CreateBucket now ids req r))"
proof (cases "fst (CreateBucket now ids req r)")
  case (Inl e)
  then show ?thesis using inv by (auto simp: CreateBucket_def Let_def split: sum.splits if_splits)
next
  case (Inr b)
  then obtain i where name: "map_of (r_bucketNameToID r) (q_cb_Name req) = None"
    and i: "nextBucketIDLocked ids r = Inr i"
    and after: "r_bucketsByID (snd (CreateBucket now ids req r)) = map_put i b (r_bucketsByID r)"
      "r_bucketNameToID (snd (CreateBucket now ids req r)) = map_put (q_cb_Name req) i (r_bucketNameToID r)"
    and b: "bk_BucketID b = i" "bk_Name b = q_cb_Name req" "bucket_ok b"
    by (auto simp: CreateBucket_def Let_def bucket_ok_def zero_Bucket_def
        zero_BucketObjectLockConfiguration_def split: sum.splits if_splits)
  have free: "map_of (r_bucketsByID r) i = None"
    using bucket_ids.alloc_fresh [OF i] by (simp add: bucket_taken_def)
  have names: "\<And>j c. map_of (r_bucketsByID r) j = Some c \<Longrightarrow> bk_Name c \<noteq> q_cb_Name req"
    using inv name unfolding bucket_inv_iff by (metis option.distinct(1))
  have ids: "\<And>n j. map_of (r_bucketNameToID r) n = Some j \<Longrightarrow> j \<noteq> i"
    using inv free unfolding bucket_inv_iff by (metis option.distinct(1))
  show ?thesis
    using inv b names ids by (simp add: bucket_inv_iff after)
qed

lemma bucket_inv_DeleteBucket:
  assumes "bucket_inv r"
  shows "bucket_inv (snd (DeleteBucket i r))"
proof (cases "map_of (r_bucketsByID r) i")
  case None
  then show ?thesis using assms by (simp add: DeleteBucket_def)
next
  case (Some b)
  have "\<And>j c. map_of (r_bucketsByID r) j = Some c \<Longrightarrow> j \<noteq> i \<Longrightarrow> bk_Name c \<noteq> bk_Name b"
    using bucket_name_unique [OF assms] Some by metis
  moreover have "\<And>n. map_of (r_bucketNameToID r) n = Some i \<Longrightarrow> n = bk_Name b"
    using assms Some by (fastforce simp: bucket_inv_iff)
  ultimately show ?thesis
    using assms Some by (auto simp: DeleteBucket_def bucket_inv_iff)
qed

lemma bucket_inv_quota:
  "bucket_inv r \<Longrightarrow> bucket_inv (snd (PutBucketQuota clk req r))"
  "bucket_inv r \<Longrightarrow> bucket_inv (snd (DeleteBucketQuota i r))"
  by (auto simp: PutBucketQuota_def DeleteBucketQuota_def bucket_inv_def split: sum.splits)

section \<open>Behaviour\<close>

lemma CreateBucket_ok:
  assumes "CreateBucket now ids req r = (Inr b, r')"
  shows "map_of (r_bucketNameToID r) (q_cb_Name req) = None"
    "nextBucketIDLocked ids r = Inr (bk_BucketID b)" "bk_Name b = q_cb_Name req"
    "r_bucketsByID r' = map_put (bk_BucketID b) b (r_bucketsByID r)"
    "r_bucketNameToID r' = map_put (bk_Name b) (bk_BucketID b) (r_bucketNameToID r)"
    "bol_Enabled (bk_ObjectLock b) = q_cb_ObjectLockEnabled req"
  using assms by (auto simp: CreateBucket_def Let_def zero_Bucket_def
      zero_BucketObjectLockConfiguration_def split: sum.splits if_splits)

lemma GetBucketByName_cases:
  "bucket_inv r \<Longrightarrow> GetBucketByName n r = Inr b \<Longrightarrow>
     bk_Name b = n \<and> map_of (r_bucketsByID r) (bk_BucketID b) = Some b"
  by (fastforce simp: GetBucketByName_def bucket_inv_iff split: option.splits)

text \<open>Listing sorts by a key that is unique, so the result does not depend on the order in
  which the map is visited.\<close>

lemma buckets_strict_total:
  assumes "bucket_inv r"
  shows "strict_total_on (set (filter P (map snd (r_bucketsByID r)))) (\<lambda>a b. bk_Name a < bk_Name b)"
proof (rule strict_total_on_key)
  show "inj_on bk_Name (set (filter P (map snd (r_bucketsByID r))))"
  proof (rule inj_onI)
    fix a b
    assume "a \<in> set (filter P (map snd (r_bucketsByID r)))"
      "b \<in> set (filter P (map snd (r_bucketsByID r)))" and eq: "bk_Name a = bk_Name b"
    then obtain i j where "(i, a) \<in> set (r_bucketsByID r)" "(j, b) \<in> set (r_bucketsByID r)" by auto
    then have "map_of (r_bucketsByID r) i = Some a" "map_of (r_bucketsByID r) j = Some b"
      using assms by (simp_all add: bucket_inv_def map_wf_mem)
    with bucket_name_unique [OF assms this eq] show "a = b" by simp
  qed
qed

lemma distinct_values:
  "map_wf m \<Longrightarrow> inj_on f (set m) \<Longrightarrow> distinct (map f m)"
  unfolding map_wf_def by (metis distinct_map distinct_zipI1 zip_map_fst_snd)

lemma buckets_distinct:
  assumes "bucket_inv r"
  shows "distinct (map snd (r_bucketsByID r))"
proof (rule distinct_values)
  have key: "bk_BucketID (snd p) = fst p" if "p \<in> set (r_bucketsByID r)" for p
    using assms that by (cases p) (auto simp: bucket_inv_def)
  show "inj_on snd (set (r_bucketsByID r))"
    by (rule inj_onI) (metis key prod_eqI)
qed (use assms in \<open>simp add: bucket_inv_def\<close>)

lemma ListBuckets_cong:
  assumes "bucket_inv r" "bucket_inv r'" "map_of (r_bucketsByID r) = map_of (r_bucketsByID r')"
  shows "ListBuckets t r = ListBuckets t r'"
proof -
  have "set (map snd (r_bucketsByID r)) = set (map snd (r_bucketsByID r'))"
    using assms by (auto simp: bucket_inv_def map_wf_mem image_iff Bex_def)
  then have "set (filter P (map snd (r_bucketsByID r))) = set (filter P (map snd (r_bucketsByID r')))" for P
    by (metis set_filter)
  then show ?thesis
    unfolding ListBuckets_def using assms
    by (intro arg_cong [where f = Inr] sort_by_cong buckets_strict_total distinct_filter buckets_distinct)
qed

end
