(* ===== verification/Manifest.thy ===== *)
theory Manifest
  imports ObjectLock
begin

text \<open>
  The size rules of \<open>internal/meta/scale.go\<close>: how many segments an object may have, when
  its record is stored inline and when the segment list is split into chunks, and the part
  number rules of multipart uploads.

  The JSON encoding is an argument (\<open>Env\<close>), \<open>None\<close> where it fails; only lengths matter,
  so the encoded value itself is left out of the plan. \<open>manifestTooLargeError\<close> wraps both
  \<open>ErrInvalidArgument\<close> and \<open>ErrObjectManifestTooLarge\<close>; the model keeps the latter.

  The lemmas show that the chunking loop ends and that its chunks, read back in order, are
  the segment list, each within the size budget.
\<close>

definition MaxMultipartParts :: int where "MaxMultipartParts = 10000"
definition MaxObjectManifestSegmentRefs :: int where "MaxObjectManifestSegmentRefs = MaxMultipartParts"
definition MaxObjectManifestValueBytes :: int where "MaxObjectManifestValueBytes = 16 * 1024 * 1024"
definition ObjectManifestChunkRefTarget :: nat where "ObjectManifestChunkRefTarget = 1024"
definition DefaultMultipartCleanupLimit :: int where "DefaultMultipartCleanupLimit = 256"
definition MaxMultipartCleanupLimit :: int where "MaxMultipartCleanupLimit = 1000"

record ObjectVersionManifestPlan =
  omp_Inline :: bool
  omp_ValueBytes :: int
  omp_StoredVersion :: ObjectVersion
  omp_Chunks :: "ObjectManifestChunk list"

definition ValidateObjectManifestScale :: "SegmentRef list \<Rightarrow> error option" where
  "ValidateObjectManifestScale segmentRefs =
     (if int (length segmentRefs) > MaxObjectManifestSegmentRefs then Some ErrInvalidArgument else None)"

definition objectVersionSegmentRefs :: "ObjectVersion \<Rightarrow> SegmentRef list" where
  "objectVersionSegmentRefs version =
     (if ov_SegmentRefs version \<noteq> [] then ov_SegmentRefs version
      else if sg_SegmentID (ov_SegmentRef version) = [] then []
      else [ov_SegmentRef version])"

definition ObjectVersionValueBytes :: "Env \<Rightarrow> ObjectVersion \<Rightarrow> int result" where
  "ObjectVersionValueBytes E version =
     (case json_version_len E version of None \<Rightarrow> Inl ErrInvalidArgument | Some n \<Rightarrow> Inr n)"

definition ValidateObjectVersionValueSize :: "int \<Rightarrow> error option" where
  "ValidateObjectVersionValueSize valueBytes =
     (if valueBytes > MaxObjectManifestValueBytes then Some ErrObjectManifestTooLarge else None)"

definition manifest_chunk :: "ObjectVersion \<Rightarrow> nat \<Rightarrow> SegmentRef list \<Rightarrow> ObjectManifestChunk" where
  "manifest_chunk version number refs =
     \<lparr>omc_BucketID = ov_BucketID version, omc_Key = ov_Key version, omc_VersionID = ov_VersionID version,
      omc_ChunkNumber = int number, omc_SegmentRefs = refs, omc_CreatedAt = ov_CreatedAt version\<rparr>"

function fit_chunk ::
  "Env \<Rightarrow> ObjectVersion \<Rightarrow> nat \<Rightarrow> SegmentRef list \<Rightarrow> nat \<Rightarrow> (ObjectManifestChunk \<times> nat) result" where
  \<comment> \<open>the inner loop of \<open>buildObjectManifestChunks\<close>; \<open>refs\<close> is \<open>refs[start:]\<close>\<close>
  "fit_chunk E version number refs chunkSize =
     (let chunk = manifest_chunk version number (take chunkSize refs)
      in case json_chunk_len E chunk of
        None \<Rightarrow> Inl ErrInvalidArgument
      | Some valueBytes \<Rightarrow>
          if valueBytes \<le> MaxObjectManifestValueBytes then Inr (chunk, chunkSize)
          else if chunkSize = 1 then Inl ErrObjectManifestTooLarge
          else fit_chunk E version number refs (max 1 (chunkSize div 2)))"
  by pat_completeness auto
termination
  by (relation "measure (\<lambda>(E, version, number, refs, n). if n = 0 then 2 else n)")
    (auto simp: max_def split: if_splits)

declare fit_chunk.simps [simp del]

lemma fit_chunk_ok:
  "fit_chunk E version number refs n = Inr (chunk, m) \<Longrightarrow> 0 < n \<Longrightarrow>
     0 < m \<and> m \<le> n \<and> chunk = manifest_chunk version number (take m refs) \<and>
     (\<exists>b. json_chunk_len E chunk = Some b \<and> b \<le> MaxObjectManifestValueBytes)"
proof (induction E version number refs n rule: fit_chunk.induct)
  case (1 E version number refs n)
  let ?chunk = "manifest_chunk version number (take n refs)"
  obtain b where b: "json_chunk_len E ?chunk = Some b"
    using "1.prems"(1) by (subst (asm) fit_chunk.simps) (auto simp: Let_def split: option.splits)
  show ?case
  proof (cases "b \<le> MaxObjectManifestValueBytes")
    case True
    with "1.prems" b show ?thesis by (subst (asm) fit_chunk.simps) (auto simp: Let_def)
  next
    case False
    with "1.prems"(1) b have n: "n \<noteq> 1"
      by (subst (asm) fit_chunk.simps) (auto simp: Let_def)
    with False b "1.prems"(1) have "fit_chunk E version number refs (max 1 (n div 2)) = Inr (chunk, m)"
      by (subst (asm) fit_chunk.simps) (simp add: Let_def)
    moreover have "0 < max 1 (n div 2)" by simp
    ultimately have "0 < m \<and> m \<le> max 1 (n div 2) \<and>
        chunk = manifest_chunk version number (take m refs) \<and>
        (\<exists>b. json_chunk_len E chunk = Some b \<and> b \<le> MaxObjectManifestValueBytes)" by (rule "1.IH" [OF refl b False n])
    moreover have "max 1 (n div 2) \<le> n" using "1.prems"(2) by (simp add: max_def)
    ultimately show ?thesis by (meson le_trans)
  qed
qed

function build_chunks ::
  "Env \<Rightarrow> ObjectVersion \<Rightarrow> nat \<Rightarrow> SegmentRef list \<Rightarrow> ObjectManifestChunk list result" where
  \<comment> \<open>the outer loop, from \<open>start\<close> on with \<open>number\<close> the number of the next chunk\<close>
  "build_chunks E version number refs =
     (if refs = [] then Inr []
      else case fit_chunk E version number refs (min ObjectManifestChunkRefTarget (length refs)) of
        Inl e \<Rightarrow> Inl e
      | Inr (chunk, n) \<Rightarrow>
          (case build_chunks E version (Suc number) (drop n refs) of
             Inl e \<Rightarrow> Inl e | Inr chunks \<Rightarrow> Inr (chunk # chunks)))"
  by pat_completeness auto
termination
proof (relation "measure (\<lambda>(E, version, number, refs). length refs)", goal_cases)
  case (2 E version number refs p chunk n)
  then have "fit_chunk E version number refs (min ObjectManifestChunkRefTarget (length refs)) = Inr (chunk, n)"
    by simp
  with 2 have "0 < n" using fit_chunk_ok by (fastforce simp: ObjectManifestChunkRefTarget_def)
  with 2 show ?case by simp
qed simp

declare build_chunks.simps [simp del]

definition buildObjectManifestChunks ::
  "Env \<Rightarrow> ObjectVersion \<Rightarrow> SegmentRef list \<Rightarrow> ObjectManifestChunk list result" where
  "buildObjectManifestChunks E version refs = build_chunks E version 1 refs"

definition PlanObjectVersionManifestStorage ::
  "Env \<Rightarrow> ObjectVersion \<Rightarrow> ObjectVersionManifestPlan result" where
  "PlanObjectVersionManifestStorage E version =
     (case ValidateObjectManifestScale (objectVersionSegmentRefs version) of
        Some e \<Rightarrow> Inl e
      | None \<Rightarrow>
          let inline = version\<lparr>ov_Manifest := zero_ObjectManifestDescriptor\<rparr>
          in case ObjectVersionValueBytes E inline of
            Inl e \<Rightarrow> Inl e
          | Inr valueBytes \<Rightarrow>
              if valueBytes \<le> MaxObjectManifestValueBytes
              then Inr \<lparr>omp_Inline = True, omp_ValueBytes = valueBytes, omp_StoredVersion = inline,
                        omp_Chunks = []\<rparr>
              else let refs = objectVersionSegmentRefs version
                   in if refs = [] then Inl ErrObjectManifestTooLarge
                      else case buildObjectManifestChunks E version refs of
                        Inl e \<Rightarrow> Inl e
                      | Inr chunks \<Rightarrow>
                          let chunked = version\<lparr>ov_SegmentRef := zero_SegmentRef, ov_SegmentRefs := [],
                                ov_Manifest := \<lparr>omd_Encoding = ObjectManifestEncodingChunked,
                                  omd_RefCount = int (length refs), omd_ChunkCount = int (length chunks)\<rparr>\<rparr>
                          in case ObjectVersionValueBytes E chunked of
                            Inl e \<Rightarrow> Inl e
                          | Inr valueBytes' \<Rightarrow>
                              (case ValidateObjectVersionValueSize valueBytes' of
                                 Some e \<Rightarrow> Inl e
                               | None \<Rightarrow> Inr \<lparr>omp_Inline = False, omp_ValueBytes = valueBytes',
                                   omp_StoredVersion = chunked, omp_Chunks = chunks\<rparr>))"

definition ValidateObjectVersionScale :: "Env \<Rightarrow> ObjectVersion \<Rightarrow> error option" where
  "ValidateObjectVersionScale E version =
     (case PlanObjectVersionManifestStorage E version of Inl e \<Rightarrow> Some e | Inr plan \<Rightarrow> None)"

definition ValidateCompletedMultipartPartCount :: "int \<Rightarrow> error option" where
  "ValidateCompletedMultipartPartCount partCount =
     (if partCount < 1 \<or> partCount > MaxMultipartParts then Some ErrInvalidArgument else None)"

fun check_part_numbers :: "int list \<Rightarrow> int list \<Rightarrow> error option" where
  "check_part_numbers seen [] = None"
| "check_part_numbers seen (n # ns) =
     (if n < 1 \<or> n > MaxMultipartParts then Some ErrInvalidArgument
      else if n \<in> set seen then Some ErrInvalidArgument
      else check_part_numbers (n # seen) ns)"

definition ValidateMultipartPartNumberSelection :: "int list \<Rightarrow> error option" where
  "ValidateMultipartPartNumberSelection partNumbers =
     (if length partNumbers < 1 \<or> int (length partNumbers) > MaxMultipartParts
      then Some ErrInvalidArgument else check_part_numbers [] partNumbers)"

definition NormalizeMultipartCleanupLimit :: "int \<Rightarrow> int" where
  "NormalizeMultipartCleanupLimit limit =
     (if limit \<le> 0 then DefaultMultipartCleanupLimit
      else if limit > MaxMultipartCleanupLimit then MaxMultipartCleanupLimit
      else limit)"

section \<open>Chunks read back as the segment list\<close>

definition chunk_ok :: "Env \<Rightarrow> ObjectManifestChunk \<Rightarrow> bool" where
  "chunk_ok E c \<longleftrightarrow> omc_SegmentRefs c \<noteq> [] \<and> length (omc_SegmentRefs c) \<le> ObjectManifestChunkRefTarget \<and>
     (case json_chunk_len E c of None \<Rightarrow> False | Some b \<Rightarrow> b \<le> MaxObjectManifestValueBytes)"

lemma build_chunks_ok:
  "build_chunks E version number refs = Inr chunks \<Longrightarrow>
     concat (map omc_SegmentRefs chunks) = refs \<and> list_all (chunk_ok E) chunks \<and>
     map omc_ChunkNumber chunks = map int [number..<number + length chunks]"
proof (induction E version number refs arbitrary: chunks rule: build_chunks.induct)
  case (1 E version number refs)
  show ?case
  proof (cases "refs = []")
    case True
    with "1.prems" show ?thesis by (subst (asm) build_chunks.simps) simp
  next
    case False
    let ?size = "min ObjectManifestChunkRefTarget (length refs)"
    from False "1.prems" obtain chunk n cs where
      fit: "fit_chunk E version number refs ?size = Inr (chunk, n)"
      and rest: "build_chunks E version (Suc number) (drop n refs) = Inr cs" and chunks: "chunks = chunk # cs"
      by (subst (asm) build_chunks.simps) (auto split: sum.splits)
    have size: "0 < ?size" using False by (simp add: ObjectManifestChunkRefTarget_def)
    note ok = fit_chunk_ok [OF fit size]
    have IH: "concat (map omc_SegmentRefs cs) = drop n refs \<and> list_all (chunk_ok E) cs \<and>
        map omc_ChunkNumber cs = map int [Suc number..<Suc number + length cs]"
      by (rule "1.IH" [OF False fit refl rest])
    have "chunk_ok E chunk" using ok False by (auto simp: chunk_ok_def manifest_chunk_def)
    moreover have "[number..<number + length chunks] = number # [Suc number..<Suc number + length cs]"
      using upt_conv_Cons [of number "number + length chunks"] chunks by (simp del: upt_Suc)
    ultimately show ?thesis using IH ok chunks by (simp add: manifest_chunk_def)
  qed
qed

lemma check_part_numbers_ok:
  "check_part_numbers seen ns = None \<longleftrightarrow>
     distinct ns \<and> set ns \<inter> set seen = {} \<and> (\<forall>n \<in> set ns. 1 \<le> n \<and> n \<le> MaxMultipartParts)"
  by (induction ns arbitrary: seen) (auto simp: not_less)

lemma objectVersionSegmentRefs_eq: "objectVersionSegmentRefs v = objectSegmentRefsFromVersion v"
  by (simp add: objectVersionSegmentRefs_def objectSegmentRefsFromVersion_def normalizeSegmentRefs_def)

lemma plan_chunked:
  assumes "PlanObjectVersionManifestStorage E version = Inr plan" "\<not> omp_Inline plan"
  shows "buildObjectManifestChunks E version (objectVersionSegmentRefs version) = Inr (omp_Chunks plan)"
    "omp_StoredVersion plan = version\<lparr>ov_SegmentRef := zero_SegmentRef, ov_SegmentRefs := [],
       ov_Manifest := \<lparr>omd_Encoding = ObjectManifestEncodingChunked,
         omd_RefCount = int (length (objectVersionSegmentRefs version)),
         omd_ChunkCount = int (length (omp_Chunks plan))\<rparr>\<rparr>"
    "json_version_len E (omp_StoredVersion plan) = Some (omp_ValueBytes plan)"
    "omp_ValueBytes plan \<le> MaxObjectManifestValueBytes"
  using assms
  by (auto simp: PlanObjectVersionManifestStorage_def Let_def ObjectVersionValueBytes_def
      ValidateObjectVersionValueSize_def split: option.splits sum.splits if_splits)

lemma plan_inline:
  assumes "PlanObjectVersionManifestStorage E version = Inr plan" "omp_Inline plan"
  shows "omp_StoredVersion plan = version\<lparr>ov_Manifest := zero_ObjectManifestDescriptor\<rparr>"
    "omp_Chunks plan = []" "json_version_len E (omp_StoredVersion plan) = Some (omp_ValueBytes plan)"
    "omp_ValueBytes plan \<le> MaxObjectManifestValueBytes"
  using assms
  by (auto simp: PlanObjectVersionManifestStorage_def Let_def ObjectVersionValueBytes_def
      split: option.splits sum.splits if_splits)

text \<open>C21 A storage plan loses no segment: whatever the encoder's sizes, the segment references
  of an accepted version are those of the stored record when it is kept inline, and otherwise
  the concatenation of its chunks, numbered from one, none empty or over 1024 references, and
  every stored value is within the size budget.\<close>

theorem manifest_plan_lossless:
  assumes "PlanObjectVersionManifestStorage E version = Inr plan"
  shows "objectVersionSegmentRefs (omp_StoredVersion plan) @ concat (map omc_SegmentRefs (omp_Chunks plan))
       = objectVersionSegmentRefs version \<and>
     list_all (chunk_ok E) (omp_Chunks plan) \<and>
     map omc_ChunkNumber (omp_Chunks plan) = map int [1..<1 + length (omp_Chunks plan)] \<and>
     json_version_len E (omp_StoredVersion plan) = Some (omp_ValueBytes plan) \<and>
     omp_ValueBytes plan \<le> MaxObjectManifestValueBytes"
proof (cases "omp_Inline plan")
  case True
  from plan_inline [OF assms this] show ?thesis by (simp add: objectVersionSegmentRefs_def)
next
  case False
  note plan = plan_chunked [OF assms False]
  have "objectVersionSegmentRefs (omp_StoredVersion plan) = []"
    by (simp add: plan(2) objectVersionSegmentRefs_def zero_SegmentRef_def)
  with build_chunks_ok [OF plan(1) [unfolded buildObjectManifestChunks_def]] plan(3,4)
  show ?thesis by simp
qed

theorem manifest_plan_lossless_witness:
  "let segs = map (\<lambda>s. zero_SegmentRef\<lparr>sg_SegmentID := s\<rparr>) [''a'', ''b'', ''c'', ''d'', ''e''];
       version = zero_ObjectVersion\<lparr>ov_SegmentRefs := segs\<rparr>
   in \<exists>plan. PlanObjectVersionManifestStorage demo_env version = Inr plan \<and>
        length (omp_Chunks plan) = 3 \<and> concat (map omc_SegmentRefs (omp_Chunks plan)) = segs"
proof -
  define version where "version = zero_ObjectVersion\<lparr>ov_SegmentRefs :=
    map (\<lambda>s. zero_SegmentRef\<lparr>sg_SegmentID := s\<rparr>) [''a'', ''b'', ''c'', ''d'', ''e'']\<rparr>"
  have refs: "objectVersionSegmentRefs version =
      map (\<lambda>s. zero_SegmentRef\<lparr>sg_SegmentID := s\<rparr>) [''a'', ''b'', ''c'', ''d'', ''e'']"
    by (simp add: version_def objectVersionSegmentRefs_def)
  have len: "length (ov_SegmentRefs version) = 5" by (simp add: version_def)
  obtain plan where plan: "PlanObjectVersionManifestStorage demo_env version = Inr plan"
    and three: "length (omp_Chunks plan) = 3" and stored: "ov_SegmentRefs (omp_StoredVersion plan) = []"
      "ov_SegmentRef (omp_StoredVersion plan) = zero_SegmentRef"
    by (simp add: PlanObjectVersionManifestStorage_def refs len ValidateObjectManifestScale_def Let_def
        ObjectVersionValueBytes_def buildObjectManifestChunks_def build_chunks.simps fit_chunk.simps
        ObjectManifestChunkRefTarget_def MaxObjectManifestValueBytes_def manifest_chunk_def
        MaxObjectManifestSegmentRefs_def MaxMultipartParts_def ValidateObjectVersionValueSize_def)
  show ?thesis
    using manifest_plan_lossless [OF plan] plan three stored refs
    by (auto simp: Let_def version_def objectVersionSegmentRefs_def zero_SegmentRef_def)
qed

end
