(* ===== verification/Objects.thy ===== *)
theory Objects
  imports Buckets Manifest
begin

text \<open>
  Objects and their versions: the two-phase put (\<open>BeginPutObject\<close>, \<open>CommitObjectVersion\<close>)
  and the one-step put (\<open>PutObjectVersion\<close>), reads, deletion with delete markers and
  promotion, tags, retention and legal hold, from \<open>internal/meta/memory/repository.go\<close>.

  \<open>obj_ok\<close> says that every version is stored under its own identifiers and that every
  head is the image of a committed version; \<open>prot_ok\<close> that the protected references
  cover every locked version. Both are kept by every operation.
\<close>

section \<open>Versions and heads\<close>

definition version_taken :: "Repository \<times> string \<times> string \<Rightarrow> string \<Rightarrow> bool" where
  "version_taken s versionID \<longleftrightarrow>
     (case s of (r, bucketID, key) \<Rightarrow> map_of (r_versions r) (bucketID, key, versionID) \<noteq> None)"

definition nextObjectVersionIDLocked :: "id_source \<Rightarrow> Repository \<times> string \<times> string \<Rightarrow> string result" where
  "nextObjectVersionIDLocked ids s = draw_id (version_taken s) ids 0 idCollisionRetryLimit"

definition headFromVersion :: "ObjectVersion \<Rightarrow> time \<Rightarrow> ObjectHead" where
  "headFromVersion version lastModified =
     zero_ObjectHead\<lparr>oh_BucketID := ov_BucketID version, oh_Key := ov_Key version,
       oh_VersionID := ov_VersionID version, oh_SizeBytes := ov_SizeBytes version,
       oh_ETag := ov_ETag version, oh_ContentType := ov_ContentType version,
       oh_StorageClass := ov_StorageClass version,
       oh_ServerSideEncryption := ov_ServerSideEncryption version,
       oh_SegmentRef := ov_SegmentRef version, oh_SegmentRefs := ov_SegmentRefs version,
       oh_UserMetadata := ov_UserMetadata version, oh_Tags := ov_Tags version,
       oh_ObjectLockRetention := ov_ObjectLockRetention version,
       oh_ObjectLockLegalHold := ov_ObjectLockLegalHold version,
       oh_LastModified := lastModified, oh_DeleteMarker := ov_DeleteMarker version\<rparr>"

definition nextObjectHeadRevision :: "ObjectHead option \<Rightarrow> u64" where
  "nextObjectHeadRevision previous =
     (case previous of None \<Rightarrow> 1
      | Some head \<Rightarrow> if oh_Revision head = 0 then 1 else oh_Revision head + 1)"

definition setHeadLocked :: "objectKey \<Rightarrow> ObjectHead \<Rightarrow> Repository \<Rightarrow> ObjectHead \<times> Repository" where
  "setHeadLocked key head r =
     (let head' = head\<lparr>oh_Revision := nextObjectHeadRevision (map_of (r_heads r) key)\<rparr>
      in (head', r\<lparr>r_heads := map_put key head' (r_heads r)\<rparr>))"

definition deleteVersionRecordLocked ::
  "string \<Rightarrow> string \<Rightarrow> string \<Rightarrow> Repository \<Rightarrow> ObjectVersion \<times> Repository" where
  "deleteVersionRecordLocked bucketID key versionID r =
     (if versionID = [] then (zero_ObjectVersion, r)
      else case map_of (r_versions r) (bucketID, key, versionID) of
        None \<Rightarrow> (zero_ObjectVersion, r)
      | Some version \<Rightarrow>
          (version, r\<lparr>r_versions := map_del (bucketID, key, versionID) (r_versions r)\<rparr>))"

fun latest_loop :: "string \<Rightarrow> string \<Rightarrow> ObjectVersion \<Rightarrow> (versionKey, ObjectVersion) gomap \<Rightarrow> ObjectVersion" where
  "latest_loop bucketID key latest [] = latest"
| "latest_loop bucketID key latest (((b, k, i), version) # m) =
     (if b \<noteq> bucketID \<or> k \<noteq> key \<or> ov_State version \<noteq> ObjectVersionCommitted
      then latest_loop bucketID key latest m
      else if ov_VersionID latest = [] \<or> ov_VersionSortKey version > ov_VersionSortKey latest
      then latest_loop bucketID key version m
      else latest_loop bucketID key latest m)"

definition latestCommittedVersionLocked :: "string \<Rightarrow> string \<Rightarrow> Repository \<Rightarrow> ObjectVersion option" where
  "latestCommittedVersionLocked bucketID key r =
     (let latest = latest_loop bucketID key zero_ObjectVersion (r_versions r)
      in if ov_VersionID latest \<noteq> [] then Some latest else None)"

section \<open>Put\<close>

definition version_from_request ::
  "BeginPutObjectRequest \<Rightarrow> SegmentRef list \<Rightarrow> string \<Rightarrow> time \<Rightarrow> ObjectVersion" where
  \<comment> \<open>the fields both puts set alike; state and commit time are set by the caller\<close>
  "version_from_request req segmentRefs versionID now =
     zero_ObjectVersion\<lparr>ov_BucketID := q_po_BucketID req, ov_Key := q_po_Key req,
       ov_VersionID := versionID, ov_VersionSortKey := versionID,
       ov_SizeBytes := q_po_SizeBytes req, ov_ETag := q_po_ETag req,
       ov_ContentType := q_po_ContentType req, ov_StorageClass := q_po_StorageClass req,
       ov_ServerSideEncryption := q_po_ServerSideEncryption req,
       ov_SegmentRef := firstSegmentRef segmentRefs, ov_SegmentRefs := segmentRefs,
       ov_UserMetadata := q_po_UserMetadata req, ov_Tags := q_po_Tags req,
       ov_ObjectLockRetention := q_po_ObjectLockRetention req,
       ov_ObjectLockLegalHold := q_po_ObjectLockLegalHold req, ov_CreatedAt := now\<rparr>"

definition BeginPutObject ::
  "Env \<Rightarrow> time \<Rightarrow> id_source \<Rightarrow> BeginPutObjectRequest \<Rightarrow> Repository \<Rightarrow>
     PendingObjectVersion result \<times> Repository" where
  "BeginPutObject E now ids req r =
     (if q_po_BucketID req = [] \<or> q_po_Key req = [] then (Inl ErrInvalidArgument, r)
      else case validateObjectLockState (q_po_ObjectLockRetention req) (q_po_ObjectLockLegalHold req) of
        Some e \<Rightarrow> (Inl e, r)
      | None \<Rightarrow>
          let segmentRefs = normalizeSegmentRefs (q_po_SegmentRef req) (q_po_SegmentRefs req)
          in case ValidateObjectManifestScale segmentRefs of
            Some e \<Rightarrow> (Inl e, r)
          | None \<Rightarrow>
              if map_of (r_bucketsByID r) (q_po_BucketID req) = None then (Inl ErrNotFound, r)
              else let currentHead = map_get zero_ObjectHead (r_heads r) (q_po_BucketID req, q_po_Key req)
                   in case nextObjectVersionIDLocked ids (r, q_po_BucketID req, q_po_Key req) of
                     Inl e \<Rightarrow> (Inl e, r)
                   | Inr versionID \<Rightarrow>
                       let version = (version_from_request req segmentRefs versionID now)
                             \<lparr>ov_State := ObjectVersionPending\<rparr>
                       in case ValidateObjectVersionScale E version of
                         Some e \<Rightarrow> (Inl e, r)
                       | None \<Rightarrow>
                           (Inr \<lparr>pov_Version = version, pov_BaseHeadVersionID = oh_VersionID currentHead,
                                 pov_BaseHead = currentHead,
                                 pov_BaseHeadFound = (oh_VersionID currentHead \<noteq> [])\<rparr>,
                            r\<lparr>r_versions := map_put (q_po_BucketID req, q_po_Key req, versionID) version
                                (r_versions r)\<rparr>))"

definition replaceHeadVersionLocked ::
  "Bucket \<Rightarrow> string \<Rightarrow> string \<Rightarrow> ObjectHead \<Rightarrow> ObjectVersion \<Rightarrow> Repository \<Rightarrow> Repository" where
  \<comment> \<open>without versioning the version the head had is dropped, with its protected references\<close>
  "replaceHeadVersionLocked bucket bucketID key currentHead version r =
     (if bk_VersioningState bucket \<noteq> BucketVersioningEnabled \<and> oh_VersionID currentHead \<noteq> [] \<and>
         oh_VersionID currentHead \<noteq> ov_VersionID version
      then let (old, r') = deleteVersionRecordLocked bucketID key (oh_VersionID currentHead) r
           in deleteProtectedRefsForVersionLocked (ov_BucketID old) (ov_Key old) (ov_VersionID old) r'
      else r)"

definition commitVersionLocked ::
  "Env \<Rightarrow> time \<Rightarrow> Bucket \<Rightarrow> ObjectHead \<Rightarrow> versionKey \<Rightarrow> ObjectVersion \<Rightarrow> Repository \<Rightarrow>
     ObjectHead \<times> Repository" where
  \<comment> \<open>the writes of \<open>CommitObjectVersion\<close>; \<open>version0\<close> is the pending record at \<open>vkey\<close>\<close>
  "commitVersionLocked E now bucket currentHead vkey version0 r =
     (case vkey of (b, k, i) \<Rightarrow>
        let version = version0\<lparr>ov_State := ObjectVersionCommitted, ov_CommittedAt := now\<rparr>;
            r1 = r\<lparr>r_versions := map_put vkey version (r_versions r)\<rparr>;
            r2 = replaceHeadVersionLocked bucket b k currentHead version r1;
            (head, r3) = setHeadLocked (b, k) (headFromVersion version now) r2
        in (head, syncProtectedRefsForVersionLocked E version now r3))"

definition CommitObjectVersion ::
  "Env \<Rightarrow> time \<Rightarrow> CommitObjectVersionRequest \<Rightarrow> Repository \<Rightarrow> ObjectHead result \<times> Repository" where
  "CommitObjectVersion E now req r =
     (if q_co_BucketID req = [] \<or> q_co_Key req = [] \<or> q_co_VersionID req = []
      then (Inl ErrInvalidArgument, r)
      else let bucket = map_get zero_Bucket (r_bucketsByID r) (q_co_BucketID req);
               key = (q_co_BucketID req, q_co_Key req);
               currentHead = map_get zero_ObjectHead (r_heads r) key;
               vkey = (q_co_BucketID req, q_co_Key req, q_co_VersionID req)
           in if oh_VersionID currentHead \<noteq> q_co_ExpectedHeadVersionID req then (Inl ErrCASConflict, r)
              else case map_of (r_versions r) vkey of
                None \<Rightarrow> (Inl ErrNotFound, r)
              | Some version0 \<Rightarrow>
                  if ov_State version0 = ObjectVersionCommitted then (Inr currentHead, r)
                  else let (head, r') = commitVersionLocked E now bucket currentHead vkey version0 r
                       in (Inr head, r'))"

definition storeVersionLocked ::
  "Env \<Rightarrow> time \<Rightarrow> Bucket \<Rightarrow> ObjectHead \<Rightarrow> ObjectVersion \<Rightarrow> Repository \<Rightarrow> ObjectHead \<times> Repository" where
  \<comment> \<open>the writes of \<open>PutObjectVersion\<close>, once the version record is built and checked\<close>
  "storeVersionLocked E now bucket currentHead version r =
     (let b = ov_BucketID version; k = ov_Key version;
          r1 = replaceHeadVersionLocked bucket b k currentHead version r;
          r2 = r1\<lparr>r_versions := map_put (b, k, ov_VersionID version) version (r_versions r1)\<rparr>;
          (head, r3) = setHeadLocked (b, k) (headFromVersion version now) r2
      in (head, syncProtectedRefsForVersionLocked E version now r3))"

definition PutObjectVersion ::
  "Env \<Rightarrow> time \<Rightarrow> id_source \<Rightarrow> PutObjectVersionRequest \<Rightarrow> Repository \<Rightarrow>
     PutObjectVersionResult result \<times> Repository" where
  "PutObjectVersion E now ids req r =
     (if q_po_BucketID req = [] \<or> q_po_Key req = [] then (Inl ErrInvalidArgument, r)
      else case validateObjectLockState (q_po_ObjectLockRetention req) (q_po_ObjectLockLegalHold req) of
        Some e \<Rightarrow> (Inl e, r)
      | None \<Rightarrow>
          let segmentRefs = normalizeSegmentRefs (q_po_SegmentRef req) (q_po_SegmentRefs req)
          in case ValidateObjectManifestScale segmentRefs of
            Some e \<Rightarrow> (Inl e, r)
          | None \<Rightarrow>
              (case map_of (r_bucketsByID r) (q_po_BucketID req) of
                 None \<Rightarrow> (Inl ErrNotFound, r)
               | Some bucket \<Rightarrow>
                   let key = (q_po_BucketID req, q_po_Key req);
                       currentHead = map_get zero_ObjectHead (r_heads r) key
                   in case nextObjectVersionIDLocked ids (r, q_po_BucketID req, q_po_Key req) of
                     Inl e \<Rightarrow> (Inl e, r)
                   | Inr versionID \<Rightarrow>
                       let version = (version_from_request req segmentRefs versionID now)
                             \<lparr>ov_State := ObjectVersionCommitted, ov_CommittedAt := now\<rparr>
                       in case ValidateObjectVersionScale E version of
                         Some e \<Rightarrow> (Inl e, r)
                       | None \<Rightarrow>
                           let (head, r') = storeVersionLocked E now bucket currentHead version r
                           in (Inr \<lparr>pvr_Head = head, pvr_ReplacedHead = currentHead,
                                    pvr_ReplacedHeadFound = (oh_VersionID currentHead \<noteq> [])\<rparr>, r')))"

section \<open>Get and delete\<close>

definition GetObjectHead :: "string \<Rightarrow> string \<Rightarrow> Repository \<Rightarrow> ObjectHead result" where
  "GetObjectHead bucketID key r =
     (case map_of (r_heads r) (bucketID, key) of None \<Rightarrow> Inl ErrNotFound | Some head \<Rightarrow> Inr head)"

definition GetObjectVersion :: "string \<Rightarrow> string \<Rightarrow> string \<Rightarrow> Repository \<Rightarrow> ObjectVersion result" where
  "GetObjectVersion bucketID key versionID r =
     (case map_of (r_versions r) (bucketID, key, versionID) of
        None \<Rightarrow> Inl ErrNotFound | Some version \<Rightarrow> Inr version)"

definition governance_gate ::
  "(bool \<Rightarrow> bool) \<Rightarrow> DeleteObjectRequest \<Rightarrow> bool" where
  \<comment> \<open>the condition under which a protected object may not be deleted: \<open>protected b\<close> is the
    lock test with bypass \<open>b\<close>\<close>
  "governance_gate protected req \<longleftrightarrow>
     protected True \<or> \<not> q_do_BypassGovernanceRetention req \<or>
     \<not> validGovernanceBypassAudit (q_do_BypassAudit req)"

definition removeVersionLocked ::
  "Env \<Rightarrow> clock \<Rightarrow> DeleteObjectRequest \<Rightarrow> ObjectVersion \<Rightarrow> Repository \<Rightarrow> Repository" where
  \<comment> \<open>the writes of \<open>deleteObjectVersionLocked\<close>, once the deletion is admitted\<close>
  "removeVersionLocked E clk req deleted r =
     (let vkey = (q_do_BucketID req, q_do_Key req, q_do_VersionID req);
          headKey = (q_do_BucketID req, q_do_Key req);
          r0 = (if objectVersionProtectedByObjectLock deleted (clk 0) False
                then appendAuditEventLocked E (clk 1)
                       (governanceBypassAuditEvent req AuditActionGovernanceBypassDeleteObject
                          (ov_VersionID deleted) [(''target'', ''object_version'')]) r
                else r);
          r1 = r0\<lparr>r_versions := map_del vkey (r_versions r0)\<rparr>;
          r2 = deleteProtectedRefsForVersionLocked (ov_BucketID deleted) (ov_Key deleted)
                 (ov_VersionID deleted) r1
      in case map_of (r_heads r2) headKey of
        None \<Rightarrow> r2
      | Some head \<Rightarrow>
          if oh_VersionID head = q_do_VersionID req
          then (case latestCommittedVersionLocked (q_do_BucketID req) (q_do_Key req) r2 of
                  Some promoted \<Rightarrow>
                    snd (setHeadLocked headKey (headFromVersion promoted (ov_CommittedAt promoted)) r2)
                | None \<Rightarrow> r2\<lparr>r_heads := map_del headKey (r_heads r2)\<rparr>)
          else r2)"

definition deleteObjectVersionLocked ::
  "Env \<Rightarrow> clock \<Rightarrow> DeleteObjectRequest \<Rightarrow> Repository \<Rightarrow> DeleteResult result \<times> Repository" where
  "deleteObjectVersionLocked E clk req r =
     (case map_of (r_versions r) (q_do_BucketID req, q_do_Key req, q_do_VersionID req) of
        None \<Rightarrow> (Inl ErrNotFound, r)
      | Some deleted \<Rightarrow>
          (case checkDeleteKMSAdmissionLocked (ov_ServerSideEncryption deleted) r of
             Some e \<Rightarrow> (Inl e, r)
           | None \<Rightarrow>
               let protected = objectVersionProtectedByObjectLock deleted (clk 0)
               in if protected False \<and> governance_gate protected req then (Inl ErrObjectLocked, r)
                  else (Inr \<lparr>dr_Deleted = True, dr_DeletedVersionID = ov_VersionID deleted,
                             dr_DeleteMarker = ov_DeleteMarker deleted, dr_DeletedVersion = deleted\<rparr>,
                        removeVersionLocked E clk req deleted r)))"

definition createDeleteMarkerLocked ::
  "time \<Rightarrow> id_source \<Rightarrow> DeleteObjectRequest \<Rightarrow> Repository \<Rightarrow> DeleteResult result \<times> Repository" where
  "createDeleteMarkerLocked now ids req r =
     (case nextObjectVersionIDLocked ids (r, q_do_BucketID req, q_do_Key req) of
        Inl e \<Rightarrow> (Inl e, r)
      | Inr versionID \<Rightarrow>
          let version = zero_ObjectVersion\<lparr>ov_BucketID := q_do_BucketID req, ov_Key := q_do_Key req,
                 ov_VersionID := versionID, ov_VersionSortKey := versionID,
                 ov_State := ObjectVersionCommitted, ov_CreatedAt := now, ov_CommittedAt := now,
                 ov_DeleteMarker := True\<rparr>;
              r1 = r\<lparr>r_versions := map_put (q_do_BucketID req, q_do_Key req, versionID) version (r_versions r)\<rparr>;
              r2 = snd (setHeadLocked (q_do_BucketID req, q_do_Key req) (headFromVersion version now) r1)
          in (Inr \<lparr>dr_Deleted = True, dr_DeletedVersionID = versionID, dr_DeleteMarker = True,
                   dr_DeletedVersion = version\<rparr>, r2))"

definition removeHeadLocked ::
  "Env \<Rightarrow> clock \<Rightarrow> DeleteObjectRequest \<Rightarrow> ObjectHead \<Rightarrow> Repository \<Rightarrow> ObjectVersion \<times> Repository" where
  \<comment> \<open>the writes of \<open>DeleteObject\<close> on an unversioned object, once the deletion is admitted\<close>
  "removeHeadLocked E clk req head r =
     (let r0 = (if objectHeadProtectedByObjectLock head (clk 0) False
                then appendAuditEventLocked E (clk 1)
                       (governanceBypassAuditEvent req AuditActionGovernanceBypassDeleteObject
                          (oh_VersionID head) [(''target'', ''object_head'')]) r
                else r);
          r1 = r0\<lparr>r_heads := map_del (q_do_BucketID req, q_do_Key req) (r_heads r0)\<rparr>;
          (deleted, r2) = deleteVersionRecordLocked (q_do_BucketID req) (q_do_Key req) (oh_VersionID head) r1
      in (deleted, deleteProtectedRefsForVersionLocked (ov_BucketID deleted) (ov_Key deleted)
                     (ov_VersionID deleted) r2))"

definition deleteHeadLocked ::
  "Env \<Rightarrow> clock \<Rightarrow> DeleteObjectRequest \<Rightarrow> Repository \<Rightarrow> DeleteResult result \<times> Repository" where
  \<comment> \<open>the last part of \<open>DeleteObject\<close>: no version named, versioning not enabled\<close>
  "deleteHeadLocked E clk req r =
     (case map_of (r_heads r) (q_do_BucketID req, q_do_Key req) of
        None \<Rightarrow> (Inr \<lparr>dr_Deleted = False, dr_DeletedVersionID = [], dr_DeleteMarker = False,
                       dr_DeletedVersion = zero_ObjectVersion\<rparr>, r)
      | Some head \<Rightarrow>
          (case checkDeleteKMSAdmissionLocked (oh_ServerSideEncryption head) r of
             Some e \<Rightarrow> (Inl e, r)
           | None \<Rightarrow>
               let protected = objectHeadProtectedByObjectLock head (clk 0)
               in if protected False \<and> governance_gate protected req then (Inl ErrObjectLocked, r)
                  else let (deleted, r') = removeHeadLocked E clk req head r
                       in (Inr \<lparr>dr_Deleted = True, dr_DeletedVersionID = oh_VersionID head,
                                dr_DeleteMarker = False, dr_DeletedVersion = deleted\<rparr>, r')))"

definition DeleteObject ::
  "Env \<Rightarrow> clock \<Rightarrow> id_source \<Rightarrow> DeleteObjectRequest \<Rightarrow> Repository \<Rightarrow> DeleteResult result \<times> Repository" where
  "DeleteObject E clk ids req r =
     (if q_do_BucketID req = [] \<or> q_do_Key req = [] then (Inl ErrInvalidArgument, r)
      else case map_of (r_bucketsByID r) (q_do_BucketID req) of
        None \<Rightarrow> (Inl ErrNotFound, r)
      | Some bucket \<Rightarrow>
          if q_do_VersionID req \<noteq> [] then deleteObjectVersionLocked E clk req r
          else if bk_VersioningState bucket = BucketVersioningEnabled
          then (case map_of (r_heads r) (q_do_BucketID req, q_do_Key req) of
                  None \<Rightarrow> createDeleteMarkerLocked (clk 0) ids req r
                | Some head \<Rightarrow>
                    (case checkDeleteKMSAdmissionLocked (oh_ServerSideEncryption head) r of
                       Some e \<Rightarrow> (Inl e, r)
                     | None \<Rightarrow> createDeleteMarkerLocked (clk 0) ids req r))
          else deleteHeadLocked E clk req r)"

section \<open>Tags, retention, legal hold\<close>

definition GetObjectTags :: "ObjectTagsRequest \<Rightarrow> Repository \<Rightarrow> strmap result" where
  "GetObjectTags req r =
     (if q_ot_BucketID req = [] \<or> q_ot_Key req = [] then Inl ErrInvalidArgument
      else if q_ot_VersionID req \<noteq> []
      then (case map_of (r_versions r) (q_ot_BucketID req, q_ot_Key req, q_ot_VersionID req) of
              None \<Rightarrow> Inl ErrNotFound
            | Some version \<Rightarrow>
                if ov_State version \<noteq> ObjectVersionCommitted then Inl ErrNotFound else Inr (ov_Tags version))
      else (case map_of (r_heads r) (q_ot_BucketID req, q_ot_Key req) of
              None \<Rightarrow> Inl ErrNotFound | Some head \<Rightarrow> Inr (oh_Tags head)))"

definition putVersionTagsLocked :: "ObjectTagsRequest \<Rightarrow> Repository \<Rightarrow> unit result \<times> Repository" where
  \<comment> \<open>\<open>PutObjectTags\<close> with a version named\<close>
  "putVersionTagsLocked req r =
     (let vkey = (q_ot_BucketID req, q_ot_Key req, q_ot_VersionID req);
          headKey = (q_ot_BucketID req, q_ot_Key req)
      in case map_of (r_versions r) vkey of
        None \<Rightarrow> (Inl ErrNotFound, r)
      | Some version \<Rightarrow>
          if ov_State version \<noteq> ObjectVersionCommitted then (Inl ErrNotFound, r)
          else let r1 = r\<lparr>r_versions := map_put vkey (version\<lparr>ov_Tags := q_ot_Tags req\<rparr>) (r_versions r)\<rparr>
               in case map_of (r_heads r1) headKey of
                 None \<Rightarrow> (Inr (), r1)
               | Some head \<Rightarrow>
                   if oh_VersionID head = q_ot_VersionID req
                   then (Inr (), snd (setHeadLocked headKey (head\<lparr>oh_Tags := q_ot_Tags req\<rparr>) r1))
                   else (Inr (), r1))"

definition putHeadTagsLocked :: "ObjectTagsRequest \<Rightarrow> Repository \<Rightarrow> unit result \<times> Repository" where
  \<comment> \<open>\<open>PutObjectTags\<close> with no version named\<close>
  "putHeadTagsLocked req r =
     (let headKey = (q_ot_BucketID req, q_ot_Key req)
      in case map_of (r_heads r) headKey of
        None \<Rightarrow> (Inl ErrNotFound, r)
      | Some head \<Rightarrow>
          let r1 = snd (setHeadLocked headKey (head\<lparr>oh_Tags := q_ot_Tags req\<rparr>) r);
              vkey = (q_ot_BucketID req, q_ot_Key req, oh_VersionID head)
          in if oh_VersionID head = [] then (Inr (), r1)
             else case map_of (r_versions r1) vkey of
               None \<Rightarrow> (Inr (), r1)
             | Some version \<Rightarrow>
                 (Inr (), r1\<lparr>r_versions := map_put vkey (version\<lparr>ov_Tags := q_ot_Tags req\<rparr>) (r_versions r1)\<rparr>))"

definition PutObjectTags :: "ObjectTagsRequest \<Rightarrow> Repository \<Rightarrow> unit result \<times> Repository" where
  "PutObjectTags req r =
     (if q_ot_BucketID req = [] \<or> q_ot_Key req = [] then (Inl ErrInvalidArgument, r)
      else if q_ot_VersionID req \<noteq> [] then putVersionTagsLocked req r
      else putHeadTagsLocked req r)"

definition DeleteObjectTags :: "ObjectTagsRequest \<Rightarrow> Repository \<Rightarrow> unit result \<times> Repository" where
  "DeleteObjectTags req r = PutObjectTags (req\<lparr>q_ot_Tags := []\<rparr>) r"

definition objectLockTargetLocked ::
  "string \<Rightarrow> string \<Rightarrow> string \<Rightarrow> Repository \<Rightarrow> (versionKey \<times> ObjectVersion) result" where
  "objectLockTargetLocked bucketID key versionID r =
     (let target = (\<lambda>versionID.
            case map_of (r_versions r) (bucketID, key, versionID) of
              None \<Rightarrow> Inl ErrNotFound
            | Some version \<Rightarrow>
                if ov_State version \<noteq> ObjectVersionCommitted \<or> ov_DeleteMarker version
                then Inl ErrNotFound else Inr ((bucketID, key, versionID), version))
      in if versionID = []
         then (case map_of (r_heads r) (bucketID, key) of
                 None \<Rightarrow> Inl ErrNotFound
               | Some head \<Rightarrow> if oh_DeleteMarker head then Inl ErrNotFound else target (oh_VersionID head))
         else target versionID)"

definition updateHeadObjectLockLocked :: "ObjectVersion \<Rightarrow> Repository \<Rightarrow> Repository" where
  "updateHeadObjectLockLocked version r =
     (let headKey = (ov_BucketID version, ov_Key version)
      in case map_of (r_heads r) headKey of
        None \<Rightarrow> r
      | Some head \<Rightarrow>
          if oh_VersionID head \<noteq> ov_VersionID version then r
          else snd (setHeadLocked headKey
                 (head\<lparr>oh_ObjectLockRetention := ov_ObjectLockRetention version,
                       oh_ObjectLockLegalHold := ov_ObjectLockLegalHold version\<rparr>) r))"

definition GetObjectRetention :: "ObjectRetentionRequest \<Rightarrow> Repository \<Rightarrow> ObjectLockRetention result" where
  "GetObjectRetention req r =
     (if q_or_BucketID req = [] \<or> q_or_Key req = [] then Inl ErrInvalidArgument
      else case objectLockTargetLocked (q_or_BucketID req) (q_or_Key req) (q_or_VersionID req) r of
        Inl e \<Rightarrow> Inl e | Inr (vkey, version) \<Rightarrow> Inr (ov_ObjectLockRetention version))"

definition putVersionLockLocked ::
  "Env \<Rightarrow> time \<Rightarrow> versionKey \<Rightarrow> ObjectVersion \<Rightarrow> Repository \<Rightarrow> Repository" where
  \<comment> \<open>store a version whose lock changed, its head and its protected references\<close>
  "putVersionLockLocked E now vkey version r =
     syncProtectedRefsForVersionLocked E version now
       (updateHeadObjectLockLocked version (r\<lparr>r_versions := map_put vkey version (r_versions r)\<rparr>))"

definition retention_bypass_details ::
  "Env \<Rightarrow> ObjectLockRetention \<Rightarrow> ObjectLockRetention \<Rightarrow> strmap" where
  "retention_bypass_details E current next =
     [(''current_mode'', ObjectLockMode_text (olr_Mode current)),
      (''current_retain_until'', rfc3339nano E (olr_RetainUntilDate current)),
      (''next_mode'', ObjectLockMode_text (olr_Mode next)),
      (''next_retain_until'', rfc3339nano E (olr_RetainUntilDate next))]"

definition PutObjectRetention ::
  "Env \<Rightarrow> clock \<Rightarrow> ObjectRetentionRequest \<Rightarrow> Repository \<Rightarrow> unit result \<times> Repository" where
  "PutObjectRetention E clk req r =
     (if q_or_BucketID req = [] \<or> q_or_Key req = [] then (Inl ErrInvalidArgument, r)
      else case validateObjectLockState (q_or_Retention req) ObjectLockLegalHoldStatus_Unset of
        Some e \<Rightarrow> (Inl e, r)
      | None \<Rightarrow>
          if \<not> olr_RetainUntilDate (q_or_Retention req) > clk 0 then (Inl ErrInvalidArgument, r)
          else case objectLockTargetLocked (q_or_BucketID req) (q_or_Key req) (q_or_VersionID req) r of
            Inl e \<Rightarrow> (Inl e, r)
          | Inr (vkey, version) \<Rightarrow>
              let now = clk 1;
                  blocked = retentionUpdateBlocked (ov_ObjectLockRetention version) (q_or_Retention req) now
              in if blocked False \<and> (blocked True \<or> \<not> q_or_BypassGovernanceRetention req \<or>
                     \<not> validGovernanceBypassAudit (q_or_BypassAudit req))
                 then (Inl ErrObjectLocked, r)
                 else let r0 = (if blocked False
                            then appendAuditEventLocked E (clk 2)
                                   (governanceBypassAuditEvent
                                      \<lparr>q_do_BucketID = q_or_BucketID req, q_do_Key = q_or_Key req,
                                       q_do_VersionID = ov_VersionID version,
                                       q_do_BypassGovernanceRetention = False,
                                       q_do_BypassAudit = q_or_BypassAudit req\<rparr>
                                      AuditActionGovernanceBypassPutObjectRetention (ov_VersionID version)
                                      (retention_bypass_details E (ov_ObjectLockRetention version)
                                         (q_or_Retention req))) r
                            else r);
                          previous = ov_ObjectLockRetention version;
                          version' = version\<lparr>ov_ObjectLockRetention := q_or_Retention req\<rparr>
                      in (Inr (),
                          appendAuditEventLocked E (clk 3)
                            (transitionAuditEvent (q_or_Audit req) AuditActionPutObjectRetention
                               (q_or_BucketID req) (q_or_Key req) (ov_VersionID version')
                               [(''previous_mode'', ObjectLockMode_text (olr_Mode previous)),
                                (''previous_retain_until'', formatAuditTime E (olr_RetainUntilDate previous)),
                                (''next_mode'', ObjectLockMode_text (olr_Mode (q_or_Retention req))),
                                (''next_retain_until'',
                                 formatAuditTime E (olr_RetainUntilDate (q_or_Retention req)))])
                            (putVersionLockLocked E now vkey version' r0)))"

definition GetObjectLegalHold :: "ObjectLegalHoldRequest \<Rightarrow> Repository \<Rightarrow> ObjectLockLegalHoldStatus result" where
  "GetObjectLegalHold req r =
     (if q_lh_BucketID req = [] \<or> q_lh_Key req = [] then Inl ErrInvalidArgument
      else case objectLockTargetLocked (q_lh_BucketID req) (q_lh_Key req) (q_lh_VersionID req) r of
        Inl e \<Rightarrow> Inl e | Inr (vkey, version) \<Rightarrow> Inr (ov_ObjectLockLegalHold version))"

definition PutObjectLegalHold ::
  "Env \<Rightarrow> clock \<Rightarrow> ObjectLegalHoldRequest \<Rightarrow> Repository \<Rightarrow> unit result \<times> Repository" where
  "PutObjectLegalHold E clk req r =
     (if q_lh_BucketID req = [] \<or> q_lh_Key req = [] then (Inl ErrInvalidArgument, r)
      else if q_lh_LegalHold req \<noteq> ObjectLockLegalHoldOn \<and> q_lh_LegalHold req \<noteq> ObjectLockLegalHoldOff
      then (Inl ErrInvalidArgument, r)
      else case objectLockTargetLocked (q_lh_BucketID req) (q_lh_Key req) (q_lh_VersionID req) r of
        Inl e \<Rightarrow> (Inl e, r)
      | Inr (vkey, version) \<Rightarrow>
          let previous = ov_ObjectLockLegalHold version;
              version' = version\<lparr>ov_ObjectLockLegalHold := q_lh_LegalHold req\<rparr>
          in (Inr (),
              appendAuditEventLocked E (clk 1)
                (transitionAuditEvent (q_lh_Audit req) AuditActionPutObjectLegalHold
                   (q_lh_BucketID req) (q_lh_Key req) (ov_VersionID version')
                   [(''previous_legal_hold'', ObjectLockLegalHoldStatus_text previous),
                    (''next_legal_hold'', ObjectLockLegalHoldStatus_text (q_lh_LegalHold req))])
                (putVersionLockLocked E (clk 0) vkey version' r)))"

end
