(* ===== verification/ObjectInv.thy ===== *)
theory ObjectInv
  imports Objects
begin

text \<open>
  The invariants of objects and that every object operation keeps them.

  \<^item> \<open>obj_inv\<close>: versions are stored under their own identifiers, and every head is the
    image of a committed version of its key.
  \<^item> \<open>prot_inv\<close>: at every time from \<open>T\<close> on, every segment of a locked committed
    version has an active protected reference of its own.

  Both are first stated on the lookup functions of the tables (\<open>obj_ok\<close>, \<open>prot_ok\<close>),
  where one lemma per kind of update suffices.
\<close>

section \<open>What the helpers change\<close>

lemma map_of_put_fun: "map_of (map_put k v m) = (map_of m)(k \<mapsto> v)"
  by (rule ext) simp

lemma map_of_del_fun: "map_of (map_del k m) = (map_of m)(k := None)"
  by (rule ext) simp

lemma setHeadLocked_eq [repo_aux]:
  "setHeadLocked key head r =
     (head\<lparr>oh_Revision := nextObjectHeadRevision (map_of (r_heads r) key)\<rparr>,
      r\<lparr>r_heads := map_put key (head\<lparr>oh_Revision := nextObjectHeadRevision (map_of (r_heads r) key)\<rparr>)
          (r_heads r)\<rparr>)"
  by (simp add: setHeadLocked_def Let_def)

definition without_refs :: "string \<Rightarrow> string \<Rightarrow> string \<Rightarrow> (string, ProtectedRef) gomap \<Rightarrow> (string, ProtectedRef) gomap" where
  "without_refs b k i m = filter (\<lambda>(x, ref). \<not> refs_of_version b k i ref) m"

lemma deleteProtectedRefs_eq [repo_aux]:
  "deleteProtectedRefsForVersionLocked b k i r = r\<lparr>r_protectedRefs := without_refs b k i (r_protectedRefs r)\<rparr>"
  by (simp add: deleteProtectedRefsForVersionLocked_def without_refs_def)

definition synced :: "Env \<Rightarrow> ObjectVersion \<Rightarrow> time \<Rightarrow> (string, ProtectedRef) gomap \<Rightarrow> (string, ProtectedRef) gomap" where
  "synced E v now m =
     (let m' = without_refs (ov_BucketID v) (ov_Key v) (ov_VersionID v) m
      in if objectVersionProtectedByObjectLock v now False
         then putProtectedRefs E v now (objectSegmentRefsFromVersion v) m' else m')"

lemma sync_eq [repo_aux]:
  "syncProtectedRefsForVersionLocked E v now r = r\<lparr>r_protectedRefs := synced E v now (r_protectedRefs r)\<rparr>"
  by (simp add: syncProtectedRefsForVersionLocked_def synced_def deleteProtectedRefs_eq Let_def)

lemma map_wf_without_refs [simp]: "map_wf m \<Longrightarrow> map_wf (without_refs b k i m)"
  by (simp add: without_refs_def)

lemma map_wf_synced [simp]: "map_wf m \<Longrightarrow> map_wf (synced E v now m)"
  by (simp add: synced_def Let_def putProtectedRefs_wf)

lemma map_of_without_refs:
  "map_wf m \<Longrightarrow> map_of (without_refs b k i m) x = Some ref \<longleftrightarrow>
     map_of m x = Some ref \<and> \<not> refs_of_version b k i ref"
  by (auto simp: without_refs_def map_of_filter_wf split: option.splits)

interpretation version_ids: id_allocator nextObjectVersionIDLocked version_taken
proof unfold_locales
  show "\<And>ids s x. nextObjectVersionIDLocked ids s = Inr x \<Longrightarrow> \<not> version_taken s x"
    unfolding nextObjectVersionIDLocked_def by (rule draw_id_fresh)
  show "\<And>ids s x. nextObjectVersionIDLocked ids s = Inr x \<Longrightarrow> \<exists>i<idCollisionRetryLimit. ids i = Some x"
    unfolding nextObjectVersionIDLocked_def by (drule draw_id_source) auto
  show "\<And>ids s e. nextObjectVersionIDLocked ids s = Inl e \<Longrightarrow> e = ErrUnavailable"
    unfolding nextObjectVersionIDLocked_def by (rule draw_id_error)
  show "\<And>ids x s. ids 0 = Some x \<Longrightarrow> \<not> version_taken s x \<Longrightarrow> nextObjectVersionIDLocked ids s = Inr x"
    unfolding nextObjectVersionIDLocked_def idCollisionRetryLimit_def
    using draw_id_first [where i = 0 and n = 7] by (simp add: eval_nat_numeral)
qed

lemma version_id_fresh:
  "nextObjectVersionIDLocked ids (r, b, k) = Inr i \<Longrightarrow> map_of (r_versions r) (b, k, i) = None"
  using version_ids.alloc_fresh [of ids "(r, b, k)" i] by (simp add: version_taken_def)

section \<open>Versions under their keys, heads of committed versions\<close>

definition version_key_ok :: "versionKey \<Rightarrow> ObjectVersion \<Rightarrow> bool" where
  "version_key_ok key v \<longleftrightarrow>
     key = (ov_BucketID v, ov_Key v, ov_VersionID v) \<and> ov_VersionID v \<noteq> [] \<and>
     ov_VersionSortKey v = ov_VersionID v"

definition head_of :: "ObjectHead \<Rightarrow> ObjectVersion \<Rightarrow> bool" where
  "head_of h v \<longleftrightarrow> h = (headFromVersion v (oh_LastModified h))\<lparr>oh_Revision := oh_Revision h\<rparr>"

definition obj_ok :: "(objectKey \<rightharpoonup> ObjectHead) \<Rightarrow> (versionKey \<rightharpoonup> ObjectVersion) \<Rightarrow> bool" where
  "obj_ok H V \<longleftrightarrow>
     (\<forall>key v. V key = Some v \<longrightarrow> version_key_ok key v) \<and>
     (\<forall>b k h. H (b, k) = Some h \<longrightarrow>
        (\<exists>v. V (b, k, oh_VersionID h) = Some v \<and> ov_State v = ObjectVersionCommitted \<and> head_of h v))"

lemma obj_okD_key: "obj_ok H V \<Longrightarrow> V key = Some v \<Longrightarrow> version_key_ok key v"
  unfolding obj_ok_def by blast

lemma obj_okD_head:
  "obj_ok H V \<Longrightarrow> H (b, k) = Some h \<Longrightarrow>
     \<exists>v. V (b, k, oh_VersionID h) = Some v \<and> ov_State v = ObjectVersionCommitted \<and> head_of h v"
  unfolding obj_ok_def by blast

lemma head_of_headFromVersion [simp]: "head_of ((headFromVersion v t)\<lparr>oh_Revision := n\<rparr>) v"
  by (simp add: head_of_def headFromVersion_def)

lemma head_of_fields:
  "head_of h v \<Longrightarrow> oh_BucketID h = ov_BucketID v \<and> oh_Key h = ov_Key v \<and> oh_VersionID h = ov_VersionID v \<and>
     oh_DeleteMarker h = ov_DeleteMarker v \<and> oh_ObjectLockRetention h = ov_ObjectLockRetention v \<and>
     oh_ObjectLockLegalHold h = ov_ObjectLockLegalHold v \<and> oh_Tags h = ov_Tags v"
  unfolding head_of_def by (erule ssubst) (simp add: headFromVersion_def)

lemma headFromVersion_VersionID [simp]: "oh_VersionID (headFromVersion v t) = ov_VersionID v"
  by (simp add: headFromVersion_def)

text \<open>Updates of the two tables.\<close>

lemma obj_ok_put_version:
  assumes ok: "obj_ok H V" and key: "version_key_ok (b, k, i) v"
    and heads: "\<And>h. H (b, k) = Some h \<Longrightarrow> oh_VersionID h = i \<Longrightarrow> ov_State v = ObjectVersionCommitted \<and> head_of h v"
  shows "obj_ok H (V((b, k, i) \<mapsto> v))"
  unfolding obj_ok_def
proof (intro conjI allI impI)
  fix key' v' assume "(V((b, k, i) \<mapsto> v)) key' = Some v'"
  then show "version_key_ok key' v'" using key obj_okD_key [OF ok] by (simp split: if_splits)
next
  fix b' k' h assume h: "H (b', k') = Some h"
  show "\<exists>w. (V((b, k, i) \<mapsto> v)) (b', k', oh_VersionID h) = Some w \<and>
      ov_State w = ObjectVersionCommitted \<and> head_of h w"
  proof (cases "(b', k', oh_VersionID h) = (b, k, i)")
    case True
    with h heads show ?thesis by simp
  next
    case False
    with obj_okD_head [OF ok h] show ?thesis by (simp only: fun_upd_apply if_False)
  qed
qed

lemma obj_ok_put_head:
  assumes ok: "obj_ok H V" and v: "V (b, k, oh_VersionID h) = Some v"
    and committed: "ov_State v = ObjectVersionCommitted" and head: "head_of h v"
  shows "obj_ok (H((b, k) \<mapsto> h)) V"
  unfolding obj_ok_def
proof (intro conjI allI impI)
  fix key' v' assume "V key' = Some v'"
  then show "version_key_ok key' v'" by (rule obj_okD_key [OF ok])
next
  fix b' k' h' assume h: "(H((b, k) \<mapsto> h)) (b', k') = Some h'"
  show "\<exists>w. V (b', k', oh_VersionID h') = Some w \<and> ov_State w = ObjectVersionCommitted \<and> head_of h' w"
  proof (cases "(b', k') = (b, k)")
    case True
    with h v committed head show ?thesis by simp
  next
    case False
    with h have "H (b', k') = Some h'" by (simp only: fun_upd_apply if_False)
    then show ?thesis by (rule obj_okD_head [OF ok])
  qed
qed

lemma obj_ok_del_head: "obj_ok H V \<Longrightarrow> obj_ok (H(key := None)) V"
  unfolding obj_ok_def by (metis fun_upd_apply option.distinct(1))

lemma obj_ok_del_version:
  assumes ok: "obj_ok H V" and "\<And>h. H (b, k) = Some h \<Longrightarrow> oh_VersionID h \<noteq> i"
  shows "obj_ok H (V((b, k, i) := None))"
  unfolding obj_ok_def
proof (intro conjI allI impI)
  fix key' v' assume "(V((b, k, i) := None)) key' = Some v'"
  then show "version_key_ok key' v'" using obj_okD_key [OF ok] by (simp split: if_splits)
next
  fix b' k' h assume h: "H (b', k') = Some h"
  then have "(b', k', oh_VersionID h) \<noteq> (b, k, i)" using assms(2) by auto
  with obj_okD_head [OF ok h] show "\<exists>w. (V((b, k, i) := None)) (b', k', oh_VersionID h) = Some w \<and>
      ov_State w = ObjectVersionCommitted \<and> head_of h w" by (simp only: fun_upd_apply if_False)
qed

lemma obj_ok_update:
  \<comment> \<open>a version and, where the head points at it, the head change together\<close>
  assumes ok: "obj_ok H V" and key: "version_key_ok (b, k, oh_VersionID h') v"
    and committed: "ov_State v = ObjectVersionCommitted" and head: "head_of h' v"
  shows "obj_ok (H((b, k) \<mapsto> h')) (V((b, k, oh_VersionID h') \<mapsto> v))"
proof -
  have "obj_ok (H((b, k) := None)) (V((b, k, oh_VersionID h') \<mapsto> v))"
    by (rule obj_ok_put_version [OF obj_ok_del_head [OF ok] key]) simp
  then have "obj_ok ((H((b, k) := None))((b, k) \<mapsto> h')) (V((b, k, oh_VersionID h') \<mapsto> v))"
    by (rule obj_ok_put_head [where v = v]) (use committed head in simp_all)
  then show ?thesis by simp
qed

section \<open>Locked versions have protected references\<close>

definition covered ::
  "Env \<Rightarrow> (string \<rightharpoonup> ProtectedRef) \<Rightarrow> versionKey \<Rightarrow> ObjectVersion \<Rightarrow> SegmentRef \<Rightarrow> time \<Rightarrow> bool" where
  "covered E P key v s t \<longleftrightarrow>
     (case key of (b, k, i) \<Rightarrow>
        (case P (protectedRefID E v s) of
           None \<Rightarrow> False
         | Some ref \<Rightarrow> refs_of_version b k i ref \<and> pr_SegmentID ref = sg_SegmentID s \<and> protectedRefActive ref t))"

definition prot_ok ::
  "Env \<Rightarrow> time \<Rightarrow> (versionKey \<rightharpoonup> ObjectVersion) \<Rightarrow> (string \<rightharpoonup> ProtectedRef) \<Rightarrow> bool" where
  "prot_ok E T V P \<longleftrightarrow>
     (\<forall>key v. V key = Some v \<longrightarrow> version_nul_free v \<and>
        (ov_State v = ObjectVersionCommitted \<longrightarrow>
           (\<forall>s \<in> set (objectSegmentRefsFromVersion v). \<forall>t \<ge> T.
              sg_SegmentID s \<noteq> [] \<longrightarrow> objectVersionProtectedByObjectLock v t False \<longrightarrow>
              inj (sha256_hex E) \<longrightarrow> covered E P key v s t)))"

lemma prot_ok_nul: "prot_ok E T V P \<Longrightarrow> V key = Some v \<Longrightarrow> version_nul_free v"
  unfolding prot_ok_def by blast

lemma prot_ok_covered:
  "prot_ok E T V P \<Longrightarrow> V key = Some v \<Longrightarrow> ov_State v = ObjectVersionCommitted \<Longrightarrow>
     s \<in> set (objectSegmentRefsFromVersion v) \<Longrightarrow> sg_SegmentID s \<noteq> [] \<Longrightarrow> T \<le> t \<Longrightarrow>
     objectVersionProtectedByObjectLock v t False \<Longrightarrow> inj (sha256_hex E) \<Longrightarrow> covered E P key v s t"
  unfolding prot_ok_def by blast

lemma prot_ok_mono: "prot_ok E T V P \<Longrightarrow> T \<le> T' \<Longrightarrow> prot_ok E T' V P"
  unfolding prot_ok_def by (meson order_trans)

lemma version_unprotected_later:
  "\<not> objectVersionProtectedByObjectLock v now b \<Longrightarrow> now \<le> t \<Longrightarrow> \<not> objectVersionProtectedByObjectLock v t b"
  unfolding objectVersionProtectedByObjectLock_def by (rule unprotected_later)

lemma prot_ok_put:
  assumes ok: "prot_ok E T V P" and nul: "version_nul_free v"
    and new: "ov_State v \<noteq> ObjectVersionCommitted \<or> \<not> objectVersionProtectedByObjectLock v T False"
  shows "prot_ok E T (V(key \<mapsto> v)) P"
  unfolding prot_ok_def
proof (intro allI impI)
  fix key' v' assume at: "(V(key \<mapsto> v)) key' = Some v'"
  show "version_nul_free v' \<and> (ov_State v' = ObjectVersionCommitted \<longrightarrow>
      (\<forall>s \<in> set (objectSegmentRefsFromVersion v'). \<forall>t \<ge> T. sg_SegmentID s \<noteq> [] \<longrightarrow>
         objectVersionProtectedByObjectLock v' t False \<longrightarrow> inj (sha256_hex E) \<longrightarrow> covered E P key' v' s t))"
  proof (cases "key' = key")
    case True
    with at have "v' = v" by simp
    with nul new show ?thesis by (blast dest: version_unprotected_later)
  next
    case False
    with at have "V key' = Some v'" by simp
    with ok show ?thesis unfolding prot_ok_def by blast
  qed
qed

lemma prot_ok_same:
  assumes ok: "prot_ok E T V P" and v: "V key = Some v"
    and same: "ov_BucketID v' = ov_BucketID v" "ov_Key v' = ov_Key v" "ov_VersionID v' = ov_VersionID v"
      "ov_SegmentRef v' = ov_SegmentRef v" "ov_SegmentRefs v' = ov_SegmentRefs v"
      "ov_State v' = ov_State v" "ov_DeleteMarker v' = ov_DeleteMarker v"
      "ov_ObjectLockRetention v' = ov_ObjectLockRetention v"
      "ov_ObjectLockLegalHold v' = ov_ObjectLockLegalHold v"
  shows "prot_ok E T (V(key \<mapsto> v')) P"
proof -
  have "version_nul_free v' = version_nul_free v"
    "objectSegmentRefsFromVersion v' = objectSegmentRefsFromVersion v"
    "\<And>t. objectVersionProtectedByObjectLock v' t False = objectVersionProtectedByObjectLock v t False"
    "\<And>s t. covered E P key v' s t = covered E P key v s t"
    by (simp_all add: same version_nul_free_def objectSegmentRefsFromVersion_def
        objectVersionProtectedByObjectLock_def covered_def protectedRefID_def)
  then show ?thesis using ok v same(6) unfolding prot_ok_def by (auto split: if_splits)
qed

lemma covered_without_refs:
  assumes "covered E (map_of m) (b', k', i') v s t" "(b', k', i') \<noteq> (b, k, i)" "map_wf m"
  shows "covered E (map_of (without_refs b k i m)) (b', k', i') v s t"
proof -
  obtain ref where ref: "map_of m (protectedRefID E v s) = Some ref" "refs_of_version b' k' i' ref"
    "pr_SegmentID ref = sg_SegmentID s" "protectedRefActive ref t"
    using assms(1) by (auto simp: covered_def split: option.splits)
  have "\<not> refs_of_version b k i ref" using ref(2) assms(2) by (auto simp: refs_of_version_def)
  then have "map_of (without_refs b k i m) (protectedRefID E v s) = Some ref"
    using ref(1) assms(3) by (simp add: map_of_without_refs)
  with ref show ?thesis by (simp add: covered_def)
qed

lemma prot_ok_del:
  assumes ok: "prot_ok E T V (map_of m)" and wf: "map_wf m"
  shows "prot_ok E T (V((b, k, i) := None)) (map_of (without_refs b k i m))"
  unfolding prot_ok_def
proof (intro allI impI conjI ballI)
  fix key v assume "(V((b, k, i) := None)) key = Some v"
  then have v: "V key = Some v" and key: "key \<noteq> (b, k, i)" by (auto split: if_splits)
  then show "version_nul_free v" using ok prot_ok_nul by blast
  fix s t
  assume "ov_State v = ObjectVersionCommitted" "s \<in> set (objectSegmentRefsFromVersion v)" "T \<le> t"
    "sg_SegmentID s \<noteq> []" "objectVersionProtectedByObjectLock v t False" "inj (sha256_hex E)"
  then have "covered E (map_of m) key v s t" using prot_ok_covered [OF ok v] by blast
  with key wf show "covered E (map_of (without_refs b k i m)) key v s t"
    by (cases key) (auto intro: covered_without_refs)
qed

lemma prot_ok_sync:
  assumes ok: "prot_ok E T V (map_of m)" and wf: "map_wf m" and T: "T \<le> now"
    and keys: "\<And>key v. V key = Some v \<Longrightarrow> version_key_ok key v"
    and w: "version_key_ok (b, k, i) w" "version_nul_free w"
  shows "prot_ok E now (V((b, k, i) \<mapsto> w)) (map_of (synced E w now m))"
  unfolding prot_ok_def
proof (intro allI impI conjI ballI)
  fix key v assume at: "(V((b, k, i) \<mapsto> w)) key = Some v"
  show nul: "version_nul_free v"
    using at w(2) prot_ok_nul [OF ok] by (auto split: if_splits)
  fix s t
  assume st: "ov_State v = ObjectVersionCommitted" "s \<in> set (objectSegmentRefsFromVersion v)" "now \<le> t"
    "sg_SegmentID s \<noteq> []" "objectVersionProtectedByObjectLock v t False" and inj: "inj (sha256_hex E)"
  have wk: "ov_BucketID w = b" "ov_Key w = k" "ov_VersionID w = i" using w(1) by (auto simp: version_key_ok_def)
  let ?m = "without_refs b k i m"
  show "covered E (map_of (synced E w now m)) key v s t"
  proof (cases "key = (b, k, i)")
    case True
    with at have v: "v = w" by simp
    have prot: "objectVersionProtectedByObjectLock w now False"
      using st(3,5) v version_unprotected_later by blast
    obtain u where u: "u \<in> set (objectSegmentRefsFromVersion w)"
        "map_of (putProtectedRefs E w now (objectSegmentRefsFromVersion w) ?m) (protectedRefID E w s) =
           Some (protectedRefFromVersion E w u now)"
        "protectedRefID E w u = protectedRefID E w s"
      using putProtectedRefs_hit st(2,4) v by blast
    have "sg_SegmentID u = sg_SegmentID s"
      using protectedRefID_inj [OF inj u(3) w(2) u(1) w(2)] st(2) v by blast
    moreover have "protectedRefActive (protectedRefFromVersion E w u now) t"
      using st(5) v by (intro protected_imp_ref_active) simp
    ultimately show ?thesis
      using True v prot u(2) wk
      by (simp add: covered_def synced_def Let_def) (simp add: protectedRefFromVersion_def)
  next
    case False
    then have v: "V key = Some v" using at by simp
    then have key: "key = (ov_BucketID v, ov_Key v, ov_VersionID v)"
      using keys by (auto simp: version_key_ok_def)
    have "covered E (map_of m) key v s t"
      using prot_ok_covered [OF ok v] st T inj by (meson order_trans)
    then have cov: "covered E (map_of ?m) key v s t"
      using False wf unfolding key by (rule covered_without_refs)
    have "protectedRefID E w u \<noteq> protectedRefID E v s" if "u \<in> set (objectSegmentRefsFromVersion w)" for u
      using protectedRefID_inj [OF inj _ w(2) that nul st(2)] False key wk by auto
    then have "map_of (putProtectedRefs E w now (objectSegmentRefsFromVersion w) ?m) (protectedRefID E v s) =
        map_of ?m (protectedRefID E v s)"
      by (intro putProtectedRefs_other)
    with cov wk show ?thesis by (simp add: covered_def synced_def Let_def)
  qed
qed

section \<open>The invariants of the repository\<close>

definition obj_inv :: "Repository \<Rightarrow> bool" where
  "obj_inv r \<longleftrightarrow> map_wf (r_heads r) \<and> map_wf (r_versions r) \<and> map_wf (r_protectedRefs r) \<and>
     obj_ok (map_of (r_heads r)) (map_of (r_versions r))"

definition prot_inv :: "Env \<Rightarrow> time \<Rightarrow> Repository \<Rightarrow> bool" where
  "prot_inv E T r \<longleftrightarrow> prot_ok E T (map_of (r_versions r)) (map_of (r_protectedRefs r)) \<and>
     (\<forall>i \<in> set (map fst (r_bucketsByID r)). nul_free i)"

definition ids_ok :: "id_source \<Rightarrow> bool" where
  "ids_ok ids \<longleftrightarrow> (\<forall>n x. ids n = Some x \<longrightarrow> x \<noteq> [] \<and> nul_free x)"

lemma obj_inv_cong:
  "r_heads r' = r_heads r \<Longrightarrow> r_versions r' = r_versions r \<Longrightarrow> r_protectedRefs r' = r_protectedRefs r \<Longrightarrow>
     obj_inv r' = obj_inv r"
  by (simp add: obj_inv_def)

lemma prot_inv_cong:
  "r_bucketsByID r' = r_bucketsByID r \<Longrightarrow> r_versions r' = r_versions r \<Longrightarrow>
     r_protectedRefs r' = r_protectedRefs r \<Longrightarrow> prot_inv E T r' = prot_inv E T r"
  by (simp add: prot_inv_def)

lemma inv_append_audit [simp]:
  "obj_inv (appendAuditEventLocked E now ev r) = obj_inv r"
  "prot_inv E' T (appendAuditEventLocked E now ev r) = prot_inv E' T r"
  by (rule obj_inv_cong prot_inv_cong; simp)+

lemma prot_inv_mono: "prot_inv E T r \<Longrightarrow> T \<le> T' \<Longrightarrow> prot_inv E T' r"
  unfolding prot_inv_def by (blast intro: prot_ok_mono)

lemma obj_inv_New: "obj_inv (NewWithClock now)"
  by (simp add: obj_inv_def NewWithClock_def obj_ok_def)

lemma prot_inv_New: "prot_inv E T (NewWithClock now)"
  by (simp add: prot_inv_def NewWithClock_def prot_ok_def)

lemma obj_invD:
  assumes "obj_inv r"
  shows "map_wf (r_heads r)" "map_wf (r_versions r)" "map_wf (r_protectedRefs r)"
    "obj_ok (map_of (r_heads r)) (map_of (r_versions r))"
  using assms by (simp_all add: obj_inv_def)

lemma prot_invD: "prot_inv E T r \<Longrightarrow> prot_ok E T (map_of (r_versions r)) (map_of (r_protectedRefs r))"
  by (simp add: prot_inv_def)

lemma bucket_nul_free: "prot_inv E T r \<Longrightarrow> map_of (r_bucketsByID r) i \<noteq> None \<Longrightarrow> nul_free i"
  by (auto simp: prot_inv_def map_of_eq_None_iff)

lemma inv_publish:
  \<comment> \<open>a version becomes the current one; the version it replaces may be dropped\<close>
  assumes inv: "obj_inv r" "prot_inv E T r" and T: "T \<le> now"
    and v: "version_key_ok (b, k, i) v" "version_nul_free v" "ov_State v = ObjectVersionCommitted"
    and heads: "r_heads r' = map_put (b, k) h (r_heads r)" and h: "head_of h v"
    and buckets: "r_bucketsByID r' = r_bucketsByID r" and wf: "map_wf (r_versions r')"
    and change: "map_of (r_versions r') = (map_of (r_versions r))((b, k, i) \<mapsto> v) \<and>
        r_protectedRefs r' = synced E v now (r_protectedRefs r) \<or>
      (\<exists>old. old \<noteq> i \<and> map_of (r_versions r') = (map_of (r_versions r))((b, k, i) \<mapsto> v, (b, k, old) := None) \<and>
        r_protectedRefs r' = synced E v now (without_refs b k old (r_protectedRefs r)))"
  shows "obj_inv r' \<and> prot_inv E now r'"
proof -
  let ?H = "map_of (r_heads r)" and ?V = "map_of (r_versions r)"
  note ok = obj_invD [OF inv(1)]
  have hid: "oh_VersionID h = i" using head_of_fields [OF h] v(1) by (auto simp: version_key_ok_def)
  have pub: "obj_ok (?H((b, k) \<mapsto> h)) (?V((b, k, i) \<mapsto> v))"
    using obj_ok_update [OF ok(4), of b k h v] v h hid by simp
  have prot: "prot_ok E now (W((b, k, i) \<mapsto> v)) (map_of (synced E v now m))"
    if "prot_ok E T W (map_of m)" "map_wf m" "\<And>key w. W key = Some w \<Longrightarrow> ?V key = Some w" for W m
    by (rule prot_ok_sync [OF that(1,2) T]) (use that(3) obj_okD_key [OF ok(4)] v in blast)+
  have "obj_ok (?H((b, k) \<mapsto> h)) (map_of (r_versions r')) \<and> map_wf (r_protectedRefs r') \<and>
      prot_ok E now (map_of (r_versions r')) (map_of (r_protectedRefs r'))"
    using change
  proof (elim disjE exE conjE)
    assume c: "map_of (r_versions r') = ?V((b, k, i) \<mapsto> v)"
      "r_protectedRefs r' = synced E v now (r_protectedRefs r)"
    show ?thesis unfolding c using pub ok(3) prot [OF prot_invD [OF inv(2)] ok(3)] by simp
  next
    fix old assume old: "old \<noteq> i"
      and c: "map_of (r_versions r') = ?V((b, k, i) \<mapsto> v, (b, k, old) := None)"
      "r_protectedRefs r' = synced E v now (without_refs b k old (r_protectedRefs r))"
    have twist: "?V((b, k, i) \<mapsto> v, (b, k, old) := None) = ?V((b, k, old) := None, (b, k, i) \<mapsto> v)"
      using old by (intro fun_upd_twist) simp
    have "obj_ok (?H((b, k) \<mapsto> h)) (?V((b, k, i) \<mapsto> v, (b, k, old) := None))"
      using pub by (rule obj_ok_del_version) (use hid old in simp)
    moreover have "prot_ok E now (?V((b, k, old) := None, (b, k, i) \<mapsto> v))
        (map_of (synced E v now (without_refs b k old (r_protectedRefs r))))"
      by (rule prot [OF prot_ok_del [OF prot_invD [OF inv(2)] ok(3)]]) (use ok(3) in \<open>auto split: if_splits\<close>)
    ultimately show ?thesis unfolding c twist using ok(3) by simp
  qed
  then show ?thesis
    using inv wf ok(1) by (simp add: obj_inv_def prot_inv_def heads buckets map_of_put_fun)
qed

lemma replace_effect:
  assumes "oh_VersionID head \<noteq> [] \<Longrightarrow>
    \<exists>w. map_of (r_versions r) (b, k, oh_VersionID head) = Some w \<and> version_key_ok (b, k, oh_VersionID head) w"
  shows "replaceHeadVersionLocked bucket b k head v r =
     (if bk_VersioningState bucket \<noteq> BucketVersioningEnabled \<and> oh_VersionID head \<noteq> [] \<and>
         oh_VersionID head \<noteq> ov_VersionID v
      then r\<lparr>r_versions := map_del (b, k, oh_VersionID head) (r_versions r),
             r_protectedRefs := without_refs b k (oh_VersionID head) (r_protectedRefs r)\<rparr>
      else r)"
  using assms
  by (auto simp: replaceHeadVersionLocked_def deleteVersionRecordLocked_def deleteProtectedRefs_eq
      version_key_ok_def)

lemma current_head_present:
  assumes "obj_inv r" "oh_VersionID (map_get zero_ObjectHead (r_heads r) (b, k)) \<noteq> []"
  shows "\<exists>w. map_of (r_versions r) (b, k, oh_VersionID (map_get zero_ObjectHead (r_heads r) (b, k))) = Some w \<and>
    version_key_ok (b, k, oh_VersionID (map_get zero_ObjectHead (r_heads r) (b, k))) w \<and>
    ov_State w = ObjectVersionCommitted"
proof (cases "map_of (r_heads r) (b, k)")
  case None
  with assms(2) show ?thesis by (simp add: zero_ObjectHead_def)
next
  case (Some h)
  then show ?thesis
    using obj_okD_head [OF obj_invD(4) [OF assms(1)] Some] obj_okD_key [OF obj_invD(4) [OF assms(1)]]
    by auto
qed

section \<open>Puts keep the invariants\<close>

definition segs_nul_free :: "BeginPutObjectRequest \<Rightarrow> bool" where
  "segs_nul_free req \<longleftrightarrow>
     (\<forall>s \<in> set (normalizeSegmentRefs (q_po_SegmentRef req) (q_po_SegmentRefs req)). nul_free (sg_SegmentID s))"

lemma request_segments [simp]:
  "objectSegmentRefsFromVersion
     (version_from_request req (normalizeSegmentRefs (q_po_SegmentRef req) (q_po_SegmentRefs req)) i now) =
   normalizeSegmentRefs (q_po_SegmentRef req) (q_po_SegmentRefs req)"
  by (simp add: objectSegmentRefsFromVersion_def version_from_request_def normalizeSegmentRefs_def
      firstSegmentRef_def zero_SegmentRef_def)

lemma segments_state [simp]:
  "objectSegmentRefsFromVersion (v\<lparr>ov_State := s\<rparr>) = objectSegmentRefsFromVersion v"
  "objectSegmentRefsFromVersion (v\<lparr>ov_CommittedAt := t\<rparr>) = objectSegmentRefsFromVersion v"
  by (simp_all add: objectSegmentRefsFromVersion_def)

lemma nul_free_state [simp]:
  "version_nul_free (v\<lparr>ov_State := s\<rparr>) = version_nul_free v"
  "version_nul_free (v\<lparr>ov_CommittedAt := t\<rparr>) = version_nul_free v"
  by (simp_all add: version_nul_free_def)

lemma version_from_request_fields [simp]:
  "ov_BucketID (version_from_request req segs i now) = q_po_BucketID req"
  "ov_Key (version_from_request req segs i now) = q_po_Key req"
  "ov_VersionID (version_from_request req segs i now) = i"
  "ov_VersionSortKey (version_from_request req segs i now) = i"
  by (simp_all add: version_from_request_def)

lemma version_from_request_nul_free:
  "nul_free (q_po_BucketID req) \<Longrightarrow> nul_free i \<Longrightarrow> segs_nul_free req \<Longrightarrow>
     version_nul_free (version_from_request req (normalizeSegmentRefs (q_po_SegmentRef req) (q_po_SegmentRefs req)) i now)"
  by (simp add: version_nul_free_def segs_nul_free_def)

lemma BeginPutObject_error: "BeginPutObject E now ids req r = (Inl e, r') \<Longrightarrow> r' = r"
  by (simp add: BeginPutObject_def Let_def split: if_splits option.splits sum.splits)

lemma BeginPutObject_ok:
  fixes req :: BeginPutObjectRequest
  defines "head \<equiv> \<lambda>r. map_get zero_ObjectHead (r_heads r) (q_po_BucketID req, q_po_Key req)"
    and "version \<equiv> \<lambda>now i. (version_from_request req
           (normalizeSegmentRefs (q_po_SegmentRef req) (q_po_SegmentRefs req)) i now)\<lparr>ov_State := ObjectVersionPending\<rparr>"
  assumes op: "BeginPutObject E now ids req r = (Inr p, r')"
  shows "\<exists>i. nextObjectVersionIDLocked ids (r, q_po_BucketID req, q_po_Key req) = Inr i \<and>
      map_of (r_bucketsByID r) (q_po_BucketID req) \<noteq> None \<and>
      p = \<lparr>pov_Version = version now i, pov_BaseHeadVersionID = oh_VersionID (head r),
           pov_BaseHead = head r, pov_BaseHeadFound = (oh_VersionID (head r) \<noteq> [])\<rparr> \<and>
      r' = r\<lparr>r_versions := map_put (q_po_BucketID req, q_po_Key req, i) (version now i) (r_versions r)\<rparr>"
  using op
  by (simp add: BeginPutObject_def Let_def head_def version_def split: if_splits option.splits sum.splits)

lemma ids_ok_version: "ids_ok ids \<Longrightarrow> nextObjectVersionIDLocked ids s = Inr i \<Longrightarrow> i \<noteq> [] \<and> nul_free i"
  using version_ids.alloc_predicate [of ids "\<lambda>x. x \<noteq> [] \<and> nul_free x" s i] unfolding ids_ok_def by blast

lemma inv_BeginPutObject:
  assumes inv: "obj_inv r" "prot_inv E T r" and ids: "ids_ok ids" and segs: "segs_nul_free req"
    and op: "BeginPutObject E now ids req r = (res, r')"
  shows "obj_inv r' \<and> prot_inv E T r'"
proof (cases res)
  case (Inl e)
  with op have "r' = r" by (blast dest: BeginPutObject_error)
  with inv show ?thesis by simp
next
  case (Inr p)
  let ?b = "q_po_BucketID req" and ?k = "q_po_Key req"
  obtain i where i: "nextObjectVersionIDLocked ids (r, ?b, ?k) = Inr i"
    and bucket: "map_of (r_bucketsByID r) ?b \<noteq> None"
    and p: "r' = r\<lparr>r_versions := map_put (?b, ?k, i) ((version_from_request req
           (normalizeSegmentRefs (q_po_SegmentRef req) (q_po_SegmentRefs req)) i now)\<lparr>ov_State := ObjectVersionPending\<rparr>)
           (r_versions r)\<rparr>"
    using BeginPutObject_ok [OF op [unfolded Inr]] by blast
  define v where "v = (version_from_request req
    (normalizeSegmentRefs (q_po_SegmentRef req) (q_po_SegmentRefs req)) i now)\<lparr>ov_State := ObjectVersionPending\<rparr>"
  note id = ids_ok_version [OF ids i]
  have fresh: "map_of (r_versions r) (?b, ?k, i) = None" by (rule version_id_fresh [OF i])
  have key: "version_key_ok (?b, ?k, i) v" using id by (simp add: v_def version_key_ok_def)
  have nul: "version_nul_free v"
    using bucket_nul_free [OF inv(2) bucket] id segs by (simp add: v_def version_from_request_nul_free)
  have "obj_ok (map_of (r_heads r)) ((map_of (r_versions r))((?b, ?k, i) \<mapsto> v))"
    by (rule obj_ok_put_version [OF obj_invD(4) [OF inv(1)] key])
      (use obj_okD_head [OF obj_invD(4) [OF inv(1)]] fresh in fastforce)
  moreover have "prot_ok E T ((map_of (r_versions r))((?b, ?k, i) \<mapsto> v)) (map_of (r_protectedRefs r))"
    by (rule prot_ok_put [OF prot_invD [OF inv(2)] nul]) (simp add: v_def)
  ultimately show ?thesis
    using inv unfolding p v_def [symmetric] by (simp add: obj_inv_def prot_inv_def map_of_put_fun)
qed

lemma PutObjectVersion_error: "PutObjectVersion E now ids req r = (Inl e, r') \<Longrightarrow> r' = r"
  by (simp add: PutObjectVersion_def Let_def case_prod_beta split: if_splits option.splits sum.splits)

lemma PutObjectVersion_ok:
  fixes req :: PutObjectVersionRequest
  defines "head \<equiv> \<lambda>r. map_get zero_ObjectHead (r_heads r) (q_po_BucketID req, q_po_Key req)"
    and "version \<equiv> \<lambda>now i. (version_from_request req
           (normalizeSegmentRefs (q_po_SegmentRef req) (q_po_SegmentRefs req)) i now)
           \<lparr>ov_State := ObjectVersionCommitted, ov_CommittedAt := now\<rparr>"
  assumes op: "PutObjectVersion E now ids req r = (Inr p, r')"
  shows "\<exists>i bucket. nextObjectVersionIDLocked ids (r, q_po_BucketID req, q_po_Key req) = Inr i \<and>
      map_of (r_bucketsByID r) (q_po_BucketID req) = Some bucket \<and>
      storeVersionLocked E now bucket (head r) (version now i) r = (pvr_Head p, r') \<and>
      pvr_ReplacedHead p = head r \<and> pvr_ReplacedHeadFound p = (oh_VersionID (head r) \<noteq> [])"
  using op
  by (simp add: PutObjectVersion_def Let_def head_def version_def case_prod_beta
      split: if_splits option.splits sum.splits) auto

lemma CommitObjectVersion_error: "CommitObjectVersion E now req r = (Inl e, r') \<Longrightarrow> r' = r"
  by (simp add: CommitObjectVersion_def Let_def case_prod_beta split: if_splits option.splits)

lemma CommitObjectVersion_ok:
  fixes req :: CommitObjectVersionRequest
  defines "head \<equiv> \<lambda>r. map_get zero_ObjectHead (r_heads r) (q_co_BucketID req, q_co_Key req)"
    and "vkey \<equiv> (q_co_BucketID req, q_co_Key req, q_co_VersionID req)"
  assumes op: "CommitObjectVersion E now req r = (Inr h, r')"
  shows "oh_VersionID (head r) = q_co_ExpectedHeadVersionID req \<and>
    (\<exists>v. map_of (r_versions r) vkey = Some v \<and>
      (if ov_State v = ObjectVersionCommitted then r' = r \<and> h = head r
       else commitVersionLocked E now (map_get zero_Bucket (r_bucketsByID r) (q_co_BucketID req))
              (head r) vkey v r = (h, r')))"
proof -
  have cas: "oh_VersionID (head r) = q_co_ExpectedHeadVersionID req"
    by (rule ccontr) (use op in \<open>simp add: CommitObjectVersion_def Let_def head_def split: if_splits\<close>)
  have args: "\<not> (q_co_BucketID req = [] \<or> q_co_Key req = [] \<or> q_co_VersionID req = [])"
    by (rule notI) (use op in \<open>simp add: CommitObjectVersion_def\<close>)
  have hd: "head r = map_get zero_ObjectHead (r_heads r) (q_co_BucketID req, q_co_Key req)"
    by (simp add: head_def)
  have body: "(case map_of (r_versions r) vkey of
      None \<Rightarrow> (Inl ErrNotFound, r)
    | Some v \<Rightarrow> if ov_State v = ObjectVersionCommitted then (Inr (head r), r)
        else let (head', r'') = commitVersionLocked E now
                 (map_get zero_Bucket (r_bucketsByID r) (q_co_BucketID req)) (head r) vkey v r
             in (Inr head', r'')) = (Inr h, r')"
    using op cas args unfolding CommitObjectVersion_def Let_def hd [symmetric] vkey_def [symmetric]
    by (simp only: if_False not_True_eq_False simp_thms)
  show ?thesis
  proof (cases "map_of (r_versions r) vkey")
    case None
    with body show ?thesis by simp
  next
    case (Some v)
    with body cas show ?thesis by (auto simp: Let_def split: if_splits prod.splits)
  qed
qed

lemma storeVersionLocked_effect:
  fixes v :: ObjectVersion and r :: Repository
  defines "b \<equiv> ov_BucketID v" and "k \<equiv> ov_Key v" and "i \<equiv> ov_VersionID v"
  defines "old \<equiv> oh_VersionID (map_get zero_ObjectHead (r_heads r) (ov_BucketID v, ov_Key v))"
  assumes inv: "obj_inv r"
    and op: "storeVersionLocked E now bucket (map_get zero_ObjectHead (r_heads r) (b, k)) v r = (h, r')"
  shows "h = (headFromVersion v now)\<lparr>oh_Revision := nextObjectHeadRevision (map_of (r_heads r) (b, k))\<rparr>"
    "r_heads r' = map_put (b, k) h (r_heads r)" "r_bucketsByID r' = r_bucketsByID r"
    "map_wf (r_versions r')"
    "if bk_VersioningState bucket \<noteq> BucketVersioningEnabled \<and> old \<noteq> [] \<and> old \<noteq> i
     then map_of (r_versions r') = (map_of (r_versions r))((b, k, i) \<mapsto> v, (b, k, old) := None) \<and>
          r_protectedRefs r' = synced E v now (without_refs b k old (r_protectedRefs r))
     else map_of (r_versions r') = (map_of (r_versions r))((b, k, i) \<mapsto> v) \<and>
          r_protectedRefs r' = synced E v now (r_protectedRefs r)"
proof -
  let ?head = "map_get zero_ObjectHead (r_heads r) (b, k)"
  have rep: "replaceHeadVersionLocked bucket b k ?head v r =
     (if bk_VersioningState bucket \<noteq> BucketVersioningEnabled \<and> oh_VersionID ?head \<noteq> [] \<and> oh_VersionID ?head \<noteq> i
      then r\<lparr>r_versions := map_del (b, k, oh_VersionID ?head) (r_versions r),
             r_protectedRefs := without_refs b k (oh_VersionID ?head) (r_protectedRefs r)\<rparr>
      else r)" unfolding i_def
    by (rule replace_effect) (use current_head_present [OF inv] in blast)
  have wf: "map_wf (r_versions r)" using inv by (rule obj_invD)
  have eq: "(h, r') = (let r1 = replaceHeadVersionLocked bucket b k ?head v r;
      r2 = r1\<lparr>r_versions := map_put (b, k, i) v (r_versions r1)\<rparr>;
      (head, r3) = setHeadLocked (b, k) (headFromVersion v now) r2
    in (head, syncProtectedRefsForVersionLocked E v now r3))"
    using op by (simp add: storeVersionLocked_def b_def k_def i_def Let_def)
  have old: "oh_VersionID ?head = old" by (simp add: old_def b_def k_def)
  let ?drop = "bk_VersioningState bucket \<noteq> BucketVersioningEnabled \<and> old \<noteq> [] \<and> old \<noteq> i"
  let ?h = "(headFromVersion v now)\<lparr>oh_Revision := nextObjectHeadRevision (map_of (r_heads r) (b, k))\<rparr>"
  have eff: "h = ?h \<and> r_heads r' = map_put (b, k) h (r_heads r) \<and> r_bucketsByID r' = r_bucketsByID r \<and>
    map_wf (r_versions r') \<and>
    (if ?drop
     then map_of (r_versions r') = (map_of (r_versions r))((b, k, i) \<mapsto> v, (b, k, old) := None) \<and>
          r_protectedRefs r' = synced E v now (without_refs b k old (r_protectedRefs r))
     else map_of (r_versions r') = (map_of (r_versions r))((b, k, i) \<mapsto> v) \<and>
          r_protectedRefs r' = synced E v now (r_protectedRefs r))"
  proof (cases ?drop)
    case True
    then have "(b, k, old) \<noteq> (b, k, i)" by simp
    then have twist: "(map_of (r_versions r))((b, k, old) := None, (b, k, i) \<mapsto> v) =
        (map_of (r_versions r))((b, k, i) \<mapsto> v, (b, k, old) := None)" by (rule fun_upd_twist)
    show ?thesis
      using eq wf True unfolding rep old if_P [OF True]
      by (simp add: Let_def setHeadLocked_eq sync_eq map_of_put_fun map_of_del_fun twist)
  next
    case False
    then show ?thesis
      using eq wf unfolding rep old if_not_P [OF False]
      by (simp add: Let_def setHeadLocked_eq sync_eq map_of_put_fun)
  qed
  show "h = (headFromVersion v now)\<lparr>oh_Revision := nextObjectHeadRevision (map_of (r_heads r) (b, k))\<rparr>"
    "r_heads r' = map_put (b, k) h (r_heads r)" "r_bucketsByID r' = r_bucketsByID r"
    "map_wf (r_versions r')"
    "if bk_VersioningState bucket \<noteq> BucketVersioningEnabled \<and> old \<noteq> [] \<and> old \<noteq> i
     then map_of (r_versions r') = (map_of (r_versions r))((b, k, i) \<mapsto> v, (b, k, old) := None) \<and>
          r_protectedRefs r' = synced E v now (without_refs b k old (r_protectedRefs r))
     else map_of (r_versions r') = (map_of (r_versions r))((b, k, i) \<mapsto> v) \<and>
          r_protectedRefs r' = synced E v now (r_protectedRefs r)"
    using eff by blast+
qed

lemma inv_storeVersionLocked:
  assumes inv: "obj_inv r" "prot_inv E T r" and T: "T \<le> now"
    and v: "version_key_ok (b, k, i) v" "version_nul_free v" "ov_State v = ObjectVersionCommitted"
    and op: "storeVersionLocked E now bucket (map_get zero_ObjectHead (r_heads r) (b, k)) v r = (h, r')"
  shows "obj_inv r' \<and> prot_inv E now r'"
proof -
  have ids: "ov_BucketID v = b" "ov_Key v = k" "ov_VersionID v = i" using v(1) by (auto simp: version_key_ok_def)
  note eff = storeVersionLocked_effect [OF inv(1) op [folded ids(1,2)], unfolded ids]
  show ?thesis
    by (rule inv_publish [OF inv T v eff(2) _ eff(3,4)])
      (use eff(1) in simp, use eff(5) in \<open>auto split: if_splits\<close>)
qed

lemma inv_PutObjectVersion:
  assumes inv: "obj_inv r" "prot_inv E T r" and T: "T \<le> now"
    and ids: "ids_ok ids" and segs: "segs_nul_free req"
    and op: "PutObjectVersion E now ids req r = (res, r')"
  shows "obj_inv r' \<and> prot_inv E now r'"
proof (cases res)
  case (Inl e)
  with op have "r' = r" by (blast dest: PutObjectVersion_error)
  with inv prot_inv_mono [OF _ T] show ?thesis by simp
next
  case (Inr p)
  obtain i bucket where i: "nextObjectVersionIDLocked ids (r, q_po_BucketID req, q_po_Key req) = Inr i"
    and bucket: "map_of (r_bucketsByID r) (q_po_BucketID req) = Some bucket"
    and store: "storeVersionLocked E now bucket
       (map_get zero_ObjectHead (r_heads r) (q_po_BucketID req, q_po_Key req))
       ((version_from_request req (normalizeSegmentRefs (q_po_SegmentRef req) (q_po_SegmentRefs req)) i now)
           \<lparr>ov_State := ObjectVersionCommitted, ov_CommittedAt := now\<rparr>) r = (pvr_Head p, r')"
    using PutObjectVersion_ok [OF op [unfolded Inr]] by blast
  note id = ids_ok_version [OF ids i]
  have nul: "nul_free (q_po_BucketID req)" using bucket_nul_free [OF inv(2)] bucket by simp
  show ?thesis
    by (rule inv_storeVersionLocked [OF inv T _ _ _ store])
      (use id nul segs in \<open>simp_all add: version_key_ok_def version_from_request_nul_free\<close>)
qed

lemma commitVersionLocked_effect:
  fixes v0 :: ObjectVersion and r :: Repository
  defines "v \<equiv> \<lambda>now. v0\<lparr>ov_State := ObjectVersionCommitted, ov_CommittedAt := now\<rparr>"
  defines "old \<equiv> \<lambda>b k. oh_VersionID (map_get zero_ObjectHead (r_heads r) (b, k))"
  assumes inv: "obj_inv r" and v0: "map_of (r_versions r) (b, k, i) = Some v0"
    and op: "commitVersionLocked E now bucket (map_get zero_ObjectHead (r_heads r) (b, k)) (b, k, i) v0 r = (h, r')"
  shows "h = (headFromVersion (v now) now)\<lparr>oh_Revision := nextObjectHeadRevision (map_of (r_heads r) (b, k))\<rparr> \<and>
    r_heads r' = map_put (b, k) h (r_heads r) \<and> r_bucketsByID r' = r_bucketsByID r \<and> map_wf (r_versions r') \<and>
    (if bk_VersioningState bucket \<noteq> BucketVersioningEnabled \<and> old b k \<noteq> [] \<and> old b k \<noteq> i
     then map_of (r_versions r') = (map_of (r_versions r))((b, k, i) \<mapsto> v now, (b, k, old b k) := None) \<and>
          r_protectedRefs r' = synced E (v now) now (without_refs b k (old b k) (r_protectedRefs r))
     else map_of (r_versions r') = (map_of (r_versions r))((b, k, i) \<mapsto> v now) \<and>
          r_protectedRefs r' = synced E (v now) now (r_protectedRefs r))"
proof -
  let ?head = "map_get zero_ObjectHead (r_heads r) (b, k)" and ?v = "v now"
  let ?r1 = "r\<lparr>r_versions := map_put (b, k, i) ?v (r_versions r)\<rparr>"
  have old: "old b k = oh_VersionID ?head" by (simp add: old_def)
  have i: "ov_VersionID ?v = i"
    using obj_okD_key [OF obj_invD(4) [OF inv] v0] by (simp add: v_def version_key_ok_def)
  have key: "version_key_ok (b, k, i) ?v"
    using obj_okD_key [OF obj_invD(4) [OF inv] v0] by (simp add: v_def version_key_ok_def)
  have rep: "replaceHeadVersionLocked bucket b k ?head ?v ?r1 =
     (if bk_VersioningState bucket \<noteq> BucketVersioningEnabled \<and> oh_VersionID ?head \<noteq> [] \<and> oh_VersionID ?head \<noteq> i
      then ?r1\<lparr>r_versions := map_del (b, k, oh_VersionID ?head) (r_versions ?r1),
             r_protectedRefs := without_refs b k (oh_VersionID ?head) (r_protectedRefs ?r1)\<rparr>
      else ?r1)" unfolding i [symmetric]
    by (rule replace_effect) (use current_head_present [OF inv] key i in auto)
  have wf: "map_wf (r_versions r)" using inv by (rule obj_invD)
  have eq: "(let r2 = replaceHeadVersionLocked bucket b k ?head ?v ?r1;
      (head, r3) = setHeadLocked (b, k) (headFromVersion ?v now) r2
    in (head, syncProtectedRefsForVersionLocked E ?v now r3)) = (h, r')"
    using op by (simp add: commitVersionLocked_def v_def Let_def)
  let ?drop = "bk_VersioningState bucket \<noteq> BucketVersioningEnabled \<and> oh_VersionID ?head \<noteq> [] \<and> oh_VersionID ?head \<noteq> i"
  show ?thesis
  proof (cases ?drop)
    case True
    from eq show ?thesis unfolding rep old if_P [OF True]
      by (auto simp: Let_def setHeadLocked_eq sync_eq map_of_put_fun map_of_del_fun wf)
  next
    case False
    from eq show ?thesis unfolding rep old if_not_P [OF False]
      by (auto simp: Let_def setHeadLocked_eq sync_eq map_of_put_fun wf)
  qed
qed

lemma inv_CommitObjectVersion:
  assumes inv: "obj_inv r" "prot_inv E T r" and T: "T \<le> now"
    and op: "CommitObjectVersion E now req r = (res, r')"
  shows "obj_inv r' \<and> prot_inv E now r'"
proof (cases res)
  case (Inl e)
  with op have "r' = r" by (blast dest: CommitObjectVersion_error)
  with inv prot_inv_mono [OF _ T] show ?thesis by simp
next
  case (Inr h)
  let ?b = "q_co_BucketID req" and ?k = "q_co_Key req" and ?i = "q_co_VersionID req"
  obtain v where v: "map_of (r_versions r) (?b, ?k, ?i) = Some v"
    and body: "if ov_State v = ObjectVersionCommitted then r' = r \<and> h = map_get zero_ObjectHead (r_heads r) (?b, ?k)
       else commitVersionLocked E now (map_get zero_Bucket (r_bucketsByID r) ?b)
              (map_get zero_ObjectHead (r_heads r) (?b, ?k)) (?b, ?k, ?i) v r = (h, r')"
    using CommitObjectVersion_ok [OF op [unfolded Inr]] by blast
  show ?thesis
  proof (cases "ov_State v = ObjectVersionCommitted")
    case True
    with body inv prot_inv_mono [OF _ T] show ?thesis by simp
  next
    case False
    with body have commit: "commitVersionLocked E now (map_get zero_Bucket (r_bucketsByID r) ?b)
        (map_get zero_ObjectHead (r_heads r) (?b, ?k)) (?b, ?k, ?i) v r = (h, r')" by simp
    note eff = commitVersionLocked_effect [OF inv(1) v commit]
    let ?v = "v\<lparr>ov_State := ObjectVersionCommitted, ov_CommittedAt := now\<rparr>"
    show ?thesis
    proof (rule inv_publish [OF inv T])
      show "version_key_ok (?b, ?k, ?i) ?v"
        using obj_okD_key [OF obj_invD(4) [OF inv(1)] v] by (simp add: version_key_ok_def)
      show "version_nul_free ?v" using prot_ok_nul [OF prot_invD [OF inv(2)] v] by simp
      show "r_heads r' = map_put (?b, ?k) h (r_heads r)" "r_bucketsByID r' = r_bucketsByID r"
        "map_wf (r_versions r')" using eff by blast+
      show "head_of h ?v" using eff by simp
    qed (use eff in \<open>auto split: if_splits\<close>)
  qed
qed

end
