(* ===== verification/ObjectSafety.thy ===== *)
theory ObjectSafety
  imports ObjectInv
begin

text \<open>
  Deletion, tags and lock changes: that they keep the invariants of \<open>ObjectInv\<close>, that
  deleting the current version promotes the newest committed one left, and that no
  operation removes or weakens a locked version unless the lock allows it and the bypass is
  in the audit log.
\<close>

section \<open>The newest committed version\<close>

lemma latest_loop_step:
  "latest_loop b k l (((b', k', i), v) # m) = latest_loop b k
     (if b' = b \<and> k' = k \<and> ov_State v = ObjectVersionCommitted \<and>
         (ov_VersionID l = [] \<or> ov_VersionSortKey v > ov_VersionSortKey l) then v else l) m"
  by simp

lemma latest_loop_cases:
  "latest_loop b k l m = l \<or>
   (\<exists>i. ((b, k, i), latest_loop b k l m) \<in> set m \<and> ov_State (latest_loop b k l m) = ObjectVersionCommitted)"
proof (induction m arbitrary: l)
  case Nil
  then show ?case by simp
next
  case (Cons p m)
  obtain b' k' i v where p: "p = ((b', k', i), v)" by (metis prod.exhaust)
  show ?case
  proof (cases "b' = b \<and> k' = k \<and> ov_State v = ObjectVersionCommitted \<and>
      (ov_VersionID l = [] \<or> ov_VersionSortKey v > ov_VersionSortKey l)")
    case True
    then have "latest_loop b k l (p # m) = latest_loop b k v m" by (simp only: p latest_loop_step if_True simp_thms)
    with Cons.IH [of v] True show ?thesis by (auto simp: p)
  next
    case False
    then have "latest_loop b k l (p # m) = latest_loop b k l m" by (simp only: p latest_loop_step if_False)
    with Cons.IH [of l] show ?thesis by auto
  qed
qed

lemma latest_loop_ge:
  assumes "\<forall>(key, v) \<in> set m. ov_VersionID v \<noteq> []" "ov_VersionID l \<noteq> []"
  shows "ov_VersionSortKey l \<le> ov_VersionSortKey (latest_loop b k l m) \<and> ov_VersionID (latest_loop b k l m) \<noteq> []"
  using assms
proof (induction m arbitrary: l)
  case Nil
  then show ?case by simp
next
  case (Cons p m)
  obtain b' k' i v where p: "p = ((b', k', i), v)" by (metis prod.exhaust)
  with Cons.prems have v: "ov_VersionID v \<noteq> []" and m: "\<forall>(key, v) \<in> set m. ov_VersionID v \<noteq> []" by auto
  show ?case
  proof (cases "b' = b \<and> k' = k \<and> ov_State v = ObjectVersionCommitted \<and>
      (ov_VersionID l = [] \<or> ov_VersionSortKey v > ov_VersionSortKey l)")
    case True
    then have "latest_loop b k l (p # m) = latest_loop b k v m" by (simp only: p latest_loop_step if_True simp_thms)
    with Cons.IH [OF m v] True Cons.prems(2) show ?thesis by auto
  next
    case False
    then have "latest_loop b k l (p # m) = latest_loop b k l m" by (simp only: p latest_loop_step if_False)
    with Cons.IH [OF m Cons.prems(2)] show ?thesis by simp
  qed
qed

lemma latest_loop_max:
  assumes "\<forall>(key, v) \<in> set m. ov_VersionID v \<noteq> []" "((b, k, i), w) \<in> set m"
    "ov_State w = ObjectVersionCommitted"
  shows "ov_VersionSortKey w \<le> ov_VersionSortKey (latest_loop b k l m) \<and> ov_VersionID (latest_loop b k l m) \<noteq> []"
  using assms
proof (induction m arbitrary: l)
  case Nil
  then show ?case by simp
next
  case (Cons p m)
  obtain b' k' j v where p: "p = ((b', k', j), v)" by (metis prod.exhaust)
  have m: "\<forall>(key, v) \<in> set m. ov_VersionID v \<noteq> []" and v: "ov_VersionID v \<noteq> []"
    using Cons.prems(1) by (auto simp: p)
  show ?case
  proof (cases "((b, k, i), w) \<in> set m")
    case True
    with Cons.IH [OF m True Cons.prems(3)] show ?thesis by (simp add: p)
  next
    case False
    with Cons.prems(2) p have w: "b' = b" "k' = k" "v = w" by auto
    show ?thesis
    proof (cases "ov_VersionID l = [] \<or> ov_VersionSortKey w > ov_VersionSortKey l")
      case True
      with latest_loop_ge [OF m v, of b k] Cons.prems(3) w show ?thesis by (simp add: p)
    next
      case False
      then have "ov_VersionID l \<noteq> []" by simp
      from latest_loop_ge [OF m this, of b k] False Cons.prems(3) w show ?thesis by (auto simp: p)
    qed
  qed
qed

lemma latest_committed:
  assumes "latestCommittedVersionLocked b k r = Some v"
  shows "\<exists>i. ((b, k, i), v) \<in> set (r_versions r) \<and> ov_State v = ObjectVersionCommitted"
  using assms latest_loop_cases [of b k zero_ObjectVersion "r_versions r"]
  by (auto simp: latestCommittedVersionLocked_def Let_def zero_ObjectVersion_def split: if_splits)

lemma latest_newest:
  assumes "\<forall>(key, v) \<in> set (r_versions r). ov_VersionID v \<noteq> []"
    "((b, k, i), w) \<in> set (r_versions r)" "ov_State w = ObjectVersionCommitted"
  shows "\<exists>v. latestCommittedVersionLocked b k r = Some v \<and> ov_VersionSortKey w \<le> ov_VersionSortKey v"
  using latest_loop_max [OF assms] by (simp add: latestCommittedVersionLocked_def Let_def)

lemma latest_cong: "r_versions r' = r_versions r \<Longrightarrow> latestCommittedVersionLocked b k r' = latestCommittedVersionLocked b k r"
  by (simp add: latestCommittedVersionLocked_def)

section \<open>Deleting a version\<close>

definition heads_after_delete ::
  "string \<Rightarrow> string \<Rightarrow> string \<Rightarrow> (versionKey, ObjectVersion) gomap \<Rightarrow> (objectKey, ObjectHead) gomap \<Rightarrow>
     (objectKey, ObjectHead) gomap" where
  "heads_after_delete b k i V H =
     (case map_of H (b, k) of
        None \<Rightarrow> H
      | Some head \<Rightarrow>
          if oh_VersionID head = i
          then (let latest = latest_loop b k zero_ObjectVersion V
                in if ov_VersionID latest \<noteq> []
                   then map_put (b, k) ((headFromVersion latest (ov_CommittedAt latest))
                          \<lparr>oh_Revision := nextObjectHeadRevision (Some head)\<rparr>) H
                   else map_del (b, k) H)
          else H)"

lemma removeVersionLocked_eq:
  fixes req :: DeleteObjectRequest
  defines "b \<equiv> q_do_BucketID req" and "k \<equiv> q_do_Key req" and "i \<equiv> q_do_VersionID req"
  shows "removeVersionLocked E clk req v r =
    (if objectVersionProtectedByObjectLock v (clk 0) False
     then appendAuditEventLocked E (clk 1)
            (governanceBypassAuditEvent req AuditActionGovernanceBypassDeleteObject
               (ov_VersionID v) [(''target'', ''object_version'')]) r
     else r)\<lparr>r_versions := map_del (b, k, i) (r_versions r),
       r_protectedRefs := without_refs (ov_BucketID v) (ov_Key v) (ov_VersionID v) (r_protectedRefs r),
       r_heads := heads_after_delete b k i (map_del (b, k, i) (r_versions r)) (r_heads r)\<rparr>"
    (is "_ = ?r0\<lparr>r_versions := ?V, r_protectedRefs := ?P, r_heads := ?H\<rparr>")
proof -
  define r0 where "r0 = ?r0"
  have frame: "r_versions r0 = r_versions r" "r_heads r0 = r_heads r" "r_protectedRefs r0 = r_protectedRefs r"
    by (simp_all add: r0_def)
  have same: "r0\<lparr>r_versions := x, r_protectedRefs := y, r_heads := r_heads r\<rparr> =
      r0\<lparr>r_versions := x, r_protectedRefs := y\<rparr>" for x y
    by (simp add: frame(2) [symmetric])
  have "removeVersionLocked E clk req v r = r0\<lparr>r_versions := ?V, r_protectedRefs := ?P, r_heads := ?H\<rparr>"
    unfolding removeVersionLocked_def r0_def [symmetric] b_def [symmetric] k_def [symmetric] i_def [symmetric]
    by (simp add: Let_def deleteProtectedRefs_eq frame heads_after_delete_def latestCommittedVersionLocked_def
        setHeadLocked_eq same split: option.split)
  then show ?thesis by (simp only: r0_def)
qed

lemma deleteObjectVersionLocked_error: "deleteObjectVersionLocked E clk req r = (Inl e, r') \<Longrightarrow> r' = r"
  by (simp add: deleteObjectVersionLocked_def Let_def split: if_splits option.splits)

lemma deleteObjectVersionLocked_ok:
  fixes req :: DeleteObjectRequest
  assumes "deleteObjectVersionLocked E clk req r = (Inr d, r')"
  shows "\<exists>v. map_of (r_versions r) (q_do_BucketID req, q_do_Key req, q_do_VersionID req) = Some v \<and>
      \<not> (objectVersionProtectedByObjectLock v (clk 0) False \<and>
         governance_gate (objectVersionProtectedByObjectLock v (clk 0)) req) \<and>
      d = \<lparr>dr_Deleted = True, dr_DeletedVersionID = ov_VersionID v, dr_DeleteMarker = ov_DeleteMarker v,
           dr_DeletedVersion = v\<rparr> \<and>
      r' = removeVersionLocked E clk req v r"
  using assms by (auto simp: deleteObjectVersionLocked_def Let_def split: if_splits option.splits)

lemma obj_ok_heads_after_delete:
  assumes wf: "map_wf H" "map_wf V" and ok: "obj_ok (map_of H) (map_of V)"
  shows "obj_ok (map_of (heads_after_delete b k i (map_del (b, k, i) V) H)) (map_of (map_del (b, k, i) V)) \<and>
    map_wf (heads_after_delete b k i (map_del (b, k, i) V) H)"
proof (cases "\<exists>h. map_of H (b, k) = Some h \<and> oh_VersionID h = i")
  case False
  then have "heads_after_delete b k i (map_del (b, k, i) V) H = H"
    by (auto simp: heads_after_delete_def split: option.splits)
  moreover have "obj_ok (map_of H) (map_of (map_del (b, k, i) V))"
    unfolding map_of_del_fun by (rule obj_ok_del_version [OF ok]) (use False in blast)
  ultimately show ?thesis using wf by simp
next
  case True
  then obtain h where h: "map_of H (b, k) = Some h" "oh_VersionID h = i" by blast
  let ?V = "map_del (b, k, i) V"
  let ?p = "latest_loop b k zero_ObjectVersion ?V"
  have del: "obj_ok ((map_of H)((b, k) := None)) (map_of ?V)"
    unfolding map_of_del_fun by (rule obj_ok_del_version [OF obj_ok_del_head [OF ok]]) simp
  show ?thesis
  proof (cases "ov_VersionID ?p = []")
    case True
    then have "heads_after_delete b k i ?V H = map_del (b, k) H" by (simp add: heads_after_delete_def h)
    with del wf show ?thesis by (simp add: map_of_del_fun)
  next
    case False
    then have "?p \<noteq> zero_ObjectVersion" by (auto simp: zero_ObjectVersion_def)
    then obtain j where j: "((b, k, j), ?p) \<in> set ?V" and p: "ov_State ?p = ObjectVersionCommitted"
      using latest_loop_cases by blast
    then have V: "map_of ?V (b, k, j) = Some ?p" using wf(2) map_wf_mem map_wf_del by metis
    then have "ov_VersionID ?p = j" using obj_okD_key [OF del V] by (simp add: version_key_ok_def)
    with V have V': "map_of ?V (b, k, ov_VersionID ?p) = Some ?p" by simp
    let ?h = "(headFromVersion ?p (ov_CommittedAt ?p))\<lparr>oh_Revision := nextObjectHeadRevision (Some h)\<rparr>"
    have "heads_after_delete b k i ?V H = map_put (b, k) ?h H"
      using False by (simp add: heads_after_delete_def h Let_def)
    moreover have "obj_ok ((map_of H)((b, k) := None, (b, k) \<mapsto> ?h)) (map_of ?V)"
      by (rule obj_ok_put_head [OF del _ p]) (use V' in simp_all)
    ultimately show ?thesis using wf by (simp add: map_of_put_fun)
  qed
qed

lemma inv_removeVersionLocked:
  assumes inv: "obj_inv r" "prot_inv E T r"
    and v: "map_of (r_versions r) (q_do_BucketID req, q_do_Key req, q_do_VersionID req) = Some v"
  shows "obj_inv (removeVersionLocked E' clk req v r) \<and> prot_inv E T (removeVersionLocked E' clk req v r)"
proof -
  note ok = obj_invD [OF inv(1)]
  have ids: "ov_BucketID v = q_do_BucketID req" "ov_Key v = q_do_Key req" "ov_VersionID v = q_do_VersionID req"
    using obj_okD_key [OF ok(4) v] by (simp_all add: version_key_ok_def)
  show ?thesis
    using obj_ok_heads_after_delete [OF ok(1,2,4)] ok prot_ok_del [OF prot_invD [OF inv(2)] ok(3)] inv(2)
    by (simp add: removeVersionLocked_eq obj_inv_def prot_inv_def ids map_of_del_fun)
qed

lemma removeHeadLocked_effect:
  assumes inv: "obj_inv r" and h: "map_of (r_heads r) (q_do_BucketID req, q_do_Key req) = Some h"
    and op: "removeHeadLocked E clk req h r = (deleted, r')"
  shows "map_of (r_versions r) (q_do_BucketID req, q_do_Key req, oh_VersionID h) = Some deleted \<and>
    head_of h deleted \<and>
    r' = (if objectHeadProtectedByObjectLock h (clk 0) False
          then appendAuditEventLocked E (clk 1)
                 (governanceBypassAuditEvent req AuditActionGovernanceBypassDeleteObject
                    (oh_VersionID h) [(''target'', ''object_head'')]) r
          else r)\<lparr>r_heads := map_del (q_do_BucketID req, q_do_Key req) (r_heads r),
            r_versions := map_del (q_do_BucketID req, q_do_Key req, oh_VersionID h) (r_versions r),
            r_protectedRefs := without_refs (q_do_BucketID req) (q_do_Key req) (oh_VersionID h) (r_protectedRefs r)\<rparr>"
proof -
  obtain v where v: "map_of (r_versions r) (q_do_BucketID req, q_do_Key req, oh_VersionID h) = Some v"
    and head: "head_of h v"
    using obj_okD_head [OF obj_invD(4) [OF inv] h] by blast
  have ids: "ov_BucketID v = q_do_BucketID req" "ov_Key v = q_do_Key req" "ov_VersionID v = oh_VersionID h"
    "oh_VersionID h \<noteq> []"
    using obj_okD_key [OF obj_invD(4) [OF inv] v] by (auto simp: version_key_ok_def)
  show ?thesis
    using op v head ids
    by (auto simp: removeHeadLocked_def Let_def deleteVersionRecordLocked_def deleteProtectedRefs_eq)
qed

lemma inv_removeHeadLocked:
  assumes inv: "obj_inv r" "prot_inv E T r"
    and h: "map_of (r_heads r) (q_do_BucketID req, q_do_Key req) = Some h"
    and op: "removeHeadLocked E' clk req h r = (deleted, r')"
  shows "obj_inv r' \<and> prot_inv E T r'"
proof -
  let ?b = "q_do_BucketID req" and ?k = "q_do_Key req"
  note ok = obj_invD [OF inv(1)]
  have "obj_ok ((map_of (r_heads r))((?b, ?k) := None)) ((map_of (r_versions r))((?b, ?k, oh_VersionID h) := None))"
    by (rule obj_ok_del_version [OF obj_ok_del_head [OF ok(4)]]) simp
  then show ?thesis
    using removeHeadLocked_effect [OF inv(1) h op] ok prot_ok_del [OF prot_invD [OF inv(2)] ok(3)] inv(2)
    by (simp add: obj_inv_def prot_inv_def map_of_del_fun)
qed

definition delete_marker :: "DeleteObjectRequest \<Rightarrow> time \<Rightarrow> string \<Rightarrow> ObjectVersion" where
  "delete_marker req now i = zero_ObjectVersion\<lparr>ov_BucketID := q_do_BucketID req, ov_Key := q_do_Key req,
     ov_VersionID := i, ov_VersionSortKey := i, ov_State := ObjectVersionCommitted, ov_CreatedAt := now,
     ov_CommittedAt := now, ov_DeleteMarker := True\<rparr>"

lemma createDeleteMarkerLocked_error: "createDeleteMarkerLocked now ids req r = (Inl e, r') \<Longrightarrow> r' = r"
  by (auto simp: createDeleteMarkerLocked_def Let_def split: sum.splits)

lemma createDeleteMarkerLocked_ok:
  fixes req :: DeleteObjectRequest
  defines "b \<equiv> q_do_BucketID req" and "k \<equiv> q_do_Key req"
  assumes "createDeleteMarkerLocked now ids req r = (Inr d, r')"
  shows "\<exists>i. nextObjectVersionIDLocked ids (r, b, k) = Inr i \<and> dr_DeletedVersionID d = i \<and> dr_DeleteMarker d \<and>
    r' = r\<lparr>r_versions := map_put (b, k, i) (delete_marker req now i) (r_versions r),
           r_heads := map_put (b, k) ((headFromVersion (delete_marker req now i) now)
             \<lparr>oh_Revision := nextObjectHeadRevision (map_of (r_heads r) (b, k))\<rparr>) (r_heads r)\<rparr>"
  using assms
  by (auto simp: createDeleteMarkerLocked_def delete_marker_def Let_def setHeadLocked_eq split: sum.splits)

lemma delete_marker_facts [simp]:
  "ov_State (delete_marker req now i) = ObjectVersionCommitted" "ov_DeleteMarker (delete_marker req now i)"
  "objectSegmentRefsFromVersion (delete_marker req now i) = []" "ov_BucketID (delete_marker req now i) = q_do_BucketID req"
  "ov_Key (delete_marker req now i) = q_do_Key req" "ov_VersionID (delete_marker req now i) = i"
  "ov_VersionSortKey (delete_marker req now i) = i"
  by (simp_all add: delete_marker_def objectSegmentRefsFromVersion_def normalizeSegmentRefs_def
      zero_ObjectVersion_def zero_SegmentRef_def)

lemma inv_createDeleteMarkerLocked:
  assumes inv: "obj_inv r" "prot_inv E T r" and ids: "ids_ok ids"
    and bucket: "map_of (r_bucketsByID r) (q_do_BucketID req) \<noteq> None"
    and op: "createDeleteMarkerLocked now ids req r = (res, r')"
  shows "obj_inv r' \<and> prot_inv E T r'"
proof (cases res)
  case (Inl e)
  with op have "r' = r" by (blast dest: createDeleteMarkerLocked_error)
  with inv show ?thesis by simp
next
  case (Inr d)
  let ?b = "q_do_BucketID req" and ?k = "q_do_Key req"
  obtain i where i: "nextObjectVersionIDLocked ids (r, ?b, ?k) = Inr i"
    and r': "r' = r\<lparr>r_versions := map_put (?b, ?k, i) (delete_marker req now i) (r_versions r),
           r_heads := map_put (?b, ?k) ((headFromVersion (delete_marker req now i) now)
             \<lparr>oh_Revision := nextObjectHeadRevision (map_of (r_heads r) (?b, ?k))\<rparr>) (r_heads r)\<rparr>"
    using createDeleteMarkerLocked_ok [OF op [unfolded Inr]] by blast
  note id = ids_ok_version [OF ids i] and ok = obj_invD [OF inv(1)]
  let ?h = "(headFromVersion (delete_marker req now i) now)
             \<lparr>oh_Revision := nextObjectHeadRevision (map_of (r_heads r) (?b, ?k))\<rparr>"
  have "obj_ok ((map_of (r_heads r))((?b, ?k) \<mapsto> ?h))
      ((map_of (r_versions r))((?b, ?k, oh_VersionID ?h) \<mapsto> delete_marker req now i))"
    by (rule obj_ok_update [OF ok(4)]) (use id in \<open>simp_all add: version_key_ok_def\<close>)
  moreover have "prot_ok E T ((map_of (r_versions r))((?b, ?k, i) \<mapsto> delete_marker req now i)) (map_of (r_protectedRefs r))"
    by (rule prot_ok_put [OF prot_invD [OF inv(2)]])
      (use id bucket_nul_free [OF inv(2) bucket]
        in \<open>simp_all add: version_nul_free_def objectVersionProtectedByObjectLock_def\<close>)
  ultimately show ?thesis
    using ok inv(2) by (simp add: r' obj_inv_def prot_inv_def map_of_put_fun)
qed

lemma inv_DeleteObject:
  assumes inv: "obj_inv r" "prot_inv E T r" and ids: "ids_ok ids"
    and op: "DeleteObject E' clk ids req r = (res, r')"
  shows "obj_inv r' \<and> prot_inv E T r'"
proof -
  have version: "obj_inv r' \<and> prot_inv E T r'" if "deleteObjectVersionLocked E' clk req r = (res, r')"
    using that inv deleteObjectVersionLocked_error deleteObjectVersionLocked_ok inv_removeVersionLocked [OF inv]
    by (cases res) blast+
  have marker: "obj_inv r' \<and> prot_inv E T r'"
    if "createDeleteMarkerLocked now ids req r = (res, r')" "map_of (r_bucketsByID r) (q_do_BucketID req) \<noteq> None" for now
    using inv_createDeleteMarkerLocked [OF inv ids that(2,1)] .
  have head: "obj_inv r' \<and> prot_inv E T r'" if d: "deleteHeadLocked E' clk req r = (res, r')"
  proof (cases "map_of (r_heads r) (q_do_BucketID req, q_do_Key req)")
    case None
    with d inv show ?thesis by (simp add: deleteHeadLocked_def)
  next
    case (Some h)
    with d have "r' = r \<or> (\<exists>x. removeHeadLocked E' clk req h r = (x, r'))"
      by (auto simp: deleteHeadLocked_def Let_def split: option.splits if_splits prod.splits)
    with inv inv_removeHeadLocked [OF inv Some] show ?thesis by blast
  qed
  show ?thesis
    using op inv version marker head
    by (auto simp: DeleteObject_def split: if_splits option.splits)
qed

section \<open>Tags and locks\<close>

lemma head_ofE:
  assumes "head_of h v"
  obtains t n where "h = (headFromVersion v t)\<lparr>oh_Revision := n\<rparr>"
  using assms unfolding head_of_def by blast

lemma head_of_tags: "head_of h v \<Longrightarrow> head_of (h\<lparr>oh_Tags := tags, oh_Revision := n\<rparr>) (v\<lparr>ov_Tags := tags\<rparr>)"
  by (erule head_ofE) (simp add: head_of_def headFromVersion_def)

lemma head_of_lock:
  "head_of h v \<Longrightarrow>
     head_of (h\<lparr>oh_ObjectLockRetention := ret, oh_ObjectLockLegalHold := hold, oh_Revision := n\<rparr>)
             (v\<lparr>ov_ObjectLockRetention := ret, ov_ObjectLockLegalHold := hold\<rparr>)"
  by (erule head_ofE) (simp add: head_of_def headFromVersion_def)

lemma inv_change_version:
  \<comment> \<open>a committed version changes in place; its head follows where there is one\<close>
  assumes ok: "obj_ok (map_of H) (map_of V)" and v: "map_of V (b, k, i) = Some v"
    and committed: "ov_State v = ObjectVersionCommitted"
    and v': "version_key_ok (b, k, i) v'" "ov_State v' = ObjectVersionCommitted"
    and heads: "H' = (case map_of H (b, k) of None \<Rightarrow> H
        | Some h \<Rightarrow> if oh_VersionID h = i then map_put (b, k) (f h) H else H)"
    and f: "\<And>h. head_of h v \<Longrightarrow> head_of (f h) v'"
  shows "obj_ok (map_of H') ((map_of V)((b, k, i) \<mapsto> v'))"
proof (cases "\<exists>h. map_of H (b, k) = Some h \<and> oh_VersionID h = i")
  case True
  then obtain h where h: "map_of H (b, k) = Some h" "oh_VersionID h = i" by blast
  have "head_of h v" using obj_okD_head [OF ok h(1)] h(2) v by auto
  then have fh: "head_of (f h) v'" by (rule f)
  then have "oh_VersionID (f h) = i" using head_of_fields v'(1) by (auto simp: version_key_ok_def)
  with obj_ok_update [OF ok, of b k "f h" v'] v' fh h show ?thesis by (simp add: heads map_of_put_fun)
next
  case False
  then have "H' = H" by (auto simp: heads split: option.splits)
  with obj_ok_put_version [OF ok v'(1)] False show ?thesis by auto
qed

definition heads_follow :: "(ObjectHead \<Rightarrow> ObjectHead) \<Rightarrow> string \<Rightarrow> string \<Rightarrow> string \<Rightarrow>
    (objectKey, ObjectHead) gomap \<Rightarrow> (objectKey, ObjectHead) gomap" where
  "heads_follow f b k i H =
     (case map_of H (b, k) of None \<Rightarrow> H
      | Some h \<Rightarrow> if oh_VersionID h = i
          then map_put (b, k) ((f h)\<lparr>oh_Revision := nextObjectHeadRevision (Some h)\<rparr>) H else H)"

lemma heads_follow_wf [simp]: "map_wf H \<Longrightarrow> map_wf (heads_follow f b k i H)"
  by (simp add: heads_follow_def split: option.split)

lemma putVersionTagsLocked_error: "putVersionTagsLocked req r = (Inl e, r') \<Longrightarrow> r' = r"
  by (simp add: putVersionTagsLocked_def Let_def split: option.splits if_splits)

lemma putVersionTagsLocked_ok:
  fixes req :: ObjectTagsRequest
  defines "b \<equiv> q_ot_BucketID req" and "k \<equiv> q_ot_Key req" and "i \<equiv> q_ot_VersionID req"
  assumes op: "putVersionTagsLocked req r = (Inr u, r')"
  shows "\<exists>v. map_of (r_versions r) (b, k, i) = Some v \<and> ov_State v = ObjectVersionCommitted \<and>
    r_versions r' = map_put (b, k, i) (v\<lparr>ov_Tags := q_ot_Tags req\<rparr>) (r_versions r) \<and>
    r_heads r' = heads_follow (\<lambda>h. h\<lparr>oh_Tags := q_ot_Tags req\<rparr>) b k i (r_heads r) \<and>
    r_protectedRefs r' = r_protectedRefs r \<and> r_bucketsByID r' = r_bucketsByID r"
proof (cases "map_of (r_versions r) (b, k, i)")
  case None
  with op show ?thesis by (simp add: putVersionTagsLocked_def b_def k_def i_def Let_def)
next
  case (Some v)
  with op show ?thesis
    by (cases "map_of (r_heads r) (b, k)")
      (auto simp: putVersionTagsLocked_def b_def k_def i_def Let_def heads_follow_def setHeadLocked_eq
        split: if_splits)
qed

lemma putHeadTagsLocked_error: "putHeadTagsLocked req r = (Inl e, r') \<Longrightarrow> r' = r"
  by (simp add: putHeadTagsLocked_def Let_def split: option.splits if_splits)

lemma putHeadTagsLocked_ok:
  fixes req :: ObjectTagsRequest
  defines "b \<equiv> q_ot_BucketID req" and "k \<equiv> q_ot_Key req"
  assumes inv: "obj_inv r" and op: "putHeadTagsLocked req r = (Inr u, r')"
  shows "\<exists>i v. map_of (r_versions r) (b, k, i) = Some v \<and> ov_State v = ObjectVersionCommitted \<and>
    r_versions r' = map_put (b, k, i) (v\<lparr>ov_Tags := q_ot_Tags req\<rparr>) (r_versions r) \<and>
    r_heads r' = heads_follow (\<lambda>h. h\<lparr>oh_Tags := q_ot_Tags req\<rparr>) b k i (r_heads r) \<and>
    r_protectedRefs r' = r_protectedRefs r \<and> r_bucketsByID r' = r_bucketsByID r"
proof (cases "map_of (r_heads r) (b, k)")
  case None
  with op show ?thesis by (simp add: putHeadTagsLocked_def b_def k_def Let_def)
next
  case (Some h)
  obtain v where v: "map_of (r_versions r) (b, k, oh_VersionID h) = Some v" "ov_State v = ObjectVersionCommitted"
    using obj_okD_head [OF obj_invD(4) [OF inv] Some] by blast
  have "oh_VersionID h \<noteq> []" using obj_okD_key [OF obj_invD(4) [OF inv] v(1)] by (auto simp: version_key_ok_def)
  with op Some v show ?thesis
    by (intro exI [of _ "oh_VersionID h"] exI [of _ v])
      (auto simp: putHeadTagsLocked_def b_def k_def Let_def heads_follow_def setHeadLocked_eq)
qed

lemma inv_tags_change:
  assumes inv: "obj_inv r" "prot_inv E T r"
    and v: "map_of (r_versions r) (b, k, i) = Some v" "ov_State v = ObjectVersionCommitted"
    and r': "r_versions r' = map_put (b, k, i) (v\<lparr>ov_Tags := tags\<rparr>) (r_versions r)"
      "r_heads r' = heads_follow (\<lambda>h. h\<lparr>oh_Tags := tags\<rparr>) b k i (r_heads r)"
      "r_protectedRefs r' = r_protectedRefs r" "r_bucketsByID r' = r_bucketsByID r"
  shows "obj_inv r' \<and> prot_inv E T r'"
proof -
  note ok = obj_invD [OF inv(1)]
  have "version_key_ok (b, k, i) (v\<lparr>ov_Tags := tags\<rparr>)"
    using obj_okD_key [OF ok(4) v(1)] by (simp add: version_key_ok_def)
  then have "obj_ok (map_of (heads_follow (\<lambda>h. h\<lparr>oh_Tags := tags\<rparr>) b k i (r_heads r)))
      ((map_of (r_versions r))((b, k, i) \<mapsto> v\<lparr>ov_Tags := tags\<rparr>))"
    by (rule inv_change_version [OF ok(4) v _ _ heads_follow_def]) (use v(2) in \<open>simp_all add: head_of_tags\<close>)
  moreover have "prot_ok E T ((map_of (r_versions r))((b, k, i) \<mapsto> v\<lparr>ov_Tags := tags\<rparr>)) (map_of (r_protectedRefs r))"
    by (rule prot_ok_same [OF prot_invD [OF inv(2)] v(1)]) simp_all
  ultimately show ?thesis using ok inv(2) by (simp add: r' obj_inv_def prot_inv_def map_of_put_fun)
qed

lemma inv_PutObjectTags:
  assumes inv: "obj_inv r" "prot_inv E T r" and op: "PutObjectTags req r = (res, r')"
  shows "obj_inv r' \<and> prot_inv E T r'"
proof -
  from op consider "r' = r" | "putVersionTagsLocked req r = (res, r')" | "putHeadTagsLocked req r = (res, r')"
    by (auto simp: PutObjectTags_def split: if_splits)
  then show ?thesis
  proof cases
    case 1
    with inv show ?thesis by simp
  next
    case 2
    show ?thesis
    proof (cases res)
      case (Inl e)
      with 2 inv show ?thesis by (blast dest: putVersionTagsLocked_error)
    next
      case (Inr u)
      with putVersionTagsLocked_ok inv_tags_change [OF inv] 2 show ?thesis by blast
    qed
  next
    case 3
    show ?thesis
    proof (cases res)
      case (Inl e)
      with 3 inv show ?thesis by (blast dest: putHeadTagsLocked_error)
    next
      case (Inr u)
      with putHeadTagsLocked_ok [OF inv(1)] inv_tags_change [OF inv] 3 show ?thesis by blast
    qed
  qed
qed

lemma inv_DeleteObjectTags:
  "obj_inv r \<Longrightarrow> prot_inv E T r \<Longrightarrow> DeleteObjectTags req r = (res, r') \<Longrightarrow> obj_inv r' \<and> prot_inv E T r'"
  unfolding DeleteObjectTags_def by (rule inv_PutObjectTags)

lemma objectLockTarget_ok:
  assumes "objectLockTargetLocked b k i r = Inr (vkey, v)"
  shows "\<exists>j. vkey = (b, k, j) \<and> map_of (r_versions r) (b, k, j) = Some v \<and>
    ov_State v = ObjectVersionCommitted \<and> \<not> ov_DeleteMarker v \<and> (i \<noteq> [] \<longrightarrow> j = i)"
  using assms by (auto simp: objectLockTargetLocked_def Let_def split: if_splits option.splits)

lemma putVersionLockLocked_eq:
  assumes "version_key_ok (b, k, i) v"
  shows "putVersionLockLocked E now (b, k, i) v r =
    r\<lparr>r_versions := map_put (b, k, i) v (r_versions r),
      r_heads := heads_follow (\<lambda>h. h\<lparr>oh_ObjectLockRetention := ov_ObjectLockRetention v,
                    oh_ObjectLockLegalHold := ov_ObjectLockLegalHold v\<rparr>) b k i (r_heads r),
      r_protectedRefs := synced E v now (r_protectedRefs r)\<rparr>"
  using assms
  by (auto simp: putVersionLockLocked_def updateHeadObjectLockLocked_def Let_def heads_follow_def sync_eq
      setHeadLocked_eq version_key_ok_def split: option.split)

lemma inv_putVersionLockLocked:
  assumes inv: "obj_inv r" "prot_inv E T r" and T: "T \<le> now"
    and v: "map_of (r_versions r) (b, k, i) = Some v" "ov_State v = ObjectVersionCommitted"
    and v': "v' = v\<lparr>ov_ObjectLockRetention := ret, ov_ObjectLockLegalHold := hold\<rparr>"
  shows "obj_inv (putVersionLockLocked E now (b, k, i) v' r) \<and> prot_inv E now (putVersionLockLocked E now (b, k, i) v' r)"
proof -
  note ok = obj_invD [OF inv(1)]
  have key: "version_key_ok (b, k, i) v'"
    using obj_okD_key [OF ok(4) v(1)] by (simp add: v' version_key_ok_def)
  have "obj_ok (map_of (heads_follow (\<lambda>h. h\<lparr>oh_ObjectLockRetention := ov_ObjectLockRetention v',
        oh_ObjectLockLegalHold := ov_ObjectLockLegalHold v'\<rparr>) b k i (r_heads r)))
      ((map_of (r_versions r))((b, k, i) \<mapsto> v'))"
    by (rule inv_change_version [OF ok(4) v key _ heads_follow_def])
      (use v(2) in \<open>simp_all add: v' head_of_lock\<close>)
  moreover have "version_nul_free v'"
    using prot_ok_nul [OF prot_invD [OF inv(2)] v(1)]
    by (simp add: v' version_nul_free_def objectSegmentRefsFromVersion_def)
  then have "prot_ok E now ((map_of (r_versions r))((b, k, i) \<mapsto> v')) (map_of (synced E v' now (r_protectedRefs r)))"
    by (intro prot_ok_sync [OF prot_invD [OF inv(2)] ok(3) T _ key]) (use obj_okD_key [OF ok(4)] in blast)+
  ultimately show ?thesis
    using ok inv(2) by (simp add: putVersionLockLocked_eq [OF key] obj_inv_def prot_inv_def map_of_put_fun)
qed

lemma PutObjectRetention_error: "PutObjectRetention E clk req r = (Inl e, r') \<Longrightarrow> r' = r"
  by (simp add: PutObjectRetention_def Let_def case_prod_beta split: if_splits option.splits sum.splits)

lemma PutObjectRetention_ok:
  fixes req :: ObjectRetentionRequest
  assumes "PutObjectRetention E clk req r = (Inr u, r')"
  shows "\<exists>vkey v r0 ev.
    objectLockTargetLocked (q_or_BucketID req) (q_or_Key req) (q_or_VersionID req) r = Inr (vkey, v) \<and>
    validateObjectLockState (q_or_Retention req) ObjectLockLegalHoldStatus_Unset = None \<and>
    \<not> (retentionUpdateBlocked (ov_ObjectLockRetention v) (q_or_Retention req) (clk 1) False \<and>
       (retentionUpdateBlocked (ov_ObjectLockRetention v) (q_or_Retention req) (clk 1) True \<or>
        \<not> q_or_BypassGovernanceRetention req \<or> \<not> validGovernanceBypassAudit (q_or_BypassAudit req))) \<and>
    (r0 = r \<or> (\<exists>ev0. r0 = appendAuditEventLocked E (clk 2) ev0 r)) \<and>
    r' = appendAuditEventLocked E (clk 3) ev
           (putVersionLockLocked E (clk 1) vkey (v\<lparr>ov_ObjectLockRetention := q_or_Retention req\<rparr>) r0)"
proof -
  have val: "validateObjectLockState (q_or_Retention req) ObjectLockLegalHoldStatus_Unset = None"
    using assms by (simp add: PutObjectRetention_def split: if_splits option.splits)
  obtain vkey v where t: "objectLockTargetLocked (q_or_BucketID req) (q_or_Key req) (q_or_VersionID req) r = Inr (vkey, v)"
    using assms val by (auto simp: PutObjectRetention_def split: if_splits sum.splits)
  let ?bl = "retentionUpdateBlocked (ov_ObjectLockRetention v) (q_or_Retention req) (clk 1)"
  have gate: "\<not> (?bl False \<and> (?bl True \<or> \<not> q_or_BypassGovernanceRetention req \<or>
      \<not> validGovernanceBypassAudit (q_or_BypassAudit req)))"
    using assms val t by (auto simp: PutObjectRetention_def Let_def split: if_splits)
  then show ?thesis
    using assms val t by (auto simp: PutObjectRetention_def Let_def split: if_splits)
qed

lemma inv_PutObjectRetention:
  assumes inv: "obj_inv r" "prot_inv E T r" and T: "T \<le> clk 1"
    and op: "PutObjectRetention E clk req r = (res, r')"
  shows "obj_inv r' \<and> prot_inv E (clk 1) r'"
proof (cases res)
  case (Inl e)
  with op have "r' = r" by (blast dest: PutObjectRetention_error)
  with inv prot_inv_mono [OF _ T] show ?thesis by simp
next
  case (Inr u)
  obtain vkey v r0 ev where
    t: "objectLockTargetLocked (q_or_BucketID req) (q_or_Key req) (q_or_VersionID req) r = Inr (vkey, v)"
    and r0: "r0 = r \<or> (\<exists>ev0. r0 = appendAuditEventLocked E (clk 2) ev0 r)"
    and r': "r' = appendAuditEventLocked E (clk 3) ev
           (putVersionLockLocked E (clk 1) vkey (v\<lparr>ov_ObjectLockRetention := q_or_Retention req\<rparr>) r0)"
    using PutObjectRetention_ok [OF op [unfolded Inr]] by blast
  obtain j where j: "vkey = (q_or_BucketID req, q_or_Key req, j)"
    "map_of (r_versions r) (q_or_BucketID req, q_or_Key req, j) = Some v" "ov_State v = ObjectVersionCommitted"
    using objectLockTarget_ok [OF t] by blast
  have "obj_inv r0" "prot_inv E T r0" "r_versions r0 = r_versions r" using r0 inv by auto
  then have "obj_inv (putVersionLockLocked E (clk 1) vkey (v\<lparr>ov_ObjectLockRetention := q_or_Retention req\<rparr>) r0) \<and>
      prot_inv E (clk 1) (putVersionLockLocked E (clk 1) vkey (v\<lparr>ov_ObjectLockRetention := q_or_Retention req\<rparr>) r0)"
    unfolding j(1) using j(2,3) T
    by (intro inv_putVersionLockLocked [where ret = "q_or_Retention req" and hold = "ov_ObjectLockLegalHold v" and v = v])
      simp_all
  then show ?thesis by (simp add: r')
qed

lemma PutObjectLegalHold_error: "PutObjectLegalHold E clk req r = (Inl e, r') \<Longrightarrow> r' = r"
  by (simp add: PutObjectLegalHold_def Let_def case_prod_beta split: if_splits sum.splits)

lemma PutObjectLegalHold_ok:
  fixes req :: ObjectLegalHoldRequest
  assumes "PutObjectLegalHold E clk req r = (Inr u, r')"
  shows "\<exists>vkey v ev.
    objectLockTargetLocked (q_lh_BucketID req) (q_lh_Key req) (q_lh_VersionID req) r = Inr (vkey, v) \<and>
    (q_lh_LegalHold req = ObjectLockLegalHoldOn \<or> q_lh_LegalHold req = ObjectLockLegalHoldOff) \<and>
    r' = appendAuditEventLocked E (clk 1) ev
           (putVersionLockLocked E (clk 0) vkey (v\<lparr>ov_ObjectLockLegalHold := q_lh_LegalHold req\<rparr>) r)"
  using assms by (auto simp: PutObjectLegalHold_def Let_def split: if_splits sum.splits)

lemma inv_PutObjectLegalHold:
  assumes inv: "obj_inv r" "prot_inv E T r" and T: "T \<le> clk 0"
    and op: "PutObjectLegalHold E clk req r = (res, r')"
  shows "obj_inv r' \<and> prot_inv E (clk 0) r'"
proof (cases res)
  case (Inl e)
  with op have "r' = r" by (blast dest: PutObjectLegalHold_error)
  with inv prot_inv_mono [OF _ T] show ?thesis by simp
next
  case (Inr u)
  obtain vkey v ev where
    t: "objectLockTargetLocked (q_lh_BucketID req) (q_lh_Key req) (q_lh_VersionID req) r = Inr (vkey, v)"
    and r': "r' = appendAuditEventLocked E (clk 1) ev
           (putVersionLockLocked E (clk 0) vkey (v\<lparr>ov_ObjectLockLegalHold := q_lh_LegalHold req\<rparr>) r)"
    using PutObjectLegalHold_ok [OF op [unfolded Inr]] by blast
  obtain j where j: "vkey = (q_lh_BucketID req, q_lh_Key req, j)"
    "map_of (r_versions r) (q_lh_BucketID req, q_lh_Key req, j) = Some v" "ov_State v = ObjectVersionCommitted"
    using objectLockTarget_ok [OF t] by blast
  have "obj_inv (putVersionLockLocked E (clk 0) vkey (v\<lparr>ov_ObjectLockLegalHold := q_lh_LegalHold req\<rparr>) r) \<and>
      prot_inv E (clk 0) (putVersionLockLocked E (clk 0) vkey (v\<lparr>ov_ObjectLockLegalHold := q_lh_LegalHold req\<rparr>) r)"
    unfolding j(1) using j(2,3) inv T
    by (intro inv_putVersionLockLocked [where ret = "ov_ObjectLockRetention v" and hold = "q_lh_LegalHold req" and v = v])
      simp_all
  then show ?thesis by (simp add: r')
qed

end
