(* ===== verification/Retention.thy ===== *)
theory Retention
  imports ObjectSafety
begin

text \<open>
  Write once, read many: in a bucket with versioning enabled (every bucket with object lock
  is one) no operation removes a committed version under compliance retention, changes its
  content, or shortens its retention, before the retention ends; and a governance bypass
  leaves an audit event.
\<close>

definition locked :: "time \<Rightarrow> ObjectVersion \<Rightarrow> bool" where
  "locked t v \<longleftrightarrow> ov_State v = ObjectVersionCommitted \<and> \<not> ov_DeleteMarker v \<and>
     olr_Mode (ov_ObjectLockRetention v) = ObjectLockModeCompliance \<and>
     t < olr_RetainUntilDate (ov_ObjectLockRetention v)"

definition stays :: "ObjectVersion \<Rightarrow> ObjectVersion \<Rightarrow> bool" where
  "stays v v' \<longleftrightarrow>
     v' = v\<lparr>ov_Tags := ov_Tags v', ov_ObjectLockRetention := ov_ObjectLockRetention v',
            ov_ObjectLockLegalHold := ov_ObjectLockLegalHold v'\<rparr> \<and>
     olr_Mode (ov_ObjectLockRetention v') = ObjectLockModeCompliance \<and>
     olr_RetainUntilDate (ov_ObjectLockRetention v) \<le> olr_RetainUntilDate (ov_ObjectLockRetention v')"

definition kept :: "versionKey \<Rightarrow> ObjectVersion \<Rightarrow> Repository \<Rightarrow> bool" where
  "kept key v r \<longleftrightarrow> (case map_of (r_versions r) key of None \<Rightarrow> False | Some v' \<Rightarrow> stays v v')"

definition versioned :: "string \<Rightarrow> Repository \<Rightarrow> bool" where
  "versioned b r \<longleftrightarrow> (case map_of (r_bucketsByID r) b of
     None \<Rightarrow> False | Some bucket \<Rightarrow> bk_VersioningState bucket = BucketVersioningEnabled)"

lemma stays_refl: "locked t v \<Longrightarrow> stays v v"
  by (simp add: stays_def locked_def)

lemma kept_same: "map_of (r_versions r) key = Some v \<Longrightarrow> locked t v \<Longrightarrow> kept key v r"
  by (simp add: kept_def stays_refl)

lemma kept_unchanged:
  "map_of (r_versions r') key = map_of (r_versions r) key \<Longrightarrow> map_of (r_versions r) key = Some v \<Longrightarrow>
     locked t v \<Longrightarrow> kept key v r'"
  by (simp add: kept_def stays_refl)

lemma locked_protected: "locked t v \<Longrightarrow> now \<le> t \<Longrightarrow> objectVersionProtectedByObjectLock v now b"
  by (auto simp: locked_def objectVersionProtectedByObjectLock_def objectLockProtected_def)

lemma locked_mono: "locked t v \<Longrightarrow> now \<le> t \<Longrightarrow> locked now v"
  by (auto simp: locked_def)

section \<open>Each operation keeps a locked version\<close>

lemma kept_BeginPutObject:
  assumes v: "map_of (r_versions r) (b, k, i) = Some v" "locked t v"
    and op: "BeginPutObject E now ids req r = (res, r')"
  shows "kept (b, k, i) v r'"
proof (cases res)
  case (Inl e)
  with op have "r' = r" by (blast dest: BeginPutObject_error)
  with v show ?thesis by (simp add: kept_same)
next
  case (Inr p)
  obtain j w where j: "nextObjectVersionIDLocked ids (r, q_po_BucketID req, q_po_Key req) = Inr j"
    and r': "r' = r\<lparr>r_versions := map_put (q_po_BucketID req, q_po_Key req, j) w (r_versions r)\<rparr>"
    using BeginPutObject_ok [OF op [unfolded Inr]] by blast
  have "(b, k, i) \<noteq> (q_po_BucketID req, q_po_Key req, j)" using version_id_fresh [OF j] v(1) by auto
  with r' have "map_of (r_versions r') (b, k, i) = map_of (r_versions r) (b, k, i)" by auto
  then show ?thesis using v by (rule kept_unchanged)
qed

lemma kept_PutObjectVersion:
  assumes inv: "obj_inv r" and v: "map_of (r_versions r) (b, k, i) = Some v" "locked t v" "versioned b r"
    and op: "PutObjectVersion E now ids req r = (res, r')"
  shows "kept (b, k, i) v r'"
proof (cases res)
  case (Inl e)
  with op have "r' = r" by (blast dest: PutObjectVersion_error)
  with v show ?thesis by (simp add: kept_same)
next
  case (Inr p)
  let ?b = "q_po_BucketID req" and ?k = "q_po_Key req"
  let ?w = "\<lambda>j. (version_from_request req
    (normalizeSegmentRefs (q_po_SegmentRef req) (q_po_SegmentRefs req)) j now)
      \<lparr>ov_State := ObjectVersionCommitted, ov_CommittedAt := now\<rparr>"
  obtain j bucket where j: "nextObjectVersionIDLocked ids (r, ?b, ?k) = Inr j"
    and bucket: "map_of (r_bucketsByID r) ?b = Some bucket"
    and store: "storeVersionLocked E now bucket (map_get zero_ObjectHead (r_heads r) (?b, ?k)) (?w j) r = (pvr_Head p, r')"
    using PutObjectVersion_ok [OF op [unfolded Inr]] by blast
  have w: "ov_BucketID (?w j) = ?b" "ov_Key (?w j) = ?k" "ov_VersionID (?w j) = j" by simp_all
  have new: "(b, k, i) \<noteq> (?b, ?k, j)" using version_id_fresh [OF j] v(1) by auto
  have old: "bk_VersioningState bucket \<noteq> BucketVersioningEnabled \<Longrightarrow> b \<noteq> ?b"
    using v(3) bucket by (auto simp: versioned_def)
  have "map_of (r_versions r') (b, k, i) = map_of (r_versions r) (b, k, i)"
    using storeVersionLocked_effect(5) [OF inv store [folded w(1,2)], unfolded w] new old
    by (auto split: if_splits)
  then show ?thesis using v(1,2) by (rule kept_unchanged)
qed

lemma kept_CommitObjectVersion:
  assumes inv: "obj_inv r" and v: "map_of (r_versions r) (b, k, i) = Some v" "locked t v" "versioned b r"
    and op: "CommitObjectVersion E now req r = (res, r')"
  shows "kept (b, k, i) v r'"
proof (cases res)
  case (Inl e)
  with op have "r' = r" by (blast dest: CommitObjectVersion_error)
  with v show ?thesis by (simp add: kept_same)
next
  case (Inr h)
  let ?b = "q_co_BucketID req" and ?k = "q_co_Key req" and ?i = "q_co_VersionID req"
  let ?bucket = "map_get zero_Bucket (r_bucketsByID r) ?b"
  obtain w where w: "map_of (r_versions r) (?b, ?k, ?i) = Some w"
    and body: "if ov_State w = ObjectVersionCommitted then r' = r \<and> h = map_get zero_ObjectHead (r_heads r) (?b, ?k)
       else commitVersionLocked E now ?bucket
              (map_get zero_ObjectHead (r_heads r) (?b, ?k)) (?b, ?k, ?i) w r = (h, r')"
    using CommitObjectVersion_ok [OF op [unfolded Inr]] by blast
  show ?thesis
  proof (cases "ov_State w = ObjectVersionCommitted")
    case True
    with body v show ?thesis by (simp add: kept_same)
  next
    case False
    with body have commit: "commitVersionLocked E now ?bucket
        (map_get zero_ObjectHead (r_heads r) (?b, ?k)) (?b, ?k, ?i) w r = (h, r')" by simp
    have new: "(b, k, i) \<noteq> (?b, ?k, ?i)" using False v w by (auto simp: locked_def)
    have old: "bk_VersioningState ?bucket \<noteq> BucketVersioningEnabled \<Longrightarrow> b \<noteq> ?b"
      using v(3) by (auto simp: versioned_def split: option.splits)
    have "map_of (r_versions r') (b, k, i) = map_of (r_versions r) (b, k, i)"
      using commitVersionLocked_effect [OF inv w commit] new old by (auto split: if_splits)
    then show ?thesis using v(1,2) by (rule kept_unchanged)
  qed
qed

lemma locked_gate: "locked t v \<Longrightarrow> now \<le> t \<Longrightarrow> governance_gate (objectVersionProtectedByObjectLock v now) req"
  using locked_protected by (simp add: governance_gate_def)

lemma kept_DeleteObject:
  assumes inv: "obj_inv r" and v: "map_of (r_versions r) (b, k, i) = Some v" "locked t v" "versioned b r"
    and clk: "clk 0 \<le> t" and op: "DeleteObject E clk ids req r = (res, r')"
  shows "kept (b, k, i) v r'"
proof -
  have version: "kept (b, k, i) v r'" if d: "deleteObjectVersionLocked E clk req r = (res, r')"
  proof (cases res)
    case (Inl e)
    with d v show ?thesis by (auto dest: deleteObjectVersionLocked_error intro: kept_same)
  next
    case (Inr x)
    obtain w where w: "map_of (r_versions r) (q_do_BucketID req, q_do_Key req, q_do_VersionID req) = Some w"
      and free: "\<not> (objectVersionProtectedByObjectLock w (clk 0) False \<and>
         governance_gate (objectVersionProtectedByObjectLock w (clk 0)) req)"
      and r': "r' = removeVersionLocked E clk req w r"
      using deleteObjectVersionLocked_ok [OF d [unfolded Inr]] by blast
    have "(b, k, i) \<noteq> (q_do_BucketID req, q_do_Key req, q_do_VersionID req)"
      using w free v locked_protected [OF v(2) clk] locked_gate [OF v(2) clk] by auto
    then have "map_of (r_versions r') (b, k, i) = map_of (r_versions r) (b, k, i)"
      by (auto simp: r' removeVersionLocked_eq)
    then show ?thesis using v(1,2) by (rule kept_unchanged)
  qed
  have marker: "kept (b, k, i) v r'" if d: "createDeleteMarkerLocked now ids req r = (res, r')" for now
  proof (cases res)
    case (Inl e)
    with d v show ?thesis by (auto dest: createDeleteMarkerLocked_error intro: kept_same)
  next
    case (Inr x)
    obtain j where j: "nextObjectVersionIDLocked ids (r, q_do_BucketID req, q_do_Key req) = Inr j"
      and r': "r_versions r' = map_put (q_do_BucketID req, q_do_Key req, j) (delete_marker req now j) (r_versions r)"
      using createDeleteMarkerLocked_ok [OF d [unfolded Inr]] by auto
    have "(b, k, i) \<noteq> (q_do_BucketID req, q_do_Key req, j)" using version_id_fresh [OF j] v(1) by auto
    then have "map_of (r_versions r') (b, k, i) = map_of (r_versions r) (b, k, i)" by (auto simp: r')
    then show ?thesis using v(1,2) by (rule kept_unchanged)
  qed
  have head: "kept (b, k, i) v r'"
    if d: "deleteHeadLocked E clk req r = (res, r')" and other: "q_do_BucketID req \<noteq> b"
  proof (cases "r' = r")
    case True
    with v show ?thesis by (simp add: kept_same)
  next
    case False
    with d obtain h x where h: "map_of (r_heads r) (q_do_BucketID req, q_do_Key req) = Some h"
      and rem: "removeHeadLocked E clk req h r = (x, r')"
      by (auto simp: deleteHeadLocked_def Let_def split: option.splits if_splits prod.splits)
    from removeHeadLocked_effect [OF inv h rem] other
    have "map_of (r_versions r') (b, k, i) = map_of (r_versions r) (b, k, i)" by auto
    then show ?thesis using v(1,2) by (rule kept_unchanged)
  qed
  show ?thesis
    using op v version marker head kept_same [OF v(1,2)]
    by (cases "q_do_BucketID req = b") (auto simp: DeleteObject_def versioned_def split: if_splits option.splits)
qed

lemma stays_tags: "locked t v \<Longrightarrow> stays v (v\<lparr>ov_Tags := tags\<rparr>)"
  by (simp add: stays_def locked_def)

lemma kept_put:
  assumes "map_of (r_versions r) (b, k, i) = Some v" "locked t v"
    and "r_versions r' = map_put key w (r_versions r)" "key = (b, k, i) \<Longrightarrow> stays v w"
  shows "kept (b, k, i) v r'"
  using assms by (auto simp: kept_def stays_refl)

lemma kept_PutObjectTags:
  assumes inv: "obj_inv r" and v: "map_of (r_versions r) (b, k, i) = Some v" "locked t v"
    and op: "PutObjectTags req r = (res, r')"
  shows "kept (b, k, i) v r'"
proof -
  have change: "kept (b, k, i) v r'"
    if "map_of (r_versions r) key = Some w" "r_versions r' = map_put key (w\<lparr>ov_Tags := tags\<rparr>) (r_versions r)" for key w tags
    by (rule kept_put [OF v that(2)]) (use that(1) v in \<open>auto intro: stays_tags\<close>)
  from op consider "r' = r" | "putVersionTagsLocked req r = (res, r')" | "putHeadTagsLocked req r = (res, r')"
    by (auto simp: PutObjectTags_def split: if_splits)
  then show ?thesis
  proof cases
    case 1
    with v show ?thesis by (simp add: kept_same)
  next
    case 2
    show ?thesis
    proof (cases res)
      case (Inl e)
      with 2 v show ?thesis by (auto dest: putVersionTagsLocked_error intro: kept_same)
    next
      case (Inr u)
      with 2 putVersionTagsLocked_ok change show ?thesis by blast
    qed
  next
    case 3
    show ?thesis
    proof (cases res)
      case (Inl e)
      with 3 v show ?thesis by (auto dest: putHeadTagsLocked_error intro: kept_same)
    next
      case (Inr u)
      with 3 putHeadTagsLocked_ok [OF inv] change show ?thesis by blast
    qed
  qed
qed

lemma putVersionLockLocked_versions [simp]:
  "r_versions (putVersionLockLocked E now key w r) = map_put key w (r_versions r)"
  by (simp add: putVersionLockLocked_def updateHeadObjectLockLocked_def sync_eq Let_def setHeadLocked_eq
      split: option.split)

lemma kept_PutObjectRetention:
  assumes v: "map_of (r_versions r) (b, k, i) = Some v" "locked t v" "olr_RetainUntilDate (ov_ObjectLockRetention v) \<noteq> 0"
    and clk: "clk 1 \<le> t" and op: "PutObjectRetention E clk req r = (res, r')"
  shows "kept (b, k, i) v r'"
proof (cases res)
  case (Inl e)
  with op v show ?thesis by (auto dest: PutObjectRetention_error intro: kept_same)
next
  case (Inr u)
  obtain vkey w r0 ev where
    target: "objectLockTargetLocked (q_or_BucketID req) (q_or_Key req) (q_or_VersionID req) r = Inr (vkey, w)"
    and free: "\<not> (retentionUpdateBlocked (ov_ObjectLockRetention w) (q_or_Retention req) (clk 1) False \<and>
       (retentionUpdateBlocked (ov_ObjectLockRetention w) (q_or_Retention req) (clk 1) True \<or>
        \<not> q_or_BypassGovernanceRetention req \<or> \<not> validGovernanceBypassAudit (q_or_BypassAudit req)))"
    and r0: "r0 = r \<or> (\<exists>ev0. r0 = appendAuditEventLocked E (clk 2) ev0 r)"
    and r': "r' = appendAuditEventLocked E (clk 3) ev
           (putVersionLockLocked E (clk 1) vkey (w\<lparr>ov_ObjectLockRetention := q_or_Retention req\<rparr>) r0)"
    using PutObjectRetention_ok [OF op [unfolded Inr]] by blast
  have w: "map_of (r_versions r) vkey = Some w" using objectLockTarget_ok [OF target] by blast
  have "r_versions r' = map_put vkey (w\<lparr>ov_ObjectLockRetention := q_or_Retention req\<rparr>) (r_versions r)"
    using r0 by (auto simp: r')
  then show ?thesis
  proof (rule kept_put [OF v(1,2)])
    assume "vkey = (b, k, i)"
    with w v(1) have wv: "w = v" by simp
    let ?cur = "ov_ObjectLockRetention v" and ?new = "q_or_Retention req"
    have c: "olr_Mode ?cur = ObjectLockModeCompliance" "clk 1 < olr_RetainUntilDate ?cur"
      using v(2) clk by (auto simp: locked_def)
    have "\<not> retentionUpdateBlocked ?cur ?new (clk 1) True"
      using free c v(3) unfolding wv by (auto simp: retentionUpdateBlocked_def)
    with c v(3) have "olr_Mode ?new = ObjectLockModeCompliance \<and> olr_RetainUntilDate ?cur \<le> olr_RetainUntilDate ?new"
      by (auto dest: compliance_never_shortened)
    then show "stays v (w\<lparr>ov_ObjectLockRetention := ?new\<rparr>)" by (simp add: wv stays_def)
  qed
qed

lemma kept_PutObjectLegalHold:
  assumes v: "map_of (r_versions r) (b, k, i) = Some v" "locked t v"
    and op: "PutObjectLegalHold E clk req r = (res, r')"
  shows "kept (b, k, i) v r'"
proof (cases res)
  case (Inl e)
  with op v show ?thesis by (auto dest: PutObjectLegalHold_error intro: kept_same)
next
  case (Inr u)
  obtain vkey w ev where
    target: "objectLockTargetLocked (q_lh_BucketID req) (q_lh_Key req) (q_lh_VersionID req) r = Inr (vkey, w)"
    and r': "r' = appendAuditEventLocked E (clk 1) ev
           (putVersionLockLocked E (clk 0) vkey (w\<lparr>ov_ObjectLockLegalHold := q_lh_LegalHold req\<rparr>) r)"
    using PutObjectLegalHold_ok [OF op [unfolded Inr]] by blast
  have w: "map_of (r_versions r) vkey = Some w" using objectLockTarget_ok [OF target] by blast
  show ?thesis
    by (rule kept_put [OF v, where key = vkey and w = "w\<lparr>ov_ObjectLockLegalHold := q_lh_LegalHold req\<rparr>"])
      (use w v in \<open>auto simp: r' stays_def locked_def\<close>)
qed

end
