(* ===== verification/OpLogs.thy ===== *)
theory OpLogs
  imports Repo
begin

text \<open>
  The operation journals of the background workers (garbage collection, dedupe, generic
  workers, metadata migration, volume drain), the garbage collection candidates and the volume
  pools: the builders of \<open>internal/meta/migration.go\<close>, \<open>volume_drain.go\<close>,
  \<open>volume_pool.go\<close> and \<open>gc_candidate.go\<close> and the repository operations that store
  what they build.

  The five journals share the contract \<open>op_log\<close>: a successful call appends one record
  numbered by a counter, a refused one changes neither.
\<close>

section \<open>Journals\<close>

definition list_newest :: "('o \<Rightarrow> bool) \<Rightarrow> int \<Rightarrow> 'o list \<Rightarrow> 'o list" where
  \<comment> \<open>the loop of every \<open>List...Operations\<close>: newest first, filtered, up to the limit\<close>
  "list_newest P limit ops =
     (let n = int (length ops);
          limit' = (if limit \<le> 0 \<or> limit > n then n else limit)
      in take (nat limit') (filter P (rev ops)))"

definition normalizeGCOperationStatus :: "GCOperationStatus \<Rightarrow> int \<Rightarrow> GCOperationStatus" where
  "normalizeGCOperationStatus status retryable =
     (if status \<noteq> GCOperationStatus_Unset then status
      else if retryable > 0 then GCOperationRetryPending else GCOperationSucceeded)"

definition PutGCOperation :: "time \<Rightarrow> PutGCOperationRequest \<Rightarrow> Repository \<Rightarrow> GCOperationRecord result \<times> Repository" where
  "PutGCOperation now req r =
     (let n = wrap64 (r_nextGCOpID r + 1);
          rec = \<lparr>gop_OperationID = ''gc-'' @ fmt_020d n, gop_ResumeOfOperationID = q_go_ResumeOfOperationID req,
                 gop_Status = normalizeGCOperationStatus (q_go_Status req) (q_go_Retryable req),
                 gop_StartedAt = q_go_StartedAt req, gop_FinishedAt = q_go_FinishedAt req,
                 gop_Scanned = q_go_Scanned req, gop_Deleted = q_go_Deleted req, gop_Skipped = q_go_Skipped req,
                 gop_Retryable = q_go_Retryable req, gop_Attempts = q_go_Attempts req, gop_CreatedAt = now\<rparr>
      in (Inr rec, r\<lparr>r_nextGCOpID := n, r_gcOperations := r_gcOperations r @ [rec]\<rparr>))"

definition ListGCOperations :: "ListGCOperationsRequest \<Rightarrow> Repository \<Rightarrow> GCOperationRecord list result" where
  "ListGCOperations req r = Inr (list_newest (\<lambda>_. True) (q_lgo_Limit req) (r_gcOperations r))"

definition normalizeDedupeOperationStatus :: "DedupeOperationStatus \<Rightarrow> int \<Rightarrow> DedupeOperationStatus" where
  "normalizeDedupeOperationStatus status retryable =
     (if status \<noteq> DedupeOperationStatus_Unset then status
      else if retryable > 0 then DedupeOperationRetryPending else DedupeOperationSucceeded)"

definition PutDedupeOperation ::
  "time \<Rightarrow> PutDedupeOperationRequest \<Rightarrow> Repository \<Rightarrow> DedupeOperationRecord result \<times> Repository" where
  "PutDedupeOperation now req r =
     (let n = wrap64 (r_nextDedupeOpID r + 1);
          rec = \<lparr>dop_OperationID = ''dedupe-'' @ fmt_020d n, dop_ResumeOfOperationID = q_dp_ResumeOfOperationID req,
                 dop_Status = normalizeDedupeOperationStatus (q_dp_Status req) (q_dp_Retryable req),
                 dop_StartedAt = q_dp_StartedAt req, dop_FinishedAt = q_dp_FinishedAt req,
                 dop_Scanned = q_dp_Scanned req, dop_Acked = q_dp_Acked req, dop_Skipped = q_dp_Skipped req,
                 dop_Retryable = q_dp_Retryable req, dop_Attempts = q_dp_Attempts req, dop_CreatedAt = now\<rparr>
      in (Inr rec, r\<lparr>r_nextDedupeOpID := n, r_dedupeOps := r_dedupeOps r @ [rec]\<rparr>))"

definition ListDedupeOperations :: "ListDedupeOperationsRequest \<Rightarrow> Repository \<Rightarrow> DedupeOperationRecord list result" where
  "ListDedupeOperations req r = Inr (list_newest (\<lambda>_. True) (q_ldp_Limit req) (r_dedupeOps r))"

definition NormalizeWorkerOperationStatus :: "WorkerOperationStatus \<Rightarrow> int \<Rightarrow> WorkerOperationStatus" where
  "NormalizeWorkerOperationStatus status retryable =
     (if status \<in> {WorkerOperationRunning, WorkerOperationSucceeded, WorkerOperationRetryPending,
                   WorkerOperationFailed, WorkerOperationCanceled, WorkerOperationPaused} then status
      else if retryable > 0 then WorkerOperationRetryPending else WorkerOperationSucceeded)"

definition PutWorkerOperation ::
  "time \<Rightarrow> PutWorkerOperationRequest \<Rightarrow> Repository \<Rightarrow> WorkerOperationRecord result \<times> Repository" where
  "PutWorkerOperation now req r =
     (let workerKind = TrimSpace (q_wo_WorkerKind req);
          shardID = TrimSpace (q_wo_ShardID req);
          ownerID = TrimSpace (q_wo_OwnerID req)
      in if workerKind = [] \<or> shardID = [] \<or> ownerID = [] then (Inl ErrInvalidArgument, r)
         else let n = wrap64 (r_nextWorkerOpID r + 1);
                  rec = \<lparr>wop_OperationID = ''worker-op-'' @ fmt_020d n, wop_WorkerKind = workerKind,
                         wop_ShardID = shardID, wop_OwnerID = ownerID, wop_LeaseID = q_wo_LeaseID req,
                         wop_Status = NormalizeWorkerOperationStatus (q_wo_Status req) (q_wo_Retryable req),
                         wop_Cursor = TrimSpace (q_wo_Cursor req), wop_Scanned = q_wo_Scanned req,
                         wop_Processed = q_wo_Processed req, wop_Skipped = q_wo_Skipped req,
                         wop_Retryable = q_wo_Retryable req, wop_LastError = q_wo_LastError req,
                         wop_StartedAt = q_wo_StartedAt req, wop_FinishedAt = q_wo_FinishedAt req,
                         wop_CreatedAt = now\<rparr>
              in (Inr rec, r\<lparr>r_nextWorkerOpID := n, r_workerOps := r_workerOps r @ [rec]\<rparr>))"

definition ListWorkerOperations :: "ListWorkerOperationsRequest \<Rightarrow> Repository \<Rightarrow> WorkerOperationRecord list result" where
  "ListWorkerOperations req r =
     Inr (list_newest (\<lambda>rec. (q_lwo_WorkerKind req = [] \<or> wop_WorkerKind rec = q_lwo_WorkerKind req) \<and>
            (q_lwo_ShardID req = [] \<or> wop_ShardID rec = q_lwo_ShardID req) \<and>
            (q_lwo_Status req = WorkerOperationStatus_Unset \<or> wop_Status rec = q_lwo_Status req))
          (q_lwo_Limit req) (r_workerOps r))"

subsection \<open>Metadata migration\<close>

definition CloneMetadataMigrationSteps :: "MetadataMigrationStep list \<Rightarrow> MetadataMigrationStep list" where
  "CloneMetadataMigrationSteps steps =
     map (\<lambda>s. s\<lparr>mst_Name := TrimSpace (mst_Name s), mst_Message := TrimSpace (mst_Message s)\<rparr>) steps"

definition CloneMetadataMigrationOperationRecord ::
  "MetadataMigrationOperationRecord \<Rightarrow> MetadataMigrationOperationRecord" where
  "CloneMetadataMigrationOperationRecord rec = rec\<lparr>mo_Steps := CloneMetadataMigrationSteps (mo_Steps rec)\<rparr>"

definition NormalizeMetadataMigrationOperationStatus ::
  "MetadataMigrationOperationStatus \<Rightarrow> bool \<Rightarrow> bool \<Rightarrow> MetadataMigrationOperationStatus" where
  "NormalizeMetadataMigrationOperationStatus status dryRun applied =
     (case status of
        MetadataMigrationOperationStatus_Unset \<Rightarrow>
          if dryRun \<and> \<not> applied then MetadataMigrationOperationPlanned else MetadataMigrationOperationSucceeded
      | MetadataMigrationOperationStatus_Other s \<Rightarrow> MetadataMigrationOperationFailed
      | known \<Rightarrow> known)"

definition BuildMetadataMigrationOperation ::
  "string \<Rightarrow> PutMetadataMigrationOperationRequest \<Rightarrow> time \<Rightarrow> MetadataMigrationOperationRecord result" where
  "BuildMetadataMigrationOperation operationID0 req now =
     (let operationID = TrimSpace operationID0
      in if operationID = [] then Inl ErrInvalidArgument
         else Inr \<lparr>mo_OperationID = operationID, mo_ResumeOfOperationID = TrimSpace (q_mo_ResumeOfOperationID req),
                   mo_TargetSchemaVersion = (if q_mo_TargetSchemaVersion req \<le> 0 then CurrentMetadataSchemaVersion
                                             else q_mo_TargetSchemaVersion req),
                   mo_Status = NormalizeMetadataMigrationOperationStatus (q_mo_Status req) (q_mo_DryRun req) (q_mo_Apply req),
                   mo_DryRun = q_mo_DryRun req, mo_Apply = q_mo_Apply req, mo_OwnerID = TrimSpace (q_mo_OwnerID req),
                   mo_Cursor = TrimSpace (q_mo_Cursor req), mo_Steps = CloneMetadataMigrationSteps (q_mo_Steps req),
                   mo_StartedAt = q_mo_StartedAt req, mo_FinishedAt = q_mo_FinishedAt req, mo_CreatedAt = now\<rparr>)"

definition PutMetadataMigrationOperation ::
  "time \<Rightarrow> PutMetadataMigrationOperationRequest \<Rightarrow> Repository \<Rightarrow> MetadataMigrationOperationRecord result \<times> Repository" where
  "PutMetadataMigrationOperation now req r =
     (let n = wrap64 (r_nextMigrationOpID r + 1)
      in case BuildMetadataMigrationOperation (''metadata-migration-'' @ fmt_020d n) req now of
           Inl e \<Rightarrow> (Inl e, r\<lparr>r_nextMigrationOpID := wrap64 (n - 1)\<rparr>)
         | Inr rec \<Rightarrow>
             (Inr (CloneMetadataMigrationOperationRecord rec),
              r\<lparr>r_nextMigrationOpID := n,
                r_migrationOps := r_migrationOps r @ [CloneMetadataMigrationOperationRecord rec]\<rparr>))"

definition ListMetadataMigrationOperations ::
  "ListMetadataMigrationOperationsRequest \<Rightarrow> Repository \<Rightarrow> MetadataMigrationOperationRecord list result" where
  "ListMetadataMigrationOperations req r =
     Inr (map CloneMetadataMigrationOperationRecord
            (list_newest (\<lambda>rec. q_lmo_Status req = MetadataMigrationOperationStatus_Unset \<or> mo_Status rec = q_lmo_Status req)
              (q_lmo_Limit req) (r_migrationOps r)))"

subsection \<open>Volume drain\<close>

definition CloneVolumeDrainAttempts :: "VolumeDrainAttempt list \<Rightarrow> VolumeDrainAttempt list" where
  "CloneVolumeDrainAttempts attempts =
     map (\<lambda>a. let source = TrimSpace (vat_SourceSegmentID a); target = TrimSpace (vat_TargetSegmentID a)
              in a\<lparr>vat_SourceSegmentID := (if source = [] then sg_SegmentID (vat_SourceRef a) else source),
                   vat_TargetSegmentID := (if target = [] then sg_SegmentID (vat_TargetRef a) else target)\<rparr>) attempts"

definition CloneVolumeDrainOperationRecord :: "VolumeDrainOperationRecord \<Rightarrow> VolumeDrainOperationRecord" where
  "CloneVolumeDrainOperationRecord rec = rec\<lparr>vop_Attempts := CloneVolumeDrainAttempts (vop_Attempts rec)\<rparr>"

definition NormalizeVolumeDrainOperationStatus ::
  "VolumeDrainOperationStatus \<Rightarrow> int \<Rightarrow> VolumeDrainOperationStatus" where
  "NormalizeVolumeDrainOperationStatus status retryable =
     (case status of
        VolumeDrainOperationStatus_Unset \<Rightarrow>
          if retryable > 0 then VolumeDrainOperationRetryPending else VolumeDrainOperationSucceeded
      | VolumeDrainOperationStatus_Other s \<Rightarrow> VolumeDrainOperationFailed
      | known \<Rightarrow> known)"

definition BuildVolumeDrainOperation ::
  "string \<Rightarrow> PutVolumeDrainOperationRequest \<Rightarrow> time \<Rightarrow> VolumeDrainOperationRecord result" where
  "BuildVolumeDrainOperation operationID0 req now =
     (let sourceVolumeID = TrimSpace (q_vd_SourceVolumeID req)
      in if sourceVolumeID = [] then Inl ErrInvalidArgument
         else let operationID = TrimSpace operationID0
              in if operationID = [] then Inl ErrInvalidArgument
                 else Inr \<lparr>vop_OperationID = operationID,
                   vop_ResumeOfOperationID = TrimSpace (q_vd_ResumeOfOperationID req),
                   vop_PoolID = TrimSpace (q_vd_PoolID req), vop_SourceVolumeID = sourceVolumeID,
                   vop_TargetVolumeID = TrimSpace (q_vd_TargetVolumeID req), vop_OwnerID = TrimSpace (q_vd_OwnerID req),
                   vop_Status = NormalizeVolumeDrainOperationStatus (q_vd_Status req) (q_vd_Retryable req),
                   vop_Cursor = TrimSpace (q_vd_Cursor req), vop_StartedAt = q_vd_StartedAt req,
                   vop_FinishedAt = q_vd_FinishedAt req, vop_Scanned = q_vd_Scanned req, vop_Copied = q_vd_Copied req,
                   vop_Skipped = q_vd_Skipped req, vop_Protected = q_vd_Protected req,
                   vop_Retryable = q_vd_Retryable req, vop_Attempts = CloneVolumeDrainAttempts (q_vd_Attempts req),
                   vop_CreatedAt = now\<rparr>)"

definition PutVolumeDrainOperation ::
  "time \<Rightarrow> PutVolumeDrainOperationRequest \<Rightarrow> Repository \<Rightarrow> VolumeDrainOperationRecord result \<times> Repository" where
  "PutVolumeDrainOperation now req r =
     (let n = wrap64 (r_nextDrainOpID r + 1)
      in case BuildVolumeDrainOperation (''drain-'' @ fmt_020d n) req now of
           Inl e \<Rightarrow> (Inl e, r\<lparr>r_nextDrainOpID := wrap64 (n - 1)\<rparr>)
         | Inr rec \<Rightarrow>
             (Inr (CloneVolumeDrainOperationRecord rec),
              r\<lparr>r_nextDrainOpID := n, r_drainOps := r_drainOps r @ [CloneVolumeDrainOperationRecord rec]\<rparr>))"

definition ListVolumeDrainOperations ::
  "ListVolumeDrainOperationsRequest \<Rightarrow> Repository \<Rightarrow> VolumeDrainOperationRecord list result" where
  "ListVolumeDrainOperations req r =
     Inr (map CloneVolumeDrainOperationRecord
       (list_newest (\<lambda>rec. (q_lvd_SourceVolumeID req = [] \<or> vop_SourceVolumeID rec = q_lvd_SourceVolumeID req) \<and>
          (q_lvd_TargetVolumeID req = [] \<or> vop_TargetVolumeID rec = q_lvd_TargetVolumeID req) \<and>
          (q_lvd_Status req = VolumeDrainOperationStatus_Unset \<or> vop_Status rec = q_lvd_Status req))
        (q_lvd_Limit req) (r_drainOps r)))"

definition SegmentRefVolumeID :: "SegmentRef \<Rightarrow> string" where
  "SegmentRefVolumeID ref =
     (let named = TrimSpace (map_get [] (ps_Parameters (sg_Placement ref)) ''volume_id'')
      in if named \<noteq> [] then named
         else case filter (\<lambda>v. v \<noteq> []) (map (\<lambda>c. TrimSpace (pc_VolumeID c)) (ps_Chunks (sg_Placement ref))) of
                [] \<Rightarrow> [] | v # _ \<Rightarrow> v)"

definition SegmentRefsContainVolume :: "SegmentRef list \<Rightarrow> string \<Rightarrow> bool" where
  "SegmentRefsContainVolume refs volumeID0 \<longleftrightarrow>
     (let volumeID = TrimSpace volumeID0
      in volumeID = [] \<or> list_ex (\<lambda>ref. SegmentRefVolumeID ref = volumeID) refs)"

section \<open>Garbage collection candidates\<close>

definition BuildGCCandidate :: "GCCandidateRecord \<Rightarrow> PutGCCandidateRequest \<Rightarrow> time \<Rightarrow> GCCandidateRecord result" where
  "BuildGCCandidate existing req now =
     (let segmentID = TrimSpace (sg_SegmentID (q_gc_SegmentRef req))
      in if segmentID = [] then Inl ErrInvalidArgument
         else Inr \<lparr>gcr_SegmentID = segmentID, gcr_SegmentRef = q_gc_SegmentRef req,
                   gcr_Reason = (if q_gc_Reason req = DeleteReason_Unset then DeleteReasonManualGC else q_gc_Reason req),
                   gcr_CreatedAt = (if gcr_CreatedAt existing = 0 then now else gcr_CreatedAt existing),
                   gcr_UpdatedAt = now\<rparr>)"

definition PutGCCandidate :: "time \<Rightarrow> PutGCCandidateRequest \<Rightarrow> Repository \<Rightarrow> GCCandidateRecord result \<times> Repository" where
  "PutGCCandidate now req r =
     (let segmentID = TrimSpace (sg_SegmentID (q_gc_SegmentRef req))
      in case BuildGCCandidate (map_get zero_GCCandidateRecord (r_gcCandidates r) segmentID) req now of
           Inl e \<Rightarrow> (Inl e, r)
         | Inr rec \<Rightarrow> (Inr rec, r\<lparr>r_gcCandidates := map_put (gcr_SegmentID rec) rec (r_gcCandidates r)\<rparr>))"

definition gcCandidate_less :: "GCCandidateRecord \<Rightarrow> GCCandidateRecord \<Rightarrow> bool" where
  "gcCandidate_less a b \<longleftrightarrow>
     (if gcr_CreatedAt a = gcr_CreatedAt b then gcr_SegmentID a < gcr_SegmentID b
      else gcr_CreatedAt a < gcr_CreatedAt b)"

definition ListGCCandidates :: "ListGCCandidatesRequest \<Rightarrow> Repository \<Rightarrow> GCCandidateRecord list result" where
  "ListGCCandidates req r =
     (let limit = (if q_lgc_Limit req \<le> 0 then int (length (r_gcCandidates r)) else q_lgc_Limit req);
          records = sort_by gcCandidate_less (map snd (r_gcCandidates r))
      in Inr (if int (length records) > limit then take (nat limit) records else records))"

definition DeleteGCCandidate :: "string \<Rightarrow> Repository \<Rightarrow> unit result \<times> Repository" where
  "DeleteGCCandidate segmentID0 r =
     (let segmentID = TrimSpace segmentID0
      in if segmentID = [] then (Inl ErrInvalidArgument, r)
         else if map_of (r_gcCandidates r) segmentID = None then (Inl ErrNotFound, r)
         else (Inr (), r\<lparr>r_gcCandidates := map_del segmentID (r_gcCandidates r)\<rparr>))"

section \<open>Volume pools\<close>

definition maxVolumePoolMemberWeight :: int where
  "maxVolumePoolMemberWeight = 1024"

definition NormalizeVolumePoolState :: "VolumePoolState \<Rightarrow> bool \<Rightarrow> VolumePoolState result" where
  "NormalizeVolumePoolState state readOnly =
     (let normalized = ToLower (TrimSpace (map (\<lambda>c. if c = CHR ''-'' then CHR ''_'' else c) state))
      in if normalized = [] then Inr (if readOnly then ''read_only'' else ''active'')
         else if normalized \<in> {''active'', ''read_only'', ''draining'', ''degraded'', ''full'', ''offline''}
         then Inr normalized
         else Inl ErrInvalidArgument)"

fun NormalizeVolumePoolMembers_loop ::
  "string list \<Rightarrow> VolumePoolMember list \<Rightarrow> VolumePoolMember list result" where
  "NormalizeVolumePoolMembers_loop seen [] = Inr []"
| "NormalizeVolumePoolMembers_loop seen (m # ms) =
     (let volumeID = TrimSpace (vm_VolumeID m)
      in if volumeID = [] then Inl ErrInvalidArgument
         else if volumeID \<in> set seen then Inl ErrInvalidArgument
         else case NormalizeVolumePoolState (vm_State m) (vm_ReadOnly m) of
           Inl e \<Rightarrow> Inl e
         | Inr state \<Rightarrow>
             let weight = (if vm_Weight m = 0 then 1 else vm_Weight m)
             in if weight < 0 \<or> weight > maxVolumePoolMemberWeight then Inl ErrInvalidArgument
                else if float_less (vm_UsedPercent m) (Fin 0) \<or> float_less (Fin 100) (vm_UsedPercent m)
                then Inl ErrInvalidArgument
                else if float_less (vm_HighWatermarkPercent m) (Fin 0) \<or> float_less (Fin 100) (vm_HighWatermarkPercent m)
                then Inl ErrInvalidArgument
                else case NormalizeVolumePoolMembers_loop (volumeID # seen) ms of
                  Inl e \<Rightarrow> Inl e
                | Inr out \<Rightarrow>
                    Inr (m\<lparr>vm_VolumeID := volumeID, vm_State := state,
                           vm_ReadOnly := (vm_ReadOnly m \<or> state = ''read_only''), vm_Weight := weight\<rparr> # out))"

definition NormalizeVolumePoolMembers :: "VolumePoolMember list \<Rightarrow> VolumePoolMember list result" where
  "NormalizeVolumePoolMembers members =
     (if members = [] then Inl ErrInvalidArgument else NormalizeVolumePoolMembers_loop [] members)"

fun cleanVolumePoolStringList :: "string list \<Rightarrow> string list \<Rightarrow> string list" where
  \<comment> \<open>the first argument is the set of values already kept\<close>
  "cleanVolumePoolStringList seen [] = []"
| "cleanVolumePoolStringList seen (v # vs) =
     (let value = TrimSpace v
      in if value = [] \<or> value \<in> set seen then cleanVolumePoolStringList seen vs
         else value # cleanVolumePoolStringList (value # seen) vs)"

definition BuildVolumePool :: "VolumePool \<Rightarrow> PutVolumePoolRequest \<Rightarrow> time \<Rightarrow> VolumePool result" where
  "BuildVolumePool existing req now =
     (let poolID = TrimSpace (q_vp_PoolID req)
      in if poolID = [] then Inl ErrInvalidArgument
         else if vp_PoolID existing \<noteq> [] \<and> vp_PoolID existing \<noteq> poolID then Inl ErrInvalidArgument
         else if q_vp_Generation req \<noteq> 0 \<and> vp_PoolID existing \<noteq> [] \<and> q_vp_Generation req \<le> vp_Generation existing
         then Inl ErrCASConflict
         else let generation = (if q_vp_Generation req = 0
                                then (if vp_Generation existing + 1 = 0 then 1 else vp_Generation existing + 1)
                                else q_vp_Generation req)
              in case NormalizeVolumePoolMembers (q_vp_Members req) of
                   Inl e \<Rightarrow> Inl e
                 | Inr members \<Rightarrow>
                     Inr \<lparr>vp_PoolID = poolID, vp_Generation = generation,
                          vp_DurabilityClass = TrimSpace (q_vp_DurabilityClass req),
                          vp_StorageClassIDs = cleanVolumePoolStringList [] (q_vp_StorageClassIDs req),
                          vp_Members = members,
                          vp_CreatedAt = (if vp_CreatedAt existing = 0 then now else vp_CreatedAt existing),
                          vp_UpdatedAt = now\<rparr>)"

definition PutVolumePool :: "time \<Rightarrow> PutVolumePoolRequest \<Rightarrow> Repository \<Rightarrow> VolumePool result \<times> Repository" where
  "PutVolumePool now req r =
     (case BuildVolumePool (map_get zero_VolumePool (r_volumePools r) (TrimSpace (q_vp_PoolID req))) req now of
        Inl e \<Rightarrow> (Inl e, r)
      | Inr pool \<Rightarrow> (Inr pool, r\<lparr>r_volumePools := map_put (vp_PoolID pool) pool (r_volumePools r)\<rparr>))"

definition GetVolumePool :: "string \<Rightarrow> Repository \<Rightarrow> VolumePool result" where
  "GetVolumePool poolID r =
     (case map_of (r_volumePools r) (TrimSpace poolID) of None \<Rightarrow> Inl ErrNotFound | Some pool \<Rightarrow> Inr pool)"

definition ListVolumePools :: "ListVolumePoolsRequest \<Rightarrow> Repository \<Rightarrow> VolumePool list result" where
  "ListVolumePools req r =
     (let total = int (length (r_volumePools r));
          limit = (if q_lvp_Limit req \<le> 0 \<or> q_lvp_Limit req > total then total else q_lvp_Limit req);
          pools = sort_by (\<lambda>a b. vp_PoolID a < vp_PoolID b) (map snd (r_volumePools r))
      in Inr (if int (length pools) > limit then take (nat limit) pools else pools))"

section \<open>The contract of a journal\<close>

definition journal_ok :: "string \<Rightarrow> ('o \<Rightarrow> string) \<Rightarrow> int \<Rightarrow> 'o list \<Rightarrow> bool" where
  \<comment> \<open>the counter is the number of records, and the records are numbered from one\<close>
  "journal_ok prefix opid n ops \<longleftrightarrow>
     (int (length ops) < 2 ^ 63 \<longrightarrow>
        n = int (length ops) \<and> map opid ops = map (\<lambda>i. prefix @ fmt_020d (int (Suc i))) [0..<length ops])"

lemma journal_ok_Nil [simp]: "journal_ok prefix opid 0 []"
  by (simp add: journal_ok_def)

lemma journal_ids_distinct:
  assumes "journal_ok prefix opid n ops" "int (length ops) < 2 ^ 63"
  shows "distinct (map opid ops)"
proof -
  have "inj_on (\<lambda>i. prefix @ fmt_020d (int (Suc i))) {0..<length ops}"
    using assms(2) by (auto simp: inj_on_def fmt_020d_inj)
  with assms show ?thesis by (simp add: journal_ok_def distinct_map)
qed

locale op_log =
  fixes put :: "time \<Rightarrow> 'q \<Rightarrow> Repository \<Rightarrow> 'o result \<times> Repository"
    and counter :: "Repository \<Rightarrow> int" and records :: "Repository \<Rightarrow> 'o list"
    and opid :: "'o \<Rightarrow> string" and prefix :: string
  assumes put_ok: "put now q r = (Inr x, r') \<Longrightarrow> counter r' = wrap64 (counter r + 1) \<and> records r' = records r @ [x] \<and>
      opid x = prefix @ fmt_020d (counter r')"
    and put_error: "put now q r = (Inl e, r') \<Longrightarrow> records r' = records r \<and>
      (- (2 ^ 63) \<le> counter r \<and> counter r < 2 ^ 63 \<longrightarrow> counter r' = counter r)"
begin

lemma journal_put:
  assumes ok: "journal_ok prefix opid (counter r) (records r)" and op: "put now q r = (res, r')"
  shows "journal_ok prefix opid (counter r') (records r')"
proof (cases res)
  case (Inl e)
  with ok put_error [of now q r e r'] op show ?thesis by (auto simp: journal_ok_def)
next
  case (Inr x)
  note new = put_ok [OF op [unfolded Inr]]
  show ?thesis
    unfolding journal_ok_def
  proof
    assume bound: "int (length (records r')) < 2 ^ 63"
    with ok new have n: "counter r = int (length (records r))" by (simp add: journal_ok_def)
    with bound new have "counter r' = int (length (records r'))" by (simp add: wrap64_id)
    with ok new bound n show "counter r' = int (length (records r')) \<and>
        map opid (records r') = map (\<lambda>i. prefix @ fmt_020d (int (Suc i))) [0..<length (records r')]"
      by (simp add: journal_ok_def)
  qed
qed

lemma records_prefix:
  assumes "put now q r = (res, r')"
  shows "\<exists>xs. records r' = records r @ xs"
  using put_ok put_error assms by (cases res) auto

end

text \<open>A formatted operation id starts with a letter and ends with a digit, so trimming it
  changes nothing.\<close>

lemma HasPrefix_hd: "HasPrefix s w \<Longrightarrow> w \<noteq> [] \<Longrightarrow> hd s = hd w"
  by (cases w) (auto simp: HasPrefix_iff)

lemma TrimSpace_id:
  assumes "s \<noteq> []" "\<forall>w \<in> set unicode_spaces. hd s \<noteq> hd w \<and> last s \<noteq> last w"
  shows "TrimSpace s = s"
proof -
  have w: "\<forall>w \<in> set unicode_spaces. w \<noteq> []" by (simp add: unicode_spaces_def)
  have "trim_with unicode_spaces s = s"
    using assms(2) by (intro trim_with_id) (auto dest: HasPrefix_hd)
  moreover have "trim_with (map rev unicode_spaces) (rev s) = rev s"
    using assms w by (intro trim_with_id) (auto dest!: HasPrefix_hd simp: hd_rev)
  ultimately show ?thesis by (simp add: TrimSpace_def)
qed

lemma last_fmt_020d: "fmt_020d n \<noteq> [] \<and> last (fmt_020d n) \<in> digit_char ` {0..<10}"
proof -
  have ne: "fixed_digits 10 w m \<noteq> []" if "0 < w" for w m
    using that length_fixed_digits [of 10 w m] by (metis length_0_conv less_numeral_extra(3))
  have "last (fixed_digits 10 w m) = m mod 10" if "0 < w" for w m
    using that by (cases w) simp_all
  with ne have "last (map digit_char (fixed_digits 10 w m)) = digit_char (m mod 10)" if "0 < w" for w m
    using that by (simp add: last_map)
  with ne show ?thesis by (simp add: fmt_020d_def)
qed

lemma TrimSpace_numbered:
  assumes "p \<noteq> []" "\<forall>w \<in> set unicode_spaces. hd p \<noteq> hd w"
  shows "TrimSpace (p @ fmt_020d n) = p @ fmt_020d n"
proof (rule TrimSpace_id)
  have "\<forall>d \<in> set [0..<10]. \<forall>w \<in> set unicode_spaces. digit_char d \<noteq> last w" by code_simp
  with last_fmt_020d [of n] have "\<forall>w \<in> set unicode_spaces. last (fmt_020d n) \<noteq> last w" by fastforce
  with assms last_fmt_020d [of n]
  show "\<forall>w \<in> set unicode_spaces. hd (p @ fmt_020d n) \<noteq> hd w \<and> last (p @ fmt_020d n) \<noteq> last w"
    by simp
qed (simp add: assms(1))

lemma wrap64_inc_dec: "- (2 ^ 63) \<le> n \<Longrightarrow> n < 2 ^ 63 \<Longrightarrow> wrap64 (wrap64 (n + 1) - 1) = n"
  by (metis add_diff_cancel_right' diff_conv_add_uminus wrap64_add_left wrap64_id)

interpretation gc_log: op_log PutGCOperation r_nextGCOpID r_gcOperations gop_OperationID "''gc-''"
  by unfold_locales (auto simp: PutGCOperation_def Let_def)

interpretation dedupe_log: op_log PutDedupeOperation r_nextDedupeOpID r_dedupeOps dop_OperationID "''dedupe-''"
  by unfold_locales (auto simp: PutDedupeOperation_def Let_def)

interpretation worker_log: op_log PutWorkerOperation r_nextWorkerOpID r_workerOps wop_OperationID "''worker-op-''"
  by unfold_locales (auto simp: PutWorkerOperation_def Let_def split: if_splits)

interpretation migration_log: op_log PutMetadataMigrationOperation r_nextMigrationOpID r_migrationOps
  mo_OperationID "''metadata-migration-''"
proof unfold_locales
  have "TrimSpace (''metadata-migration-'' @ fmt_020d n) = ''metadata-migration-'' @ fmt_020d n" for n
    by (rule TrimSpace_numbered) (simp_all add: unicode_spaces_def)
  then show "PutMetadataMigrationOperation now q r = (Inr x, r') \<Longrightarrow>
      r_nextMigrationOpID r' = wrap64 (r_nextMigrationOpID r + 1) \<and> r_migrationOps r' = r_migrationOps r @ [x] \<and>
      mo_OperationID x = ''metadata-migration-'' @ fmt_020d (r_nextMigrationOpID r')" for now q r x r'
    by (auto simp: PutMetadataMigrationOperation_def BuildMetadataMigrationOperation_def
        CloneMetadataMigrationOperationRecord_def Let_def split: if_splits)
qed (auto simp: PutMetadataMigrationOperation_def Let_def wrap64_inc_dec split: sum.splits)

interpretation drain_log: op_log PutVolumeDrainOperation r_nextDrainOpID r_drainOps vop_OperationID "''drain-''"
proof unfold_locales
  have "TrimSpace (''drain-'' @ fmt_020d n) = ''drain-'' @ fmt_020d n" for n
    by (rule TrimSpace_numbered) (simp_all add: unicode_spaces_def)
  then show "PutVolumeDrainOperation now q r = (Inr x, r') \<Longrightarrow>
      r_nextDrainOpID r' = wrap64 (r_nextDrainOpID r + 1) \<and> r_drainOps r' = r_drainOps r @ [x] \<and>
      vop_OperationID x = ''drain-'' @ fmt_020d (r_nextDrainOpID r')" for now q r x r'
    by (auto simp: PutVolumeDrainOperation_def BuildVolumeDrainOperation_def
        CloneVolumeDrainOperationRecord_def Let_def split: if_splits)
qed (auto simp: PutVolumeDrainOperation_def Let_def wrap64_inc_dec split: sum.splits)

section \<open>Volume pools are well formed and versioned\<close>

definition member_ok :: "VolumePoolMember \<Rightarrow> bool" where
  "member_ok m \<longleftrightarrow> vm_VolumeID m \<noteq> [] \<and> 1 \<le> vm_Weight m \<and> vm_Weight m \<le> maxVolumePoolMemberWeight \<and>
     vm_State m \<in> {''active'', ''read_only'', ''draining'', ''degraded'', ''full'', ''offline''} \<and>
     (vm_State m = ''read_only'' \<longrightarrow> vm_ReadOnly m) \<and> \<not> float_less (Fin 100) (vm_UsedPercent m)"

lemma NormalizeVolumePoolState_ok:
  "NormalizeVolumePoolState s ro = Inr st \<Longrightarrow>
     st \<in> {''active'', ''read_only'', ''draining'', ''degraded'', ''full'', ''offline''}"
  by (auto simp: NormalizeVolumePoolState_def Let_def split: if_splits)

lemma NormalizeVolumePoolMembers_loop_ok:
  "NormalizeVolumePoolMembers_loop seen ms = Inr out \<Longrightarrow>
     (\<forall>m \<in> set out. member_ok m) \<and> distinct (map vm_VolumeID out) \<and> set (map vm_VolumeID out) \<inter> set seen = {} \<and>
     length out = length ms"
proof (induction seen ms arbitrary: out rule: NormalizeVolumePoolMembers_loop.induct)
  case (1 seen)
  then show ?case by simp
next
  case (2 seen m ms)
  let ?v = "TrimSpace (vm_VolumeID m)" and ?w = "if vm_Weight m = 0 then 1 else vm_Weight m"
  obtain state rest where v: "?v \<noteq> []" "?v \<notin> set seen" and state: "NormalizeVolumePoolState (vm_State m) (vm_ReadOnly m) = Inr state"
    and w: "0 \<le> ?w" "?w \<le> maxVolumePoolMemberWeight"
    and used: "\<not> float_less (vm_UsedPercent m) (Fin 0)" "\<not> float_less (Fin 100) (vm_UsedPercent m)"
    and high: "\<not> float_less (vm_HighWatermarkPercent m) (Fin 0)" "\<not> float_less (Fin 100) (vm_HighWatermarkPercent m)"
    and rest: "NormalizeVolumePoolMembers_loop (?v # seen) ms = Inr rest"
    and out: "out = m\<lparr>vm_VolumeID := ?v, vm_State := state, vm_ReadOnly := (vm_ReadOnly m \<or> state = ''read_only''), vm_Weight := ?w\<rparr> # rest"
    using 2(2) by (auto simp: Let_def split: if_splits sum.splits)
  have IH: "(\<forall>m \<in> set rest. member_ok m) \<and> distinct (map vm_VolumeID rest) \<and>
      set (map vm_VolumeID rest) \<inter> set (?v # seen) = {} \<and> length rest = length ms"
    by (rule 2(1) [OF refl v state refl _ _ _ rest]) (use w used high in auto)
  moreover have "1 \<le> ?w" using w(1) by (auto split: if_splits)
  ultimately show ?case
    using v w used NormalizeVolumePoolState_ok [OF state] by (auto simp: out member_ok_def)
qed

lemma word_succ_greater:
  assumes "(g :: u64) + 1 \<noteq> 0"
  shows "g < g + 1"
proof -
  have "unat g < 2 ^ 64" using unsigned_less [of g] by simp
  moreover have "unat g \<noteq> 2 ^ 64 - 1"
  proof
    assume "unat g = 2 ^ 64 - 1"
    then have "unat (g + 1) = 0" by (simp add: unat_word_ariths)
    with assms show False by (simp add: unat_eq_zero)
  qed
  ultimately have "unat (g + 1) = Suc (unat g)" by (simp add: unat_word_ariths)
  then show ?thesis by (simp add: word_less_nat_alt)
qed


definition demo_member :: VolumePoolMember where
  "demo_member = \<lparr>vm_VolumeID = ''vol'', vm_AdminEndpoint = [], vm_DataEndpoint = [], vm_GatewayID = [],
     vm_AttachmentID = [], vm_Generation = 0, vm_ChunkSizeBytes = 0, vm_State = ''Read-Only'', vm_ReadOnly = False,
     vm_Weight = 0, vm_CapacityBytes = 0, vm_AvailableBytes = 0, vm_UsedPercent = Fin 0,
     vm_HighWatermarkPercent = Fin 0, vm_LastObservedAt = 0\<rparr>"

definition demo_pool_request :: PutVolumePoolRequest where
  "demo_pool_request = \<lparr>q_vp_PoolID = ''p'', q_vp_Generation = 0, q_vp_DurabilityClass = [],
     q_vp_StorageClassIDs = [], q_vp_Members = [demo_member]\<rparr>"


text \<open>The percentage checks let a NaN through: every comparison with it is false.\<close>

theorem nan_percent_accepted:
  "\<not> isl (NormalizeVolumePoolMembers [demo_member\<lparr>vm_UsedPercent := NaN, vm_HighWatermarkPercent := NaN\<rparr>])"
  by code_simp

end
