(* ===== verification/SharedObjects.thy ===== *)
theory SharedObjects
  imports Retention OpLogs
begin

text \<open>
  Deduplicated payloads: a shared object is published from a committed version, other versions
  with the same digest and size are attached to it, and the repair pass recomputes its counters.
  Also the publication of moved segment references (volume drain) and the list index repair of
  \<open>internal/meta/memory/repository.go\<close>.

  The operations rewrite segment references of stored versions, so they matter to the
  invariants of \<open>ObjectInv\<close> and to retention.
\<close>

section \<open>Identity and matching\<close>

definition objectVersionDigest :: "ObjectVersion \<Rightarrow> Digest option" where
  "objectVersionDigest version =
     (if dg_Algorithm (sg_Digest (ov_SegmentRef version)) \<noteq> [] \<and> dg_Hex (sg_Digest (ov_SegmentRef version)) \<noteq> []
      then Some (sg_Digest (ov_SegmentRef version))
      else case ov_SegmentRefs version of
        [s] \<Rightarrow> if dg_Algorithm (sg_Digest s) \<noteq> [] \<and> dg_Hex (sg_Digest s) \<noteq> [] then Some (sg_Digest s) else None
      | _ \<Rightarrow> None)"

definition sharedObjectID :: "Env \<Rightarrow> string \<Rightarrow> string \<Rightarrow> string \<Rightarrow> Digest \<Rightarrow> int \<Rightarrow> string" where
  "sharedObjectID E tenantID bucketID key digest sizeBytes =
     ''so-'' @ take 32 (sha256_hex E (tenantID @ [CHR 0x00] @ bucketID @ [CHR 0x00] @ key @ [CHR 0x00] @
       ToLower (dg_Algorithm digest) @ [CHR 0x00] @ ToLower (dg_Hex digest) @ [CHR 0x00] @ Itoa sizeBytes))"

definition sharedObjectRefID :: "Env \<Rightarrow> string \<Rightarrow> string \<Rightarrow> string \<Rightarrow> string \<Rightarrow> string" where
  "sharedObjectRefID E sid bucketID key versionID =
     ''soref-'' @ take 32 (sha256_hex E (sid @ [CHR 0x00] @ bucketID @ [CHR 0x00] @ key @ [CHR 0x00] @ versionID))"

definition sharedObjectRefFromVersion :: "Env \<Rightarrow> SharedObject \<Rightarrow> ObjectVersion \<Rightarrow> time \<Rightarrow> SharedObjectRef" where
  "sharedObjectRefFromVersion E shared version now =
     \<lparr>sor_RefID = sharedObjectRefID E (so_SharedObjectID shared) (ov_BucketID version) (ov_Key version) (ov_VersionID version),
      sor_SharedObjectID = so_SharedObjectID shared, sor_BucketID = ov_BucketID version, sor_Key = ov_Key version,
      sor_VersionID = ov_VersionID version, sor_SegmentRefs = so_SegmentRefs shared, sor_CreatedAt = now, sor_UpdatedAt = now\<rparr>"

definition objectVersionMatchesSharedObject :: "ObjectVersion \<Rightarrow> SharedObject \<Rightarrow> bool" where
  "objectVersionMatchesSharedObject version shared \<longleftrightarrow>
     (if ov_SizeBytes version \<noteq> so_SizeBytes shared then False
      else case objectVersionDigest version of
        None \<Rightarrow> False
      | Some digest \<Rightarrow> EqualFold (dg_Algorithm digest) (dg_Algorithm (so_Digest shared)) \<and>
                        EqualFold (dg_Hex digest) (dg_Hex (so_Digest shared)))"

definition sharedObjectProtectedRootCountLocked :: "SharedObject \<Rightarrow> time \<Rightarrow> Repository \<Rightarrow> int" where
  "sharedObjectProtectedRootCountLocked shared now r =
     int (length (remdups (map pr_RefID
       (filter (\<lambda>ref. pr_SegmentID ref \<in> set (filter (\<lambda>i. i \<noteq> []) (map sg_SegmentID (so_SegmentRefs shared))) \<and>
                      protectedRefActive ref now) (map snd (r_protectedRefs r))))))"

definition sharedObjectFromVersion :: "Env \<Rightarrow> Bucket \<Rightarrow> ObjectVersion \<Rightarrow> time \<Rightarrow> SharedObject result" where
  "sharedObjectFromVersion E bucket version now =
     (let refs = objectSegmentRefsFromVersion version
      in if refs = [] then Inl ErrInvalidArgument
         else case objectVersionDigest version of
           None \<Rightarrow> Inl ErrInvalidArgument
         | Some digest \<Rightarrow>
             let sid = sharedObjectID E (bk_TenantID bucket) (ov_BucketID version) (ov_Key version) digest (ov_SizeBytes version)
             in Inr \<lparr>so_SharedObjectID = sid, so_TenantID = bk_TenantID bucket, so_BucketID = ov_BucketID version,
                     so_Key = ov_Key version, so_SourceVersionID = ov_VersionID version,
                     so_SizeBytes = ov_SizeBytes version, so_Digest = digest, so_StorageClass = ov_StorageClass version,
                     so_SegmentRefs = map (\<lambda>s. s\<lparr>sg_SharedObjectID := sid\<rparr>) refs, so_RefCount = 1,
                     so_ProtectedRootCount = 0, so_CreatedAt = now, so_UpdatedAt = now\<rparr>)"

section \<open>Releases\<close>

definition normalizeSharedObjectReleaseStatus :: "SharedObjectReleaseStatus \<Rightarrow> SharedObjectReleaseStatus" where
  "normalizeSharedObjectReleaseStatus status =
     (if status \<noteq> SharedObjectReleaseStatus_Unset then status else SharedObjectReleasePending)"

definition sharedObjectReleaseID :: "string \<Rightarrow> string \<Rightarrow> string" where
  "sharedObjectReleaseID sid segmentID = sid @ ''/'' @ segmentID"

definition PutSharedObjectRelease ::
  "time \<Rightarrow> PutSharedObjectReleaseRequest \<Rightarrow> Repository \<Rightarrow> SharedObjectRelease result \<times> Repository" where
  "PutSharedObjectRelease now req r =
     (let sid = TrimSpace (q_sr_SharedObjectID req)
      in if sid = [] then (Inl ErrInvalidArgument, r)
         else let segmentID = TrimSpace (sg_SegmentID (q_sr_SegmentRef req))
              in if segmentID = [] then (Inl ErrInvalidArgument, r)
                 else let key = (sid, segmentID);
                          release0 = map_get zero_SharedObjectRelease (r_sharedReleases r) key;
                          release1 = (if sr_ReleaseID release0 = []
                            then release0\<lparr>sr_ReleaseID := sharedObjectReleaseID sid segmentID, sr_SharedObjectID := sid,
                                   sr_SegmentID := segmentID, sr_CreatedAt := now\<rparr>
                            else release0);
                          release = release1\<lparr>sr_SegmentRef := (q_sr_SegmentRef req)\<lparr>sg_SharedObjectID := sid\<rparr>,
                            sr_Reason := (if q_sr_Reason req = DeleteReason_Unset then DeleteReasonManualGC else q_sr_Reason req),
                            sr_Status := normalizeSharedObjectReleaseStatus (q_sr_Status req), sr_UpdatedAt := now\<rparr>
                      in (Inr release, r\<lparr>r_sharedReleases := map_put key release (r_sharedReleases r)\<rparr>))"

definition ListSharedObjectReleases ::
  "ListSharedObjectReleasesRequest \<Rightarrow> Repository \<Rightarrow> SharedObjectRelease list result" where
  "ListSharedObjectReleases req r =
     (let total = int (length (r_sharedReleases r));
          limit = (if q_lsr_Limit req \<le> 0 \<or> q_lsr_Limit req > total then total else q_lsr_Limit req);
          releases = sort_by (\<lambda>a b. sr_ReleaseID a < sr_ReleaseID b)
            (filter (\<lambda>x. (q_lsr_SharedObjectID req = [] \<or> sr_SharedObjectID x = q_lsr_SharedObjectID req) \<and>
               (q_lsr_Status req = SharedObjectReleaseStatus_Unset \<or> sr_Status x = q_lsr_Status req))
              (map snd (r_sharedReleases r)))
      in Inr (if int (length releases) > limit then take (nat limit) releases else releases))"

section \<open>Publish and attach\<close>

definition publishSharedLocked ::
  "Env \<Rightarrow> time \<Rightarrow> ObjectVersion \<Rightarrow> SharedObject \<Rightarrow> Repository \<Rightarrow> SharedObject \<times> Repository" where
  \<comment> \<open>the writes of \<open>PublishSharedObject\<close>: an existing shared object is refreshed\<close>
  "publishSharedLocked E now version shared0 r =
     (let shared = shared0\<lparr>so_ProtectedRootCount := sharedObjectProtectedRootCountLocked shared0 now r\<rparr>
      in case map_of (r_sharedObjects r) (so_SharedObjectID shared) of
        Some old \<Rightarrow>
          let existing = old\<lparr>so_ProtectedRootCount := sharedObjectProtectedRootCountLocked old now r,
                so_UpdatedAt := now\<rparr>;
              ref = sharedObjectRefFromVersion E existing version now
          in (existing,
              r\<lparr>r_sharedObjects := map_put (so_SharedObjectID existing) existing (r_sharedObjects r),
                r_sharedRefs := (if map_of (r_sharedRefs r) (sor_RefID ref) = None
                  then map_put (sor_RefID ref) ref (r_sharedRefs r) else r_sharedRefs r)\<rparr>)
      | None \<Rightarrow>
          let ref = sharedObjectRefFromVersion E shared version (so_CreatedAt shared)
          in (shared,
              r\<lparr>r_sharedObjects := map_put (so_SharedObjectID shared) shared (r_sharedObjects r),
                r_sharedRefs := map_put (sor_RefID ref) ref (r_sharedRefs r)\<rparr>))"

definition PublishSharedObject ::
  "Env \<Rightarrow> time \<Rightarrow> PublishSharedObjectRequest \<Rightarrow> Repository \<Rightarrow> SharedObject result \<times> Repository" where
  "PublishSharedObject E now req r =
     (if q_ps_BucketID req = [] \<or> q_ps_Key req = [] \<or> q_ps_VersionID req = [] then (Inl ErrInvalidArgument, r)
      else case map_of (r_bucketsByID r) (q_ps_BucketID req) of
        None \<Rightarrow> (Inl ErrNotFound, r)
      | Some bucket \<Rightarrow>
          (case map_of (r_versions r) (q_ps_BucketID req, q_ps_Key req, q_ps_VersionID req) of
             None \<Rightarrow> (Inl ErrNotFound, r)
           | Some version \<Rightarrow>
               if ov_State version \<noteq> ObjectVersionCommitted \<or> ov_DeleteMarker version then (Inl ErrNotFound, r)
               else case sharedObjectFromVersion E bucket version now of
                 Inl e \<Rightarrow> (Inl e, r)
               | Inr shared \<Rightarrow>
                   let (published, r') = publishSharedLocked E now version shared r in (Inr published, r')))"

definition GetSharedObject :: "string \<Rightarrow> Repository \<Rightarrow> SharedObject result" where
  "GetSharedObject sid r =
     (case map_of (r_sharedObjects r) sid of None \<Rightarrow> Inl ErrNotFound | Some shared \<Rightarrow> Inr shared)"

definition ListSharedObjects :: "ListSharedObjectsRequest \<Rightarrow> Repository \<Rightarrow> SharedObject list result" where
  "ListSharedObjects req r =
     (let total = int (length (r_sharedObjects r));
          limit = (if q_lso_Limit req \<le> 0 \<or> q_lso_Limit req > total then total else q_lso_Limit req);
          objects = sort_by (\<lambda>a b. so_SharedObjectID a < so_SharedObjectID b)
            (filter (\<lambda>x. (q_lso_TenantID req = [] \<or> so_TenantID x = q_lso_TenantID req) \<and>
               (q_lso_BucketID req = [] \<or> so_BucketID x = q_lso_BucketID req) \<and>
               (q_lso_Key req = [] \<or> so_Key x = q_lso_Key req)) (map snd (r_sharedObjects r)))
      in Inr (if int (length objects) > limit then take (nat limit) objects else objects))"

definition attachLocked ::
  "Env \<Rightarrow> time \<Rightarrow> versionKey \<Rightarrow> ObjectVersion \<Rightarrow> SharedObject \<Rightarrow> Repository \<Rightarrow>
     (ObjectVersion \<times> SharedObject \<times> SharedObjectRef) \<times> Repository" where
  \<comment> \<open>the writes of \<open>AttachObjectVersionToSharedObject\<close>\<close>
  "attachLocked E now key version0 shared0 r =
     (case key of (b, k, i) \<Rightarrow>
        let version = version0\<lparr>ov_SegmentRefs := so_SegmentRefs shared0,
              ov_SegmentRef := firstSegmentRef (so_SegmentRefs shared0), ov_StorageClass := so_StorageClass shared0\<rparr>;
            r1 = r\<lparr>r_versions := map_put key version (r_versions r)\<rparr>;
            ref = sharedObjectRefFromVersion E shared0 version now;
            shared = shared0\<lparr>so_RefCount := (if map_of (r_sharedRefs r1) (sor_RefID ref) = None
                                             then wrap64 (so_RefCount shared0 + 1) else so_RefCount shared0),
              so_ProtectedRootCount := sharedObjectProtectedRootCountLocked shared0 now r1, so_UpdatedAt := now\<rparr>;
            r2 = r1\<lparr>r_sharedObjects := map_put (so_SharedObjectID shared) shared (r_sharedObjects r1),
                    r_sharedRefs := map_put (sor_RefID ref) ref (r_sharedRefs r1)\<rparr>;
            r3 = (case map_of (r_heads r2) (b, k) of
                    None \<Rightarrow> r2
                  | Some head \<Rightarrow>
                      if oh_VersionID head = ov_VersionID version
                      then snd (setHeadLocked (b, k) (head\<lparr>oh_SegmentRefs := ov_SegmentRefs version,
                             oh_SegmentRef := ov_SegmentRef version, oh_StorageClass := ov_StorageClass version,
                             oh_LastModified := now\<rparr>) r2)
                      else r2)
        in ((version, shared, ref), r3))"

definition AttachObjectVersionToSharedObject ::
  "Env \<Rightarrow> clock \<Rightarrow> AttachObjectVersionToSharedObjectRequest \<Rightarrow> Repository \<Rightarrow>
     AttachSharedObjectResult result \<times> Repository" where
  "AttachObjectVersionToSharedObject E clk req r =
     (if q_as_SharedObjectID req = [] \<or> q_as_BucketID req = [] \<or> q_as_Key req = [] \<or> q_as_VersionID req = []
      then (Inl ErrInvalidArgument, r)
      else case map_of (r_sharedObjects r) (q_as_SharedObjectID req) of
        None \<Rightarrow> (Inl ErrNotFound, r)
      | Some shared \<Rightarrow>
          if so_BucketID shared \<noteq> q_as_BucketID req \<or> so_Key shared \<noteq> q_as_Key req then (Inl ErrInvalidArgument, r)
          else let key = (q_as_BucketID req, q_as_Key req, q_as_VersionID req)
               in case map_of (r_versions r) key of
                 None \<Rightarrow> (Inl ErrNotFound, r)
               | Some version \<Rightarrow>
                   if ov_State version \<noteq> ObjectVersionCommitted \<or> ov_DeleteMarker version then (Inl ErrNotFound, r)
                   else if objectVersionProtectedByObjectLock version (clk 0) False then (Inl ErrObjectLocked, r)
                   else if \<not> objectVersionMatchesSharedObject version shared then (Inl ErrInvalidArgument, r)
                   else let ((version', shared', ref), r') = attachLocked E (clk 1) key version shared r
                        in (Inr \<lparr>asr_Version = version', asr_SharedObject = shared', asr_Ref = ref,
                                 asr_PreviousSegmentRefs = objectSegmentRefsFromVersion version\<rparr>, r'))"

section \<open>Moved segment references\<close>

definition publishRefsLocked ::
  "versionKey \<Rightarrow> ObjectVersion \<Rightarrow> SegmentRef list \<Rightarrow> Repository \<Rightarrow> ObjectVersion \<times> Repository" where
  "publishRefsLocked key version0 refs r =
     (case key of (b, k, i) \<Rightarrow>
        let version = version0\<lparr>ov_SegmentRefs := refs, ov_SegmentRef := firstSegmentRef refs\<rparr>;
            r1 = r\<lparr>r_versions := map_put key version (r_versions r)\<rparr>
        in (version,
            case map_of (r_heads r1) (b, k) of
              None \<Rightarrow> r1
            | Some head \<Rightarrow>
                if oh_VersionID head = ov_VersionID version
                then snd (setHeadLocked (b, k) (head\<lparr>oh_SegmentRefs := ov_SegmentRefs version,
                       oh_SegmentRef := ov_SegmentRef version\<rparr>) r1)
                else r1))"

definition PublishObjectVersionRefs ::
  "time \<Rightarrow> PublishObjectVersionRefsRequest \<Rightarrow> Repository \<Rightarrow> PublishObjectVersionRefsResult result \<times> Repository" where
  "PublishObjectVersionRefs now req r =
     (if q_pr_BucketID req = [] \<or> q_pr_Key req = [] \<or> q_pr_VersionID req = [] then (Inl ErrInvalidArgument, r)
      else if q_pr_SegmentRefs req = [] then (Inl ErrInvalidArgument, r)
      else let key = (q_pr_BucketID req, q_pr_Key req, q_pr_VersionID req)
           in case map_of (r_versions r) key of
             None \<Rightarrow> (Inl ErrNotFound, r)
           | Some version \<Rightarrow>
               if ov_State version \<noteq> ObjectVersionCommitted \<or> ov_DeleteMarker version then (Inl ErrNotFound, r)
               else if objectVersionProtectedByObjectLock version now False then (Inl ErrObjectLocked, r)
               else let previousRefs = objectSegmentRefsFromVersion version
                    in if \<not> SegmentRefsContainVolume previousRefs (q_pr_ExpectedSourceVolumeID req)
                       then (Inl ErrInvalidArgument, r)
                       else let (version', r') = publishRefsLocked key version (q_pr_SegmentRefs req) r
                            in (Inr \<lparr>prr_Version = version', prr_PreviousSegmentRefs = previousRefs\<rparr>, r'))"

definition ListSharedObjectRefs :: "ListSharedObjectRefsRequest \<Rightarrow> Repository \<Rightarrow> SharedObjectRef list result" where
  "ListSharedObjectRefs req r =
     (let total = int (length (r_sharedRefs r));
          limit = (if q_lsf_Limit req \<le> 0 \<or> q_lsf_Limit req > total then total else q_lsf_Limit req);
          refs = sort_by (\<lambda>a b. sor_RefID a < sor_RefID b)
            (filter (\<lambda>x. (q_lsf_SharedObjectID req = [] \<or> sor_SharedObjectID x = q_lsf_SharedObjectID req) \<and>
               (q_lsf_BucketID req = [] \<or> sor_BucketID x = q_lsf_BucketID req) \<and>
               (q_lsf_Key req = [] \<or> sor_Key x = q_lsf_Key req) \<and>
               (q_lsf_VersionID req = [] \<or> sor_VersionID x = q_lsf_VersionID req)) (map snd (r_sharedRefs r)))
      in Inr (if int (length refs) > limit then take (nat limit) refs else refs))"

section \<open>Repair\<close>

definition sharedRefCount :: "string \<Rightarrow> (string, SharedObjectRef) gomap \<Rightarrow> int" where
  "sharedRefCount sid refs = int (length (filter (\<lambda>ref. sor_SharedObjectID ref = sid) (map snd refs)))"

definition repairOne :: "time \<Rightarrow> string \<Rightarrow> SharedObjectRepairResult \<times> Repository \<Rightarrow> SharedObjectRepairResult \<times> Repository" where
  "repairOne now sid = (\<lambda>(result, r).
     case map_of (r_sharedObjects r) sid of
       None \<Rightarrow> (result, r)
     | Some shared \<Rightarrow>
         let result1 = result\<lparr>srr_Scanned := srr_Scanned result + 1\<rparr>;
             refCount = sharedRefCount sid (r_sharedRefs r);
             protectedRootCount = sharedObjectProtectedRootCountLocked shared now r
         in if so_RefCount shared = refCount \<and> so_ProtectedRootCount shared = protectedRootCount then (result1, r)
            else (result1\<lparr>srr_Updated := srr_Updated result1 + 1\<rparr>,
                  r\<lparr>r_sharedObjects := map_put sid (shared\<lparr>so_RefCount := refCount,
                       so_ProtectedRootCount := protectedRootCount, so_UpdatedAt := now\<rparr>) (r_sharedObjects r)\<rparr>))"

definition RepairSharedObjectRefCounts ::
  "time \<Rightarrow> RepairSharedObjectRefCountsRequest \<Rightarrow> Repository \<Rightarrow> SharedObjectRepairResult result \<times> Repository" where
  "RepairSharedObjectRefCounts now req r =
     (let total = int (length (r_sharedObjects r));
          limit = (if q_rs_Limit req \<le> 0 \<or> q_rs_Limit req > total then total else q_rs_Limit req);
          ids = sort_by (<) (filter (\<lambda>sid. q_rs_SharedObjectID req = [] \<or> sid = q_rs_SharedObjectID req)
                  (map fst (r_sharedObjects r)));
          (result, r') = fold (repairOne now) (take (nat limit) ids) (\<lparr>srr_Scanned = 0, srr_Updated = 0\<rparr>, r)
      in (Inr result, r'))"

definition RepairListIndexes ::
  "RepairListIndexesRequest \<Rightarrow> Repository \<Rightarrow> ListIndexRepairResult result" where
  "RepairListIndexes req r =
     (if q_ri_BucketID req = [] then Inl ErrInvalidArgument
      else if map_of (r_bucketsByID r) (q_ri_BucketID req) = None then Inl ErrNotFound
      else let limit = (if q_ri_Limit req \<le> 0 then 1000 else q_ri_Limit req);
               heads = int (length (filter (\<lambda>(b, k). b = q_ri_BucketID req) (map fst (r_heads r))));
               uploads = int (length (filter (\<lambda>(b, k, u). b = q_ri_BucketID req) (map fst (r_uploads r))))
           in Inr (zero_ListIndexRepairResult\<lparr>lir_ScannedObjectHeads := min heads limit,
                     lir_ScannedMultipartUploads := min uploads limit\<rparr>))"

section \<open>Rewriting segment references keeps the object invariants\<close>

lemma inv_segment_change:
  assumes inv: "obj_inv r" "prot_inv E T r" and T: "T \<le> now"
    and v: "map_of (r_versions r) (b, k, i) = Some v" "ov_State v = ObjectVersionCommitted"
    and unlocked: "\<not> objectVersionProtectedByObjectLock v now False"
    and v': "v' = v\<lparr>ov_SegmentRefs := refs, ov_SegmentRef := firstSegmentRef refs, ov_StorageClass := sc\<rparr>"
    and nul: "\<forall>s \<in> set refs. nul_free (sg_SegmentID s)"
    and f: "\<And>h n. head_of h v \<Longrightarrow> head_of ((f h)\<lparr>oh_Revision := n\<rparr>) v'"
    and r': "r_versions r' = map_put (b, k, i) v' (r_versions r)"
      "r_heads r' = heads_follow f b k i (r_heads r)"
      "r_protectedRefs r' = r_protectedRefs r" "r_bucketsByID r' = r_bucketsByID r"
  shows "obj_inv r' \<and> prot_inv E now r'"
proof -
  note ok = obj_invD [OF inv(1)]
  have key: "version_key_ok (b, k, i) v'"
    using obj_okD_key [OF ok(4) v(1)] by (simp add: version_key_ok_def v')
  have "obj_ok (map_of (heads_follow f b k i (r_heads r))) ((map_of (r_versions r))((b, k, i) \<mapsto> v'))"
    by (rule inv_change_version [OF ok(4) v key _ heads_follow_def]) (use v(2) f in \<open>simp_all add: v'\<close>)
  moreover have "prot_ok E now ((map_of (r_versions r))((b, k, i) \<mapsto> v')) (map_of (r_protectedRefs r))"
  proof (rule prot_ok_put)
    show "prot_ok E now (map_of (r_versions r)) (map_of (r_protectedRefs r))"
      using prot_ok_mono [OF prot_invD [OF inv(2)] T] .
    have "\<forall>s \<in> set (objectSegmentRefsFromVersion v'). nul_free (sg_SegmentID s)"
      using nul by (auto simp: v' objectSegmentRefsFromVersion_def normalizeSegmentRefs_def firstSegmentRef_def
          zero_SegmentRef_def split: if_splits list.splits)
    then show "version_nul_free v'"
      using prot_ok_nul [OF prot_invD [OF inv(2)] v(1)] by (simp add: version_nul_free_def v')
    show "ov_State v' \<noteq> ObjectVersionCommitted \<or> \<not> objectVersionProtectedByObjectLock v' now False"
      using unlocked by (simp add: v' objectVersionProtectedByObjectLock_def)
  qed
  ultimately show ?thesis using ok inv(2) by (simp add: r' obj_inv_def prot_inv_def map_of_put_fun)
qed

lemma head_of_segments:
  "head_of h v \<Longrightarrow>
     head_of (h\<lparr>oh_SegmentRefs := refs, oh_SegmentRef := s, oh_StorageClass := sc, oh_LastModified := t, oh_Revision := n\<rparr>)
             (v\<lparr>ov_SegmentRefs := refs, ov_SegmentRef := s, ov_StorageClass := sc\<rparr>)"
  "head_of h v \<Longrightarrow>
     head_of (h\<lparr>oh_SegmentRefs := refs, oh_SegmentRef := s, oh_Revision := n\<rparr>)
             (v\<lparr>ov_SegmentRefs := refs, ov_SegmentRef := s\<rparr>)"
  by (erule head_ofE, simp add: head_of_def headFromVersion_def)+

definition shared_inv :: "Repository \<Rightarrow> bool" where
  "shared_inv r \<longleftrightarrow> map_wf (r_sharedObjects r) \<and> map_wf (r_sharedRefs r) \<and>
     (\<forall>(sid, shared) \<in> set (r_sharedObjects r). so_SharedObjectID shared = sid \<and>
        (\<forall>s \<in> set (so_SegmentRefs shared). nul_free (sg_SegmentID s)))"

lemma shared_inv_New: "shared_inv (NewWithClock now)"
  by (simp add: shared_inv_def NewWithClock_def)

lemma shared_inv_cong:
  "r_sharedObjects r' = r_sharedObjects r \<Longrightarrow> r_sharedRefs r' = r_sharedRefs r \<Longrightarrow> shared_inv r' = shared_inv r"
  by (simp add: shared_inv_def)

lemma shared_invD:
  assumes "shared_inv r" "map_of (r_sharedObjects r) sid = Some shared"
  shows "so_SharedObjectID shared = sid" "\<forall>s \<in> set (so_SegmentRefs shared). nul_free (sg_SegmentID s)"
  using assms map_of_SomeD [OF assms(2)] by (auto simp: shared_inv_def)

lemma shared_inv_put:
  assumes "shared_inv r" "so_SharedObjectID shared = sid" "\<forall>s \<in> set (so_SegmentRefs shared). nul_free (sg_SegmentID s)"
    and "r_sharedObjects r' = map_put sid shared (r_sharedObjects r)" "map_wf (r_sharedRefs r')"
  shows "shared_inv r'"
  using assms by (auto simp: shared_inv_def set_map_put)

subsection \<open>Attach\<close>

lemma Attach_error: "AttachObjectVersionToSharedObject E clk req r = (Inl e, r') \<Longrightarrow> r' = r"
  by (simp add: AttachObjectVersionToSharedObject_def Let_def split: if_splits option.splits prod.splits)

lemma Attach_ok:
  assumes "AttachObjectVersionToSharedObject E clk req r = (Inr res, r')"
  defines "key \<equiv> (q_as_BucketID req, q_as_Key req, q_as_VersionID req)"
  shows "\<exists>shared v. map_of (r_sharedObjects r) (q_as_SharedObjectID req) = Some shared \<and>
    map_of (r_versions r) key = Some v \<and> ov_State v = ObjectVersionCommitted \<and>
    \<not> objectVersionProtectedByObjectLock v (clk 0) False \<and> objectVersionMatchesSharedObject v shared \<and>
    attachLocked E (clk 1) key v shared r = ((asr_Version res, asr_SharedObject res, asr_Ref res), r')"
  using assms by (auto simp: AttachObjectVersionToSharedObject_def Let_def split: if_splits option.splits prod.splits)

lemma setHead_if:
  "(case map_of (r_heads r) (b, k) of None \<Rightarrow> r
     | Some h \<Rightarrow> if oh_VersionID h = i then snd (setHeadLocked (b, k) (f h) r) else r) =
   r\<lparr>r_heads := heads_follow f b k i (r_heads r)\<rparr>"
  by (simp add: setHeadLocked_def heads_follow_def Let_def split: option.split)

lemma attachLocked_effect:
  assumes "attachLocked E now (b, k, i) v shared r = ((v', shared', ref), r')" "ov_VersionID v = i"
  shows "v' = v\<lparr>ov_SegmentRefs := so_SegmentRefs shared, ov_SegmentRef := firstSegmentRef (so_SegmentRefs shared),
      ov_StorageClass := so_StorageClass shared\<rparr>"
    and "ref = sharedObjectRefFromVersion E shared v now"
    and "shared' = shared\<lparr>so_RefCount := (if map_of (r_sharedRefs r) (sor_RefID ref) = None
        then wrap64 (so_RefCount shared + 1) else so_RefCount shared),
      so_ProtectedRootCount := sharedObjectProtectedRootCountLocked shared now r, so_UpdatedAt := now\<rparr>"
    and "r_versions r' = map_put (b, k, i) v' (r_versions r)"
    and "r_heads r' = heads_follow (\<lambda>h. h\<lparr>oh_SegmentRefs := so_SegmentRefs shared,
      oh_SegmentRef := firstSegmentRef (so_SegmentRefs shared), oh_StorageClass := so_StorageClass shared,
      oh_LastModified := now\<rparr>) b k i (r_heads r)"
    and "r_sharedObjects r' = map_put (so_SharedObjectID shared) shared' (r_sharedObjects r)"
    and "r_sharedRefs r' = map_put (sor_RefID ref) ref (r_sharedRefs r)"
    and "r_protectedRefs r' = r_protectedRefs r" "r_bucketsByID r' = r_bucketsByID r"
  using assms(1) [symmetric] assms(2)
  by (simp_all add: attachLocked_def Let_def sharedObjectRefFromVersion_def sharedObjectProtectedRootCountLocked_def
      setHead_if)

lemma version_id_of_key:
  "obj_inv r \<Longrightarrow> map_of (r_versions r) (b, k, i) = Some v \<Longrightarrow> ov_VersionID v = i \<and> ov_BucketID v = b \<and> ov_Key v = k"
  using obj_okD_key [OF obj_invD(4)] by (auto simp: version_key_ok_def)

lemma inv_Attach:
  assumes inv: "obj_inv r" "prot_inv E T r" "shared_inv r" and T: "T \<le> clk 0"
    and op: "AttachObjectVersionToSharedObject E clk req r = (res, r')"
  shows "obj_inv r' \<and> prot_inv E (clk 0) r' \<and> shared_inv r'"
proof (cases res)
  case (Inl e)
  with op inv T show ?thesis by (auto dest: Attach_error intro: prot_inv_mono)
next
  case (Inr a)
  let ?b = "q_as_BucketID req" and ?k = "q_as_Key req" and ?i = "q_as_VersionID req"
  obtain shared v where sh: "map_of (r_sharedObjects r) (q_as_SharedObjectID req) = Some shared"
    and v: "map_of (r_versions r) (?b, ?k, ?i) = Some v" "ov_State v = ObjectVersionCommitted"
    and unlocked: "\<not> objectVersionProtectedByObjectLock v (clk 0) False"
    and att: "attachLocked E (clk 1) (?b, ?k, ?i) v shared r = ((asr_Version a, asr_SharedObject a, asr_Ref a), r')"
    using Attach_ok [OF op [unfolded Inr]] by blast
  have i: "ov_VersionID v = ?i" using version_id_of_key [OF inv(1) v(1)] by simp
  note eff = attachLocked_effect [OF att i] and shd = shared_invD [OF inv(3) sh]
  have "obj_inv r' \<and> prot_inv E (clk 0) r'"
    by (rule inv_segment_change [OF inv(1,2) T v unlocked eff(1) shd(2) _ eff(4,5,8,9)])
      (simp add: eff(1) head_of_segments)
  moreover have "shared_inv r'"
    by (rule shared_inv_put [OF inv(3) _ _ eff(6)])
      (use shd eff(3,7) inv(3) in \<open>simp_all add: shared_inv_def\<close>)
  ultimately show ?thesis by blast
qed

lemma kept_Attach:
  assumes inv: "obj_inv r" and v: "map_of (r_versions r) (b, k, i) = Some v" "locked t v" and t: "clk 0 \<le> t"
    and op: "AttachObjectVersionToSharedObject E clk req r = (res, r')"
  shows "kept (b, k, i) v r'"
proof (cases res)
  case (Inl e)
  with op v show ?thesis by (auto dest: Attach_error intro: kept_same)
next
  case (Inr a)
  let ?key = "(q_as_BucketID req, q_as_Key req, q_as_VersionID req)"
  obtain shared w where w: "map_of (r_versions r) ?key = Some w"
    "\<not> objectVersionProtectedByObjectLock w (clk 0) False"
    and att: "attachLocked E (clk 1) ?key w shared r = ((asr_Version a, asr_SharedObject a, asr_Ref a), r')"
    using Attach_ok [OF op [unfolded Inr]] by blast
  have id: "ov_VersionID w = q_as_VersionID req" using version_id_of_key [OF inv w(1)] by simp
  have "?key \<noteq> (b, k, i)" using w v t locked_protected by fastforce
  then show ?thesis by (intro kept_put [OF v attachLocked_effect(4) [OF att id]]) blast
qed

subsection \<open>Publish\<close>

lemma PublishSharedObject_error: "PublishSharedObject E now req r = (Inl e, r') \<Longrightarrow> r' = r"
  by (simp add: PublishSharedObject_def split: if_splits option.splits sum.splits prod.splits)

lemma PublishSharedObject_ok:
  "PublishSharedObject E now req r = (Inr res, r') \<Longrightarrow>
     \<exists>bucket version shared. map_of (r_bucketsByID r) (q_ps_BucketID req) = Some bucket \<and>
       map_of (r_versions r) (q_ps_BucketID req, q_ps_Key req, q_ps_VersionID req) = Some version \<and>
       sharedObjectFromVersion E bucket version now = Inr shared \<and>
       publishSharedLocked E now version shared r = (res, r')"
  by (auto simp: PublishSharedObject_def split: if_splits option.splits sum.splits prod.splits)

lemma publishSharedLocked_frame:
  "publishSharedLocked E now version shared r = (res, r') \<Longrightarrow>
     r' = r\<lparr>r_sharedObjects := r_sharedObjects r', r_sharedRefs := r_sharedRefs r'\<rparr>"
  by (auto simp: publishSharedLocked_def Let_def split: option.splits)

lemma PublishSharedObject_frame:
  assumes "PublishSharedObject E now req r = (res, r')"
  shows "r' = r\<lparr>r_sharedObjects := r_sharedObjects r', r_sharedRefs := r_sharedRefs r'\<rparr>"
proof (cases res)
  case (Inl e)
  with PublishSharedObject_error assms have "r' = r" by blast
  then show ?thesis by simp
next
  case (Inr x)
  with PublishSharedObject_ok assms publishSharedLocked_frame show ?thesis by blast
qed

lemma sharedObjectFromVersion_ok:
  "sharedObjectFromVersion E bucket version now = Inr shared \<Longrightarrow> version_nul_free version \<Longrightarrow>
     \<forall>s \<in> set (so_SegmentRefs shared). nul_free (sg_SegmentID s)"
  by (auto simp: sharedObjectFromVersion_def Let_def version_nul_free_def split: if_splits option.splits)

lemma shared_inv_PublishSharedObject:
  assumes inv: "shared_inv r" "prot_inv E T r" and op: "PublishSharedObject E now req r = (res, r')"
  shows "shared_inv r'"
proof (cases res)
  case (Inl e)
  with PublishSharedObject_error op inv show ?thesis by blast
next
  case (Inr x)
  then obtain bucket version shared where
    version: "map_of (r_versions r) (q_ps_BucketID req, q_ps_Key req, q_ps_VersionID req) = Some version"
    and shared: "sharedObjectFromVersion E bucket version now = Inr shared"
    and writes: "publishSharedLocked E now version shared r = (x, r')"
    using PublishSharedObject_ok op by blast
  have nul: "\<forall>s \<in> set (so_SegmentRefs shared). nul_free (sg_SegmentID s)"
    by (rule sharedObjectFromVersion_ok [OF shared prot_ok_nul [OF prot_invD [OF inv(2)] version]])
  have wf: "map_wf (r_sharedRefs r)" using inv(1) by (simp add: shared_inv_def)
  have objects: "r_sharedObjects r' = map_put (so_SharedObjectID x) x (r_sharedObjects r)" and "map_wf (r_sharedRefs r')"
    using writes wf by (auto simp: publishSharedLocked_def Let_def split: option.splits)
  moreover have "\<forall>s \<in> set (so_SegmentRefs x). nul_free (sg_SegmentID s)"
    using writes nul shared_invD(2) [OF inv(1)] by (auto simp: publishSharedLocked_def Let_def split: option.splits)
  ultimately show ?thesis by (intro shared_inv_put [OF inv(1) refl _ objects])
qed


subsection \<open>Moved references\<close>

lemma PublishRefs_error: "PublishObjectVersionRefs now req r = (Inl e, r') \<Longrightarrow> r' = r"
  by (simp add: PublishObjectVersionRefs_def Let_def split: if_splits option.splits prod.splits)

lemma PublishRefs_ok:
  "PublishObjectVersionRefs now req r = (Inr res, r') \<Longrightarrow>
     \<exists>v. map_of (r_versions r) (q_pr_BucketID req, q_pr_Key req, q_pr_VersionID req) = Some v \<and>
       ov_State v = ObjectVersionCommitted \<and> \<not> objectVersionProtectedByObjectLock v now False \<and>
       prr_PreviousSegmentRefs res = objectSegmentRefsFromVersion v \<and>
       publishRefsLocked (q_pr_BucketID req, q_pr_Key req, q_pr_VersionID req) v (q_pr_SegmentRefs req) r = (prr_Version res, r')"
  by (auto simp: PublishObjectVersionRefs_def Let_def split: if_splits option.splits prod.splits)

lemma publishRefsLocked_effect:
  assumes "publishRefsLocked (b, k, i) v refs r = (v', r')" "ov_VersionID v = i"
  shows "v' = v\<lparr>ov_SegmentRefs := refs, ov_SegmentRef := firstSegmentRef refs\<rparr>"
    and "r' = r\<lparr>r_versions := map_put (b, k, i) v' (r_versions r),
      r_heads := heads_follow (\<lambda>h. h\<lparr>oh_SegmentRefs := refs, oh_SegmentRef := firstSegmentRef refs\<rparr>) b k i (r_heads r)\<rparr>"
  using assms(1) [symmetric] assms(2) by (simp_all add: publishRefsLocked_def Let_def setHead_if)

lemma inv_PublishRefs:
  assumes inv: "obj_inv r" "prot_inv E T r" and T: "T \<le> now"
    and nul: "\<forall>s \<in> set (q_pr_SegmentRefs req). nul_free (sg_SegmentID s)"
    and op: "PublishObjectVersionRefs now req r = (res, r')"
  shows "obj_inv r' \<and> prot_inv E now r'"
proof (cases res)
  case (Inl e)
  with op inv T show ?thesis by (auto dest: PublishRefs_error intro: prot_inv_mono)
next
  case (Inr a)
  let ?b = "q_pr_BucketID req" and ?k = "q_pr_Key req" and ?i = "q_pr_VersionID req"
  obtain v where v: "map_of (r_versions r) (?b, ?k, ?i) = Some v" "ov_State v = ObjectVersionCommitted"
    and unlocked: "\<not> objectVersionProtectedByObjectLock v now False"
    and pub: "publishRefsLocked (?b, ?k, ?i) v (q_pr_SegmentRefs req) r = (prr_Version a, r')"
    using PublishRefs_ok [OF op [unfolded Inr]] by blast
  have i: "ov_VersionID v = ?i" using version_id_of_key [OF inv(1) v(1)] by simp
  note eff = publishRefsLocked_effect [OF pub i]
  show ?thesis
    by (rule inv_segment_change [OF inv T v unlocked, where v' = "prr_Version a" and sc = "ov_StorageClass v"
          and f = "\<lambda>h. h\<lparr>oh_SegmentRefs := q_pr_SegmentRefs req, oh_SegmentRef := firstSegmentRef (q_pr_SegmentRefs req)\<rparr>"
          and refs = "q_pr_SegmentRefs req"])
      (simp_all add: eff nul head_of_segments)
qed

lemma kept_PublishRefs:
  assumes inv: "obj_inv r" and v: "map_of (r_versions r) (b, k, i) = Some v" "locked t v" and t: "now \<le> t"
    and op: "PublishObjectVersionRefs now req r = (res, r')"
  shows "kept (b, k, i) v r'"
proof (cases res)
  case (Inl e)
  with op v show ?thesis by (auto dest: PublishRefs_error intro: kept_same)
next
  case (Inr a)
  let ?key = "(q_pr_BucketID req, q_pr_Key req, q_pr_VersionID req)"
  obtain w where w: "map_of (r_versions r) ?key = Some w" "\<not> objectVersionProtectedByObjectLock w now False"
    and pub: "publishRefsLocked ?key w (q_pr_SegmentRefs req) r = (prr_Version a, r')"
    using PublishRefs_ok [OF op [unfolded Inr]] by blast
  have id: "ov_VersionID w = q_pr_VersionID req" using version_id_of_key [OF inv w(1)] by simp
  have "?key \<noteq> (b, k, i)" using w v t locked_protected by fastforce
  then show ?thesis
    by (intro kept_put [OF v, where key = ?key and w = "prr_Version a"])
      (simp_all add: publishRefsLocked_effect(2) [OF pub id])
qed

section \<open>Repair restores the counters\<close>

definition repaired :: "time \<Rightarrow> Repository \<Rightarrow> string \<Rightarrow> SharedObject \<Rightarrow> SharedObject" where
  "repaired now r sid shared =
     (if so_RefCount shared = sharedRefCount sid (r_sharedRefs r) \<and>
         so_ProtectedRootCount shared = sharedObjectProtectedRootCountLocked shared now r then shared
      else shared\<lparr>so_RefCount := sharedRefCount sid (r_sharedRefs r),
             so_ProtectedRootCount := sharedObjectProtectedRootCountLocked shared now r, so_UpdatedAt := now\<rparr>)"

definition counts_exact :: "time \<Rightarrow> Repository \<Rightarrow> bool" where
  "counts_exact now r \<longleftrightarrow>
     (\<forall>sid shared. map_of (r_sharedObjects r) sid = Some shared \<longrightarrow>
        so_RefCount shared = sharedRefCount sid (r_sharedRefs r) \<and>
        so_ProtectedRootCount shared = sharedObjectProtectedRootCountLocked shared now r)"

lemma root_count_cong [simp]:
  "sharedObjectProtectedRootCountLocked (shared\<lparr>so_RefCount := a, so_ProtectedRootCount := b, so_UpdatedAt := c\<rparr>) now r =
     sharedObjectProtectedRootCountLocked shared now r"
  "sharedObjectProtectedRootCountLocked shared now (r\<lparr>r_sharedObjects := objects\<rparr>) =
     sharedObjectProtectedRootCountLocked shared now r"
  by (simp_all add: sharedObjectProtectedRootCountLocked_def)

lemma repaired_frame [simp]: "repaired now (r\<lparr>r_sharedObjects := objects\<rparr>) = repaired now r"
  by (intro ext) (simp add: repaired_def)

lemma fold_repairOne:
  assumes "distinct ids" "fold (repairOne now) ids (res, r) = (res', r')"
  shows "r' = r\<lparr>r_sharedObjects := r_sharedObjects r'\<rparr> \<and>
    map_of (r_sharedObjects r') = (\<lambda>sid. if sid \<in> set ids then map_option (repaired now r sid) (map_of (r_sharedObjects r) sid)
       else map_of (r_sharedObjects r) sid) \<and>
    (counts_exact now r \<longrightarrow> r' = r \<and> srr_Updated res' = srr_Updated res)"
  using assms
proof (induction ids arbitrary: res r)
  case Nil
  then show ?case by auto
next
  case (Cons sid ids)
  obtain res1 r1 where one: "repairOne now sid (res, r) = (res1, r1)" by fastforce
  have r1: "r1 = r\<lparr>r_sharedObjects := r_sharedObjects r1\<rparr>"
    and map1: "map_of (r_sharedObjects r1) = (map_of (r_sharedObjects r))(sid := map_option (repaired now r sid) (map_of (r_sharedObjects r) sid))"
    and same: "counts_exact now r \<Longrightarrow> r1 = r \<and> srr_Updated res1 = srr_Updated res"
    using one by (auto simp: repairOne_def repaired_def Let_def counts_exact_def map_of_put_fun split: option.splits if_splits)
  have IH: "r' = r1\<lparr>r_sharedObjects := r_sharedObjects r'\<rparr> \<and>
    map_of (r_sharedObjects r') = (\<lambda>x. if x \<in> set ids then map_option (repaired now r1 x) (map_of (r_sharedObjects r1) x)
       else map_of (r_sharedObjects r1) x) \<and>
    (counts_exact now r1 \<longrightarrow> r' = r1 \<and> srr_Updated res' = srr_Updated res1)"
    using Cons.prems one by (intro Cons.IH) simp_all
  have rep: "repaired now r1 = repaired now r" by (subst r1) simp
  have "map_of (r_sharedObjects r') =
      (\<lambda>x. if x \<in> set (sid # ids) then map_option (repaired now r x) (map_of (r_sharedObjects r) x) else map_of (r_sharedObjects r) x)"
    using conjunct1 [OF conjunct2 [OF IH]] Cons.prems(1) unfolding map1 rep by auto
  moreover have "r' = r\<lparr>r_sharedObjects := r_sharedObjects r'\<rparr>"
    using conjunct1 [OF IH] by (subst (asm) r1) simp
  moreover have "counts_exact now r \<longrightarrow> r' = r \<and> srr_Updated res' = srr_Updated res" using IH same by auto
  ultimately show ?case by blast
qed

lemma fold_repair_wf:
  "fold (repairOne now) ids (res, r) = (res', r') \<Longrightarrow> map_wf (r_sharedObjects r) \<Longrightarrow> map_wf (r_sharedObjects r')"
proof (induction ids arbitrary: res r)
  case Nil
  then show ?case by simp
next
  case (Cons sid ids)
  obtain res1 r1 where one: "repairOne now sid (res, r) = (res1, r1)" by fastforce
  then have "map_wf (r_sharedObjects r1)"
    using Cons.prems(2) by (auto simp: repairOne_def Let_def split: option.splits if_splits)
  with Cons one show ?case by simp
qed


lemma shared_inv_Repair:
  assumes inv: "shared_inv r" and op: "RepairSharedObjectRefCounts now req r = (res, r')"
  shows "shared_inv r'"
proof -
  have wf: "map_wf (r_sharedObjects r)" using inv by (simp add: shared_inv_def)
  obtain ids res0 where "distinct ids" and fold: "fold (repairOne now) ids (\<lparr>srr_Scanned = 0, srr_Updated = 0\<rparr>, r) = (res0, r')"
  proof
    let ?ids = "take (nat (if q_rs_Limit req \<le> 0 \<or> q_rs_Limit req > int (length (r_sharedObjects r))
        then int (length (r_sharedObjects r)) else q_rs_Limit req))
      (sort_by (<) (filter (\<lambda>sid. q_rs_SharedObjectID req = [] \<or> sid = q_rs_SharedObjectID req) (map fst (r_sharedObjects r))))"
    show "distinct ?ids" using wf by (simp add: map_wf_def)
    show "fold (repairOne now) ?ids (\<lparr>srr_Scanned = 0, srr_Updated = 0\<rparr>, r) = (projr res, r')"
      using op by (auto simp: RepairSharedObjectRefCounts_def Let_def split: prod.splits)
  qed
  note eff = fold_repairOne [OF this] and wf' = fold_repair_wf [OF fold wf]
  have kept: "so_SharedObjectID (repaired now r sid x) = so_SharedObjectID x"
    "so_SegmentRefs (repaired now r sid x) = so_SegmentRefs x" for sid x by (simp_all add: repaired_def)
  have "so_SharedObjectID shared = sid \<and> (\<forall>s \<in> set (so_SegmentRefs shared). nul_free (sg_SegmentID s))"
    if at: "map_of (r_sharedObjects r') sid = Some shared" for sid shared
  proof -
    obtain old where "map_of (r_sharedObjects r) sid = Some old" "shared \<in> {old, repaired now r sid old}"
      using at eff by (auto split: if_splits)
    then show ?thesis using shared_invD [OF inv] kept by auto
  qed
  moreover obtain objects where r': "r' = r\<lparr>r_sharedObjects := objects\<rparr>" using eff by blast
  ultimately show ?thesis using inv wf' by (auto simp: shared_inv_def r' map_wf_mem)
qed

lemma Repair_frame:
  assumes "RepairSharedObjectRefCounts now req r = (res, r')"
  shows "r' = r\<lparr>r_sharedObjects := r_sharedObjects r'\<rparr>"
proof -
  have "fold (repairOne now) ids (x, s) = (y, s') \<Longrightarrow> s' = s\<lparr>r_sharedObjects := r_sharedObjects s'\<rparr>" for ids x s y s'
  proof (induction ids arbitrary: x s)
    case Nil
    then show ?case by simp
  next
    case (Cons sid ids)
    obtain y1 s1 where one: "repairOne now sid (x, s) = (y1, s1)" by fastforce
    then have s1: "s1 = s\<lparr>r_sharedObjects := r_sharedObjects s1\<rparr>"
      by (auto simp: repairOne_def Let_def split: option.splits if_splits)
    have "s' = s1\<lparr>r_sharedObjects := r_sharedObjects s'\<rparr>" using Cons one by simp
    then show ?case by (subst (asm) s1) simp
  qed
  then show ?thesis
    using assms by (auto simp: RepairSharedObjectRefCounts_def Let_def split: prod.splits)
qed

text \<open>Publishing a second version of a payload that is already shared stores its reference but
  leaves the reference count at one, until a repair pass runs.\<close>

definition demo_shared :: Repository where
  \<comment> \<open>two committed versions of one key with the same payload\<close>
  "demo_shared =
     (let seg = zero_SegmentRef\<lparr>sg_SegmentID := ''s'', sg_Digest := \<lparr>dg_Algorithm = ''sha256'', dg_Hex = ''ab''\<rparr>\<rparr>;
          version = (\<lambda>i. zero_ObjectVersion\<lparr>ov_BucketID := ''b'', ov_Key := ''k'', ov_VersionID := i,
             ov_VersionSortKey := i, ov_State := ObjectVersionCommitted, ov_SegmentRef := seg, ov_SegmentRefs := [seg]\<rparr>)
      in (NewWithClock 0)\<lparr>r_bucketsByID := [(''b'', zero_Bucket)],
           r_versions := map (\<lambda>i. ((''b'', ''k'', i), version i)) [''1'', ''2'']\<rparr>)"

definition demo_published :: Repository where
  "demo_published =
     (let publish = (\<lambda>i. snd \<circ> PublishSharedObject demo_env 7 \<lparr>q_ps_BucketID = ''b'', q_ps_Key = ''k'', q_ps_VersionID = i\<rparr>)
      in publish ''2'' (publish ''1'' demo_shared))"

theorem publish_existing_undercounts:
  "map (\<lambda>(sid, shared). (so_RefCount shared, sharedRefCount sid (r_sharedRefs demo_published)))
     (r_sharedObjects demo_published) = [(1, 2)]"
  by code_simp


end
