(* ===== verification/Coordination.thy ===== *)
theory Coordination
  imports Repo
begin

text \<open>
  How workers coordinate through the repository: the dedupe operation lock, the worker lease
  (\<open>internal/meta/worker.go\<close> and the memory repository) and the worker control record.

  Both the lock and the lease expire. The locale \<open>expiring_lock\<close> is their contract: while
  a holder's term runs, nothing another owner does takes the lock away. The lease also has a
  generation, which rises whenever the lease changes hands.
\<close>

section \<open>The dedupe lock\<close>

definition AcquireDedupeOperationLock ::
  "time \<Rightarrow> AcquireDedupeOperationLockRequest \<Rightarrow> Repository \<Rightarrow> DedupeOperationLock result \<times> Repository" where
  "AcquireDedupeOperationLock now req r =
     (let lockID = TrimSpace (q_al_LockID req);
          ownerID = TrimSpace (q_al_OwnerID req)
      in if lockID = [] \<or> ownerID = [] then (Inl ErrInvalidArgument, r)
         else if q_al_TTL req \<le> 0 then (Inl ErrInvalidArgument, r)
         else let existing = map_of (r_dedupeLocks r) lockID
              in case existing of
                   Some old \<Rightarrow>
                     if dlk_ExpiresAt old > now \<and> dlk_OwnerID old \<noteq> ownerID then (Inl ErrCASConflict, r)
                     else let acquiredAt = (if dlk_OwnerID old = ownerID \<and> dlk_ExpiresAt old > now
                                            then dlk_AcquiredAt old else now);
                              lock = \<lparr>dlk_LockID = lockID, dlk_OwnerID = ownerID, dlk_AcquiredAt = acquiredAt,
                                      dlk_UpdatedAt = now, dlk_ExpiresAt = now + q_al_TTL req\<rparr>
                          in (Inr lock, r\<lparr>r_dedupeLocks := map_put lockID lock (r_dedupeLocks r)\<rparr>)
                 | None \<Rightarrow>
                     let lock = \<lparr>dlk_LockID = lockID, dlk_OwnerID = ownerID, dlk_AcquiredAt = now,
                                 dlk_UpdatedAt = now, dlk_ExpiresAt = now + q_al_TTL req\<rparr>
                     in (Inr lock, r\<lparr>r_dedupeLocks := map_put lockID lock (r_dedupeLocks r)\<rparr>))"

definition ReleaseDedupeOperationLock ::
  "ReleaseDedupeOperationLockRequest \<Rightarrow> Repository \<Rightarrow> unit result \<times> Repository" where
  "ReleaseDedupeOperationLock req r =
     (let lockID = TrimSpace (q_rl_LockID req);
          ownerID = TrimSpace (q_rl_OwnerID req)
      in if lockID = [] \<or> ownerID = [] then (Inl ErrInvalidArgument, r)
         else case map_of (r_dedupeLocks r) lockID of
           None \<Rightarrow> (Inl ErrNotFound, r)
         | Some existing \<Rightarrow>
             if dlk_OwnerID existing \<noteq> ownerID then (Inl ErrCASConflict, r)
             else (Inr (), r\<lparr>r_dedupeLocks := map_del lockID (r_dedupeLocks r)\<rparr>))"

section \<open>The worker lease\<close>

definition WorkerLeaseID :: "string \<Rightarrow> string \<Rightarrow> string" where
  "WorkerLeaseID workerKind shardID = TrimSpace workerKind @ ''/'' @ TrimSpace shardID"

definition WorkerControlID :: "string \<Rightarrow> string \<Rightarrow> string" where
  "WorkerControlID workerKind shardID = WorkerLeaseID workerKind shardID"

definition BuildWorkerLease :: "WorkerLease \<Rightarrow> AcquireWorkerLeaseRequest \<Rightarrow> time \<Rightarrow> WorkerLease result" where
  "BuildWorkerLease existing req now =
     (let workerKind = TrimSpace (q_wl_WorkerKind req);
          shardID = TrimSpace (q_wl_ShardID req);
          ownerID = TrimSpace (q_wl_OwnerID req)
      in if workerKind = [] \<or> shardID = [] \<or> ownerID = [] then Inl ErrInvalidArgument
         else if q_wl_TTL req \<le> 0 then Inl ErrInvalidArgument
         else if wl_LeaseID existing \<noteq> [] \<and> wl_OwnerID existing \<noteq> ownerID \<and> wl_ExpiresAt existing > now
         then Inl ErrCASConflict
         else let fresh = (wl_LeaseID existing = [] \<or> wl_OwnerID existing \<noteq> ownerID);
                  generation = (if fresh
                                then (if wl_Generation existing + 1 = 0 then 1 else wl_Generation existing + 1)
                                else wl_Generation existing);
                  acquiredAt = (if fresh then now else wl_AcquiredAt existing)
              in Inr \<lparr>wl_LeaseID = WorkerLeaseID workerKind shardID, wl_WorkerKind = workerKind,
                      wl_ShardID = shardID, wl_OwnerID = ownerID, wl_Generation = generation,
                      wl_Cursor = TrimSpace (q_wl_Cursor req), wl_AcquiredAt = acquiredAt,
                      wl_UpdatedAt = now, wl_ExpiresAt = now + q_wl_TTL req\<rparr>)"

definition AcquireWorkerLease ::
  "time \<Rightarrow> AcquireWorkerLeaseRequest \<Rightarrow> Repository \<Rightarrow> WorkerLease result \<times> Repository" where
  "AcquireWorkerLease now req r =
     (let leaseID = WorkerLeaseID (q_wl_WorkerKind req) (q_wl_ShardID req)
      in case BuildWorkerLease (map_get zero_WorkerLease (r_workerLeases r) leaseID) req now of
           Inl e \<Rightarrow> (Inl e, r)
         | Inr lease \<Rightarrow> (Inr lease, r\<lparr>r_workerLeases := map_put (wl_LeaseID lease) lease (r_workerLeases r)\<rparr>))"

definition ReleaseWorkerLease ::
  "time \<Rightarrow> ReleaseWorkerLeaseRequest \<Rightarrow> Repository \<Rightarrow> unit result \<times> Repository" where
  "ReleaseWorkerLease now req r =
     (let workerKind = TrimSpace (q_rw_WorkerKind req);
          shardID = TrimSpace (q_rw_ShardID req);
          leaseID = WorkerLeaseID workerKind shardID;
          ownerID = TrimSpace (q_rw_OwnerID req)
      in if workerKind = [] \<or> shardID = [] \<or> ownerID = [] then (Inl ErrInvalidArgument, r)
         else case map_of (r_workerLeases r) leaseID of
           None \<Rightarrow> (Inl ErrNotFound, r)
         | Some existing \<Rightarrow>
             if wl_OwnerID existing \<noteq> ownerID then (Inl ErrCASConflict, r)
             else (Inr (), r\<lparr>r_workerLeases :=
                     map_put leaseID (existing\<lparr>wl_UpdatedAt := now, wl_ExpiresAt := now\<rparr>) (r_workerLeases r)\<rparr>))"

definition ListWorkerLeases :: "ListWorkerLeasesRequest \<Rightarrow> Repository \<Rightarrow> WorkerLease list result" where
  "ListWorkerLeases req r =
     (let total = int (length (r_workerLeases r));
          limit = (if q_lwl_Limit req \<le> 0 \<or> q_lwl_Limit req > total then total else q_lwl_Limit req);
          workerKind = TrimSpace (q_lwl_WorkerKind req);
          shardID = TrimSpace (q_lwl_ShardID req);
          leases = sort_by (\<lambda>a b. wl_LeaseID a < wl_LeaseID b)
            (filter (\<lambda>lease. (workerKind = [] \<or> wl_WorkerKind lease = workerKind) \<and>
                             (shardID = [] \<or> wl_ShardID lease = shardID)) (map snd (r_workerLeases r)))
      in Inr (if int (length leases) > limit then take (nat limit) leases else leases))"

section \<open>Worker control\<close>

definition WorkerControlActive :: WorkerControlState where
  "WorkerControlActive = ''active''"

definition WorkerControlPaused :: WorkerControlState where
  "WorkerControlPaused = ''paused''"

definition WorkerControlCanceled :: WorkerControlState where
  "WorkerControlCanceled = ''canceled''"

definition NormalizeWorkerControlState :: "WorkerControlState \<Rightarrow> WorkerControlState" where
  "NormalizeWorkerControlState state =
     (let s = ToLower (TrimSpace state)
      in if s = [] \<or> s = WorkerControlActive then WorkerControlActive
         else if s = WorkerControlPaused then WorkerControlPaused
         else if s = WorkerControlCanceled then WorkerControlCanceled
         else [])"

definition BuildWorkerControl ::
  "WorkerControlRecord \<Rightarrow> PutWorkerControlRequest \<Rightarrow> time \<Rightarrow> WorkerControlRecord result" where
  "BuildWorkerControl existing req now =
     (let workerKind = TrimSpace (q_wc_WorkerKind req);
          shardID = TrimSpace (q_wc_ShardID req)
      in if workerKind = [] \<or> shardID = [] then Inl ErrInvalidArgument
         else let state = NormalizeWorkerControlState (q_wc_State req)
              in if state = [] then Inl ErrInvalidArgument
                 else Inr \<lparr>wc_WorkerKind = workerKind, wc_ShardID = shardID, wc_State = state,
                           wc_Reason = TrimSpace (q_wc_Reason req), wc_UpdatedBy = TrimSpace (q_wc_UpdatedBy req),
                           wc_UpdatedAt = now,
                           wc_CreatedAt = (if wc_CreatedAt existing = 0 then now else wc_CreatedAt existing)\<rparr>)"

definition PutWorkerControl ::
  "time \<Rightarrow> PutWorkerControlRequest \<Rightarrow> Repository \<Rightarrow> WorkerControlRecord result \<times> Repository" where
  "PutWorkerControl now req r =
     (let controlID = WorkerControlID (q_wc_WorkerKind req) (q_wc_ShardID req)
      in case BuildWorkerControl (map_get zero_WorkerControlRecord (r_workerControls r) controlID) req now of
           Inl e \<Rightarrow> (Inl e, r)
         | Inr rec \<Rightarrow>
             (Inr rec, r\<lparr>r_workerControls :=
                map_put (WorkerControlID (wc_WorkerKind rec) (wc_ShardID rec)) rec (r_workerControls r)\<rparr>))"

definition GetWorkerControl :: "GetWorkerControlRequest \<Rightarrow> Repository \<Rightarrow> WorkerControlRecord result" where
  "GetWorkerControl req r =
     (let workerKind = TrimSpace (q_gwc_WorkerKind req);
          shardID = TrimSpace (q_gwc_ShardID req)
      in if workerKind = [] \<or> shardID = [] then Inl ErrInvalidArgument
         else case map_of (r_workerControls r) (WorkerControlID workerKind shardID) of
           None \<Rightarrow> Inl ErrNotFound | Some rec \<Rightarrow> Inr rec)"

section \<open>The contract of an expiring lock\<close>

locale expiring_lock =
  fixes holder :: "'s \<Rightarrow> 'n \<Rightarrow> ('o \<times> time) option"
    \<comment> \<open>the owner of a lock and when its term ends\<close>
    and step :: "'e \<Rightarrow> 's \<Rightarrow> 's"
    and ev_lock :: "'e \<Rightarrow> 'n" and ev_owner :: "'e \<Rightarrow> 'o" and ev_time :: "'e \<Rightarrow> time"
    and grants :: "'e \<Rightarrow> 's \<Rightarrow> bool"
    \<comment> \<open>the event is an acquisition that succeeds\<close>
  assumes step_other: "holder s n = Some (ow, t) \<Longrightarrow> ev_time e < t \<Longrightarrow> (ev_lock e = n \<Longrightarrow> ev_owner e \<noteq> ow) \<Longrightarrow>
      holder (step e s) n = Some (ow, t)"
    and no_grant: "holder s (ev_lock e) = Some (ow, t) \<Longrightarrow> ev_time e < t \<Longrightarrow> ev_owner e \<noteq> ow \<Longrightarrow> \<not> grants e s"
begin

lemma fold_other:
  assumes "holder s n = Some (ow, t)" "\<forall>e \<in> set es. ev_time e < t \<and> (ev_lock e = n \<longrightarrow> ev_owner e \<noteq> ow)"
  shows "holder (fold step es s) n = Some (ow, t)"
  using assms by (induction es arbitrary: s) (auto intro: step_other)

lemma fold_no_grant:
  assumes "holder s n = Some (ow, t)" "\<forall>e \<in> set es. ev_time e < t \<and> (ev_lock e = n \<longrightarrow> ev_owner e \<noteq> ow)"
    and "ev_lock e = n" "ev_owner e \<noteq> ow" "ev_time e < t"
  shows "\<not> grants e (fold step es s)"
  using no_grant [of "fold step es s" e ow t] fold_other [OF assms(1,2)] assms(3-5) by simp

end

datatype dedupe_event =
    DedupeAcquire time AcquireDedupeOperationLockRequest
  | DedupeRelease time ReleaseDedupeOperationLockRequest

datatype lease_event =
    LeaseAcquire time AcquireWorkerLeaseRequest
  | LeaseRelease time ReleaseWorkerLeaseRequest

primrec dedupe_step :: "dedupe_event \<Rightarrow> Repository \<Rightarrow> Repository" where
  "dedupe_step (DedupeAcquire now req) r = snd (AcquireDedupeOperationLock now req r)"
| "dedupe_step (DedupeRelease now req) r = snd (ReleaseDedupeOperationLock req r)"

primrec dedupe_ev_lock :: "dedupe_event \<Rightarrow> string" where
  "dedupe_ev_lock (DedupeAcquire now req) = TrimSpace (q_al_LockID req)"
| "dedupe_ev_lock (DedupeRelease now req) = TrimSpace (q_rl_LockID req)"

primrec dedupe_ev_owner :: "dedupe_event \<Rightarrow> string" where
  "dedupe_ev_owner (DedupeAcquire now req) = TrimSpace (q_al_OwnerID req)"
| "dedupe_ev_owner (DedupeRelease now req) = TrimSpace (q_rl_OwnerID req)"

primrec dedupe_ev_time :: "dedupe_event \<Rightarrow> time" where
  "dedupe_ev_time (DedupeAcquire now req) = now"
| "dedupe_ev_time (DedupeRelease now req) = now"

primrec dedupe_grants :: "dedupe_event \<Rightarrow> Repository \<Rightarrow> bool" where
  "dedupe_grants (DedupeAcquire now req) r = (\<not> isl (fst (AcquireDedupeOperationLock now req r)))"
| "dedupe_grants (DedupeRelease now req) r = False"

definition dedupe_holder :: "Repository \<Rightarrow> string \<Rightarrow> (string \<times> time) option" where
  "dedupe_holder r n = map_option (\<lambda>l. (dlk_OwnerID l, dlk_ExpiresAt l)) (map_of (r_dedupeLocks r) n)"

interpretation dedupe_lock: expiring_lock dedupe_holder dedupe_step dedupe_ev_lock dedupe_ev_owner
  dedupe_ev_time dedupe_grants
proof unfold_locales
  fix r n ow t e
  assume "dedupe_holder r n = Some (ow, t)" "dedupe_ev_time e < t" "dedupe_ev_lock e = n \<Longrightarrow> dedupe_ev_owner e \<noteq> ow"
  then show "dedupe_holder (dedupe_step e r) n = Some (ow, t)"
    by (cases e) (auto simp: dedupe_holder_def AcquireDedupeOperationLock_def ReleaseDedupeOperationLock_def
        Let_def split: option.splits)
next
  fix r e ow t
  assume "dedupe_holder r (dedupe_ev_lock e) = Some (ow, t)" "dedupe_ev_time e < t" "dedupe_ev_owner e \<noteq> ow"
  then show "\<not> dedupe_grants e r"
    by (cases e) (auto simp: dedupe_holder_def AcquireDedupeOperationLock_def Let_def)
qed

primrec lease_step :: "lease_event \<Rightarrow> Repository \<Rightarrow> Repository" where
  "lease_step (LeaseAcquire now req) r = snd (AcquireWorkerLease now req r)"
| "lease_step (LeaseRelease now req) r = snd (ReleaseWorkerLease now req r)"

primrec lease_ev_lock :: "lease_event \<Rightarrow> string" where
  "lease_ev_lock (LeaseAcquire now req) = WorkerLeaseID (q_wl_WorkerKind req) (q_wl_ShardID req)"
| "lease_ev_lock (LeaseRelease now req) = WorkerLeaseID (q_rw_WorkerKind req) (q_rw_ShardID req)"

primrec lease_ev_owner :: "lease_event \<Rightarrow> string" where
  "lease_ev_owner (LeaseAcquire now req) = TrimSpace (q_wl_OwnerID req)"
| "lease_ev_owner (LeaseRelease now req) = TrimSpace (q_rw_OwnerID req)"

primrec lease_ev_time :: "lease_event \<Rightarrow> time" where
  "lease_ev_time (LeaseAcquire now req) = now"
| "lease_ev_time (LeaseRelease now req) = now"

primrec lease_grants :: "lease_event \<Rightarrow> Repository \<Rightarrow> bool" where
  "lease_grants (LeaseAcquire now req) r = (\<not> isl (fst (AcquireWorkerLease now req r)))"
| "lease_grants (LeaseRelease now req) r = False"

definition lease_holder :: "Repository \<Rightarrow> string \<Rightarrow> (string \<times> time) option" where
  "lease_holder r n =
     (case map_of (r_workerLeases r) n of
        Some l \<Rightarrow> if wl_LeaseID l = [] then None else Some (wl_OwnerID l, wl_ExpiresAt l)
      | None \<Rightarrow> None)"

lemma WorkerLeaseID_trim [simp]: "WorkerLeaseID (TrimSpace k) (TrimSpace s) = WorkerLeaseID k s"
  by (simp add: WorkerLeaseID_def)

lemma WorkerLeaseID_nonempty [simp]: "WorkerLeaseID k s \<noteq> []"
  by (simp add: WorkerLeaseID_def)

interpretation worker_lease: expiring_lock lease_holder lease_step lease_ev_lock lease_ev_owner
  lease_ev_time lease_grants
proof unfold_locales
  fix r n ow t e
  assume "lease_holder r n = Some (ow, t)" "lease_ev_time e < t" "lease_ev_lock e = n \<Longrightarrow> lease_ev_owner e \<noteq> ow"
  then show "lease_holder (lease_step e r) n = Some (ow, t)"
    by (cases e) (auto simp: lease_holder_def AcquireWorkerLease_def BuildWorkerLease_def ReleaseWorkerLease_def
        Let_def map_get_def split: option.splits if_splits)
next
  fix r e ow t
  assume "lease_holder r (lease_ev_lock e) = Some (ow, t)" "lease_ev_time e < t" "lease_ev_owner e \<noteq> ow"
  then show "\<not> lease_grants e r"
    by (cases e) (auto simp: lease_holder_def AcquireWorkerLease_def BuildWorkerLease_def Let_def
        split: option.splits if_splits)
qed

section \<open>Properties\<close>

text \<open>C19 (safety). Mutual exclusion of dedupe runs: after an owner acquires the dedupe lock,
  no sequence of lock calls by other owners before the term ends removes or replaces the
  holder's entry, and no acquisition by another owner in that time succeeds.\<close>

theorem dedupe_lock_exclusive:
  fixes req req' :: AcquireDedupeOperationLockRequest
  assumes acquired: "AcquireDedupeOperationLock now req r = (Inr lock, r1)"
    and others: "\<forall>e \<in> set es. dedupe_ev_time e < now + q_al_TTL req \<and>
      (dedupe_ev_lock e = TrimSpace (q_al_LockID req) \<longrightarrow> dedupe_ev_owner e \<noteq> TrimSpace (q_al_OwnerID req))"
    and rival: "TrimSpace (q_al_LockID req') = TrimSpace (q_al_LockID req)"
      "TrimSpace (q_al_OwnerID req') \<noteq> TrimSpace (q_al_OwnerID req)" "now' < now + q_al_TTL req"
  shows "dedupe_holder (fold dedupe_step es r1) (TrimSpace (q_al_LockID req)) =
           Some (TrimSpace (q_al_OwnerID req), now + q_al_TTL req) \<and>
         isl (fst (AcquireDedupeOperationLock now' req' (fold dedupe_step es r1)))"
proof -
  have held: "dedupe_holder r1 (TrimSpace (q_al_LockID req)) =
      Some (TrimSpace (q_al_OwnerID req), now + q_al_TTL req)"
    using acquired by (auto simp: AcquireDedupeOperationLock_def dedupe_holder_def Let_def split: if_splits option.splits)
  show ?thesis
    using dedupe_lock.fold_other [OF held others]
      dedupe_lock.fold_no_grant [OF held others, of "DedupeAcquire now' req'"] rival by simp
qed

theorem dedupe_lock_exclusive_witness:
  "let a = \<lparr>q_al_LockID = ''run'', q_al_OwnerID = ''a'', q_al_TTL = 10\<rparr>;
       b = \<lparr>q_al_LockID = ''run'', q_al_OwnerID = ''b'', q_al_TTL = 10\<rparr>;
       r1 = snd (AcquireDedupeOperationLock 100 a (NewWithClock 0));
       es = [DedupeAcquire 105 b, DedupeRelease 106 \<lparr>q_rl_LockID = ''run'', q_rl_OwnerID = ''b''\<rparr>]
   in isl (fst (AcquireDedupeOperationLock 109 b (fold dedupe_step es r1)))"
proof -
  let ?a = "\<lparr>q_al_LockID = ''run'', q_al_OwnerID = ''a'', q_al_TTL = 10\<rparr>"
  let ?b = "\<lparr>q_al_LockID = ''run'', q_al_OwnerID = ''b'', q_al_TTL = 10\<rparr>"
  let ?es = "[DedupeAcquire 105 ?b, DedupeRelease 106 \<lparr>q_rl_LockID = ''run'', q_rl_OwnerID = ''b''\<rparr>]"
  have trim: "TrimSpace ''run'' = ''run''" "TrimSpace ''a'' = ''a''" "TrimSpace ''b'' = ''b''" by code_simp+
  have acq: "AcquireDedupeOperationLock 100 ?a (NewWithClock 0) =
      (Inr \<lparr>dlk_LockID = ''run'', dlk_OwnerID = ''a'', dlk_AcquiredAt = 100, dlk_UpdatedAt = 100, dlk_ExpiresAt = 110\<rparr>,
       snd (AcquireDedupeOperationLock 100 ?a (NewWithClock 0)))"
    by (simp add: AcquireDedupeOperationLock_def trim NewWithClock_def Let_def)
  show ?thesis
    unfolding Let_def using dedupe_lock_exclusive [OF acq, of ?es ?b 109] by (simp add: trim)
qed

text \<open>C17 (safety). Mutual exclusion of workers on a shard: while the term of a worker lease
  runs, lease calls by other owners (also on other shards) leave it in place and no other owner
  is granted it.\<close>

theorem worker_lease_exclusive:
  fixes req req' :: AcquireWorkerLeaseRequest
  assumes acquired: "AcquireWorkerLease now req r = (Inr lease, r1)"
    and others: "\<forall>e \<in> set es. lease_ev_time e < now + q_wl_TTL req \<and>
      (lease_ev_lock e = WorkerLeaseID (q_wl_WorkerKind req) (q_wl_ShardID req) \<longrightarrow>
       lease_ev_owner e \<noteq> TrimSpace (q_wl_OwnerID req))"
    and rival: "WorkerLeaseID (q_wl_WorkerKind req') (q_wl_ShardID req') =
        WorkerLeaseID (q_wl_WorkerKind req) (q_wl_ShardID req)"
      "TrimSpace (q_wl_OwnerID req') \<noteq> TrimSpace (q_wl_OwnerID req)" "now' < now + q_wl_TTL req"
  shows "lease_holder (fold lease_step es r1) (WorkerLeaseID (q_wl_WorkerKind req) (q_wl_ShardID req)) =
           Some (TrimSpace (q_wl_OwnerID req), now + q_wl_TTL req) \<and>
         isl (fst (AcquireWorkerLease now' req' (fold lease_step es r1)))"
proof -
  have held: "lease_holder r1 (WorkerLeaseID (q_wl_WorkerKind req) (q_wl_ShardID req)) =
      Some (TrimSpace (q_wl_OwnerID req), now + q_wl_TTL req)"
    using acquired
    by (auto simp: AcquireWorkerLease_def BuildWorkerLease_def lease_holder_def Let_def split: if_splits sum.splits)
  show ?thesis
    using worker_lease.fold_other [OF held others]
      worker_lease.fold_no_grant [OF held others, of "LeaseAcquire now' req'"] rival by simp
qed

theorem worker_lease_exclusive_witness:
  "let a = \<lparr>q_wl_WorkerKind = ''gc'', q_wl_ShardID = ''0'', q_wl_OwnerID = ''a'', q_wl_TTL = 10, q_wl_Cursor = []\<rparr>;
       b = \<lparr>q_wl_WorkerKind = ''gc'', q_wl_ShardID = ''0'', q_wl_OwnerID = ''b'', q_wl_TTL = 10, q_wl_Cursor = []\<rparr>;
       r1 = snd (AcquireWorkerLease 100 a (NewWithClock 0))
   in isl (fst (AcquireWorkerLease 109 b (fold lease_step [LeaseAcquire 105 b] r1)))"
proof -
  let ?a = "\<lparr>q_wl_WorkerKind = ''gc'', q_wl_ShardID = ''0'', q_wl_OwnerID = ''a'', q_wl_TTL = 10, q_wl_Cursor = []\<rparr>"
  let ?b = "\<lparr>q_wl_WorkerKind = ''gc'', q_wl_ShardID = ''0'', q_wl_OwnerID = ''b'', q_wl_TTL = 10, q_wl_Cursor = []\<rparr>"
  have trim: "TrimSpace ''gc'' = ''gc''" "TrimSpace ''0'' = ''0''" "TrimSpace ''a'' = ''a''" "TrimSpace ''b'' = ''b''"
    by code_simp+
  obtain lease where acq: "AcquireWorkerLease 100 ?a (NewWithClock 0) = (Inr lease, snd (AcquireWorkerLease 100 ?a (NewWithClock 0)))"
    by (simp add: AcquireWorkerLease_def BuildWorkerLease_def trim NewWithClock_def Let_def zero_WorkerLease_def)
  show ?thesis
    unfolding Let_def using worker_lease_exclusive [OF acq, of "[LeaseAcquire 105 ?b]" ?b 109] by (simp add: trim)
qed

subsection \<open>Fencing\<close>

abbreviation lease_at :: "Repository \<Rightarrow> string \<Rightarrow> WorkerLease" where
  "lease_at r n \<equiv> map_get zero_WorkerLease (r_workerLeases r) n"


lemma word_inc:
  assumes "Suc (unat (g :: u64)) < 2 ^ 64"
  shows "g + 1 \<noteq> 0" "unat (g + 1) = Suc (unat g)"
proof -
  show "unat (g + 1) = Suc (unat g)" using assms by (simp add: unat_word_ariths)
  then show "g + 1 \<noteq> 0" by (metis nat.distinct(1) unat_0)
qed

lemma lease_step_generation:
  assumes "Suc (unat (wl_Generation (lease_at r n))) < 2 ^ 64"
  shows "(wl_Generation (lease_at (lease_step e r) n) = wl_Generation (lease_at r n) \<and>
      (wl_LeaseID (lease_at r n) \<noteq> [] \<longrightarrow> wl_LeaseID (lease_at (lease_step e r) n) \<noteq> [] \<and>
        wl_OwnerID (lease_at (lease_step e r) n) = wl_OwnerID (lease_at r n))) \<or>
    (unat (wl_Generation (lease_at (lease_step e r) n)) = Suc (unat (wl_Generation (lease_at r n))) \<and>
      wl_LeaseID (lease_at (lease_step e r) n) \<noteq> [])"
  using word_inc [OF assms]
  by (cases e) (auto simp: AcquireWorkerLease_def BuildWorkerLease_def ReleaseWorkerLease_def Let_def map_get_def
      split: option.splits if_splits)

text \<open>C18 (safety). Lease generations fence off former holders: along any sequence of lease
  calls the generation of a lease never falls, and whenever the lease has changed hands it is
  strictly larger than before (as long as the 64-bit counter does not wrap).\<close>

theorem lease_generation_fences:
  assumes "unat (wl_Generation (map_get zero_WorkerLease (r_workerLeases r) n)) + length es < 2 ^ 64"
  shows "let l = map_get zero_WorkerLease (r_workerLeases r) n;
             l' = map_get zero_WorkerLease (r_workerLeases (fold lease_step es r)) n
         in wl_Generation l \<le> wl_Generation l' \<and>
            (wl_LeaseID l \<noteq> [] \<and> wl_OwnerID l' \<noteq> wl_OwnerID l \<longrightarrow> wl_Generation l < wl_Generation l')"
  using assms unfolding Let_def
proof (induction es arbitrary: r)
  case Nil
  then show ?case by simp
next
  case (Cons e es)
  let ?r = "lease_step e r"
  have step: "(wl_Generation (lease_at ?r n) = wl_Generation (lease_at r n) \<and>
      (wl_LeaseID (lease_at r n) \<noteq> [] \<longrightarrow> wl_LeaseID (lease_at ?r n) \<noteq> [] \<and>
        wl_OwnerID (lease_at ?r n) = wl_OwnerID (lease_at r n))) \<or>
    (unat (wl_Generation (lease_at ?r n)) = Suc (unat (wl_Generation (lease_at r n))) \<and>
      wl_LeaseID (lease_at ?r n) \<noteq> [])"
    using Cons.prems by (intro lease_step_generation) simp
  then have "unat (wl_Generation (lease_at ?r n)) + length es < 2 ^ 64" using Cons.prems by auto
  note IH = Cons.IH [OF this]
  from step show ?case
  proof
    assume "wl_Generation (lease_at ?r n) = wl_Generation (lease_at r n) \<and>
      (wl_LeaseID (lease_at r n) \<noteq> [] \<longrightarrow> wl_LeaseID (lease_at ?r n) \<noteq> [] \<and>
        wl_OwnerID (lease_at ?r n) = wl_OwnerID (lease_at r n))"
    with IH show ?thesis by auto
  next
    assume "unat (wl_Generation (lease_at ?r n)) = Suc (unat (wl_Generation (lease_at r n))) \<and>
      wl_LeaseID (lease_at ?r n) \<noteq> []"
    then have "wl_Generation (lease_at r n) < wl_Generation (lease_at ?r n)" by (simp add: word_less_nat_alt)
    with IH show ?thesis by auto
  qed
qed

theorem lease_generation_fences_witness:
  "let a = \<lparr>q_wl_WorkerKind = ''gc'', q_wl_ShardID = ''0'', q_wl_OwnerID = ''a'', q_wl_TTL = 10, q_wl_Cursor = []\<rparr>;
       b = \<lparr>q_wl_WorkerKind = ''gc'', q_wl_ShardID = ''0'', q_wl_OwnerID = ''b'', q_wl_TTL = 10, q_wl_Cursor = []\<rparr>;
       r = lease_step (LeaseAcquire 100 a) (NewWithClock 0);
       r' = fold lease_step [LeaseAcquire 200 b] r
   in wl_Generation (map_get zero_WorkerLease (r_workerLeases r) ''gc/0'') <
      wl_Generation (map_get zero_WorkerLease (r_workerLeases r') ''gc/0'')"
proof -
  let ?a = "\<lparr>q_wl_WorkerKind = ''gc'', q_wl_ShardID = ''0'', q_wl_OwnerID = ''a'', q_wl_TTL = 10, q_wl_Cursor = []\<rparr>"
  let ?b = "\<lparr>q_wl_WorkerKind = ''gc'', q_wl_ShardID = ''0'', q_wl_OwnerID = ''b'', q_wl_TTL = 10, q_wl_Cursor = []\<rparr>"
  let ?r = "lease_step (LeaseAcquire 100 ?a) (NewWithClock 0)"
  have "wl_Generation (lease_at ?r ''gc/0'') = 1" by code_simp
  then have "unat (wl_Generation (lease_at ?r ''gc/0'')) + length [LeaseAcquire 200 ?b] < 2 ^ 64" by simp
  moreover have "wl_LeaseID (lease_at ?r ''gc/0'') \<noteq> []" by code_simp
  moreover have "wl_OwnerID (lease_at (fold lease_step [LeaseAcquire 200 ?b] ?r) ''gc/0'') \<noteq> wl_OwnerID (lease_at ?r ''gc/0'')"
    by code_simp
  ultimately show ?thesis
    unfolding Let_def using lease_generation_fences [of ?r "''gc/0''" "[LeaseAcquire 200 ?b]"] unfolding Let_def by blast
qed

text \<open>The lease id joins kind and shard with a slash that neither part excludes, so two
  different shards can share one lease.\<close>

theorem lease_id_collision:
  "WorkerLeaseID ''a/b'' ''c'' = WorkerLeaseID ''a'' ''b/c''"
  by code_simp

end
