(* ===== verification/Import.thy ===== *)
theory Import
  imports SharedObjects Coordination AuditLog Tenants
begin

text \<open>
  \<open>ImportOperationalMetadata\<close> of \<open>internal/meta/memory/repository.go\<close>: restoring the
  operational records of another repository. The request is validated as a whole first, then
  every list is appended or stored and the counters are moved past the imported identifiers.
\<close>

section \<open>Validation\<close>

fun check_new :: "('a \<Rightarrow> error option) \<Rightarrow> ('a \<Rightarrow> 'k) \<Rightarrow> ('k \<Rightarrow> bool) \<Rightarrow> 'k list \<Rightarrow> 'a list \<Rightarrow> error option" where
  \<comment> \<open>the loop over one list of the request: each record is checked, not repeated in the request
    and not already stored\<close>
  "check_new check key taken seen [] = None"
| "check_new check key taken seen (x # xs) =
     (case check x of
        Some e \<Rightarrow> Some e
      | None \<Rightarrow>
          if key x \<in> set seen \<or> taken (key x) then Some ErrAlreadyExists
          else check_new check key taken (key x # seen) xs)"

definition required :: "string list \<Rightarrow> error option" where
  "required texts = (if [] \<in> set (map TrimSpace texts) then Some ErrInvalidArgument else None)"

definition check_lease :: "WorkerLease \<Rightarrow> error option" where
  "check_lease lease =
     (if TrimSpace (wl_LeaseID lease) = [] \<or> TrimSpace (wl_WorkerKind lease) = [] \<or> TrimSpace (wl_ShardID lease) = []
      then Some ErrInvalidArgument
      else if TrimSpace (wl_LeaseID lease) \<noteq> WorkerLeaseID (wl_WorkerKind lease) (wl_ShardID lease)
      then Some ErrInvalidArgument else None)"

fun first_error :: "error option list \<Rightarrow> error option" where
  "first_error [] = None"
| "first_error (None # rest) = first_error rest"
| "first_error (Some e # rest) = Some e"

definition validateOperationalMetadataImportLocked ::
  "ImportOperationalMetadataRequest \<Rightarrow> Repository \<Rightarrow> error option" where
  "validateOperationalMetadataImportLocked req r =
     first_error
       [case q_im_MetadataSchema req of None \<Rightarrow> None | Some schema \<Rightarrow> ValidateMetadataSchemaRecord schema,
        check_new (\<lambda>x. required [mo_OperationID x]) (\<lambda>x. TrimSpace (mo_OperationID x))
          (\<lambda>i. i \<in> set (map mo_OperationID (r_migrationOps r))) [] (q_im_MetadataMigrationOperations req),
        check_new (\<lambda>x. required [kk_KeyID x]) (\<lambda>x. TrimSpace (kk_KeyID x))
          (\<lambda>i. map_of (r_kmsKeys r) i \<noteq> None) [] (q_im_KMSKeys req),
        check_new (\<lambda>x. required [ae_EventID x, ae_EventHash x]) ae_EventID
          (\<lambda>i. i \<in> set (map ae_EventID (r_auditEvents r))) [] (q_im_AuditEvents req),
        check_new (\<lambda>x. required [gop_OperationID x]) gop_OperationID
          (\<lambda>i. i \<in> set (map gop_OperationID (r_gcOperations r))) [] (q_im_GCOperations req),
        check_new (\<lambda>x. required [dop_OperationID x]) dop_OperationID
          (\<lambda>i. i \<in> set (map dop_OperationID (r_dedupeOps r))) [] (q_im_DedupeOperations req),
        check_new (\<lambda>x. required [so_SharedObjectID x]) so_SharedObjectID
          (\<lambda>i. map_of (r_sharedObjects r) i \<noteq> None) [] (q_im_SharedObjects req),
        check_new (\<lambda>x. required [sr_ReleaseID x, sr_SharedObjectID x, sr_SegmentID x])
          (\<lambda>x. (sr_SharedObjectID x, sr_SegmentID x)) (\<lambda>k. map_of (r_sharedReleases r) k \<noteq> None) []
          (q_im_SharedObjectReleases req),
        check_new (\<lambda>x. required [vp_PoolID x]) (\<lambda>x. TrimSpace (vp_PoolID x))
          (\<lambda>i. map_of (r_volumePools r) i \<noteq> None) [] (q_im_VolumePools req),
        check_new (\<lambda>x. required [vop_OperationID x]) (\<lambda>x. TrimSpace (vop_OperationID x))
          (\<lambda>i. i \<in> set (map vop_OperationID (r_drainOps r))) [] (q_im_VolumeDrainOperations req),
        check_new check_lease (\<lambda>x. TrimSpace (wl_LeaseID x))
          (\<lambda>i. map_of (r_workerLeases r) i \<noteq> None) [] (q_im_WorkerLeases req),
        check_new (\<lambda>x. required [wop_OperationID x]) (\<lambda>x. TrimSpace (wop_OperationID x))
          (\<lambda>i. i \<in> set (map wop_OperationID (r_workerOps r))) [] (q_im_WorkerOperations req)]"

definition operationalMetadataEmptyLocked :: "Repository \<Rightarrow> bool" where
  "operationalMetadataEmptyLocked r \<longleftrightarrow>
     r_kmsKeys r = [] \<and> r_auditEvents r = [] \<and> r_migrationOps r = [] \<and> r_gcOperations r = [] \<and>
     r_dedupeOps r = [] \<and> r_sharedObjects r = [] \<and> r_sharedReleases r = [] \<and> r_volumePools r = [] \<and>
     r_drainOps r = [] \<and> r_workerLeases r = [] \<and> r_workerOps r = []"

definition numericIDSuffix :: "string \<Rightarrow> string \<Rightarrow> int" where
  "numericIDSuffix i prefix =
     (let suffix = TrimPrefix i prefix
      in if suffix = i \<or> suffix = [] then 0
         else case Atoi suffix of None \<Rightarrow> 0 | Some value \<Rightarrow> value)"

section \<open>The import\<close>

definition put_all :: "('a \<Rightarrow> 'k \<times> 'v) \<Rightarrow> 'a list \<Rightarrow> ('k, 'v) gomap \<Rightarrow> ('k, 'v) gomap" where
  "put_all kv xs m = fold (\<lambda>x. case kv x of (k, v) \<Rightarrow> map_put k v) xs m"

definition max_suffix :: "string \<Rightarrow> ('a \<Rightarrow> string) \<Rightarrow> 'a list \<Rightarrow> int \<Rightarrow> int" where
  "max_suffix prefix opid xs n = fold (\<lambda>x n. max n (numericIDSuffix (opid x) prefix)) xs n"

definition importRecords :: "ImportOperationalMetadataRequest \<Rightarrow> Repository \<Rightarrow> Repository" where
  "importRecords req r =
     r\<lparr>r_metadataSchema := (case q_im_MetadataSchema req of None \<Rightarrow> r_metadataSchema r | Some schema \<Rightarrow> schema),
       r_migrationOps := r_migrationOps r @ map CloneMetadataMigrationOperationRecord (q_im_MetadataMigrationOperations req),
       r_nextMigrationOpID := max_suffix ''metadata-migration-'' mo_OperationID (q_im_MetadataMigrationOperations req) (r_nextMigrationOpID r),
       r_auditEvents := r_auditEvents r @ q_im_AuditEvents req,
       r_auditHeadHash := (if q_im_AuditEvents req = [] then r_auditHeadHash r else ae_EventHash (last (q_im_AuditEvents req))),
       r_nextAuditID := max_suffix ''audit-'' ae_EventID (q_im_AuditEvents req) (r_nextAuditID r),
       r_kmsKeys := put_all (\<lambda>x. (TrimSpace (kk_KeyID x), x\<lparr>kk_KeyID := TrimSpace (kk_KeyID x),
         kk_State := NormalizeKMSKeyState (kk_State x)\<rparr>)) (q_im_KMSKeys req) (r_kmsKeys r),
       r_gcOperations := r_gcOperations r @ q_im_GCOperations req,
       r_nextGCOpID := max_suffix ''gc-'' gop_OperationID (q_im_GCOperations req) (r_nextGCOpID r),
       r_dedupeOps := r_dedupeOps r @ q_im_DedupeOperations req,
       r_nextDedupeOpID := max_suffix ''dedupe-'' dop_OperationID (q_im_DedupeOperations req) (r_nextDedupeOpID r),
       r_sharedObjects := put_all (\<lambda>x. (so_SharedObjectID x, x)) (q_im_SharedObjects req) (r_sharedObjects r),
       r_sharedReleases := put_all (\<lambda>x. ((sr_SharedObjectID x, sr_SegmentID x), x)) (q_im_SharedObjectReleases req) (r_sharedReleases r),
       r_volumePools := put_all (\<lambda>x. (vp_PoolID x, x)) (q_im_VolumePools req) (r_volumePools r),
       r_drainOps := r_drainOps r @ map CloneVolumeDrainOperationRecord (q_im_VolumeDrainOperations req),
       r_nextDrainOpID := max_suffix ''drain-'' vop_OperationID (q_im_VolumeDrainOperations req) (r_nextDrainOpID r),
       r_workerLeases := put_all (\<lambda>x. (WorkerLeaseID (wl_WorkerKind x) (wl_ShardID x), x)) (q_im_WorkerLeases req) (r_workerLeases r),
       r_workerOps := r_workerOps r @ q_im_WorkerOperations req,
       r_nextWorkerOpID := max_suffix ''worker-op-'' wop_OperationID (q_im_WorkerOperations req) (r_nextWorkerOpID r)\<rparr>"

definition ImportOperationalMetadata ::
  "ImportOperationalMetadataRequest \<Rightarrow> Repository \<Rightarrow> ImportOperationalMetadataResult result \<times> Repository" where
  "ImportOperationalMetadata req r =
     (if q_im_RequireEmptyTarget req \<and> \<not> operationalMetadataEmptyLocked r then (Inl ErrAlreadyExists, r)
      else case validateOperationalMetadataImportLocked req r of
        Some e \<Rightarrow> (Inl e, r)
      | None \<Rightarrow>
          (Inr \<lparr>imr_MetadataSchema = (if q_im_MetadataSchema req \<noteq> None then 1 else 0),
                imr_MetadataMigrationOperations = int (length (q_im_MetadataMigrationOperations req)),
                imr_KMSKeys = int (length (q_im_KMSKeys req)), imr_AuditEvents = int (length (q_im_AuditEvents req)),
                imr_GCOperations = int (length (q_im_GCOperations req)),
                imr_DedupeOperations = int (length (q_im_DedupeOperations req)),
                imr_SharedObjects = int (length (q_im_SharedObjects req)),
                imr_SharedObjectReleases = int (length (q_im_SharedObjectReleases req)),
                imr_VolumePools = int (length (q_im_VolumePools req)),
                imr_VolumeDrainOperations = int (length (q_im_VolumeDrainOperations req)),
                imr_WorkerLeases = int (length (q_im_WorkerLeases req)),
                imr_WorkerOperations = int (length (q_im_WorkerOperations req))\<rparr>,
           importRecords req r))"

section \<open>Imported and new identifiers\<close>

lemma check_new_ok:
  "check_new check key taken seen xs = None \<Longrightarrow>
     distinct (map key xs) \<and> (\<forall>x \<in> set xs. check x = None \<and> \<not> taken (key x) \<and> key x \<notin> set seen)"
proof (induction xs arbitrary: seen)
  case Nil
  then show ?case by simp
next
  case (Cons x xs)
  have x: "check x = None" "key x \<notin> set seen" "\<not> taken (key x)" and rest: "check_new check key taken (key x # seen) xs = None"
    using Cons.prems by (simp_all split: option.splits if_splits)
  have "distinct (map key xs) \<and> (\<forall>y \<in> set xs. check y = None \<and> \<not> taken (key y) \<and> key y \<notin> set (key x # seen))"
    by (rule Cons.IH [OF rest])
  with x show ?case by auto
qed

lemma first_error_None: "first_error es = None \<longleftrightarrow> (\<forall>e \<in> set es. e = None)"
  by (induction es rule: first_error.induct) auto

lemma max_suffix_upper:
  "n \<le> max_suffix prefix opid xs n \<and> (\<forall>x \<in> set xs. numericIDSuffix (opid x) prefix \<le> max_suffix prefix opid xs n)"
  unfolding max_suffix_def
proof (induction xs arbitrary: n)
  case Nil
  then show ?case by simp
next
  case (Cons x xs)
  let ?n = "max n (numericIDSuffix (opid x) prefix)"
  have "?n \<le> fold (\<lambda>x n. max n (numericIDSuffix (opid x) prefix)) xs ?n"
    "\<forall>x \<in> set xs. numericIDSuffix (opid x) prefix \<le> fold (\<lambda>x n. max n (numericIDSuffix (opid x) prefix)) xs ?n"
    using Cons.IH by blast+
  then show ?case by simp
qed

lemma numericIDSuffix_numbered:
  assumes "prefix \<noteq> []" "0 \<le> n" "n < 2 ^ 63"
  shows "numericIDSuffix (prefix @ fmt_020d n) prefix = n"
  using assms last_fmt_020d [of n] Atoi_fmt_020d [of n]
  by (simp add: numericIDSuffix_def TrimPrefix_def Let_def)

definition ids_below :: "string \<Rightarrow> ('o \<Rightarrow> string) \<Rightarrow> int \<Rightarrow> 'o list \<Rightarrow> bool" where
  \<comment> \<open>identifiers are distinct and the counter is past every number among them\<close>
  "ids_below prefix opid n ops \<longleftrightarrow>
     0 \<le> n \<and> distinct (map opid ops) \<and> (\<forall>x \<in> set ops. numericIDSuffix (opid x) prefix \<le> n)"

lemma ids_below_Nil [simp]: "ids_below prefix opid 0 []"
  by (simp add: ids_below_def)

lemma ids_below_import:
  assumes "ids_below prefix opid n ops" "check_new check opid (\<lambda>i. i \<in> set (map opid ops)) [] xs = None"
  shows "ids_below prefix opid (max_suffix prefix opid xs n) (ops @ xs)"
proof -
  let ?n = "max_suffix prefix opid xs n"
  have n: "n \<le> ?n" and new: "\<forall>x \<in> set xs. numericIDSuffix (opid x) prefix \<le> ?n"
    using max_suffix_upper [of n prefix opid xs] by blast+
  have d: "distinct (map opid xs)" and "\<forall>x \<in> set xs. opid x \<notin> set (map opid ops)"
    using check_new_ok [OF assms(2)] by blast+
  then have "set (map opid ops) \<inter> opid ` set xs = {}" by blast
  with d have "distinct (map opid (ops @ xs))" using assms(1) by (simp add: ids_below_def)
  moreover have "\<forall>x \<in> set (ops @ xs). numericIDSuffix (opid x) prefix \<le> ?n"
    using assms(1) n new unfolding ids_below_def set_append by (meson UnE order_trans)
  ultimately show ?thesis using assms(1) n by (simp add: ids_below_def)
qed

context op_log
begin

lemma ids_below_put:
  assumes ok: "ids_below prefix opid (counter r) (records r)" and prefix: "prefix \<noteq> []"
    and op: "put now q r = (res, r')" and bound: "counter r + 1 < 2 ^ 63"
  shows "ids_below prefix opid (counter r') (records r')"
proof (cases res)
  case (Inl e)
  have "0 \<le> counter r" using ok by (simp add: ids_below_def)
  then have "- (2 ^ 63) \<le> counter r" by (rule order_trans [rotated]) simp
  with ok put_error [of now q r e r'] op bound Inl show ?thesis by simp
next
  case (Inr x)
  have n: "0 \<le> counter r" using ok by (simp add: ids_below_def)
  note new = put_ok [OF op [unfolded Inr]]
  have c: "counter r' = counter r + 1" using new n bound by (simp add: wrap64_id)
  have "numericIDSuffix (opid x) prefix = counter r + 1"
    using new n bound c by (simp add: numericIDSuffix_numbered [OF prefix])
  moreover have "\<forall>y \<in> set (records r). numericIDSuffix (opid y) prefix < counter r + 1"
    using ok by (auto simp: ids_below_def)
  ultimately have "\<forall>y \<in> set (records r). opid y \<noteq> opid x" by fastforce
  moreover have "\<forall>y \<in> set (records r). numericIDSuffix (opid y) prefix \<le> counter r + 1"
    using ok by (auto simp: ids_below_def)
  ultimately show ?thesis
    using ok new c n \<open>numericIDSuffix (opid x) prefix = counter r + 1\<close> by (auto simp: ids_below_def)
qed

end


definition demo_import :: ImportOperationalMetadataRequest where
  "demo_import = \<lparr>q_im_MetadataSchema = None, q_im_MetadataMigrationOperations = [], q_im_KMSKeys = [],
     q_im_AuditEvents = [],
     q_im_GCOperations = [\<lparr>gop_OperationID = ''gc-7'', gop_ResumeOfOperationID = [], gop_Status = GCOperationSucceeded,
        gop_StartedAt = 0, gop_FinishedAt = 0, gop_Scanned = 0, gop_Deleted = 0, gop_Skipped = 0, gop_Retryable = 0,
        gop_Attempts = [], gop_CreatedAt = 0\<rparr>],
     q_im_DedupeOperations = [], q_im_SharedObjects = [], q_im_SharedObjectReleases = [],
     q_im_VolumePools = [], q_im_VolumeDrainOperations = [], q_im_WorkerLeases = [], q_im_WorkerOperations = [],
     q_im_RequireEmptyTarget = True\<rparr>"

definition demo_gc_request :: PutGCOperationRequest where
  "demo_gc_request = \<lparr>q_go_ResumeOfOperationID = [], q_go_Status = GCOperationStatus_Unset, q_go_StartedAt = 0,
     q_go_FinishedAt = 0, q_go_Scanned = 0, q_go_Deleted = 0, q_go_Skipped = 0, q_go_Retryable = 1, q_go_Attempts = []\<rparr>"


text \<open>A volume pool is validated under its trimmed id but stored under the id as given, so a
  pool imported with surrounding blanks cannot be looked up afterwards.\<close>

theorem import_untrimmed_pool_unreachable:
  "let req = demo_import\<lparr>q_im_VolumePools := [zero_VolumePool\<lparr>vp_PoolID := '' p''\<rparr>]\<rparr>;
       (res, r) = ImportOperationalMetadata req (NewWithClock 0)
   in \<not> isl res \<and> GetVolumePool '' p'' r = Inl ErrNotFound \<and> GetVolumePool ''p'' r = Inl ErrNotFound"
  by code_simp

text \<open>The hash chain of imported audit events is not checked: an event whose hash does not
  match its content is accepted.\<close>

definition demo_forged :: AuditEvent where
  "demo_forged = zero_AuditEvent\<lparr>ae_EventID := ''audit-1'', ae_EventHash := ''forged''\<rparr>"

theorem import_accepts_forged_audit:
  "auditEventHash demo_env demo_forged \<noteq> ae_EventHash demo_forged \<and>
   (let (res, r) = ImportOperationalMetadata (demo_import\<lparr>q_im_AuditEvents := [demo_forged]\<rparr>) (NewWithClock 0)
    in \<not> isl res \<and> ae_EventHash (last (r_auditEvents r)) = ''forged'')"
  by code_simp

end
