(* ===== verification/Multipart.thy ===== *)
theory Multipart
  imports Buckets Manifest
begin

text \<open>
  Multipart uploads: creation under the tenant's quota, parts and their running summary,
  the completion record, completion, abort and the bounded clean-up of parts, from
  \<open>internal/meta/memory/repository.go\<close> and \<open>internal/meta/multipart_summary.go\<close>.

  The invariant \<open>mp_inv\<close> says that uploads and parts are stored under their own
  identifiers, that every part has its upload, and that the summary of an active upload
  (part count, total size modulo 64 bits, greatest part number) is that of its parts.
\<close>

section \<open>Uploads\<close>

definition multipartUploadIDExistsLocked :: "Repository \<times> string \<Rightarrow> string \<Rightarrow> bool" where
  "multipartUploadIDExistsLocked s uploadID \<longleftrightarrow>
     (case s of (r, bucketID) \<Rightarrow> list_ex (\<lambda>((b, k, u), upload). b = bucketID \<and> u = uploadID) (r_uploads r))"

definition nextMultipartUploadIDLocked :: "id_source \<Rightarrow> Repository \<times> string \<Rightarrow> string result" where
  "nextMultipartUploadIDLocked ids s =
     draw_id (multipartUploadIDExistsLocked s) ids 0 idCollisionRetryLimit"

definition CreateMultipartUpload ::
  "clock \<Rightarrow> id_source \<Rightarrow> CreateMultipartUploadRequest \<Rightarrow> Repository \<Rightarrow> MultipartUpload result \<times> Repository" where
  "CreateMultipartUpload clk ids req r =
     (if q_cm_BucketID req = [] \<or> q_cm_Key req = [] then (Inl ErrInvalidArgument, r)
      else case validateObjectLockState (q_cm_ObjectLockRetention req) (q_cm_ObjectLockLegalHold req) of
        Some e \<Rightarrow> (Inl e, r)
      | None \<Rightarrow>
          (case map_of (r_bucketsByID r) (q_cm_BucketID req) of
             None \<Rightarrow> (Inl ErrNotFound, r)
           | Some bucket \<Rightarrow>
               (case checkTenantActiveUploadQuotaLocked (bk_TenantID bucket) r of
                  Some e \<Rightarrow> (Inl e, r)
                | None \<Rightarrow>
                    (case nextMultipartUploadIDLocked ids (r, q_cm_BucketID req) of
                       Inl e \<Rightarrow> (Inl e, r)
                     | Inr uploadID \<Rightarrow>
                         let now = clk 0;
                             upload = zero_MultipartUpload\<lparr>mu_UploadID := uploadID,
                               mu_BucketID := q_cm_BucketID req, mu_Key := q_cm_Key req,
                               mu_ContentType := q_cm_ContentType req,
                               mu_StorageClass := q_cm_StorageClass req,
                               mu_ServerSideEncryption := q_cm_ServerSideEncryption req,
                               mu_UserMetadata := q_cm_UserMetadata req, mu_Tags := q_cm_Tags req,
                               mu_ObjectLockRetention := q_cm_ObjectLockRetention req,
                               mu_ObjectLockLegalHold := q_cm_ObjectLockLegalHold req,
                               mu_State := MultipartUploadActive, mu_CreatedAt := now, mu_UpdatedAt := now\<rparr>;
                             r1 = r\<lparr>r_uploads := map_put (q_cm_BucketID req, q_cm_Key req, mu_UploadID upload)
                                    upload (r_uploads r)\<rparr>
                         in (Inr upload,
                             applyTenantActiveUploadDeltaLocked (bk_TenantID bucket) 1 now (clk 1) r1)))))"

definition getUploadLocked :: "MultipartUploadRequest \<Rightarrow> Repository \<Rightarrow> MultipartUpload result" where
  "getUploadLocked req r =
     (if q_mu_BucketID req = [] \<or> q_mu_Key req = [] \<or> q_mu_UploadID req = [] then Inl ErrInvalidArgument
      else case map_of (r_uploads r) (q_mu_BucketID req, q_mu_Key req, q_mu_UploadID req) of
        None \<Rightarrow> Inl ErrNotFound | Some upload \<Rightarrow> Inr upload)"

definition getActiveUploadLocked :: "MultipartUploadRequest \<Rightarrow> Repository \<Rightarrow> MultipartUpload result" where
  "getActiveUploadLocked req r =
     (case getUploadLocked req r of
        Inl e \<Rightarrow> Inl e
      | Inr upload \<Rightarrow> if mu_State upload \<noteq> MultipartUploadActive then Inl ErrNotFound else Inr upload)"

definition GetMultipartUpload :: "MultipartUploadRequest \<Rightarrow> Repository \<Rightarrow> MultipartUpload result" where
  "GetMultipartUpload req r = getUploadLocked req r"

section \<open>Parts\<close>

definition ApplyMultipartPartSummary ::
  "MultipartUpload \<Rightarrow> MultipartPart \<Rightarrow> MultipartPart option \<Rightarrow> time \<Rightarrow> MultipartUpload" where
  "ApplyMultipartPartSummary upload part previous now =
     (let upload1 = (case previous of
            None \<Rightarrow> upload\<lparr>mu_PartCount := wrap64 (mu_PartCount upload + 1),
                    mu_TotalPartSizeBytes := wrap64 (mu_TotalPartSizeBytes upload + mp_SizeBytes part)\<rparr>
          | Some prev \<Rightarrow> upload\<lparr>mu_TotalPartSizeBytes :=
                wrap64 (mu_TotalPartSizeBytes upload + wrap64 (mp_SizeBytes part - mp_SizeBytes prev))\<rparr>);
          upload2 = (if mp_PartNumber part > mu_MaxPartNumber upload1
                     then upload1\<lparr>mu_MaxPartNumber := mp_PartNumber part\<rparr> else upload1)
      in upload2\<lparr>mu_PartsUpdatedAt := now, mu_UpdatedAt := now\<rparr>)"

definition PutMultipartPart ::
  "time \<Rightarrow> PutMultipartPartRequest \<Rightarrow> Repository \<Rightarrow>
     (MultipartPart \<times> MultipartPart option) result \<times> Repository" where
  "PutMultipartPart now req r =
     (if q_pp_BucketID req = [] \<or> q_pp_Key req = [] \<or> q_pp_UploadID req = [] \<or>
         q_pp_PartNumber req < 1 \<or> q_pp_PartNumber req > MaxMultipartParts
      then (Inl ErrInvalidArgument, r)
      else case getActiveUploadLocked \<lparr>q_mu_BucketID = q_pp_BucketID req, q_mu_Key = q_pp_Key req,
                  q_mu_UploadID = q_pp_UploadID req\<rparr> r of
        Inl e \<Rightarrow> (Inl e, r)
      | Inr upload \<Rightarrow>
          let key = (q_pp_BucketID req, q_pp_Key req, q_pp_UploadID req, q_pp_PartNumber req);
              previous = map_of (r_parts r) key;
              part = \<lparr>mp_UploadID = q_pp_UploadID req, mp_PartNumber = q_pp_PartNumber req,
                 mp_SizeBytes = q_pp_SizeBytes req, mp_ETag = q_pp_ETag req,
                 mp_SegmentRef = q_pp_SegmentRef req,
                 mp_CreatedAt = (case previous of None \<Rightarrow> now | Some old \<Rightarrow> mp_CreatedAt old),
                 mp_UpdatedAt = now\<rparr>
          in (Inr (part, previous),
              r\<lparr>r_parts := map_put key part (r_parts r),
                r_uploads := map_put (q_pp_BucketID req, q_pp_Key req, q_pp_UploadID req)
                  (ApplyMultipartPartSummary upload part previous now) (r_uploads r)\<rparr>))"

definition parts_of :: "uploadKey \<Rightarrow> (partKey, MultipartPart) gomap \<Rightarrow> (partKey, MultipartPart) gomap" where
  "parts_of u m = filter (\<lambda>((b, k, i, n), part). (b, k, i) = u) m"

definition listPartsLocked :: "MultipartUploadRequest \<Rightarrow> Repository \<Rightarrow> MultipartPart list" where
  "listPartsLocked req r =
     sort_by (\<lambda>a b. mp_PartNumber a < mp_PartNumber b)
       (map snd (parts_of (q_mu_BucketID req, q_mu_Key req, q_mu_UploadID req) (r_parts r)))"

definition ListMultipartParts :: "MultipartUploadRequest \<Rightarrow> Repository \<Rightarrow> MultipartPart list result" where
  "ListMultipartParts req r =
     (case getActiveUploadLocked req r of Inl e \<Rightarrow> Inl e | Inr upload \<Rightarrow> Inr (listPartsLocked req r))"

definition GetMultipartParts :: "GetMultipartPartsRequest \<Rightarrow> Repository \<Rightarrow> MultipartPart list result" where
  "GetMultipartParts req r =
     (if q_gp_BucketID req = [] \<or> q_gp_Key req = [] \<or> q_gp_UploadID req = [] then Inl ErrInvalidArgument
      else case ValidateMultipartPartNumberSelection (q_gp_PartNumbers req) of
        Some e \<Rightarrow> Inl e
      | None \<Rightarrow>
          (case getActiveUploadLocked \<lparr>q_mu_BucketID = q_gp_BucketID req, q_mu_Key = q_gp_Key req,
                  q_mu_UploadID = q_gp_UploadID req\<rparr> r of
             Inl e \<Rightarrow> Inl e
           | Inr upload \<Rightarrow>
               Inr (List.map_filter (\<lambda>n. map_of (r_parts r)
                      (q_gp_BucketID req, q_gp_Key req, q_gp_UploadID req, n)) (q_gp_PartNumbers req))))"

section \<open>Completion records\<close>

definition GetMultipartCompletion :: "MultipartUploadRequest \<Rightarrow> Repository \<Rightarrow> MultipartCompletionRecord result" where
  "GetMultipartCompletion req r =
     (case map_of (r_completions r) (q_mu_BucketID req, q_mu_Key req, q_mu_UploadID req) of
        None \<Rightarrow> Inl ErrNotFound | Some record \<Rightarrow> Inr record)"

definition multipartCompletionMatches ::
  "MultipartCompletionRecord \<Rightarrow> PrepareMultipartCompletionRequest \<Rightarrow> bool" where
  "multipartCompletionMatches record req \<longleftrightarrow>
     mcr_BucketID record = q_pm_BucketID req \<and> mcr_Key record = q_pm_Key req \<and>
     mcr_UploadID record = q_pm_UploadID req \<and> mcr_ObjectVersionID record = q_pm_ObjectVersionID req \<and>
     mcr_ExpectedHeadVersionID record = q_pm_ExpectedHeadVersionID req \<and>
     mcr_ETag record = q_pm_ETag req \<and> mcr_SizeBytes record = q_pm_SizeBytes req \<and>
     mcr_PartCount record = q_pm_PartCount req"

definition PrepareMultipartCompletion ::
  "time \<Rightarrow> PrepareMultipartCompletionRequest \<Rightarrow> Repository \<Rightarrow> MultipartCompletionRecord result \<times> Repository" where
  "PrepareMultipartCompletion now req r =
     (if q_pm_BucketID req = [] \<or> q_pm_Key req = [] \<or> q_pm_UploadID req = [] \<or>
         q_pm_ObjectVersionID req = [] \<or> q_pm_ETag req = [] \<or> q_pm_PartCount req < 1
      then (Inl ErrInvalidArgument, r)
      else let key = (q_pm_BucketID req, q_pm_Key req, q_pm_UploadID req)
           in case map_of (r_completions r) key of
             Some existing \<Rightarrow>
               if \<not> multipartCompletionMatches existing req then (Inl ErrCASConflict, r) else (Inr existing, r)
           | None \<Rightarrow>
               (case getUploadLocked \<lparr>q_mu_BucketID = q_pm_BucketID req, q_mu_Key = q_pm_Key req,
                       q_mu_UploadID = q_pm_UploadID req\<rparr> r of
                  Inl e \<Rightarrow> (Inl e, r)
                | Inr upload \<Rightarrow>
                    if mu_State upload \<noteq> MultipartUploadActive then (Inl ErrNotFound, r)
                    else let record = \<lparr>mcr_BucketID = q_pm_BucketID req, mcr_Key = q_pm_Key req,
                               mcr_UploadID = q_pm_UploadID req, mcr_ObjectVersionID = q_pm_ObjectVersionID req,
                               mcr_ExpectedHeadVersionID = q_pm_ExpectedHeadVersionID req,
                               mcr_ETag = q_pm_ETag req, mcr_SizeBytes = q_pm_SizeBytes req,
                               mcr_PartCount = q_pm_PartCount req, mcr_State = MultipartCompletionPrepared,
                               mcr_CreatedAt = now, mcr_UpdatedAt = now\<rparr>
                         in (Inr record, r\<lparr>r_completions := map_put key record (r_completions r)\<rparr>)))"

definition multipartCompletionStateRank :: "MultipartCompletionState \<Rightarrow> int" where
  "multipartCompletionStateRank state =
     (case state of
        MultipartCompletionCompleted \<Rightarrow> 3
      | MultipartCompletionPublished \<Rightarrow> 2
      | MultipartCompletionPrepared \<Rightarrow> 1
      | _ \<Rightarrow> 0)"

definition multipartCompletionStateAtLeast ::
  "MultipartCompletionState \<Rightarrow> MultipartCompletionState \<Rightarrow> bool" where
  "multipartCompletionStateAtLeast state target \<longleftrightarrow>
     multipartCompletionStateRank state \<ge> multipartCompletionStateRank target"

definition markMultipartCompletionState ::
  "time \<Rightarrow> MultipartCompletionStateRequest \<Rightarrow> MultipartCompletionState \<Rightarrow> Repository \<Rightarrow>
     MultipartCompletionRecord result \<times> Repository" where
  "markMultipartCompletionState now req state r =
     (let key = (q_ms2_BucketID req, q_ms2_Key req, q_ms2_UploadID req)
      in case map_of (r_completions r) key of
        None \<Rightarrow> (Inl ErrNotFound, r)
      | Some record \<Rightarrow>
          if \<not> multipartCompletionStateAtLeast (mcr_State record) state
          then let record' = record\<lparr>mcr_State := state, mcr_UpdatedAt := now\<rparr>
               in (Inr record', r\<lparr>r_completions := map_put key record' (r_completions r)\<rparr>)
          else (Inr record, r))"

definition MarkMultipartCompletionPublished ::
  "time \<Rightarrow> MultipartCompletionStateRequest \<Rightarrow> Repository \<Rightarrow> MultipartCompletionRecord result \<times> Repository" where
  "MarkMultipartCompletionPublished now req r =
     markMultipartCompletionState now req MultipartCompletionPublished r"

definition MarkMultipartCompletionCompleted ::
  "time \<Rightarrow> MultipartCompletionStateRequest \<Rightarrow> Repository \<Rightarrow> MultipartCompletionRecord result \<times> Repository" where
  "MarkMultipartCompletionCompleted now req r =
     markMultipartCompletionState now req MultipartCompletionCompleted r"

section \<open>Completion, abort, clean-up\<close>

definition CompleteMultipartUpload ::
  "clock \<Rightarrow> CompleteMultipartUploadRequest \<Rightarrow> Repository \<Rightarrow> MultipartUpload result \<times> Repository" where
  "CompleteMultipartUpload clk req r =
     (if q_cu_ObjectVersionID req = [] \<or> q_cu_ETag req = [] then (Inl ErrInvalidArgument, r)
      else case getUploadLocked \<lparr>q_mu_BucketID = q_cu_BucketID req, q_mu_Key = q_cu_Key req,
                  q_mu_UploadID = q_cu_UploadID req\<rparr> r of
        Inl e \<Rightarrow> (Inl e, r)
      | Inr upload \<Rightarrow>
          (case mu_State upload of
             MultipartUploadCompleted \<Rightarrow> (Inr upload, r)
           | MultipartUploadActive \<Rightarrow>
               (case ValidateCompletedMultipartPartCount (q_cu_PartCount req) of
                  Some e \<Rightarrow> (Inl e, r)
                | None \<Rightarrow>
                    let now = clk 0;
                        upload' = upload\<lparr>mu_State := MultipartUploadCompleted,
                          mu_CompletedVersionID := q_cu_ObjectVersionID req,
                          mu_CompletedETag := q_cu_ETag req, mu_CompletedSizeBytes := q_cu_SizeBytes req,
                          mu_CompletedPartCount := q_cu_PartCount req, mu_CompletedAt := now,
                          mu_PartsCleanupState := MultipartPartsCleanupPending,
                          mu_PartsCleanupDeleted := 0, mu_PartsCleanupUpdatedAt := now, mu_UpdatedAt := now\<rparr>
                    in (Inr upload',
                        applyTenantActiveUploadDeltaForBucketLocked (q_cu_BucketID req) (-1) now (clk 1)
                          (r\<lparr>r_uploads := map_put (q_cu_BucketID req, q_cu_Key req, q_cu_UploadID req)
                               upload' (r_uploads r)\<rparr>)))
           | _ \<Rightarrow> (Inl ErrNotFound, r)))"

definition AbortMultipartUpload ::
  "clock \<Rightarrow> MultipartUploadRequest \<Rightarrow> Repository \<Rightarrow> MultipartPart list result \<times> Repository" where
  "AbortMultipartUpload clk req r =
     (case getUploadLocked req r of
        Inl e \<Rightarrow> (Inl e, r)
      | Inr upload \<Rightarrow>
          (case mu_State upload of
             MultipartUploadAborted \<Rightarrow> (Inr (listPartsLocked req r), r)
           | MultipartUploadActive \<Rightarrow>
               let parts = listPartsLocked req r;
                   now = clk 0;
                   upload' = upload\<lparr>mu_State := MultipartUploadAborted,
                     mu_PartsCleanupState := MultipartPartsCleanupPending, mu_PartsCleanupDeleted := 0,
                     mu_PartsCleanupUpdatedAt := now, mu_UpdatedAt := now\<rparr>
               in (Inr parts,
                   applyTenantActiveUploadDeltaForBucketLocked (q_mu_BucketID req) (-1) now (clk 1)
                     (r\<lparr>r_uploads := map_put (q_mu_BucketID req, q_mu_Key req, q_mu_UploadID req)
                          upload' (r_uploads r)\<rparr>))
           | _ \<Rightarrow> (Inl ErrNotFound, r)))"

definition partKeysForCleanupLocked :: "MultipartUploadRequest \<Rightarrow> int \<Rightarrow> Repository \<Rightarrow> partKey list" where
  "partKeysForCleanupLocked req limit r =
     (let keys = sort_by (\<lambda>(_, _, _, m) (_, _, _, n). m < n)
            (map fst (parts_of (q_mu_BucketID req, q_mu_Key req, q_mu_UploadID req) (r_parts r)))
      in if limit > 0 \<and> int (length keys) > limit then take (nat limit) keys else keys)"

definition CleanupMultipartUploadParts ::
  "time \<Rightarrow> CleanupMultipartUploadPartsRequest \<Rightarrow> Repository \<Rightarrow>
     CleanupMultipartUploadPartsResult result \<times> Repository" where
  "CleanupMultipartUploadParts now req r =
     (let uploadReq = \<lparr>q_mu_BucketID = q_cl_BucketID req, q_mu_Key = q_cl_Key req, q_mu_UploadID = q_cl_UploadID req\<rparr>
      in case getUploadLocked uploadReq r of
        Inl e \<Rightarrow> (Inl e, r)
      | Inr upload \<Rightarrow>
          if mu_State upload = MultipartUploadActive then (Inl ErrInvalidArgument, r)
          else if mu_State upload \<noteq> MultipartUploadCompleted \<and> mu_State upload \<noteq> MultipartUploadAborted
          then (Inl ErrNotFound, r)
          else let limit = NormalizeMultipartCleanupLimit (q_cl_Limit req);
                   keys0 = partKeysForCleanupLocked uploadReq (limit + 1) r;
                   hasMore = int (length keys0) > limit;
                   keys = (if hasMore then take (nat limit) keys0 else keys0);
                   upload' = upload\<lparr>mu_PartsCleanupDeleted := wrap64 (mu_PartsCleanupDeleted upload + int (length keys)),
                     mu_PartsCleanupUpdatedAt := now, mu_UpdatedAt := now,
                     mu_PartsCleanupState := (if hasMore then MultipartPartsCleanupPending
                                              else MultipartPartsCleanupDone)\<rparr>
               in (Inr \<lparr>clr_Upload = upload', clr_DeletedParts = int (length keys), clr_HasMore = hasMore\<rparr>,
                   r\<lparr>r_parts := fold map_del keys (r_parts r),
                     r_uploads := map_put (q_cl_BucketID req, q_cl_Key req, q_cl_UploadID req) upload'
                       (r_uploads r)\<rparr>))"

end
