(* ===== verification/MultipartInv.thy ===== *)
theory MultipartInv
  imports Multipart
begin

text \<open>
  The multipart invariant \<open>mp_inv\<close> and that every multipart operation keeps it; the
  upload life cycle (active, then completed or aborted for good); the monotone completion
  record; and that clean-up removes all parts after finitely many bounded calls.
\<close>

section \<open>Lists of parts under update\<close>

lemma filter_put_other:
  "(\<And>w. \<not> P (k, w)) \<Longrightarrow> filter P (map_put k v m) = filter P m"
  by (induction m) auto

lemma filter_del_other:
  "(\<And>w. \<not> P (k, w)) \<Longrightarrow> filter P (map_del k m) = filter P m"
  by (induction m) auto

lemma sum_filter_put:
  fixes f :: "'v \<Rightarrow> int"
  assumes "map_wf m" "\<And>w w'. P (k, w) = P (k, w')"
  shows "sum_list (map (\<lambda>p. f (snd p)) (filter P (map_put k v m))) =
    sum_list (map (\<lambda>p. f (snd p)) (filter P m)) +
    (if P (k, v) then f v - (case map_of m k of None \<Rightarrow> 0 | Some w \<Rightarrow> f w) else 0)"
  using assms(1)
proof (induction m)
  case Nil
  then show ?case by simp
next
  case (Cons p m)
  obtain x w where p: "p = (x, w)" by fastforce
  have wf: "map_wf m" and new: "map_of m x = None"
    using Cons.prems by (auto simp: map_wf_def p map_of_eq_None_iff)
  show ?case
  proof (cases "x = k")
    case True
    with p assms(2) [of w v] show ?thesis by simp
  next
    case False
    with Cons.IH [OF wf] p show ?thesis by simp
  qed
qed

lemma length_filter_put:
  assumes "map_wf m" "\<And>w w'. P (k, w) = P (k, w')"
  shows "int (length (filter P (map_put k v m))) =
    int (length (filter P m)) + (if P (k, v) \<and> map_of m k = None then 1 else 0)"
  using sum_filter_put [where m = m and P = P and k = k and f = "\<lambda>_. 1" and v = v, OF assms]
  by (simp add: sum_list_triv split: option.splits if_splits)

lemma parts_of_put_other: "(b, k, u) \<noteq> x \<Longrightarrow> parts_of x (map_put (b, k, u, n) part m) = parts_of x m"
  unfolding parts_of_def by (rule filter_put_other) simp

lemma fold_del_other: "(\<And>key w. key \<in> set keys \<Longrightarrow> \<not> P (key, w)) \<Longrightarrow> filter P (fold map_del keys m) = filter P m"
  by (induction keys arbitrary: m) (simp_all add: filter_del_other)

lemma map_of_fold_del: "map_of (fold map_del keys m) key = (if key \<in> set keys then None else map_of m key)"
  by (induction keys arbitrary: m) auto

lemma map_wf_fold_del [simp]: "map_wf m \<Longrightarrow> map_wf (fold map_del keys m)"
  by (induction keys arbitrary: m) auto

lemma fold_del_filter: "fold map_del keys m = filter (\<lambda>p. fst p \<notin> set keys) m"
proof (induction keys arbitrary: m)
  case Nil
  then show ?case by simp
next
  case (Cons x keys)
  have del: "map_del x m = filter (\<lambda>p. fst p \<noteq> x) m" by (induction m) auto
  show ?case unfolding fold_simps comp_apply Cons.IH del filter_filter by (rule filter_cong) auto
qed

lemma parts_of_mem: "((b, k, u, n), part) \<in> set (parts_of x m) \<longleftrightarrow> ((b, k, u, n), part) \<in> set m \<and> (b, k, u) = x"
  by (auto simp: parts_of_def)

lemma parts_of_wf [simp]: "map_wf m \<Longrightarrow> map_wf (parts_of x m)"
  by (simp add: parts_of_def)

section \<open>The invariant\<close>

definition part_ok :: "(uploadKey, MultipartUpload) gomap \<Rightarrow> partKey \<times> MultipartPart \<Rightarrow> bool" where
  "part_ok U p \<longleftrightarrow> (case p of ((b, k, u, n), part) \<Rightarrow>
     mp_PartNumber part = n \<and> mp_UploadID part = u \<and> 1 \<le> n \<and> n \<le> MaxMultipartParts \<and>
     map_of U (b, k, u) \<noteq> None)"

definition summary_ok :: "MultipartUpload \<Rightarrow> (partKey, MultipartPart) gomap \<Rightarrow> bool" where
  \<comment> \<open>\<open>ps\<close> are the parts of the upload\<close>
  "summary_ok up ps \<longleftrightarrow>
     mu_PartCount up = int (length ps) \<and>
     mu_TotalPartSizeBytes up = wrap64 (sum_list (map (\<lambda>p. mp_SizeBytes (snd p)) ps)) \<and>
     mu_MaxPartNumber up = Max (insert 0 ((\<lambda>p. mp_PartNumber (snd p)) ` set ps))"

definition upload_ok :: "(partKey, MultipartPart) gomap \<Rightarrow> uploadKey \<times> MultipartUpload \<Rightarrow> bool" where
  "upload_ok M x \<longleftrightarrow> (case x of (key, up) \<Rightarrow>
     key = (mu_BucketID up, mu_Key up, mu_UploadID up) \<and>
     (mu_State up = MultipartUploadActive \<longrightarrow> summary_ok up (parts_of key M)) \<and>
     mu_State up \<in> {MultipartUploadActive, MultipartUploadCompleted, MultipartUploadAborted})"

definition mp_inv :: "Repository \<Rightarrow> bool" where
  "mp_inv r \<longleftrightarrow> map_wf (r_uploads r) \<and> map_wf (r_parts r) \<and> map_wf (r_completions r) \<and>
     (\<forall>x \<in> set (r_uploads r). upload_ok (r_parts r) x) \<and> (\<forall>p \<in> set (r_parts r). part_ok (r_uploads r) p)"

lemma mp_inv_cong:
  "r_uploads r' = r_uploads r \<Longrightarrow> r_parts r' = r_parts r \<Longrightarrow> r_completions r' = r_completions r \<Longrightarrow>
     mp_inv r' = mp_inv r"
  by (simp add: mp_inv_def)

lemma mp_inv_New: "mp_inv (NewWithClock now)"
  by (simp add: mp_inv_def NewWithClock_def)

lemma delta_frame [simp]:
  "r_uploads (applyTenantActiveUploadDeltaLocked t d n w r) = r_uploads r"
  "r_parts (applyTenantActiveUploadDeltaLocked t d n w r) = r_parts r"
  "r_completions (applyTenantActiveUploadDeltaLocked t d n w r) = r_completions r"
  "r_uploads (applyTenantActiveUploadDeltaForBucketLocked b d n w r) = r_uploads r"
  "r_parts (applyTenantActiveUploadDeltaForBucketLocked b d n w r) = r_parts r"
  "r_completions (applyTenantActiveUploadDeltaForBucketLocked b d n w r) = r_completions r"
  by (simp_all add: applyTenantActiveUploadDeltaLocked_def applyTenantActiveUploadDeltaForBucketLocked_def
      split: option.split sum.split)

lemma mp_inv_upload:
  "mp_inv r \<Longrightarrow> map_of (r_uploads r) key = Some up \<Longrightarrow> upload_ok (r_parts r) (key, up)"
  by (auto simp: mp_inv_def dest: map_of_SomeD)

lemma parts_key: "part_ok U (key, part) \<Longrightarrow> \<exists>b k u. key = (b, k, u, mp_PartNumber part)"
  by (cases key) (auto simp: part_ok_def)

text \<open>Part numbers are distinct and at most 10000, so the count cannot overflow.\<close>

lemma part_numbers_inj:
  assumes "map_wf m" "\<forall>p \<in> set m. part_ok U p"
  shows "inj_on (\<lambda>p. mp_PartNumber (snd p)) (set (parts_of x m))"
proof (rule inj_onI)
  let ?ps = "parts_of x m" and ?num = "\<lambda>p. mp_PartNumber (snd p) :: int"
  fix p q assume pq: "p \<in> set ?ps" "q \<in> set ?ps" "?num p = ?num q"
  obtain b k u n s b' k' u' n' t where p: "p = ((b, k, u, n), s)" and q: "q = ((b', k', u', n'), t)"
    by (metis prod.exhaust)
  have "(b, k, u) = x" "(b', k', u') = x" "p \<in> set m" "q \<in> set m"
    using pq(1,2) by (auto simp: p q parts_of_mem)
  moreover have "n = mp_PartNumber s" "n' = mp_PartNumber t"
    using assms(2) calculation(3,4) by (auto simp: p q part_ok_def)
  ultimately have "fst p = fst q" using pq(3) by (auto simp: p q)
  with assms(1) \<open>p \<in> set m\<close> \<open>q \<in> set m\<close> show "p = q"
    by (metis map_wf_mem option.inject prod.collapse)
qed

lemma parts_count_le:
  assumes "map_wf m" "\<forall>p \<in> set m. part_ok U p"
  shows "int (length (parts_of x m)) \<le> MaxMultipartParts"
proof -
  let ?ps = "parts_of x m" and ?num = "\<lambda>p. mp_PartNumber (snd p) :: int"
  have inj: "inj_on ?num (set ?ps)" using assms by (rule part_numbers_inj)
  have "distinct ?ps" using parts_of_wf [OF assms(1)] by (simp add: map_wf_def distinct_map)
  then have "length ?ps = card (set ?ps)" by (simp add: distinct_card)
  also have "\<dots> = card (?num ` set ?ps)" using inj by (simp add: card_image)
  also have "\<dots> \<le> card {1..MaxMultipartParts}"
    using assms(2) by (intro card_mono) (auto simp: parts_of_def part_ok_def split: prod.splits)
  finally show ?thesis by (simp add: MaxMultipartParts_def)
qed

section \<open>Parts keep the summary\<close>

lemma part_numbers_put:
  assumes wf: "map_wf m" and ok: "\<forall>p \<in> set m. part_ok U p" and n: "mp_PartNumber part = n"
  shows "(\<lambda>p. mp_PartNumber (snd p)) ` set (parts_of (b, k, u) (map_put (b, k, u, n) part m)) =
    insert n ((\<lambda>p. mp_PartNumber (snd p)) ` set (parts_of (b, k, u) m))"
proof -
  let ?key = "(b, k, u, n)" and ?num = "\<lambda>p. mp_PartNumber (snd p) :: int"
  have set: "set (parts_of (b, k, u) (map_put ?key part m)) =
      insert (?key, part) {p \<in> set (parts_of (b, k, u) m). fst p \<noteq> ?key}"
    using wf by (auto simp: parts_of_def set_map_put)
  have "?num p = n" if "p \<in> set (parts_of (b, k, u) m)" "fst p = ?key" for p
    using that ok by (cases p rule: prod.exhaust) (auto simp: parts_of_mem part_ok_def)
  then show ?thesis unfolding set using n by (auto 4 3 simp: image_iff)
qed

lemma summary_put:
  assumes wf: "map_wf m" and ok: "\<forall>p \<in> set m. part_ok U p" and n: "mp_PartNumber part = n"
    and sum: "summary_ok up (parts_of (b, k, u) m)"
  shows "summary_ok (ApplyMultipartPartSummary up part (map_of m (b, k, u, n)) now)
    (parts_of (b, k, u) (map_put (b, k, u, n) part m))"
proof -
  let ?key = "(b, k, u, n)" and ?P = "\<lambda>((b', k', i, n), part :: MultipartPart). (b', k', i) = (b, k, u)"
  let ?size = "\<lambda>q. sum_list (map (\<lambda>p. mp_SizeBytes (snd p)) q)"
  let ?I = "(\<lambda>p. mp_PartNumber (snd p)) ` set (parts_of (b, k, u) m)"
  have count: "int (length (parts_of (b, k, u) (map_put ?key part m))) =
      int (length (parts_of (b, k, u) m)) + (if map_of m ?key = None then 1 else 0)"
    unfolding parts_of_def by (subst length_filter_put [OF wf]) auto
  have size: "?size (parts_of (b, k, u) (map_put ?key part m)) =
      ?size (parts_of (b, k, u) m) + (mp_SizeBytes part - (case map_of m ?key of None \<Rightarrow> 0 | Some w \<Rightarrow> mp_SizeBytes w))"
    unfolding parts_of_def by (subst sum_filter_put [OF wf]) auto
  have small: "wrap64 (int (length (parts_of (b, k, u) m)) + 1) = int (length (parts_of (b, k, u) m)) + 1"
    using parts_count_le [OF wf ok, of "(b, k, u)"] by (intro wrap64_id) (simp_all add: MaxMultipartParts_def)
  have "Max (insert n (insert 0 ?I)) = max n (Max (insert 0 ?I))" by (rule Max_insert) simp_all
  then have max: "Max (insert 0 (insert n ?I)) = (if n > Max (insert 0 ?I) then n else Max (insert 0 ?I))"
    unfolding insert_commute [of 0 n] by (simp only: max_def split: if_split) linarith
  show ?thesis
    using sum n unfolding summary_ok_def part_numbers_put [OF wf ok n] max count size
    by (auto simp: ApplyMultipartPartSummary_def Let_def small [unfolded add.commute [of _ 1]]
        algebra_simps split: option.splits)
qed

lemma upload_ok_other_parts:
  "(b, k, u) \<noteq> fst x \<Longrightarrow> upload_ok (map_put (b, k, u, n) part m) x = upload_ok m x"
  by (cases x) (simp add: upload_ok_def parts_of_put_other)

lemma part_ok_mono:
  "part_ok U p \<Longrightarrow> (\<And>key. map_of U key \<noteq> None \<Longrightarrow> map_of U' key \<noteq> None) \<Longrightarrow> part_ok U' p"
  by (auto simp: part_ok_def split: prod.splits)

lemma ApplySummary_fields [simp]:
  "mu_BucketID (ApplyMultipartPartSummary up part prev now) = mu_BucketID up"
  "mu_Key (ApplyMultipartPartSummary up part prev now) = mu_Key up"
  "mu_UploadID (ApplyMultipartPartSummary up part prev now) = mu_UploadID up"
  "mu_State (ApplyMultipartPartSummary up part prev now) = mu_State up"
  by (simp_all add: ApplyMultipartPartSummary_def Let_def split: option.split)

lemma getUploadLocked_ok:
  "getUploadLocked req r = Inr up \<Longrightarrow>
     map_of (r_uploads r) (q_mu_BucketID req, q_mu_Key req, q_mu_UploadID req) = Some up"
  by (simp add: getUploadLocked_def split: if_splits option.splits)

lemma getActiveUploadLocked_ok:
  "getActiveUploadLocked req r = Inr up \<Longrightarrow>
     map_of (r_uploads r) (q_mu_BucketID req, q_mu_Key req, q_mu_UploadID req) = Some up \<and>
     mu_State up = MultipartUploadActive"
  by (auto simp: getActiveUploadLocked_def getUploadLocked_ok split: sum.splits if_splits)

lemma PutMultipartPart_error: "PutMultipartPart now req r = (Inl e, r') \<Longrightarrow> r' = r"
  by (simp add: PutMultipartPart_def Let_def split: if_splits sum.splits)

lemma PutMultipartPart_ok:
  fixes req :: PutMultipartPartRequest
  defines "b \<equiv> q_pp_BucketID req" and "k \<equiv> q_pp_Key req" and "u \<equiv> q_pp_UploadID req" and "n \<equiv> q_pp_PartNumber req"
  assumes "PutMultipartPart now req r = (Inr (part, previous), r')"
  shows "\<exists>up. map_of (r_uploads r) (b, k, u) = Some up \<and> mu_State up = MultipartUploadActive \<and>
    1 \<le> n \<and> n \<le> MaxMultipartParts \<and> mp_PartNumber part = n \<and> mp_UploadID part = u \<and>
    mp_SizeBytes part = q_pp_SizeBytes req \<and> mp_ETag part = q_pp_ETag req \<and>
    mp_SegmentRef part = q_pp_SegmentRef req \<and> previous = map_of (r_parts r) (b, k, u, n) \<and>
    r' = r\<lparr>r_parts := map_put (b, k, u, n) part (r_parts r),
           r_uploads := map_put (b, k, u) (ApplyMultipartPartSummary up part previous now) (r_uploads r)\<rparr>"
  using assms
  by (auto simp: PutMultipartPart_def Let_def dest: getActiveUploadLocked_ok split: if_splits sum.splits)

lemma mp_inv_PutMultipartPart:
  assumes inv: "mp_inv r" and op: "PutMultipartPart now req r = (res, r')"
  shows "mp_inv r'"
proof (cases res)
  case (Inl e)
  with op inv show ?thesis by (auto dest: PutMultipartPart_error)
next
  case (Inr p)
  obtain part previous where p: "p = (part, previous)" by fastforce
  let ?b = "q_pp_BucketID req" and ?k = "q_pp_Key req" and ?u = "q_pp_UploadID req" and ?n = "q_pp_PartNumber req"
  let ?key = "(?b, ?k, ?u, ?n)"
  obtain up where up: "map_of (r_uploads r) (?b, ?k, ?u) = Some up" "mu_State up = MultipartUploadActive"
    and n: "1 \<le> ?n" "?n \<le> MaxMultipartParts" "mp_PartNumber part = ?n" "mp_UploadID part = ?u"
    and prev: "previous = map_of (r_parts r) ?key"
    and r': "r' = r\<lparr>r_parts := map_put ?key part (r_parts r),
        r_uploads := map_put (?b, ?k, ?u) (ApplyMultipartPartSummary up part previous now) (r_uploads r)\<rparr>"
    using PutMultipartPart_ok [OF op [unfolded Inr p]] by blast
  have wf: "map_wf (r_uploads r)" "map_wf (r_parts r)" and parts: "\<forall>p \<in> set (r_parts r). part_ok (r_uploads r) p"
    and uploads: "\<forall>x \<in> set (r_uploads r). upload_ok (r_parts r) x"
    using inv by (simp_all add: mp_inv_def)
  note up_ok = mp_inv_upload [OF inv up(1)]
  have "summary_ok up (parts_of (?b, ?k, ?u) (r_parts r))" using up_ok up(2) by (auto simp: upload_ok_def)
  then have "summary_ok (ApplyMultipartPartSummary up part previous now)
      (parts_of (?b, ?k, ?u) (map_put ?key part (r_parts r)))"
    unfolding prev by (intro summary_put [OF wf(2) parts n(3)])
  then have new: "upload_ok (map_put ?key part (r_parts r)) ((?b, ?k, ?u), ApplyMultipartPartSummary up part previous now)"
    using up_ok by (auto simp: upload_ok_def)
  have "\<forall>x \<in> set (r_uploads r'). upload_ok (r_parts r') x"
    using new uploads wf(1) upload_ok_other_parts by (fastforce simp: r' set_map_put)
  moreover have "\<forall>p \<in> set (r_parts r'). part_ok (r_uploads r') p"
    using parts n wf(2) by (auto simp: r' set_map_put part_ok_def)
  ultimately show ?thesis using inv by (simp add: mp_inv_def r')
qed

end
