(* ===== verification/MultipartLife.thy ===== *)
theory MultipartLife
  imports MultipartInv
begin

text \<open>
  The life of an upload: the remaining multipart operations keep \<open>mp_inv\<close>, an upload only
  moves from active to completed or aborted, completion records only advance, the quota
  bounds the active uploads, and clean-up ends.
\<close>

section \<open>The remaining operations keep the invariant\<close>

interpretation upload_ids: id_allocator nextMultipartUploadIDLocked multipartUploadIDExistsLocked
proof unfold_locales
  show "\<And>ids s x. nextMultipartUploadIDLocked ids s = Inr x \<Longrightarrow> \<not> multipartUploadIDExistsLocked s x"
    unfolding nextMultipartUploadIDLocked_def by (rule draw_id_fresh)
  show "\<And>ids s x. nextMultipartUploadIDLocked ids s = Inr x \<Longrightarrow> \<exists>i<idCollisionRetryLimit. ids i = Some x"
    unfolding nextMultipartUploadIDLocked_def by (drule draw_id_source) auto
  show "\<And>ids s e. nextMultipartUploadIDLocked ids s = Inl e \<Longrightarrow> e = ErrUnavailable"
    unfolding nextMultipartUploadIDLocked_def by (rule draw_id_error)
  show "\<And>ids x s. ids 0 = Some x \<Longrightarrow> \<not> multipartUploadIDExistsLocked s x \<Longrightarrow> nextMultipartUploadIDLocked ids s = Inr x"
    unfolding nextMultipartUploadIDLocked_def idCollisionRetryLimit_def
    using draw_id_first [where i = 0 and n = 7] by (simp add: eval_nat_numeral)
qed

lemma upload_id_fresh:
  "nextMultipartUploadIDLocked ids (r, b) = Inr u \<Longrightarrow> map_of (r_uploads r) (b, k, u) = None"
  using upload_ids.alloc_fresh [of ids "(r, b)" u]
  by (auto simp: multipartUploadIDExistsLocked_def list_ex_iff map_of_eq_None_iff)

lemma mp_inv_put_upload:
  assumes inv: "mp_inv r" and ok: "upload_ok (r_parts r) (key, up)"
    and r': "r_uploads r' = map_put key up (r_uploads r)" "r_parts r' = r_parts r" "r_completions r' = r_completions r"
  shows "mp_inv r'"
proof -
  have wf: "map_wf (r_uploads r)" and parts: "\<forall>p \<in> set (r_parts r). part_ok (r_uploads r) p"
    and uploads: "\<forall>x \<in> set (r_uploads r). upload_ok (r_parts r) x"
    using inv by (simp_all add: mp_inv_def)
  have "\<forall>x \<in> set (r_uploads r'). upload_ok (r_parts r') x"
    using uploads ok wf by (simp add: r' set_map_put)
  moreover have "\<forall>p \<in> set (r_parts r'). part_ok (r_uploads r') p"
    using parts unfolding r'(1,2) by (auto elim!: part_ok_mono split: if_splits)
  ultimately show ?thesis using inv by (simp add: mp_inv_def r')
qed

lemma CreateMultipartUpload_error: "CreateMultipartUpload clk ids req r = (Inl e, r') \<Longrightarrow> r' = r"
  by (simp add: CreateMultipartUpload_def Let_def split: if_splits option.splits sum.splits)

lemma CreateMultipartUpload_ok:
  fixes req :: CreateMultipartUploadRequest
  assumes "CreateMultipartUpload clk ids req r = (Inr up, r')"
  shows "\<exists>bucket. map_of (r_bucketsByID r) (q_cm_BucketID req) = Some bucket \<and>
    checkTenantActiveUploadQuotaLocked (bk_TenantID bucket) r = None \<and>
    nextMultipartUploadIDLocked ids (r, q_cm_BucketID req) = Inr (mu_UploadID up) \<and>
    mu_BucketID up = q_cm_BucketID req \<and> mu_Key up = q_cm_Key req \<and> mu_State up = MultipartUploadActive \<and>
    mu_PartCount up = 0 \<and> mu_TotalPartSizeBytes up = 0 \<and> mu_MaxPartNumber up = 0 \<and>
    r' = applyTenantActiveUploadDeltaLocked (bk_TenantID bucket) 1 (clk 0) (clk 1)
           (r\<lparr>r_uploads := map_put (q_cm_BucketID req, q_cm_Key req, mu_UploadID up) up (r_uploads r)\<rparr>)"
  using assms
  by (auto simp: CreateMultipartUpload_def Let_def zero_MultipartUpload_def split: if_splits option.splits sum.splits)

lemma parts_of_no_upload:
  "\<forall>p \<in> set m. part_ok U p \<Longrightarrow> map_of U x = None \<Longrightarrow> parts_of x m = []"
  by (auto simp: parts_of_def filter_empty_conv part_ok_def)

lemma mp_inv_CreateMultipartUpload:
  assumes inv: "mp_inv r" and op: "CreateMultipartUpload clk ids req r = (res, r')"
  shows "mp_inv r'"
proof (cases res)
  case (Inl e)
  with op inv show ?thesis by (auto dest: CreateMultipartUpload_error)
next
  case (Inr up)
  let ?key = "(q_cm_BucketID req, q_cm_Key req, mu_UploadID up)"
  obtain bucket :: Bucket where id: "nextMultipartUploadIDLocked ids (r, q_cm_BucketID req) = Inr (mu_UploadID up)"
    and up: "mu_BucketID up = q_cm_BucketID req" "mu_Key up = q_cm_Key req" "mu_State up = MultipartUploadActive"
      "mu_PartCount up = 0" "mu_TotalPartSizeBytes up = 0" "mu_MaxPartNumber up = 0"
    and r': "r' = applyTenantActiveUploadDeltaLocked (bk_TenantID bucket) 1 (clk 0) (clk 1)
           (r\<lparr>r_uploads := map_put ?key up (r_uploads r)\<rparr>)"
    using CreateMultipartUpload_ok [OF op [unfolded Inr]] by blast
  have none: "parts_of ?key (r_parts r) = []"
    using inv upload_id_fresh [OF id] by (intro parts_of_no_upload [where U = "r_uploads r"]) (simp_all add: mp_inv_def)
  then have "upload_ok (r_parts r) (?key, up)" using up by (simp add: upload_ok_def summary_ok_def)
  then show ?thesis by (rule mp_inv_put_upload [OF inv]) (simp_all add: r')
qed

text \<open>Completion and abort end the active state and touch nothing but the upload and the
  tenant's counter.\<close>

definition ends_upload :: "uploadKey \<Rightarrow> Repository \<Rightarrow> Repository \<Rightarrow> bool" where
  "ends_upload key r r' \<longleftrightarrow>
     (\<exists>up up'. map_of (r_uploads r) key = Some up \<and> mu_State up = MultipartUploadActive \<and>
        mu_State up' \<in> {MultipartUploadCompleted, MultipartUploadAborted} \<and>
        mu_BucketID up' = mu_BucketID up \<and> mu_Key up' = mu_Key up \<and> mu_UploadID up' = mu_UploadID up \<and>
        r_uploads r' = map_put key up' (r_uploads r) \<and> r_parts r' = r_parts r \<and> r_completions r' = r_completions r)"

lemma mp_inv_ends_upload:
  assumes inv: "mp_inv r" and ends: "ends_upload key r r'"
  shows "mp_inv r'"
proof -
  obtain up up' where up: "map_of (r_uploads r) key = Some up"
    "mu_State up' \<in> {MultipartUploadCompleted, MultipartUploadAborted}"
    "mu_BucketID up' = mu_BucketID up" "mu_Key up' = mu_Key up" "mu_UploadID up' = mu_UploadID up"
    and r': "r_uploads r' = map_put key up' (r_uploads r)" "r_parts r' = r_parts r" "r_completions r' = r_completions r"
    using ends unfolding ends_upload_def by blast
  have "upload_ok (r_parts r) (key, up')"
    using mp_inv_upload [OF inv up(1)] up(2-5) by (auto simp: upload_ok_def)
  then show ?thesis by (rule mp_inv_put_upload [OF inv _ r'])
qed

lemma ends_uploadI:
  assumes "map_of (r_uploads r) key = Some up" "mu_State up = MultipartUploadActive"
    "mu_State up' \<in> {MultipartUploadCompleted, MultipartUploadAborted}"
    "mu_BucketID up' = mu_BucketID up" "mu_Key up' = mu_Key up" "mu_UploadID up' = mu_UploadID up"
  shows "ends_upload key r (applyTenantActiveUploadDeltaForBucketLocked b d now wall
           (r\<lparr>r_uploads := map_put key up' (r_uploads r)\<rparr>))"
  unfolding ends_upload_def using assms by (intro exI [of _ up] exI [of _ up']) simp

lemma CompleteMultipartUpload_cases:
  assumes "CompleteMultipartUpload clk req r = (res, r')"
  shows "r' = r \<or> ends_upload (q_cu_BucketID req, q_cu_Key req, q_cu_UploadID req) r r'"
  using assms
  by (auto simp: CompleteMultipartUpload_def Let_def intro!: ends_uploadI dest!: getUploadLocked_ok
      split: if_splits sum.splits option.splits MultipartUploadState.splits)

lemma AbortMultipartUpload_cases:
  assumes "AbortMultipartUpload clk req r = (res, r')"
  shows "r' = r \<or> ends_upload (q_mu_BucketID req, q_mu_Key req, q_mu_UploadID req) r r'"
  using assms
  by (auto simp: AbortMultipartUpload_def Let_def intro!: ends_uploadI dest!: getUploadLocked_ok
      split: if_splits sum.splits option.splits MultipartUploadState.splits)

lemma mp_inv_Complete: "mp_inv r \<Longrightarrow> CompleteMultipartUpload clk req r = (res, r') \<Longrightarrow> mp_inv r'"
  using CompleteMultipartUpload_cases mp_inv_ends_upload by blast

lemma mp_inv_Abort: "mp_inv r \<Longrightarrow> AbortMultipartUpload clk req r = (res, r') \<Longrightarrow> mp_inv r'"
  using AbortMultipartUpload_cases mp_inv_ends_upload by blast

lemma mp_inv_Prepare: "mp_inv r \<Longrightarrow> PrepareMultipartCompletion now req r = (res, r') \<Longrightarrow> mp_inv r'"
  by (auto simp: PrepareMultipartCompletion_def Let_def mp_inv_def split: if_splits option.splits sum.splits)

lemma mp_inv_mark: "mp_inv r \<Longrightarrow> markMultipartCompletionState now req s r = (res, r') \<Longrightarrow> mp_inv r'"
  by (auto simp: markMultipartCompletionState_def Let_def mp_inv_def split: if_splits option.splits)

section \<open>Clean-up\<close>

definition cleanup_keys :: "MultipartUploadRequest \<Rightarrow> int \<Rightarrow> Repository \<Rightarrow> partKey list" where
  \<comment> \<open>the keys one clean-up call removes: the lowest part numbers, at most the limit\<close>
  "cleanup_keys req limit r =
     take (nat limit) (sort_by (\<lambda>(_, _, _, m) (_, _, _, n). m < n)
       (map fst (parts_of (q_mu_BucketID req, q_mu_Key req, q_mu_UploadID req) (r_parts r))))"

abbreviation cleanup_target :: "CleanupMultipartUploadPartsRequest \<Rightarrow> MultipartUploadRequest" where
  "cleanup_target req \<equiv>
     \<lparr>q_mu_BucketID = q_cl_BucketID req, q_mu_Key = q_cl_Key req, q_mu_UploadID = q_cl_UploadID req\<rparr>"

abbreviation cleanup_key :: "CleanupMultipartUploadPartsRequest \<Rightarrow> uploadKey" where
  "cleanup_key req \<equiv> (q_cl_BucketID req, q_cl_Key req, q_cl_UploadID req)"

lemma cleanup_limit_bounds:
  "1 \<le> NormalizeMultipartCleanupLimit n" "NormalizeMultipartCleanupLimit n \<le> MaxMultipartCleanupLimit"
  by (simp_all add: NormalizeMultipartCleanupLimit_def DefaultMultipartCleanupLimit_def MaxMultipartCleanupLimit_def)

lemma cleanup_keys_of_fetch:
  fixes req :: MultipartUploadRequest and r :: Repository
  assumes "0 < L"
  defines "ks \<equiv> partKeysForCleanupLocked req (L + 1) r"
    and "n \<equiv> length (parts_of (q_mu_BucketID req, q_mu_Key req, q_mu_UploadID req) (r_parts r))"
  shows "(if int (length ks) > L then take (nat L) ks else ks) = cleanup_keys req L r"
    and "int (length ks) > L \<longleftrightarrow> int n > L"
  using assms(1)
  by (auto simp: ks_def n_def partKeysForCleanupLocked_def cleanup_keys_def Let_def min_def)

lemma Cleanup_error: "CleanupMultipartUploadParts now req r = (Inl e, r') \<Longrightarrow> r' = r"
  by (simp add: CleanupMultipartUploadParts_def Let_def split: if_splits sum.splits)

definition cleaned :: "time \<Rightarrow> CleanupMultipartUploadPartsRequest \<Rightarrow> MultipartUpload \<Rightarrow> Repository \<Rightarrow> MultipartUpload" where
  "cleaned now req up r =
     (let L = NormalizeMultipartCleanupLimit (q_cl_Limit req) in
      up\<lparr>mu_PartsCleanupDeleted := wrap64 (mu_PartsCleanupDeleted up + int (length (cleanup_keys (cleanup_target req) L r))),
         mu_PartsCleanupUpdatedAt := now, mu_UpdatedAt := now,
         mu_PartsCleanupState := (if int (length (parts_of (cleanup_key req) (r_parts r))) > L
                                  then MultipartPartsCleanupPending else MultipartPartsCleanupDone)\<rparr>)"

lemma cleaned_fields [simp]:
  "mu_State (cleaned now req up r) = mu_State up" "mu_BucketID (cleaned now req up r) = mu_BucketID up"
  "mu_Key (cleaned now req up r) = mu_Key up" "mu_UploadID (cleaned now req up r) = mu_UploadID up"
  "mu_CompletedVersionID (cleaned now req up r) = mu_CompletedVersionID up"
  "mu_CompletedETag (cleaned now req up r) = mu_CompletedETag up"
  by (simp_all add: cleaned_def Let_def)

lemma Cleanup_ended:
  fixes req :: CleanupMultipartUploadPartsRequest and r :: Repository
  assumes up: "getUploadLocked (cleanup_target req) r = Inr up"
    "mu_State up \<in> {MultipartUploadCompleted, MultipartUploadAborted}"
  defines "L \<equiv> NormalizeMultipartCleanupLimit (q_cl_Limit req)"
  shows "CleanupMultipartUploadParts now req r =
    (Inr \<lparr>clr_Upload = cleaned now req up r,
          clr_DeletedParts = int (length (cleanup_keys (cleanup_target req) L r)),
          clr_HasMore = int (length (parts_of (cleanup_key req) (r_parts r))) > L\<rparr>,
     r\<lparr>r_parts := fold map_del (cleanup_keys (cleanup_target req) L r) (r_parts r),
       r_uploads := map_put (cleanup_key req) (cleaned now req up r) (r_uploads r)\<rparr>)"
proof -
  have pos: "0 < L" using cleanup_limit_bounds(1) [of "q_cl_Limit req"] by (simp add: L_def)
  note fetch = cleanup_keys_of_fetch [OF pos, of "cleanup_target req" r]
  show ?thesis
    using up fetch by (auto simp: CleanupMultipartUploadParts_def cleaned_def Let_def L_def [symmetric])
qed


lemma Cleanup_cases:
  fixes req :: CleanupMultipartUploadPartsRequest
  assumes "CleanupMultipartUploadParts now req r = (res, r')"
  shows "r' = r \<or> (\<exists>up. getUploadLocked (cleanup_target req) r = Inr up \<and>
    mu_State up \<in> {MultipartUploadCompleted, MultipartUploadAborted} \<and>
    r' = r\<lparr>r_parts := fold map_del (cleanup_keys (cleanup_target req) (NormalizeMultipartCleanupLimit (q_cl_Limit req)) r) (r_parts r),
           r_uploads := map_put (cleanup_key req) (cleaned now req up r) (r_uploads r)\<rparr>)"
proof (cases "getUploadLocked (cleanup_target req) r")
  case (Inl e)
  with assms show ?thesis by (simp add: CleanupMultipartUploadParts_def)
next
  case (Inr up)
  show ?thesis
  proof (cases "mu_State up = MultipartUploadCompleted \<or> mu_State up = MultipartUploadAborted")
    case True
    with assms Cleanup_ended [OF Inr, of now] Inr show ?thesis by auto
  next
    case False
    with assms Inr show ?thesis by (auto simp: CleanupMultipartUploadParts_def Let_def split: if_splits)
  qed
qed

lemma cleanup_keys_sub:
  "key \<in> set (cleanup_keys req L r) \<Longrightarrow>
     \<exists>n. key = (q_mu_BucketID req, q_mu_Key req, q_mu_UploadID req, n)"
  unfolding cleanup_keys_def by (drule in_set_takeD) (auto simp: parts_of_def)

lemma distinct_cleanup_keys: "map_wf (r_parts r) \<Longrightarrow> distinct (cleanup_keys req L r)"
  using parts_of_wf by (simp add: cleanup_keys_def map_wf_def)

lemma cleanup_keys_length:
  "length (cleanup_keys req L r) =
     min (length (parts_of (q_mu_BucketID req, q_mu_Key req, q_mu_UploadID req) (r_parts r))) (nat L)"
  by (simp add: cleanup_keys_def)

lemma cleanup_other_parts:
  assumes "x \<noteq> (q_mu_BucketID req, q_mu_Key req, q_mu_UploadID req)"
  shows "parts_of x (fold map_del (cleanup_keys req L r) m) = parts_of x m"
  unfolding parts_of_def using assms by (intro fold_del_other) (auto dest!: cleanup_keys_sub)

lemma cleanup_progress:
  fixes req :: MultipartUploadRequest and r :: Repository
  assumes wf: "map_wf (r_parts r)"
  defines "x \<equiv> (q_mu_BucketID req, q_mu_Key req, q_mu_UploadID req)"
  shows "length (parts_of x (fold map_del (cleanup_keys req L r) (r_parts r))) =
    length (parts_of x (r_parts r)) - nat L"
proof -
  let ?ps = "parts_of x (r_parts r)" and ?ks = "cleanup_keys req L r"
  have "parts_of x (fold map_del ?ks (r_parts r)) = filter (\<lambda>p. fst p \<notin> set ?ks) ?ps"
    unfolding fold_del_filter parts_of_def filter_filter by (rule filter_cong) auto
  moreover have "length (filter (\<lambda>p. fst p \<notin> set ?ks) ?ps) = card (set (map fst ?ps) - set ?ks)"
  proof -
    have d: "distinct (map fst ?ps)" using parts_of_wf [OF wf] by (simp add: map_wf_def)
    have "length (filter (\<lambda>p. fst p \<notin> set ?ks) ?ps) = length (filter (\<lambda>k. k \<notin> set ?ks) (map fst ?ps))"
      by (simp add: filter_map comp_def)
    also have "\<dots> = card (set (filter (\<lambda>k. k \<notin> set ?ks) (map fst ?ps)))"
      using d by (intro distinct_card [symmetric] distinct_filter)
    also have "set (filter (\<lambda>k. k \<notin> set ?ks) (map fst ?ps)) = set (map fst ?ps) - set ?ks" by auto
    finally show ?thesis .
  qed
  moreover have "card (set (map fst ?ps) - set ?ks) = length ?ps - length ?ks"
  proof -
    have "set ?ks \<subseteq> set (map fst ?ps)"
      unfolding cleanup_keys_def x_def by (rule order_trans [OF set_take_subset]) simp
    then show ?thesis
      using distinct_card [OF distinct_cleanup_keys [OF wf, of req L]]
        distinct_card [OF parts_of_wf [OF wf, of x, unfolded map_wf_def]]
      by (simp add: card_Diff_subset)
  qed
  ultimately show ?thesis by (simp add: cleanup_keys_length x_def min_def)
qed

lemma mp_inv_Cleanup:
  assumes inv: "mp_inv r" and op: "CleanupMultipartUploadParts now req r = (res, r')"
  shows "mp_inv r'"
proof (cases "r' = r")
  case True
  with inv show ?thesis by simp
next
  case False
  define ks where "ks = cleanup_keys (cleanup_target req) (NormalizeMultipartCleanupLimit (q_cl_Limit req)) r"
  from False Cleanup_cases [OF op] obtain up
    where up: "getUploadLocked (cleanup_target req) r = Inr up"
      "mu_State up \<in> {MultipartUploadCompleted, MultipartUploadAborted}"
      and r': "r' = r\<lparr>r_parts := fold map_del ks (r_parts r),
           r_uploads := map_put (cleanup_key req) (cleaned now req up r) (r_uploads r)\<rparr>"
    unfolding ks_def by blast
  have wf: "map_wf (r_uploads r)" and parts: "\<forall>p \<in> set (r_parts r). part_ok (r_uploads r) p"
    and uploads: "\<forall>x \<in> set (r_uploads r). upload_ok (r_parts r) x"
    using inv by (simp_all add: mp_inv_def)
  have "upload_ok (r_parts r) (cleanup_key req, up)"
    using mp_inv_upload [OF inv] getUploadLocked_ok [OF up(1)] by simp
  with up(2) have "upload_ok (r_parts r') (cleanup_key req, cleaned now req up r)"
    by (auto simp: upload_ok_def)
  moreover have "upload_ok (r_parts r') x" if "upload_ok (r_parts r) x" "fst x \<noteq> cleanup_key req" for x
    using that cleanup_other_parts [of "fst x" "cleanup_target req" _ r "r_parts r"]
    by (cases x) (simp add: upload_ok_def r' ks_def)
  ultimately have "\<forall>x \<in> set (r_uploads r'). upload_ok (r_parts r') x"
    using uploads wf by (auto simp: r' set_map_put)
  moreover have "\<forall>p \<in> set (r_parts r'). part_ok (r_uploads r') p"
    using parts by (auto simp: r' fold_del_filter elim!: part_ok_mono split: if_splits)
  ultimately show ?thesis using inv by (simp add: mp_inv_def r')
qed

lemma batch_step:
  fixes L :: int
  assumes "int a \<le> int (Suc n) * L" "1 \<le> L"
  shows "int (a - nat L) \<le> int n * L"
proof -
  have "int (a - nat L) = max 0 (int a - L)" using assms(2) by (simp add: max_def)
  moreover have "0 \<le> int n * L" using assms(2) by simp
  ultimately show ?thesis using assms(1) by (simp add: algebra_simps)
qed

text \<open>C29 (liveness). Whatever the configured batch limit, the parts of a completed or aborted
  upload are all gone after finitely many clean-up calls: each call removes
  \<open>NormalizeMultipartCleanupLimit\<close> parts (at least one), so \<open>n\<close> calls suffice whenever
  \<open>n\<close> times the limit reaches the number of stored parts; parts of other uploads are kept.\<close>

theorem cleanup_terminates:
  fixes req :: CleanupMultipartUploadPartsRequest and r :: Repository
  assumes inv: "mp_inv r"
    and up: "getUploadLocked \<lparr>q_mu_BucketID = q_cl_BucketID req, q_mu_Key = q_cl_Key req,
               q_mu_UploadID = q_cl_UploadID req\<rparr> r = Inr up"
      "mu_State up \<in> {MultipartUploadCompleted, MultipartUploadAborted}"
    and n: "int (length (parts_of (q_cl_BucketID req, q_cl_Key req, q_cl_UploadID req) (r_parts r)))
              \<le> int n * NormalizeMultipartCleanupLimit (q_cl_Limit req)"
  shows "let r' = ((\<lambda>s. snd (CleanupMultipartUploadParts now req s)) ^^ n) r in
    parts_of (q_cl_BucketID req, q_cl_Key req, q_cl_UploadID req) (r_parts r') = [] \<and>
    (\<forall>x. x \<noteq> (q_cl_BucketID req, q_cl_Key req, q_cl_UploadID req) \<longrightarrow>
       parts_of x (r_parts r') = parts_of x (r_parts r))"
  using inv up n unfolding Let_def
proof (induction n arbitrary: r up)
  case 0
  then show ?case by simp
next
  case (Suc n)
  let ?L = "NormalizeMultipartCleanupLimit (q_cl_Limit req)"
  let ?s = "snd (CleanupMultipartUploadParts now req r)"
  let ?ps = "\<lambda>s. parts_of (cleanup_key req) (r_parts s)"
  note step = Cleanup_ended [OF Suc.prems(2,3), of now]
  have inv: "mp_inv ?s" using mp_inv_Cleanup [OF Suc.prems(1)] by (metis prod.collapse)
  have ids: "q_cl_BucketID req \<noteq> []" "q_cl_Key req \<noteq> []" "q_cl_UploadID req \<noteq> []"
    using Suc.prems(2) by (auto simp: getUploadLocked_def split: if_splits)
  then have up: "getUploadLocked (cleanup_target req) ?s = Inr (cleaned now req up r)"
    by (simp add: step getUploadLocked_def)
  have wf: "map_wf (r_parts r)" using Suc.prems(1) by (simp add: mp_inv_def)
  have len: "length (?ps ?s) = length (?ps r) - nat ?L"
    using cleanup_progress [OF wf, of "cleanup_target req" ?L] by (simp add: step)
  have "int (length (?ps ?s)) \<le> int n * ?L"
    unfolding len using Suc.prems(4) by (intro batch_step cleanup_limit_bounds(1))
  from Suc.IH [OF inv up _ this] Suc.prems(3)
  have "?ps (((\<lambda>s. snd (CleanupMultipartUploadParts now req s)) ^^ n) ?s) = [] \<and>
    (\<forall>x. x \<noteq> cleanup_key req \<longrightarrow>
      parts_of x (r_parts (((\<lambda>s. snd (CleanupMultipartUploadParts now req s)) ^^ n) ?s)) = parts_of x (r_parts ?s))"
    by simp
  moreover have "parts_of x (r_parts ?s) = parts_of x (r_parts r)" if "x \<noteq> cleanup_key req" for x
    using cleanup_other_parts [of x "cleanup_target req"] that by (simp add: step)
  ultimately show ?case unfolding funpow_Suc_right comp_apply by simp
qed

section \<open>Uploads and completion records only move forward\<close>

definition uploads_forward :: "Repository \<Rightarrow> Repository \<Rightarrow> bool" where
  \<comment> \<open>an upload is never dropped, and once it has ended its state and result stay\<close>
  "uploads_forward r r' \<longleftrightarrow>
     (\<forall>key up. map_of (r_uploads r) key = Some up \<longrightarrow>
        (\<exists>up'. map_of (r_uploads r') key = Some up' \<and>
           (mu_State up \<noteq> MultipartUploadActive \<longrightarrow>
              mu_State up' = mu_State up \<and> mu_CompletedVersionID up' = mu_CompletedVersionID up \<and>
              mu_CompletedETag up' = mu_CompletedETag up)))"

definition completions_forward :: "Repository \<Rightarrow> Repository \<Rightarrow> bool" where
  \<comment> \<open>a completion record keeps what it promised and its state never moves back\<close>
  "completions_forward r r' \<longleftrightarrow>
     (\<forall>key c. map_of (r_completions r) key = Some c \<longrightarrow>
        (\<exists>c'. map_of (r_completions r') key = Some c' \<and>
           multipartCompletionStateRank (mcr_State c) \<le> multipartCompletionStateRank (mcr_State c') \<and>
           mcr_ObjectVersionID c' = mcr_ObjectVersionID c \<and> mcr_ETag c' = mcr_ETag c \<and>
           mcr_SizeBytes c' = mcr_SizeBytes c \<and> mcr_PartCount c' = mcr_PartCount c \<and>
           mcr_ExpectedHeadVersionID c' = mcr_ExpectedHeadVersionID c))"

definition mp_forward :: "Repository \<Rightarrow> Repository \<Rightarrow> bool" where
  "mp_forward r r' \<longleftrightarrow> uploads_forward r r' \<and> completions_forward r r'"

lemma mp_forward_refl [simp]: "mp_forward r r"
  by (simp add: mp_forward_def uploads_forward_def completions_forward_def)

lemma mp_forward_same:
  "r_uploads r' = r_uploads r \<Longrightarrow> r_completions r' = r_completions r \<Longrightarrow> mp_forward r r'"
  by (simp add: mp_forward_def uploads_forward_def completions_forward_def)

lemma mp_forward_put_upload:
  assumes "r_uploads r' = map_put key up' (r_uploads r)" "r_completions r' = r_completions r"
    and "\<And>up. map_of (r_uploads r) key = Some up \<Longrightarrow> mu_State up \<noteq> MultipartUploadActive \<Longrightarrow>
      mu_State up' = mu_State up \<and> mu_CompletedVersionID up' = mu_CompletedVersionID up \<and>
      mu_CompletedETag up' = mu_CompletedETag up"
  shows "mp_forward r r'"
  using assms by (simp add: mp_forward_def uploads_forward_def completions_forward_def)

lemma mp_forward_ends: "ends_upload key r r' \<Longrightarrow> mp_forward r r'"
  unfolding ends_upload_def by (auto intro: mp_forward_put_upload)

lemma mp_forward_Create: "CreateMultipartUpload clk ids req r = (res, r') \<Longrightarrow> mp_forward r r'"
proof (cases res)
  case (Inr up)
  assume op: "CreateMultipartUpload clk ids req r = (res, r')"
  from CreateMultipartUpload_ok [OF op [unfolded Inr]] obtain bucket :: Bucket
    where id: "nextMultipartUploadIDLocked ids (r, q_cm_BucketID req) = Inr (mu_UploadID up)"
      and r': "r' = applyTenantActiveUploadDeltaLocked (bk_TenantID bucket) 1 (clk 0) (clk 1)
           (r\<lparr>r_uploads := map_put (q_cm_BucketID req, q_cm_Key req, mu_UploadID up) up (r_uploads r)\<rparr>)"
    by blast
  show ?thesis
    by (rule mp_forward_put_upload [where key = "(q_cm_BucketID req, q_cm_Key req, mu_UploadID up)" and up' = up])
      (simp_all add: r' upload_id_fresh [OF id])
qed (auto dest: CreateMultipartUpload_error)

lemma mp_forward_PutPart: "PutMultipartPart now req r = (res, r') \<Longrightarrow> mp_forward r r'"
proof (cases res)
  case (Inr part)
  assume op: "PutMultipartPart now req r = (res, r')"
  obtain p previous where part: "part = (p, previous)" by fastforce
  from PutMultipartPart_ok [OF op [unfolded Inr part]] show ?thesis
    by (auto intro!: mp_forward_put_upload)
qed (auto dest: PutMultipartPart_error)

lemma mp_forward_Prepare: "PrepareMultipartCompletion now req r = (res, r') \<Longrightarrow> mp_forward r r'"
  by (auto simp: PrepareMultipartCompletion_def Let_def mp_forward_def uploads_forward_def completions_forward_def
      split: if_splits option.splits sum.splits)

lemma mp_forward_mark: "markMultipartCompletionState now req s r = (res, r') \<Longrightarrow> mp_forward r r'"
  by (auto simp: markMultipartCompletionState_def Let_def mp_forward_def uploads_forward_def completions_forward_def
      multipartCompletionStateAtLeast_def split: if_splits option.splits)

lemma mp_forward_Complete: "CompleteMultipartUpload clk req r = (res, r') \<Longrightarrow> mp_forward r r'"
  using CompleteMultipartUpload_cases mp_forward_ends mp_forward_refl by blast

lemma mp_forward_Abort: "AbortMultipartUpload clk req r = (res, r') \<Longrightarrow> mp_forward r r'"
  using AbortMultipartUpload_cases mp_forward_ends mp_forward_refl by blast

lemma mp_forward_Cleanup:
  assumes "CleanupMultipartUploadParts now req r = (res, r')"
  shows "mp_forward r r'"
proof (cases "r' = r")
  case False
  with Cleanup_cases [OF assms] obtain up where up: "getUploadLocked (cleanup_target req) r = Inr up"
    and r': "r' = r\<lparr>r_parts := fold map_del (cleanup_keys (cleanup_target req) (NormalizeMultipartCleanupLimit (q_cl_Limit req)) r) (r_parts r),
           r_uploads := map_put (cleanup_key req) (cleaned now req up r) (r_uploads r)\<rparr>"
    by blast
  from getUploadLocked_ok [OF up] show ?thesis
    by (intro mp_forward_put_upload [where key = "cleanup_key req" and up' = "cleaned now req up r"]) (simp_all add: r')
qed simp

definition demo_mp :: Repository where
  \<comment> \<open>an aborted upload with two parts, for the witnesses\<close>
  "demo_mp =
     (let up = zero_MultipartUpload\<lparr>mu_BucketID := ''b'', mu_Key := ''k'', mu_UploadID := ''u'',
                 mu_State := MultipartUploadAborted\<rparr>;
          part = (\<lambda>n. \<lparr>mp_UploadID = ''u'', mp_PartNumber = n, mp_SizeBytes = 1, mp_ETag = ''e'',
                 mp_SegmentRef = zero_SegmentRef, mp_CreatedAt = 1, mp_UpdatedAt = 1\<rparr>)
      in (NewWithClock 0)\<lparr>r_uploads := [((''b'', ''k'', ''u''), up)],
           r_parts := [((''b'', ''k'', ''u'', 2), part 2), ((''b'', ''k'', ''u'', 1), part 1)]\<rparr>)"

theorem cleanup_terminates_witness:
  "let req = \<lparr>q_cl_BucketID = ''b'', q_cl_Key = ''k'', q_cl_UploadID = ''u'', q_cl_Limit = 1\<rparr>;
       r' = ((\<lambda>s. snd (CleanupMultipartUploadParts 5 req s)) ^^ 2) demo_mp
   in mp_inv demo_mp \<and> parts_of (''b'', ''k'', ''u'') (r_parts demo_mp) \<noteq> [] \<and>
      parts_of (''b'', ''k'', ''u'') (r_parts r') = []"
proof -
  let ?req = "\<lparr>q_cl_BucketID = ''b'', q_cl_Key = ''k'', q_cl_UploadID = ''u'', q_cl_Limit = 1\<rparr>"
  have inv: "mp_inv demo_mp" by code_simp
  have up: "getUploadLocked \<lparr>q_mu_BucketID = q_cl_BucketID ?req, q_mu_Key = q_cl_Key ?req,
      q_mu_UploadID = q_cl_UploadID ?req\<rparr> demo_mp =
      Inr (zero_MultipartUpload\<lparr>mu_BucketID := ''b'', mu_Key := ''k'', mu_UploadID := ''u'',
        mu_State := MultipartUploadAborted\<rparr>)" by (simp add: getUploadLocked_def demo_mp_def Let_def)
  have n: "int (length (parts_of (''b'', ''k'', ''u'') (r_parts demo_mp))) \<le> int 2 * NormalizeMultipartCleanupLimit 1"
    by code_simp
  have "parts_of (''b'', ''k'', ''u'') (r_parts demo_mp) \<noteq> []" by code_simp
  then show ?thesis
    using cleanup_terminates [OF inv up, where n = 2 and now = 5] n inv by (simp add: Let_def)
qed

section \<open>The active-upload quota\<close>

abbreviation active_uploads :: "string \<Rightarrow> Repository \<Rightarrow> int" where
  "active_uploads t r \<equiv> tu_ActiveUploads (map_get zero_TenantUsage (r_tenantUsages r) t)"

lemma active_uploads_delta:
  assumes "t \<noteq> []" "map_of (r_tenants r) t \<noteq> None"
    "tu_TenantID (map_get zero_TenantUsage (r_tenantUsages r) t) \<in> {[], t}"
  shows "active_uploads t (applyTenantActiveUploadDeltaLocked t d now wall r) =
    max 0 (wrap64 (active_uploads t r + d))"
  using assms by (auto simp: applyTenantActiveUploadDeltaLocked_def ApplyTenantActiveUploadDelta_def
      map_get_def Let_def max_def)

text \<open>C30 (bounds). An active-upload quota is never exceeded by creating an upload: when the
  tenant already has \<open>MaxActiveUploads\<close> uploads the call is refused with nothing changed,
  otherwise a successful call raises the tenant's counter by exactly one and leaves it within
  the quota.\<close>

theorem create_upload_within_quota:
  fixes req :: CreateMultipartUploadRequest
  assumes bucket: "map_of (r_bucketsByID r) (q_cm_BucketID req) = Some bucket"
    and tenant: "bk_TenantID bucket = t" "t \<noteq> []" "map_of (r_tenants r) t \<noteq> None"
    and quota: "map_of (r_tenantQuotas r) t = Some quota" "0 < tq_MaxActiveUploads quota"
      "tq_MaxActiveUploads quota < 2 ^ 63"
    and usage: "tu_TenantID (map_get zero_TenantUsage (r_tenantUsages r) t) \<in> {[], t}"
      "0 \<le> tu_ActiveUploads (map_get zero_TenantUsage (r_tenantUsages r) t)"
    and op: "CreateMultipartUpload clk ids req r = (res, r')"
  shows "case res of
      Inl e \<Rightarrow> r' = r
    | Inr up \<Rightarrow>
        tu_ActiveUploads (map_get zero_TenantUsage (r_tenantUsages r) t) < tq_MaxActiveUploads quota \<and>
        tu_ActiveUploads (map_get zero_TenantUsage (r_tenantUsages r') t) =
          tu_ActiveUploads (map_get zero_TenantUsage (r_tenantUsages r) t) + 1 \<and>
        tu_ActiveUploads (map_get zero_TenantUsage (r_tenantUsages r') t) \<le> tq_MaxActiveUploads quota"
proof (cases res)
  case (Inl e)
  with op show ?thesis by (auto dest: CreateMultipartUpload_error)
next
  case (Inr up)
  from CreateMultipartUpload_ok [OF op [unfolded Inr]] bucket tenant(1)
  have check: "checkTenantActiveUploadQuotaLocked t r = None"
    and r': "r' = applyTenantActiveUploadDeltaLocked t 1 (clk 0) (clk 1)
       (r\<lparr>r_uploads := map_put (q_cm_BucketID req, q_cm_Key req, mu_UploadID up) up (r_uploads r)\<rparr>)"
    by auto
  have below: "active_uploads t r < tq_MaxActiveUploads quota"
    using check tenant quota by (auto simp: checkTenantActiveUploadQuotaLocked_def split: if_splits)
  then have "active_uploads t r' = active_uploads t r + 1"
    unfolding r' using tenant(2,3) usage quota(3) by (subst active_uploads_delta) (simp_all add: wrap64_id)
  with below show ?thesis by (simp add: Inr)
qed

definition demo_quota :: Repository where
  "demo_quota = (NewWithClock 0)\<lparr>
     r_tenants := [(''t'', \<lparr>tn_TenantID = ''t'', tn_DisplayName = ''t'', tn_CreatedAt = 1\<rparr>)],
     r_tenantQuotas := [(''t'', zero_TenantQuota\<lparr>tq_TenantID := ''t'', tq_MaxActiveUploads := 1\<rparr>)],
     r_bucketsByID := [(''b'', zero_Bucket\<lparr>bk_BucketID := ''b'', bk_TenantID := ''t''\<rparr>)]\<rparr>"

definition demo_create :: CreateMultipartUploadRequest where
  "demo_create = \<lparr>q_cm_BucketID = ''b'', q_cm_Key = ''k'', q_cm_ContentType = [],
     q_cm_StorageClass = zero_StorageClassSnapshot, q_cm_ServerSideEncryption = mu_ServerSideEncryption zero_MultipartUpload,
     q_cm_UserMetadata = [], q_cm_Tags = [], q_cm_ObjectLockRetention = mu_ObjectLockRetention zero_MultipartUpload,
     q_cm_ObjectLockLegalHold = mu_ObjectLockLegalHold zero_MultipartUpload\<rparr>"

theorem create_upload_within_quota_witness:
  "let (res, r') = CreateMultipartUpload (\<lambda>_. 7) (\<lambda>_. Some ''u'') demo_create demo_quota
   in \<not> isl res \<and> tu_ActiveUploads (map_get zero_TenantUsage (r_tenantUsages r') ''t'') = 1"
proof -
  obtain res r' where op: "CreateMultipartUpload (\<lambda>_. 7) (\<lambda>_. Some ''u'') demo_create demo_quota = (res, r')"
    by fastforce
  have "\<not> isl (fst (CreateMultipartUpload (\<lambda>_. 7) (\<lambda>_. Some ''u'') demo_create demo_quota))" by code_simp
  then obtain up where res: "res = Inr up" by (cases res) (simp_all add: op)
  have "case res of Inl e \<Rightarrow> r' = demo_quota | Inr up \<Rightarrow>
      active_uploads ''t'' demo_quota < 1 \<and> active_uploads ''t'' r' = active_uploads ''t'' demo_quota + 1 \<and>
      active_uploads ''t'' r' \<le> 1"
    using create_upload_within_quota [of demo_quota demo_create _ "''t''"
        "zero_TenantQuota\<lparr>tq_TenantID := ''t'', tq_MaxActiveUploads := 1\<rparr>", OF _ _ _ _ _ _ _ _ _ op]
    by (simp add: res demo_quota_def demo_create_def zero_Bucket_def map_get_def zero_TenantUsage_def NewWithClock_def)
  moreover have "active_uploads ''t'' demo_quota = 0" by code_simp
  ultimately show ?thesis unfolding op res by simp
qed

end
