(* ===== verification/Steps.thy ===== *)
theory Steps
  imports Import MultipartLife
begin

text \<open>
  The repository as a state machine: one step is one call of an operation of the interface
  \<open>meta.Repository\<close>, whatever it returns. Every operation that writes is a rule; the reads
  leave the state alone. The rules are grouped by the part of the state they may change, and
  each group is shown to leave the other parts as they are. The import of operational records
  has no rule: it is a restore into a repository and may replace the audit chain.
\<close>

section \<open>Parts of the state\<close>

definition bucket_part :: "Repository \<Rightarrow> _" where
  "bucket_part r = (r_bucketsByID r, r_bucketNameToID r)"

definition objects_part :: "Repository \<Rightarrow> _" where
  "objects_part r = (r_heads r, r_versions r, r_protectedRefs r)"

definition multipart_part :: "Repository \<Rightarrow> _" where
  "multipart_part r = (r_uploads r, r_parts r, r_completions r)"

definition audit_part :: "Repository \<Rightarrow> _" where
  "audit_part r = (r_auditEvents r, r_auditHeadHash r, r_nextAuditID r)"

definition shared_part :: "Repository \<Rightarrow> _" where
  "shared_part r = (r_sharedObjects r, r_sharedRefs r)"

lemmas part_defs = bucket_part_def objects_part_def multipart_part_def audit_part_def shared_part_def

section \<open>Tables on the side\<close>

inductive side_step :: "Repository \<Rightarrow> Repository \<Rightarrow> bool" where
  schema: "side_step r (snd (PutMetadataSchema now q1 r))"
| tenant: "side_step r (snd (CreateTenant now q2 r))"
| tenant_quota: "side_step r (snd (PutTenantQuota clk q3 r))"
| tenant_quota_del: "side_step r (snd (DeleteTenantQuota i r))"
| tenant_usage: "side_step r (snd (PutTenantUsage clk q4 r))"
| access_key: "side_step r (snd (PutAccessKey now q5 r))"
| kms_key: "side_step r (snd (PutKMSKey now q6 r))"
| compliance: "side_step r (snd (PutComplianceProfileAttachment now q7 r))"
| bucket_quota: "side_step r (snd (PutBucketQuota clk q8 r))"
| bucket_quota_del: "side_step r (snd (DeleteBucketQuota i r))"
| dedupe_acquire: "side_step r (snd (AcquireDedupeOperationLock now q9 r))"
| dedupe_release: "side_step r (snd (ReleaseDedupeOperationLock q10 r))"
| lease_acquire: "side_step r (snd (AcquireWorkerLease now q11 r))"
| lease_release: "side_step r (snd (ReleaseWorkerLease now q12 r))"
| control: "side_step r (snd (PutWorkerControl now q13 r))"
| gc_op: "side_step r (snd (PutGCOperation now q14 r))"
| dedupe_op: "side_step r (snd (PutDedupeOperation now q15 r))"
| worker_op: "side_step r (snd (PutWorkerOperation now q16 r))"
| migration_op: "side_step r (snd (PutMetadataMigrationOperation now q17 r))"
| drain_op: "side_step r (snd (PutVolumeDrainOperation now q18 r))"
| gc_candidate: "side_step r (snd (PutGCCandidate now q19 r))"
| gc_candidate_del: "side_step r (snd (DeleteGCCandidate i r))"
| volume_pool: "side_step r (snd (PutVolumePool now q20 r))"
| release: "side_step r (snd (PutSharedObjectRelease now q21 r))"

lemma side_step_parts:
  assumes "side_step r r'"
  shows "bucket_part r' = bucket_part r" "objects_part r' = objects_part r"
    "multipart_part r' = multipart_part r" "audit_part r' = audit_part r" "shared_part r' = shared_part r"
  using assms
  by (induction rule: side_step.induct)
    (simp_all add: part_defs Let_def PutMetadataSchema_def CreateTenant_def PutTenantQuota_def
      DeleteTenantQuota_def PutTenantUsage_def PutAccessKey_def PutKMSKey_def
      PutComplianceProfileAttachment_def PutBucketQuota_def DeleteBucketQuota_def
      AcquireDedupeOperationLock_def ReleaseDedupeOperationLock_def AcquireWorkerLease_def
      ReleaseWorkerLease_def PutWorkerControl_def PutGCOperation_def PutDedupeOperation_def
      PutWorkerOperation_def PutMetadataMigrationOperation_def PutVolumeDrainOperation_def
      PutGCCandidate_def DeleteGCCandidate_def PutVolumePool_def PutSharedObjectRelease_def
      split: option.splits sum.splits)

section \<open>Buckets\<close>

inductive config_step :: "Env \<Rightarrow> Repository \<Rightarrow> Repository \<Rightarrow> bool" for E where
  versioning: "config_step E r (snd (PutBucketVersioning q1 r))"
| cors: "config_step E r (snd (PutBucketCORS q2 r))"
| cors_del: "config_step E r (snd (DeleteBucketCORS i r))"
| lifecycle: "config_step E r (snd (PutBucketLifecycle E now q3 r))"
| lifecycle_del: "config_step E r (snd (DeleteBucketLifecycle E now i audit r))"
| encryption: "config_step E r (snd (PutBucketEncryption E now q4 r))"
| encryption_del: "config_step E r (snd (DeleteBucketEncryption E now i audit r))"
| policy: "config_step E r (snd (PutBucketPolicy E now q5 r))"
| policy_del: "config_step E r (snd (DeleteBucketPolicy E now i audit r))"
| object_lock: "config_step E r (snd (PutBucketObjectLock E now q6 r))"

inductive bucket_step :: "Env \<Rightarrow> Repository \<Rightarrow> Repository \<Rightarrow> bool" for E where
  create: "ids_ok ids \<Longrightarrow> bucket_step E r (snd (CreateBucket now ids q r))"
| config: "config_step E r r' \<Longrightarrow> bucket_step E r r'"
| delete: "bucket_step E r (snd (DeleteBucket i r))"

lemma config_step_parts:
  assumes "config_step E r r'"
  shows "objects_part r' = objects_part r" "multipart_part r' = multipart_part r"
    "shared_part r' = shared_part r" "r_bucketNameToID r' = r_bucketNameToID r"
  using assms
  by (induction rule: config_step.induct)
    (simp_all add: part_defs Let_def bucket_config_defs putBucketLocked_def appendAuditEventLocked_def
      split: option.splits)

lemma config_step_inv: "config_step E r r' \<Longrightarrow> bucket_inv r \<Longrightarrow> bucket_inv r'"
  by (induction rule: config_step.induct) (auto intro: bucket_inv_config)

lemma audit_inv_cong: "audit_part r' = audit_part r \<Longrightarrow> audit_inv E r' = audit_inv E r"
  by (simp add: audit_part_def audit_inv_def)

lemma audit_inv_putBucketLocked [simp]: "audit_inv E (putBucketLocked b r) = audit_inv E r"
  by (simp add: putBucketLocked_def audit_inv_def)

lemma config_step_audit: "config_step E r r' \<Longrightarrow> audit_inv E r \<Longrightarrow> audit_inv E r'"
  by (induction rule: config_step.induct)
    (simp_all add: Let_def bucket_config_defs audit_inv_append split: option.splits)

definition relocks :: "Bucket \<Rightarrow> Bucket \<Rightarrow> bool" where
  "relocks b b' \<longleftrightarrow> bk_BucketID b' = bk_BucketID b \<and> (bol_Enabled (bk_ObjectLock b) \<longrightarrow> bol_Enabled (bk_ObjectLock b'))"

definition rebucketed :: "(string, Bucket) gomap \<Rightarrow> (string, Bucket) gomap \<Rightarrow> bool" where
  "rebucketed m m' \<longleftrightarrow> m' = m \<or>
     (\<exists>i b b'. map_of m i = Some b \<and> relocks b b' \<and> m' = map_put (bk_BucketID b) b' m)"

lemma rebucketed_same: "rebucketed m m"
  by (simp add: rebucketed_def)

lemma rebucketed_put: "map_of m i = Some b \<Longrightarrow> relocks b b' \<Longrightarrow> rebucketed m (map_put (bk_BucketID b) b' m)"
  unfolding rebucketed_def by blast

lemma config_step_bucket: "config_step E r r' \<Longrightarrow> rebucketed (r_bucketsByID r) (r_bucketsByID r')"
  by (induction rule: config_step.induct)
    (auto simp: Let_def bucket_config_defs putBucketLocked_def appendAuditEventLocked_def relocks_def
      validateBucketObjectLockConfiguration_def
      intro!: rebucketed_same rebucketed_put split: option.splits if_splits)

lemma rebucketed_lookup:
  assumes "rebucketed (r_bucketsByID r) m" "bucket_inv r" "map_of (r_bucketsByID r) i = Some b"
  shows "\<exists>b'. map_of m i = Some b' \<and> relocks b b'"
  using assms bucket_id [OF assms(2)] unfolding rebucketed_def
  by (auto simp: relocks_def)

lemma rebucketed_ids:
  assumes "rebucketed (r_bucketsByID r) m" "bucket_inv r"
  shows "set (map fst m) = set (map fst (r_bucketsByID r))"
proof -
  have "dom (map_of m) = dom (map_of (r_bucketsByID r))"
    using assms bucket_id [OF assms(2)] unfolding rebucketed_def
    by (auto simp: map_of_put_fun split: if_splits)
  then show ?thesis by (simp add: dom_map_of_conv_image_fst)
qed

section \<open>Audit, multipart uploads and shared objects\<close>

inductive audit_step :: "Env \<Rightarrow> Repository \<Rightarrow> Repository \<Rightarrow> bool" for E where
  admin_event: "audit_step E r (snd (PutAdminAuditEvent E now q1 r))"
| admin_events: "audit_step E r (snd (PutAdminAuditEvents E clk q2 r))"

inductive multipart_step :: "Repository \<Rightarrow> Repository \<Rightarrow> bool" where
  create: "multipart_step r (snd (CreateMultipartUpload clk ids q1 r))"
| part: "multipart_step r (snd (PutMultipartPart now q2 r))"
| prepare: "multipart_step r (snd (PrepareMultipartCompletion now q3 r))"
| published: "multipart_step r (snd (MarkMultipartCompletionPublished now q4 r))"
| completed: "multipart_step r (snd (MarkMultipartCompletionCompleted now q4 r))"
| complete: "multipart_step r (snd (CompleteMultipartUpload clk q5 r))"
| abort: "multipart_step r (snd (AbortMultipartUpload clk q6 r))"
| cleanup: "multipart_step r (snd (CleanupMultipartUploadParts now q7 r))"

inductive shared_step :: "Env \<Rightarrow> Repository \<Rightarrow> Repository \<Rightarrow> bool" for E where
  publish: "shared_step E r (snd (PublishSharedObject E now q1 r))"
| repair: "shared_step E r (snd (RepairSharedObjectRefCounts now q2 r))"

lemma append_audit_parts [simp]:
  "bucket_part (appendAuditEventLocked E now ev r) = bucket_part r"
  "objects_part (appendAuditEventLocked E now ev r) = objects_part r"
  "multipart_part (appendAuditEventLocked E now ev r) = multipart_part r"
  "shared_part (appendAuditEventLocked E now ev r) = shared_part r"
  by (simp_all add: part_defs appendAuditEventLocked_def Let_def)

lemma append_admin_parts:
  "bucket_part (snd (appendAdminAuditEvents E clk i qs r)) = bucket_part r"
  "objects_part (snd (appendAdminAuditEvents E clk i qs r)) = objects_part r"
  "multipart_part (snd (appendAdminAuditEvents E clk i qs r)) = multipart_part r"
  "shared_part (snd (appendAdminAuditEvents E clk i qs r)) = shared_part r"
  by (induction qs arbitrary: i r) (simp_all add: Let_def case_prod_beta)

lemma audit_step_parts:
  assumes "audit_step E r r'"
  shows "bucket_part r' = bucket_part r" "objects_part r' = objects_part r"
    "multipart_part r' = multipart_part r" "shared_part r' = shared_part r"
  using assms
  by (induction rule: audit_step.induct)
    (simp_all add: PutAdminAuditEvent_def PutAdminAuditEvents_def Let_def case_prod_beta append_admin_parts)

lemma audit_step_inv: "audit_step E r r' \<Longrightarrow> audit_inv E r \<Longrightarrow> audit_inv E r'"
  by (induction rule: audit_step.induct) (simp_all add: audit_inv_PutAdminAuditEvent audit_inv_PutAdminAuditEvents)

lemma delta_parts [simp]:
  "bucket_part (applyTenantActiveUploadDeltaForBucketLocked b d n w r) = bucket_part r"
  "objects_part (applyTenantActiveUploadDeltaForBucketLocked b d n w r) = objects_part r"
  "audit_part (applyTenantActiveUploadDeltaForBucketLocked b d n w r) = audit_part r"
  "shared_part (applyTenantActiveUploadDeltaForBucketLocked b d n w r) = shared_part r"
  "bucket_part (applyTenantActiveUploadDeltaLocked b d n w r) = bucket_part r"
  "objects_part (applyTenantActiveUploadDeltaLocked b d n w r) = objects_part r"
  "audit_part (applyTenantActiveUploadDeltaLocked b d n w r) = audit_part r"
  "shared_part (applyTenantActiveUploadDeltaLocked b d n w r) = shared_part r"
  by (simp_all add: applyTenantActiveUploadDeltaLocked_def applyTenantActiveUploadDeltaForBucketLocked_def
      part_defs split: option.split sum.split)

lemma upload_fields_parts [simp]:
  "bucket_part (r\<lparr>r_uploads := u\<rparr>) = bucket_part r" "objects_part (r\<lparr>r_uploads := u\<rparr>) = objects_part r"
  "audit_part (r\<lparr>r_uploads := u\<rparr>) = audit_part r" "shared_part (r\<lparr>r_uploads := u\<rparr>) = shared_part r"
  "bucket_part (r\<lparr>r_parts := p\<rparr>) = bucket_part r" "objects_part (r\<lparr>r_parts := p\<rparr>) = objects_part r"
  "audit_part (r\<lparr>r_parts := p\<rparr>) = audit_part r" "shared_part (r\<lparr>r_parts := p\<rparr>) = shared_part r"
  "bucket_part (r\<lparr>r_completions := c\<rparr>) = bucket_part r" "objects_part (r\<lparr>r_completions := c\<rparr>) = objects_part r"
  "audit_part (r\<lparr>r_completions := c\<rparr>) = audit_part r" "shared_part (r\<lparr>r_completions := c\<rparr>) = shared_part r"
  by (simp_all add: part_defs)

lemma multipart_step_parts:
  assumes "multipart_step r r'"
  shows "bucket_part r' = bucket_part r" "objects_part r' = objects_part r"
    "audit_part r' = audit_part r" "shared_part r' = shared_part r"
  using assms
  by (induction rule: multipart_step.induct)
    (simp_all add: CreateMultipartUpload_def PutMultipartPart_def PrepareMultipartCompletion_def
      MarkMultipartCompletionPublished_def MarkMultipartCompletionCompleted_def
      markMultipartCompletionState_def CompleteMultipartUpload_def AbortMultipartUpload_def
      CleanupMultipartUploadParts_def Let_def
      split: option.splits sum.splits MultipartUploadState.splits)

lemma multipart_step_inv: "multipart_step r r' \<Longrightarrow> mp_inv r \<Longrightarrow> mp_inv r'"
  by (induction rule: multipart_step.induct)
    (auto simp: MarkMultipartCompletionPublished_def MarkMultipartCompletionCompleted_def
      intro: mp_inv_CreateMultipartUpload mp_inv_PutMultipartPart mp_inv_Prepare mp_inv_mark
        mp_inv_Complete mp_inv_Abort mp_inv_Cleanup prod.collapse [symmetric])

lemma multipart_step_forward: "multipart_step r r' \<Longrightarrow> mp_inv r \<Longrightarrow> mp_forward r r'"
  by (induction rule: multipart_step.induct)
    (auto simp: MarkMultipartCompletionPublished_def MarkMultipartCompletionCompleted_def
      intro: mp_forward_Create mp_forward_PutPart mp_forward_Prepare mp_forward_mark
        mp_forward_Complete mp_forward_Abort mp_forward_Cleanup prod.collapse [symmetric])

lemma shared_step_parts:
  assumes "shared_step E r r'"
  shows "bucket_part r' = bucket_part r" "objects_part r' = objects_part r"
    "multipart_part r' = multipart_part r" "audit_part r' = audit_part r"
proof -
  obtain so sr where "r' = r\<lparr>r_sharedObjects := so, r_sharedRefs := sr\<rparr>"
  proof (cases rule: shared_step.cases [OF assms])
    case (1 now q1)
    have "r' = r\<lparr>r_sharedObjects := r_sharedObjects r', r_sharedRefs := r_sharedRefs r'\<rparr>"
      unfolding 1 by (rule PublishSharedObject_frame [OF prod.collapse [symmetric]])
    then show ?thesis by (rule that)
  next
    case (2 now q2)
    have "r' = r\<lparr>r_sharedObjects := r_sharedObjects r'\<rparr>"
      unfolding 2 by (rule Repair_frame [OF prod.collapse [symmetric]])
    also have "\<dots> = r\<lparr>r_sharedObjects := r_sharedObjects r', r_sharedRefs := r_sharedRefs r\<rparr>" by simp
    finally show ?thesis by (rule that)
  qed
  then show "bucket_part r' = bucket_part r" "objects_part r' = objects_part r"
    "multipart_part r' = multipart_part r" "audit_part r' = audit_part r"
    by (simp_all add: part_defs)
qed

lemma shared_step_inv: "shared_step E r r' \<Longrightarrow> shared_inv r \<Longrightarrow> prot_inv E T r \<Longrightarrow> shared_inv r'"
  by (induction rule: shared_step.induct)
    (auto intro: shared_inv_PublishSharedObject shared_inv_Repair prod.collapse [symmetric])

section \<open>Objects\<close>

definition readings :: "clock \<Rightarrow> time \<Rightarrow> time \<Rightarrow> bool" where
  "readings clk T T' \<longleftrightarrow> (\<forall>i. T \<le> clk i \<and> clk i \<le> T')"

inductive object_step :: "Env \<Rightarrow> time \<Rightarrow> Repository \<Rightarrow> time \<Rightarrow> Repository \<Rightarrow> bool" for E where
  begin_put: "T \<le> T' \<Longrightarrow> ids_ok ids \<Longrightarrow> segs_nul_free q1 \<Longrightarrow> object_step E T r T' (snd (BeginPutObject E now ids q1 r))"
| put: "T \<le> T' \<Longrightarrow> ids_ok ids \<Longrightarrow> segs_nul_free q1 \<Longrightarrow> object_step E T r T' (snd (PutObjectVersion E T' ids q1 r))"
| commit: "T \<le> T' \<Longrightarrow> object_step E T r T' (snd (CommitObjectVersion E T' q2 r))"
| delete: "T \<le> T' \<Longrightarrow> readings clk T T' \<Longrightarrow> ids_ok ids \<Longrightarrow> object_step E T r T' (snd (DeleteObject E clk ids q3 r))"
| tags: "T \<le> T' \<Longrightarrow> object_step E T r T' (snd (PutObjectTags q4 r))"
| tags_del: "T \<le> T' \<Longrightarrow> object_step E T r T' (snd (DeleteObjectTags q4 r))"
| retention: "readings clk T T' \<Longrightarrow> object_step E T r T' (snd (PutObjectRetention E clk q5 r))"
| legal_hold: "readings clk T T' \<Longrightarrow> object_step E T r T' (snd (PutObjectLegalHold E clk q6 r))"
| relocate: "T \<le> T' \<Longrightarrow> \<forall>s \<in> set (q_pr_SegmentRefs q8). nul_free (sg_SegmentID s) \<Longrightarrow>
    object_step E T r T' (snd (PublishObjectVersionRefs T' q8 r))"

lemma object_fields_parts [simp]:
  "bucket_part (r\<lparr>r_heads := h\<rparr>) = bucket_part r" "multipart_part (r\<lparr>r_heads := h\<rparr>) = multipart_part r"
  "audit_part (r\<lparr>r_heads := h\<rparr>) = audit_part r" "shared_part (r\<lparr>r_heads := h\<rparr>) = shared_part r"
  "bucket_part (r\<lparr>r_versions := v\<rparr>) = bucket_part r" "multipart_part (r\<lparr>r_versions := v\<rparr>) = multipart_part r"
  "audit_part (r\<lparr>r_versions := v\<rparr>) = audit_part r" "shared_part (r\<lparr>r_versions := v\<rparr>) = shared_part r"
  "bucket_part (r\<lparr>r_protectedRefs := p\<rparr>) = bucket_part r" "multipart_part (r\<lparr>r_protectedRefs := p\<rparr>) = multipart_part r"
  "audit_part (r\<lparr>r_protectedRefs := p\<rparr>) = audit_part r" "shared_part (r\<lparr>r_protectedRefs := p\<rparr>) = shared_part r"
  "bucket_part (r\<lparr>r_sharedObjects := x\<rparr>) = bucket_part r" "multipart_part (r\<lparr>r_sharedObjects := x\<rparr>) = multipart_part r"
  "audit_part (r\<lparr>r_sharedObjects := x\<rparr>) = audit_part r"
  "bucket_part (r\<lparr>r_sharedRefs := y\<rparr>) = bucket_part r" "multipart_part (r\<lparr>r_sharedRefs := y\<rparr>) = multipart_part r"
  "audit_part (r\<lparr>r_sharedRefs := y\<rparr>) = audit_part r"
  by (simp_all add: part_defs)

lemma object_fields_audit [simp]:
  "audit_inv E (r\<lparr>r_heads := h\<rparr>) = audit_inv E r" "audit_inv E (r\<lparr>r_versions := v\<rparr>) = audit_inv E r"
  "audit_inv E (r\<lparr>r_protectedRefs := p\<rparr>) = audit_inv E r"
  "audit_inv E (r\<lparr>r_sharedObjects := x\<rparr>) = audit_inv E r" "audit_inv E (r\<lparr>r_sharedRefs := y\<rparr>) = audit_inv E r"
  by (simp_all add: audit_inv_def)

lemmas object_writes =
  replaceHeadVersionLocked_def commitVersionLocked_def storeVersionLocked_def removeVersionLocked_def
  removeHeadLocked_def createDeleteMarkerLocked_def deleteVersionRecordLocked_def
  updateHeadObjectLockLocked_def putVersionLockLocked_def attachLocked_def publishRefsLocked_def

lemma write_parts [simp]:
  "bucket_part (replaceHeadVersionLocked bk b k h v r) = bucket_part r"
  "multipart_part (replaceHeadVersionLocked bk b k h v r) = multipart_part r"
  "shared_part (replaceHeadVersionLocked bk b k h v r) = shared_part r"
  "audit_inv E (replaceHeadVersionLocked bk b k h v r) = audit_inv E r"
  "bucket_part (updateHeadObjectLockLocked v r) = bucket_part r"
  "multipart_part (updateHeadObjectLockLocked v r) = multipart_part r"
  "shared_part (updateHeadObjectLockLocked v r) = shared_part r"
  "audit_inv E (updateHeadObjectLockLocked v r) = audit_inv E r"
  by (simp_all add: object_writes repo_aux Let_def split: option.split)

lemma remove_parts:
  "bucket_part (removeVersionLocked E clk q v r) = bucket_part r"
  "multipart_part (removeVersionLocked E clk q v r) = multipart_part r"
  "shared_part (removeVersionLocked E clk q v r) = shared_part r"
  "audit_inv E r \<Longrightarrow> audit_inv E (removeVersionLocked E clk q v r)"
  "bucket_part (snd (removeHeadLocked E clk q h r)) = bucket_part r"
  "multipart_part (snd (removeHeadLocked E clk q h r)) = multipart_part r"
  "shared_part (snd (removeHeadLocked E clk q h r)) = shared_part r"
  "audit_inv E r \<Longrightarrow> audit_inv E (snd (removeHeadLocked E clk q h r))"
  by (simp_all add: object_writes repo_aux Let_def audit_inv_append case_prod_beta split: option.split)

lemmas object_op_defs =
  BeginPutObject_def PutObjectVersion_def CommitObjectVersion_def DeleteObject_def
  deleteObjectVersionLocked_def deleteHeadLocked_def createDeleteMarkerLocked_def PutObjectTags_def
  DeleteObjectTags_def putVersionTagsLocked_def putHeadTagsLocked_def PutObjectRetention_def
  PutObjectLegalHold_def AttachObjectVersionToSharedObject_def PublishObjectVersionRefs_def
  storeVersionLocked_def commitVersionLocked_def putVersionLockLocked_def attachLocked_def
  publishRefsLocked_def

lemma object_step_parts:
  assumes "object_step E T r T' r'"
  shows "bucket_part r' = bucket_part r" "multipart_part r' = multipart_part r" "shared_part r' = shared_part r"
  using assms
  by (induction rule: object_step.induct)
    (simp_all add: object_op_defs remove_parts repo_aux Let_def case_prod_beta split: option.split sum.split)

lemma attach_parts:
  "bucket_part (snd (AttachObjectVersionToSharedObject E clk q r)) = bucket_part r"
  "multipart_part (snd (AttachObjectVersionToSharedObject E clk q r)) = multipart_part r"
  "audit_part (snd (AttachObjectVersionToSharedObject E clk q r)) = audit_part r"
  by (simp_all add: AttachObjectVersionToSharedObject_def attachLocked_def repo_aux Let_def case_prod_beta
      split: option.split)

lemma object_step_audit: "object_step E T r T' r' \<Longrightarrow> audit_inv E r \<Longrightarrow> audit_inv E r'"
  by (induction rule: object_step.induct)
    (simp_all add: object_op_defs remove_parts repo_aux Let_def case_prod_beta audit_inv_append
      split: option.split sum.split)

lemma object_step_inv:
  assumes "object_step E T r T' r'" "obj_inv r" "prot_inv E T r"
  shows "obj_inv r' \<and> prot_inv E T' r'"
  using assms
proof (induction rule: object_step.induct)
  case (begin_put T T' ids q1 r now)
  then show ?case
    using inv_BeginPutObject [OF _ _ _ _ prod.collapse [symmetric]] prot_inv_mono by blast
next
  case (put T T' ids q1 r)
  then show ?case using inv_PutObjectVersion [OF _ _ _ _ _ prod.collapse [symmetric]] by blast
next
  case (commit T T' r q2)
  then show ?case using inv_CommitObjectVersion [OF _ _ _ prod.collapse [symmetric]] by blast
next
  case (delete T T' clk ids r q3)
  then show ?case using inv_DeleteObject [OF _ _ _ prod.collapse [symmetric]] prot_inv_mono by blast
next
  case (tags T T' r q4)
  then show ?case using inv_PutObjectTags [OF _ _ prod.collapse [symmetric]] prot_inv_mono by blast
next
  case (tags_del T T' r q4)
  then show ?case using inv_DeleteObjectTags [OF _ _ prod.collapse [symmetric]] prot_inv_mono by blast
next
  case (retention clk T T' r q5)
  then have "T \<le> clk 1" "clk 1 \<le> T'" by (auto simp: readings_def)
  with retention show ?case
    using inv_PutObjectRetention [OF _ _ _ prod.collapse [symmetric]] prot_inv_mono by blast
next
  case (legal_hold clk T T' r q6)
  then have "T \<le> clk 0" "clk 0 \<le> T'" by (auto simp: readings_def)
  with legal_hold show ?case
    using inv_PutObjectLegalHold [OF _ _ _ prod.collapse [symmetric]] prot_inv_mono by blast
next
  case (relocate T T' q8 r)
  then show ?case using inv_PublishRefs [OF _ _ _ _ prod.collapse [symmetric]] by blast
qed

end
