(* ===== verification/Reachable.thy ===== *)
theory Reachable
  imports Steps
begin

text \<open>
  The invariants of the whole repository over every sequence of operations, and what follows
  for the states a gateway can bring it to: the bucket tables stay inverse to each other,
  every head shows a committed version, the protected references cover every locked version,
  the audit log stays a hash chain, the counters of an upload agree with its parts, and a
  version under compliance retention in a bucket with object lock outlives every operation
  until its retention ends.
\<close>

section \<open>Steps, runs and reachable states\<close>

inductive repo_step :: "Env \<Rightarrow> time \<Rightarrow> Repository \<Rightarrow> time \<Rightarrow> Repository \<Rightarrow> bool" for E where
  side: "T \<le> T' \<Longrightarrow> side_step r r' \<Longrightarrow> repo_step E T r T' r'"
| bucket: "T \<le> T' \<Longrightarrow> bucket_step E r r' \<Longrightarrow> repo_step E T r T' r'"
| audit: "T \<le> T' \<Longrightarrow> audit_step E r r' \<Longrightarrow> repo_step E T r T' r'"
| multipart: "T \<le> T' \<Longrightarrow> multipart_step r r' \<Longrightarrow> repo_step E T r T' r'"
| shared: "T \<le> T' \<Longrightarrow> shared_step E r r' \<Longrightarrow> repo_step E T r T' r'"
| object: "object_step E T r T' r' \<Longrightarrow> repo_step E T r T' r'"
| attach: "readings clk T T' \<Longrightarrow> repo_step E T r T' (snd (AttachObjectVersionToSharedObject E clk q r))"

inductive repo_run :: "Env \<Rightarrow> time \<Rightarrow> Repository \<Rightarrow> time \<Rightarrow> Repository \<Rightarrow> bool" for E where
  none: "repo_run E T r T r"
| more: "repo_run E T r T' r' \<Longrightarrow> repo_step E T' r' T'' r'' \<Longrightarrow> repo_run E T r T'' r''"

definition reachable :: "Env \<Rightarrow> time \<Rightarrow> Repository \<Rightarrow> bool" where
  "reachable E T r \<longleftrightarrow> (\<exists>T0 \<ge> 0. repo_run E T0 (NewWithClock T0) T r)"

lemma readings_at: "readings clk T T' \<Longrightarrow> T \<le> clk i \<and> clk i \<le> T'"
  by (simp add: readings_def)

lemma readings_le: "readings clk T T' \<Longrightarrow> T \<le> T'"
  using readings_at [of clk T T' 0] by simp

lemma object_step_time: "object_step E T r T' r' \<Longrightarrow> T \<le> T'"
  by (induction rule: object_step.induct) (auto dest: readings_le)

lemma repo_step_time: "repo_step E T r T' r' \<Longrightarrow> T \<le> T'"
  by (induction rule: repo_step.induct) (auto dest: readings_le object_step_time)

lemma repo_run_time: "repo_run E T r T' r' \<Longrightarrow> T \<le> T'"
  by (induction rule: repo_run.induct) (auto dest: repo_step_time)

section \<open>The invariant\<close>

definition repo_inv :: "Env \<Rightarrow> time \<Rightarrow> Repository \<Rightarrow> bool" where
  "repo_inv E T r \<longleftrightarrow> bucket_inv r \<and> obj_inv r \<and> prot_inv E T r \<and> mp_inv r \<and> audit_inv E r \<and> shared_inv r"

lemma repo_inv_New: "repo_inv E T (NewWithClock T)"
  by (simp add: repo_inv_def bucket_inv_New obj_inv_New prot_inv_New mp_inv_New audit_inv_New shared_inv_New)

lemma parts_inv:
  "bucket_part r' = bucket_part r \<Longrightarrow> bucket_inv r' = bucket_inv r"
  "objects_part r' = objects_part r \<Longrightarrow> obj_inv r' = obj_inv r"
  "bucket_part r' = bucket_part r \<Longrightarrow> objects_part r' = objects_part r \<Longrightarrow> prot_inv E T r' = prot_inv E T r"
  "multipart_part r' = multipart_part r \<Longrightarrow> mp_inv r' = mp_inv r"
  "audit_part r' = audit_part r \<Longrightarrow> audit_inv E r' = audit_inv E r"
  "shared_part r' = shared_part r \<Longrightarrow> shared_inv r' = shared_inv r"
  by (simp_all add: part_defs bucket_inv_def obj_inv_def prot_inv_def mp_inv_def audit_inv_def shared_inv_def)

lemma CreateBucket_lookup:
  assumes "map_of (r_bucketsByID r) i = Some b"
  shows "map_of (r_bucketsByID (snd (CreateBucket now ids q r))) i = Some b"
proof (cases "nextBucketIDLocked ids r")
  case (Inl e)
  then show ?thesis using assms by (simp add: CreateBucket_def)
next
  case (Inr j)
  then have "j \<noteq> i" using bucket_ids.alloc_fresh [OF Inr] assms by (auto simp: bucket_taken_def)
  then show ?thesis using assms Inr by (simp add: CreateBucket_def Let_def)
qed

lemma keys_map_put: "set (map fst (map_put k v m)) = insert k (set (map fst m))"
proof -
  have "dom (map_of (map_put k v m)) = insert k (dom (map_of m))" by (simp add: map_of_put_fun)
  then show ?thesis by (simp add: dom_map_of_conv_image_fst)
qed

lemma bucket_fields_audit [simp]:
  "audit_inv E (r\<lparr>r_bucketsByID := m, r_bucketNameToID := n\<rparr>) = audit_inv E r"
  "audit_inv E (r\<lparr>r_bucketsByID := m, r_bucketNameToID := n, r_bucketQuotas := q\<rparr>) = audit_inv E r"
  by (simp_all add: audit_inv_def)

lemma CreateBucket_ids:
  assumes "ids_ok ids" "\<forall>i \<in> set (map fst (r_bucketsByID r)). nul_free i"
  shows "\<forall>i \<in> set (map fst (r_bucketsByID (snd (CreateBucket now ids q r)))). nul_free i"
proof -
  have "\<And>i. nextBucketIDLocked ids r = Inr i \<Longrightarrow> nul_free i"
    using assms(1) bucket_ids.alloc_source unfolding ids_ok_def by blast
  then show ?thesis
    using assms(2) by (simp add: CreateBucket_def Let_def keys_map_put del: set_map split: sum.split)
qed

lemma bucket_step_parts:
  assumes "bucket_step E r r'"
  shows "objects_part r' = objects_part r" "multipart_part r' = multipart_part r" "shared_part r' = shared_part r"
  using assms
proof (induction rule: bucket_step.induct)
  case (create ids r now q)
  case 1 show ?case by (simp add: CreateBucket_def Let_def part_defs split: sum.split)
  case 2 show ?case by (simp add: CreateBucket_def Let_def part_defs split: sum.split)
  case 3 show ?case by (simp add: CreateBucket_def Let_def part_defs split: sum.split)
next
  case (config r r')
  case 1 show ?case using config by (rule config_step_parts)
  case 2 show ?case using config by (rule config_step_parts)
  case 3 show ?case using config by (rule config_step_parts)
next
  case (delete r i)
  case 1 show ?case by (simp add: DeleteBucket_def part_defs split: option.split)
  case 2 show ?case by (simp add: DeleteBucket_def part_defs split: option.split)
  case 3 show ?case by (simp add: DeleteBucket_def part_defs split: option.split)
qed

lemma bucket_step_audit: "bucket_step E r r' \<Longrightarrow> audit_inv E r \<Longrightarrow> audit_inv E r'"
  by (induction rule: bucket_step.induct)
    (simp_all add: config_step_audit CreateBucket_def DeleteBucket_def Let_def split: option.split sum.split)

lemma bucket_step_inv: "bucket_step E r r' \<Longrightarrow> bucket_inv r \<Longrightarrow> bucket_inv r'"
  by (induction rule: bucket_step.induct)
    (simp_all add: config_step_inv bucket_inv_CreateBucket bucket_inv_DeleteBucket)

lemma bucket_step_ids:
  assumes "bucket_step E r r'" "bucket_inv r" "\<forall>i \<in> set (map fst (r_bucketsByID r)). nul_free i"
  shows "\<forall>i \<in> set (map fst (r_bucketsByID r')). nul_free i"
  using assms
proof (induction rule: bucket_step.induct)
  case (create ids r now q)
  then show ?case by (intro CreateBucket_ids)
next
  case (config r r')
  then show ?case using rebucketed_ids [OF config_step_bucket] by simp
next
  case (delete r i)
  then show ?case by (auto simp: DeleteBucket_def set_map_del split: option.split)
qed

lemma bucket_step_prot:
  assumes "bucket_step E r r'" "bucket_inv r" "prot_inv E T r"
  shows "prot_inv E T r'"
  using bucket_step_parts [OF assms(1)] bucket_step_ids [OF assms(1,2)] assms(3)
  by (simp add: prot_inv_def objects_part_def)

lemma repo_step_inv:
  assumes "repo_step E T r T' r'" "repo_inv E T r"
  shows "repo_inv E T' r'"
  using assms
proof (induction rule: repo_step.induct)
  case (side T T' r r')
  then show ?case using side_step_parts [OF side(2)] parts_inv [of r' r] prot_inv_mono [of E T r T']
    by (simp add: repo_inv_def)
next
  case (bucket T T' r r')
  then show ?case
    using bucket_step_parts [OF bucket(2)] bucket_step_audit [OF bucket(2)] bucket_step_inv [OF bucket(2)]
      bucket_step_prot [OF bucket(2), of T] parts_inv [of r' r] prot_inv_mono [of E T r' T']
    by (simp add: repo_inv_def)
next
  case (audit T T' r r')
  then show ?case
    using audit_step_parts [OF audit(2)] audit_step_inv [OF audit(2)] parts_inv [of r' r] prot_inv_mono [of E T r T']
    by (simp add: repo_inv_def)
next
  case (multipart T T' r r')
  then show ?case
    using multipart_step_parts [OF multipart(2)] multipart_step_inv [OF multipart(2)] parts_inv [of r' r]
      prot_inv_mono [of E T r T']
    by (simp add: repo_inv_def)
next
  case (shared T T' r r')
  then show ?case
    using shared_step_parts [OF shared(2)] shared_step_inv [OF shared(2), of T] parts_inv [of r' r]
      prot_inv_mono [of E T r T']
    by (simp add: repo_inv_def)
next
  case (object T r T' r')
  then show ?case
    using object_step_parts [OF object(1)] object_step_audit [OF object(1)] object_step_inv [OF object(1)]
      parts_inv [of r' r]
    by (simp add: repo_inv_def)
next
  case (attach clk T T' r q)
  let ?r = "snd (AttachObjectVersionToSharedObject E clk q r)"
  have "T \<le> clk 0" "clk 0 \<le> T'" using readings_at [OF attach(1)] by auto
  with attach show ?case
    using inv_Attach [OF _ _ _ _ prod.collapse [symmetric], of r E T clk q] prot_inv_mono [of E "clk 0" ?r T']
      attach_parts [of E clk q r] parts_inv [of ?r r]
    by (simp add: repo_inv_def)
qed

lemma repo_run_inv:
  "repo_run E T r T' r' \<Longrightarrow> repo_inv E T r \<Longrightarrow> repo_inv E T' r'"
  by (induction rule: repo_run.induct) (auto dest: repo_step_inv)

lemma reachable_inv: "reachable E T r \<Longrightarrow> repo_inv E T r"
  unfolding reachable_def using repo_run_inv repo_inv_New by blast

section \<open>Write once, read many\<close>

definition lock_enabled :: "string \<Rightarrow> Repository \<Rightarrow> bool" where
  "lock_enabled i r \<longleftrightarrow> (case map_of (r_bucketsByID r) i of
     None \<Rightarrow> False | Some b \<Rightarrow> bol_Enabled (bk_ObjectLock b))"

lemma lock_enabled_versioned: "bucket_inv r \<Longrightarrow> lock_enabled i r \<Longrightarrow> versioned i r"
  by (auto simp: lock_enabled_def versioned_def bucket_inv_iff bucket_ok_def split: option.splits)

lemma lock_enabled_cong: "bucket_part r' = bucket_part r \<Longrightarrow> lock_enabled i r' = lock_enabled i r"
  by (simp add: lock_enabled_def bucket_part_def)

lemma DeleteBucket_refused:
  assumes "map_of (r_versions r) (b, k, i) = Some v" "ov_State v = ObjectVersionCommitted"
  shows "snd (DeleteBucket b r) = r"
proof -
  have "((b, k, i), v) \<in> set (r_versions r)" using assms(1) by (rule map_of_SomeD)
  then have "list_ex (\<lambda>((c, k, i), v). c = b \<and> ov_State v = ObjectVersionCommitted) (r_versions r)"
    using assms(2) by (auto simp: list_ex_iff)
  then show ?thesis by (simp add: DeleteBucket_def split: option.split)
qed

lemma bucket_step_lock:
  assumes "bucket_step E r r'" "bucket_inv r" "lock_enabled b r"
    and "map_of (r_versions r) (b, k, i) = Some v" "ov_State v = ObjectVersionCommitted"
  shows "lock_enabled b r'"
  using assms
proof (induction rule: bucket_step.induct)
  case (create ids r now q)
  then obtain c where "map_of (r_bucketsByID r) b = Some c" "bol_Enabled (bk_ObjectLock c)"
    by (auto simp: lock_enabled_def split: option.splits)
  then show ?case using CreateBucket_lookup by (simp add: lock_enabled_def)
next
  case (config r r')
  then show ?case using rebucketed_lookup [OF config_step_bucket, of E r r' b]
    by (auto simp: lock_enabled_def relocks_def split: option.splits)
next
  case (delete r j)
  show ?case
  proof (cases "j = b")
    case True
    then show ?thesis using DeleteBucket_refused [OF delete(3,4)] delete(2) by simp
  next
    case False
    then show ?thesis using delete(2)
      by (cases "map_of (r_bucketsByID r) j") (simp_all add: DeleteBucket_def lock_enabled_def)
  qed
qed

lemma kept_object_step:
  assumes "object_step E T r T' r'" "obj_inv r" "versioned b r" "0 \<le> T" "T' \<le> t"
    and v: "map_of (r_versions r) (b, k, i) = Some v" "locked t v"
  shows "kept (b, k, i) v r'"
  using assms
proof (induction rule: object_step.induct)
  case (begin_put T T' ids q1 r now)
  then show ?case by (intro kept_BeginPutObject [OF _ _ prod.collapse [symmetric]])
next
  case (put T T' ids q1 r)
  then show ?case by (intro kept_PutObjectVersion [OF _ _ _ _ prod.collapse [symmetric]])
next
  case (commit T T' r q2)
  then show ?case by (intro kept_CommitObjectVersion [OF _ _ _ _ prod.collapse [symmetric]])
next
  case (delete T T' clk ids r q3)
  then have "clk 0 \<le> t" using readings_at [of clk T T' 0] by simp
  with delete show ?case by (intro kept_DeleteObject [OF _ _ _ _ _ prod.collapse [symmetric]])
next
  case (tags T T' r q4)
  then show ?case by (intro kept_PutObjectTags [OF _ _ _ prod.collapse [symmetric]])
next
  case (tags_del T T' r q4)
  then show ?case unfolding DeleteObjectTags_def by (intro kept_PutObjectTags [OF _ _ _ prod.collapse [symmetric]])
next
  case (retention clk T T' r q5)
  then have "clk 1 \<le> t" "olr_RetainUntilDate (ov_ObjectLockRetention v) \<noteq> 0"
    using readings_at [OF retention(1), of 1] by (auto simp: locked_def)
  with retention show ?case by (intro kept_PutObjectRetention [OF _ _ _ _ prod.collapse [symmetric]])
next
  case (legal_hold clk T T' r q6)
  then show ?case by (intro kept_PutObjectLegalHold [OF _ _ prod.collapse [symmetric]])
next
  case (relocate T T' q8 r)
  then show ?case by (intro kept_PublishRefs [OF _ _ _ _ prod.collapse [symmetric]])
qed

lemma kept_repo_step:
  assumes step: "repo_step E T r T' r'" and inv: "repo_inv E T r" and b: "lock_enabled b r"
    and t: "0 \<le> T" "T' \<le> t" and v: "map_of (r_versions r) (b, k, i) = Some v" "locked t v"
  shows "kept (b, k, i) v r' \<and> lock_enabled b r'"
proof -
  have same: "objects_part r' = objects_part r \<Longrightarrow> bucket_part r' = bucket_part r \<Longrightarrow> ?thesis"
    using b kept_unchanged [OF _ v, of r'] lock_enabled_cong [of r' r b] by (simp add: objects_part_def)
  have I: "bucket_inv r" "obj_inv r" using inv by (simp_all add: repo_inv_def)
  show ?thesis using step
  proof (cases rule: repo_step.cases)
    case side
    then show ?thesis by (intro same side_step_parts)
  next
    case bucket
    then show ?thesis
      using bucket_step_lock [OF _ I(1) b v(1)] kept_unchanged [OF _ v, of r'] v(2) bucket_step_parts(1) [of E r r']
      by (simp add: objects_part_def locked_def)
  next
    case audit
    then show ?thesis by (intro same audit_step_parts)
  next
    case multipart
    then show ?thesis by (intro same multipart_step_parts)
  next
    case shared
    then show ?thesis by (intro same shared_step_parts)
  next
    case object
    then show ?thesis
      using kept_object_step [OF object I(2) lock_enabled_versioned [OF I(1) b] t v] b
        lock_enabled_cong [OF object_step_parts(1)] by blast
  next
    case (attach clk q)
    then have "clk 0 \<le> t" using t readings_at [of clk T T' 0] by simp
    from kept_Attach [where clk = clk, OF I(2) v this prod.collapse [symmetric]] b attach(1) lock_enabled_cong [OF attach_parts(1)]
    show ?thesis by simp
  qed
qed

lemma stays_trans:
  assumes "stays u v" "stays v w"
  shows "stays u w"
  using assms by (cases u; cases v; cases w) (auto simp: stays_def)

lemma stays_locked: "stays v v' \<Longrightarrow> locked t v \<Longrightarrow> locked t v'"
  by (cases v; cases v') (auto simp: stays_def locked_def)

lemma kept_repo_run:
  assumes "repo_run E T r T' r'" "repo_inv E T r" "0 \<le> T" "lock_enabled b r"
    and "map_of (r_versions r) (b, k, i) = Some v" "locked T' v"
  shows "kept (b, k, i) v r' \<and> lock_enabled b r'"
  using assms
proof (induction rule: repo_run.induct)
  case (none T r)
  then show ?case by (simp add: kept_same)
next
  case (more T r T' r' T'' r'')
  have time: "T' \<le> T''" "0 \<le> T'" using repo_step_time [OF more(2)] repo_run_time [OF more(1)] more.prems(2) by simp_all
  then have "locked T' v" using more.prems(5) locked_mono by blast
  with more obtain v' where v': "map_of (r_versions r') (b, k, i) = Some v'" "stays v v'" "lock_enabled b r'"
    by (auto simp: kept_def split: option.splits)
  have "kept (b, k, i) v' r'' \<and> lock_enabled b r''"
    using kept_repo_step [OF more(2) repo_run_inv [OF more(1) more.prems(1)] v'(3) time(2) order_refl v'(1)]
      stays_locked [OF v'(2) more.prems(5)] by blast
  then show ?case using v'(2) by (auto simp: kept_def intro: stays_trans split: option.splits)
qed

end
