(* ===== verification/Listing.thy ===== *)
theory Listing
  imports ObjectInv MultipartInv "HOL-Library.Product_Lexorder"
begin

text \<open>
  The listing operations of \<open>internal/meta/memory/repository.go\<close>: \<open>ListObjects\<close>,
  \<open>ListObjectVersions\<close> and \<open>ListMultipartUploads\<close>. Each collects the matching
  entries of a map, rolling keys up into common prefixes at the delimiter, sorts them, skips to
  the marker with \<open>sort.Search\<close> and cuts the page.

  The locale \<open>pager\<close> says what a marker must do for paging to be complete; it holds for
  the object and the upload listing. It does not hold for the version listing, whose search
  predicate is not monotone.
\<close>

section \<open>Collecting entries\<close>

definition commonPrefixOf :: "string \<Rightarrow> string \<Rightarrow> string \<Rightarrow> string option" where
  "commonPrefixOf prefix delimiter key =
     (if delimiter = [] then None
      else let rest = TrimPrefix key prefix
           in case strings_Index rest delimiter of
                None \<Rightarrow> None
              | Some index \<Rightarrow> Some (prefix @ take (index + length delimiter) rest))"

fun collect :: "(string \<Rightarrow> string option) \<Rightarrow> (string \<Rightarrow> 'e) \<Rightarrow> string list \<Rightarrow> (string \<times> 'e) list \<Rightarrow> 'e list" where
  \<comment> \<open>the \<open>range\<close> loop: \<open>commonPrefixes\<close> is the set of prefixes already emitted\<close>
  "collect roll mk commonPrefixes [] = []"
| "collect roll mk commonPrefixes ((key, entry) # rest) =
     (case roll key of
        None \<Rightarrow> entry # collect roll mk commonPrefixes rest
      | Some p \<Rightarrow>
          if p \<in> set commonPrefixes then collect roll mk commonPrefixes rest
          else mk p # collect roll mk (p # commonPrefixes) rest)"

record listEntry =
  le_name :: string
  le_prefix :: bool
  le_head :: ObjectHead

record multipartUploadEntry =
  me_name :: string
  me_uploadID :: string
  me_prefix :: bool
  me_upload :: MultipartUpload

record versionListEntry =
  ve_name :: string
  ve_versionID :: string
  ve_sortKey :: string
  ve_prefix :: bool
  ve_isLatest :: bool
  ve_version :: ObjectVersion

definition listEntry_less :: "listEntry \<Rightarrow> listEntry \<Rightarrow> bool" where
  "listEntry_less a b \<longleftrightarrow>
     (if le_name a = le_name b then \<not> le_prefix a \<and> le_prefix b else le_name a < le_name b)"

definition visibleHeads :: "ListObjectsRequest \<Rightarrow> Repository \<Rightarrow> (objectKey, ObjectHead) gomap" where
  "visibleHeads req r =
     filter (\<lambda>((b, k), head). b = q_lo_BucketID req \<and> \<not> oh_DeleteMarker head \<and> HasPrefix k (q_lo_Prefix req))
       (r_heads r)"

definition listEntries :: "ListObjectsRequest \<Rightarrow> Repository \<Rightarrow> listEntry list" where
  "listEntries req r =
     sort_by listEntry_less
       (collect (commonPrefixOf (q_lo_Prefix req) (q_lo_Delimiter req))
          (\<lambda>p. \<lparr>le_name = p, le_prefix = True, le_head = zero_ObjectHead\<rparr>) []
          (map (\<lambda>((b, k), head). (k, \<lparr>le_name = k, le_prefix = False, le_head = head\<rparr>)) (visibleHeads req r)))"

definition entriesAfter :: "listEntry list \<Rightarrow> string \<Rightarrow> listEntry list" where
  "entriesAfter entries token =
     drop (sort_Search (length entries) (\<lambda>i. le_name (entries ! i) > token)) entries"

definition multipartEntry_less :: "multipartUploadEntry \<Rightarrow> multipartUploadEntry \<Rightarrow> bool" where
  "multipartEntry_less a b \<longleftrightarrow>
     (if me_name a = me_name b
      then (if me_prefix a \<noteq> me_prefix b then me_prefix a else me_uploadID a < me_uploadID b)
      else me_name a < me_name b)"

definition multipartUploadEntries :: "ListMultipartUploadsRequest \<Rightarrow> Repository \<Rightarrow> multipartUploadEntry list" where
  "multipartUploadEntries req r =
     sort_by multipartEntry_less
       (collect (commonPrefixOf (q_lm_Prefix req) (q_lm_Delimiter req))
          (\<lambda>p. \<lparr>me_name = p, me_uploadID = [], me_prefix = True, me_upload = zero_MultipartUpload\<rparr>) []
          (map (\<lambda>((b, k, u), upload). (k, \<lparr>me_name = k, me_uploadID = u, me_prefix = False, me_upload = upload\<rparr>))
            (filter (\<lambda>((b, k, u), upload). b = q_lm_BucketID req \<and> mu_State upload = MultipartUploadActive \<and>
               HasPrefix k (q_lm_Prefix req)) (r_uploads r))))"

definition multipartEntriesAfter :: "multipartUploadEntry list \<Rightarrow> string \<times> string \<Rightarrow> multipartUploadEntry list" where
  "multipartEntriesAfter entries marker =
     (case marker of (keyMarker, uploadIDMarker) \<Rightarrow>
        drop (sort_Search (length entries) (\<lambda>i.
          if me_name (entries ! i) \<noteq> keyMarker then me_name (entries ! i) > keyMarker
          else if uploadIDMarker = [] then me_name (entries ! i) > keyMarker
          else me_uploadID (entries ! i) > uploadIDMarker)) entries)"

definition versionEntry_less :: "versionListEntry \<Rightarrow> versionListEntry \<Rightarrow> bool" where
  "versionEntry_less a b \<longleftrightarrow>
     (if ve_name a = ve_name b
      then (if ve_prefix a \<noteq> ve_prefix b then ve_prefix a else ve_sortKey a > ve_sortKey b)
      else ve_name a < ve_name b)"

definition sortVersionEntries :: "versionListEntry list \<Rightarrow> versionListEntry list" where
  "sortVersionEntries entries = sort_by versionEntry_less entries"

definition versionEntries :: "ListObjectVersionsRequest \<Rightarrow> Repository \<Rightarrow> versionListEntry list" where
  "versionEntries req r =
     sortVersionEntries
       (collect (commonPrefixOf (q_lv_Prefix req) (q_lv_Delimiter req))
          (\<lambda>p. \<lparr>ve_name = p, ve_versionID = [], ve_sortKey = [], ve_prefix = True, ve_isLatest = False,
                ve_version = zero_ObjectVersion\<rparr>) []
          (map (\<lambda>((b, k, i), version).
             (k, \<lparr>ve_name = k, ve_versionID = ov_VersionID version, ve_sortKey = ov_VersionSortKey version,
                  ve_prefix = False,
                  ve_isLatest = (oh_VersionID (map_get zero_ObjectHead (r_heads r) (b, k)) = ov_VersionID version),
                  ve_version = version\<rparr>))
            (filter (\<lambda>((b, k, i), version). b = q_lv_BucketID req \<and> ov_State version = ObjectVersionCommitted \<and>
               HasPrefix k (q_lv_Prefix req)) (r_versions r))))"

definition versionEntriesAfter :: "versionListEntry list \<Rightarrow> string \<Rightarrow> string \<Rightarrow> versionListEntry list" where
  "versionEntriesAfter entries keyMarker versionIDMarker =
     (let index = sort_Search (length entries) (\<lambda>i.
            if ve_name (entries ! i) \<noteq> keyMarker then ve_name (entries ! i) > keyMarker
            else if versionIDMarker = [] then ve_name (entries ! i) > keyMarker
            else ve_versionID (entries ! i) = versionIDMarker);
          index' = (if index < length entries \<and> ve_name (entries ! index) = keyMarker \<and>
                       ve_versionID (entries ! index) = versionIDMarker then index + 1 else index)
      in drop index' entries)"

section \<open>The operations\<close>

definition ListObjects :: "ListObjectsRequest \<Rightarrow> Repository \<Rightarrow> ListObjectsResult result" where
  "ListObjects req r =
     (if q_lo_BucketID req = [] then Inl ErrInvalidArgument
      else let maxKeys = (if q_lo_MaxKeys req \<le> 0 then 1000 else q_lo_MaxKeys req)
           in if map_of (r_bucketsByID r) (q_lo_BucketID req) = None then Inl ErrNotFound
              else let entries0 = listEntries req r;
                       entries = (if q_lo_ContinuationToken req \<noteq> []
                                  then entriesAfter entries0 (q_lo_ContinuationToken req) else entries0);
                       truncated = int (length entries) > maxKeys;
                       page = (if truncated then take (nat maxKeys) entries else entries)
                   in Inr \<lparr>lor_Contents = map le_head (filter (\<lambda>e. \<not> le_prefix e) page),
                           lor_CommonPrefixes = map le_name (filter le_prefix page),
                           lor_IsTruncated = truncated,
                           lor_NextContinuationToken =
                             (if truncated then le_name (entries ! nat (maxKeys - 1)) else [])\<rparr>)"

definition ListObjectVersions :: "ListObjectVersionsRequest \<Rightarrow> Repository \<Rightarrow> ListObjectVersionsResult result" where
  "ListObjectVersions req r =
     (if q_lv_BucketID req = [] then Inl ErrInvalidArgument
      else let maxKeys = (if q_lv_MaxKeys req \<le> 0 then 1000 else q_lv_MaxKeys req)
           in if map_of (r_bucketsByID r) (q_lv_BucketID req) = None then Inl ErrNotFound
              else let entries0 = versionEntries req r;
                       entries = (if q_lv_KeyMarker req \<noteq> []
                                  then versionEntriesAfter entries0 (q_lv_KeyMarker req) (q_lv_VersionIDMarker req)
                                  else entries0);
                       truncated = int (length entries) > maxKeys;
                       page = (if truncated then take (nat maxKeys) entries else entries);
                       listed = (\<lambda>e. \<lparr>ove_Version = ve_version e, ove_IsLatest = ve_isLatest e\<rparr>)
                   in Inr \<lparr>lvr_Versions = map listed
                             (filter (\<lambda>e. \<not> ve_prefix e \<and> \<not> ov_DeleteMarker (ve_version e)) page),
                           lvr_DeleteMarkers = map listed
                             (filter (\<lambda>e. \<not> ve_prefix e \<and> ov_DeleteMarker (ve_version e)) page),
                           lvr_CommonPrefixes = map ve_name (filter ve_prefix page),
                           lvr_IsTruncated = truncated,
                           lvr_NextKeyMarker =
                             (if truncated then ve_name (entries ! nat (maxKeys - 1)) else []),
                           lvr_NextVersionIDMarker =
                             (if truncated then ve_versionID (entries ! nat (maxKeys - 1)) else [])\<rparr>)"

definition ListMultipartUploads ::
  "ListMultipartUploadsRequest \<Rightarrow> Repository \<Rightarrow> ListMultipartUploadsResult result" where
  "ListMultipartUploads req r =
     (if q_lm_BucketID req = [] then Inl ErrInvalidArgument
      else let maxUploads = (if q_lm_MaxUploads req \<le> 0 then 1000 else q_lm_MaxUploads req)
           in if map_of (r_bucketsByID r) (q_lm_BucketID req) = None then Inl ErrNotFound
              else let entries0 = multipartUploadEntries req r;
                       entries = (if q_lm_KeyMarker req \<noteq> []
                                  then multipartEntriesAfter entries0 (q_lm_KeyMarker req, q_lm_UploadIDMarker req)
                                  else entries0);
                       truncated = int (length entries) > maxUploads;
                       page = (if truncated then take (nat maxUploads) entries else entries)
                   in Inr \<lparr>lmr_Uploads = map me_upload (filter (\<lambda>e. \<not> me_prefix e) page),
                           lmr_CommonPrefixes = map me_name (filter me_prefix page),
                           lmr_IsTruncated = truncated,
                           lmr_NextKeyMarker =
                             (if truncated then me_name (entries ! nat (maxUploads - 1)) else []),
                           lmr_NextUploadIDMarker =
                             (if truncated then me_uploadID (entries ! nat (maxUploads - 1)) else [])\<rparr>)"

section \<open>What is collected\<close>

lemma strings_Index_infix: "strings_Index (a @ d @ b) d \<noteq> None"
proof (induction a)
  case Nil
  show ?case using HasPrefix_append [of d b] by (cases "d @ b") simp_all
next
  case (Cons c a)
  then show ?case by simp
qed

lemma commonPrefixOf_rolled:
  assumes "commonPrefixOf pre d k = Some p"
  shows "commonPrefixOf pre d p \<noteq> None" "p \<noteq> []" "HasPrefix p pre"
proof -
  obtain i where d: "d \<noteq> []" and i: "strings_Index (TrimPrefix k pre) d = Some i"
    and p: "p = pre @ take (i + length d) (TrimPrefix k pre)"
    using assms by (auto simp: commonPrefixOf_def Let_def split: if_splits option.splits)
  have t: "take (i + length d) (TrimPrefix k pre) = take i (TrimPrefix k pre) @ d"
    using strings_Index_Some [OF i] by blast
  show "p \<noteq> []" "HasPrefix p pre" using d by (simp_all add: p t)
  have "TrimPrefix p pre = take i (TrimPrefix k pre) @ d" 
    unfolding p t TrimPrefix_def [of "pre @ _"] by simp
  then show "commonPrefixOf pre d p \<noteq> None"
    using d strings_Index_infix [of "take i (TrimPrefix k pre)" d "[]"] by (auto simp: commonPrefixOf_def)
qed

lemma set_collect:
  "set (collect roll mk seen xs) =
     {e. \<exists>k. (k, e) \<in> set xs \<and> roll k = None} \<union>
     mk ` {p. p \<notin> set seen \<and> (\<exists>k e. (k, e) \<in> set xs \<and> roll k = Some p)}"
proof (induction xs arbitrary: seen)
  case Nil
  then show ?case by simp
next
  case (Cons x xs)
  obtain k e where x: "x = (k, e)" by fastforce
  show ?case
  proof (cases "roll k")
    case None
    then show ?thesis by (auto simp: x Cons.IH)
  next
    case (Some p)
    then show ?thesis by (auto simp: x Cons.IH)
  qed
qed

lemma distinct_collect:
  fixes f :: "'e \<Rightarrow> string \<times> 'i"
  assumes roll: "\<And>k p. roll k = Some p \<Longrightarrow> roll p \<noteq> None"
    and mk: "\<And>p. fst (f (mk p)) = p"
  shows "(\<forall>(k, e) \<in> set xs. fst (f e) = k) \<Longrightarrow> distinct (map (\<lambda>x. f (snd x)) xs) \<Longrightarrow>
    distinct (map f (collect roll mk seen xs))"
proof (induction xs arbitrary: seen)
  case Nil
  then show ?case by simp
next
  case (Cons x xs)
  obtain k e where x: "x = (k, e)" by fastforce
  have IH: "distinct (map f (collect roll mk s xs))" for s using Cons by simp
  show ?case
  proof (cases "roll k")
    case None
    have "f e \<notin> f ` set (collect roll mk seen xs)"
    proof
      assume "f e \<in> f ` set (collect roll mk seen xs)"
      then consider k' e' where "(k', e') \<in> set xs" "f e' = f e"
        | p k' where "f (mk p) = f e" "roll k' = Some p"
        unfolding set_collect by (auto simp: eq_commute)
      then show False
      proof cases
        case 1
        with Cons.prems(2) show False by (force simp: x)
      next
        case 2
        then have "p = k" using mk [of p] Cons.prems(1) by (auto simp: x)
        with 2 roll None show False by blast
      qed
    qed
    with None IH show ?thesis by (simp add: x)
  next
    case (Some p)
    have "f (mk p) \<notin> f ` set (collect roll mk (p # seen) xs)"
    proof
      assume "f (mk p) \<in> f ` set (collect roll mk (p # seen) xs)"
      then consider k' e' where "(k', e') \<in> set xs" "roll k' = None" "f e' = f (mk p)"
        | p' where "f (mk p') = f (mk p)" "p' \<noteq> p"
        unfolding set_collect by (auto simp: eq_commute)
      then show False
      proof cases
        case 1
        then have "k' = p" using mk [of p] Cons.prems(1) by (auto simp: x)
        with 1 roll [OF Some] show False by simp
      next
        case 2
        with mk [of p] mk [of p'] show False by simp
      qed
    qed
    with Some IH show ?thesis by (simp add: x)
  qed
qed

lemma sort_by_key:
  fixes f :: "'e \<Rightarrow> 'k :: linorder"
  assumes distinct: "distinct (map f xs)"
    and lt: "\<And>a b. a \<in> set xs \<Longrightarrow> b \<in> set xs \<Longrightarrow> lt a b \<longleftrightarrow> f a < f b"
  shows "sorted_wrt (\<lambda>a b. f a < f b) (sort_by lt xs)"
proof -
  have "strict_total_on (set xs) (\<lambda>a b. f a < f b)"
    using distinct by (intro strict_total_on_key) (simp add: distinct_map)
  then have "strict_total_on (set xs) lt"
    unfolding strict_total_on_def using lt by (metis (no_types, lifting))
  then have "sorted_wrt lt (sort_by lt xs)"
    using distinct by (intro sorted_wrt_sort_by) (simp_all add: distinct_map)
  then show ?thesis by (rule sorted_wrt_mono_rel [rotated]) (simp add: lt)
qed

section \<open>Paging\<close>

locale pager =
  fixes after :: "'e list \<Rightarrow> 'm \<Rightarrow> 'e list" and mark :: "'e \<Rightarrow> 'm" and key :: "'e \<Rightarrow> 'k :: linorder"
    and pageable :: "'e list \<Rightarrow> bool"
  assumes pageable_sorted: "pageable es \<Longrightarrow> sorted_wrt (\<lambda>a b. key a < key b) es"
    and after_mark: "pageable es \<Longrightarrow> x \<in> set es \<Longrightarrow> after es (mark x) = filter (\<lambda>e. key x < key e) es"
begin

lemma after_nth:
  assumes ok: "pageable es" and k: "k < length es"
  shows "after es (mark (es ! k)) = drop (Suc k) es"
proof -
  have s: "sorted_wrt (\<lambda>a b. key a < key b) es" using ok by (rule pageable_sorted)
  have "filter (\<lambda>e. key (es ! k) < key e) (take (Suc k) es) = []"
    using s k by (auto simp: filter_empty_conv in_set_conv_nth sorted_wrt_iff_nth_less less_Suc_eq)
      (meson less_asym)
  moreover have "filter (\<lambda>e. key (es ! k) < key e) (drop (Suc k) es) = drop (Suc k) es"
    using s k by (auto simp: filter_id_conv in_set_conv_nth sorted_wrt_iff_nth_less)
  ultimately have "filter (\<lambda>e. key (es ! k) < key e) es = drop (Suc k) es"
    by (metis append_Nil append_take_drop_id filter_append)
  with after_mark [OF ok nth_mem [OF k]] show ?thesis by simp
qed

text \<open>The page after one of \<open>n\<close> entries starts where it stopped.\<close>

lemma next_page:
  assumes "pageable es" "0 < n" "n < length (drop k es)"
  shows "after es (mark (drop k es ! (n - 1))) = drop (k + n) es"
  using after_nth [OF assms(1), of "k + n - 1"] assms(2,3) by simp

end

definition objects_pageable :: "listEntry list \<Rightarrow> bool" where
  "objects_pageable es \<longleftrightarrow> sorted_wrt (\<lambda>a b. le_name a < le_name b) es"

definition uploads_pageable :: "multipartUploadEntry list \<Rightarrow> bool" where
  \<comment> \<open>sorted by key and upload, and an entry without an upload id is alone under its name\<close>
  "uploads_pageable es \<longleftrightarrow>
     sorted_wrt (\<lambda>a b. (me_name a, me_uploadID a) < (me_name b, me_uploadID b)) es \<and>
     (\<forall>a \<in> set es. \<forall>b \<in> set es. me_uploadID a = [] \<longrightarrow> me_name b = me_name a \<longrightarrow> b = a)"

lemma filter_later:
  fixes key :: "'e \<Rightarrow> 'k :: linorder"
  assumes "sorted_wrt (\<lambda>a b. key a < key b) es" "\<And>e. e \<in> set es \<Longrightarrow> P e \<longleftrightarrow> x < key e"
  shows "drop (sort_Search (length es) (\<lambda>i. P (es ! i))) es = filter (\<lambda>e. x < key e) es"
proof -
  have "sorted_wrt (\<lambda>a b. P a \<longrightarrow> P b) es"
    using assms(1) by (rule sorted_wrt_mono_rel [rotated]) (auto simp: assms(2))
  then have "drop (sort_Search (length es) (\<lambda>i. P (es ! i))) es = filter P es" by (rule drop_sort_Search)
  also have "\<dots> = filter (\<lambda>e. x < key e) es" by (rule filter_cong) (simp_all add: assms(2))
  finally show ?thesis .
qed

interpretation object_pages: pager entriesAfter le_name le_name objects_pageable
proof unfold_locales
  fix es x assume "objects_pageable es"
  then show "entriesAfter es (le_name x) = filter (\<lambda>e. le_name x < le_name e) es"
    unfolding entriesAfter_def objects_pageable_def by (intro filter_later) simp_all
qed (simp add: objects_pageable_def)

interpretation upload_pages: pager multipartEntriesAfter "\<lambda>e. (me_name e, me_uploadID e)"
  "\<lambda>e. (me_name e, me_uploadID e)" uploads_pageable
proof unfold_locales
  fix es :: "multipartUploadEntry list" and x
  assume ok: "uploads_pageable es" and x: "x \<in> set es"
  then have alone: "e = x" if "e \<in> set es" "me_uploadID x = []" "me_name e = me_name x" for e
    using that unfolding uploads_pageable_def by blast
  show "multipartEntriesAfter es (me_name x, me_uploadID x) =
      filter (\<lambda>e. (me_name x, me_uploadID x) < (me_name e, me_uploadID e)) es"
    unfolding multipartEntriesAfter_def prod.case
  proof (rule filter_later [where P = "\<lambda>e. if me_name e \<noteq> me_name x then me_name e > me_name x
        else if me_uploadID x = [] then me_name e > me_name x else me_uploadID e > me_uploadID x"])
    fix e assume e: "e \<in> set es"
    show "(if me_name e \<noteq> me_name x then me_name e > me_name x
        else if me_uploadID x = [] then me_name e > me_name x else me_uploadID e > me_uploadID x) \<longleftrightarrow>
      (me_name x, me_uploadID x) < (me_name e, me_uploadID e)"
    proof (cases "me_name e = me_name x \<and> me_uploadID x = []")
      case True
      with alone [OF e] have "e = x" by simp
      with True show ?thesis by simp
    next
      case False
      then show ?thesis by (auto simp: order.order_iff_strict)
    qed
  qed (use ok in \<open>simp add: uploads_pageable_def\<close>)
qed (simp add: uploads_pageable_def)

section \<open>Reading all pages\<close>

fun list_all_objects :: "nat \<Rightarrow> ListObjectsRequest \<Rightarrow> Repository \<Rightarrow> ListObjectsResult list" where
  \<comment> \<open>a client that follows \<open>NextContinuationToken\<close> until the listing is not truncated\<close>
  "list_all_objects 0 req r = []"
| "list_all_objects (Suc n) req r =
     (case ListObjects req r of
        Inl e \<Rightarrow> []
      | Inr page \<Rightarrow> page # (if lor_IsTruncated page
          then list_all_objects n (req\<lparr>q_lo_ContinuationToken := lor_NextContinuationToken page\<rparr>) r else []))"

fun list_all_uploads :: "nat \<Rightarrow> ListMultipartUploadsRequest \<Rightarrow> Repository \<Rightarrow> ListMultipartUploadsResult list" where
  "list_all_uploads 0 req r = []"
| "list_all_uploads (Suc n) req r =
     (case ListMultipartUploads req r of
        Inl e \<Rightarrow> []
      | Inr page \<Rightarrow> page # (if lmr_IsTruncated page
          then list_all_uploads n (req\<lparr>q_lm_KeyMarker := lmr_NextKeyMarker page,
                 q_lm_UploadIDMarker := lmr_NextUploadIDMarker page\<rparr>) r else []))"

lemma listEntries_token [simp]: "listEntries (req\<lparr>q_lo_ContinuationToken := t\<rparr>) r = listEntries req r"
  by (simp add: listEntries_def visibleHeads_def)

lemma multipartUploadEntries_marker [simp]:
  "multipartUploadEntries (req\<lparr>q_lm_KeyMarker := k, q_lm_UploadIDMarker := u\<rparr>) r = multipartUploadEntries req r"
  by (simp add: multipartUploadEntries_def)

lemma listEntries_keys:
  assumes "map_wf (r_heads r)"
  shows "objects_pageable (listEntries req r)"
proof -
  let ?f = "\<lambda>e. (le_name e, ())" and ?roll = "commonPrefixOf (q_lo_Prefix req) (q_lo_Delimiter req)"
  let ?mk = "\<lambda>p. \<lparr>le_name = p, le_prefix = True, le_head = zero_ObjectHead\<rparr>"
  let ?xs = "map (\<lambda>((b, k), head). (k, \<lparr>le_name = k, le_prefix = False, le_head = head\<rparr>)) (visibleHeads req r)"
  have wf: "map_wf (visibleHeads req r)" using assms by (simp add: visibleHeads_def)
  have inj: "inj_on (\<lambda>x. snd (fst x)) (set (visibleHeads req r))"
  proof (rule inj_onI)
    fix x y assume xy: "x \<in> set (visibleHeads req r)" "y \<in> set (visibleHeads req r)" "snd (fst x) = snd (fst y)"
    then have "fst x = fst y" by (auto simp: visibleHeads_def prod_eq_iff)
    with wf xy(1,2) show "x = y" by (metis map_wf_mem option.inject prod.collapse)
  qed
  have "distinct (map ?f (collect ?roll ?mk [] ?xs))"
  proof (rule distinct_collect)
    have "map (\<lambda>x. ?f (snd x)) ?xs = map (\<lambda>k. (k, ())) (map (\<lambda>x. snd (fst x)) (visibleHeads req r))"
      by (auto split: prod.split)
    moreover have "distinct \<dots>"
      using inj wf by (intro distinct_map [THEN iffD2] conjI) (auto simp: distinct_map map_wf_def inj_on_def)
    ultimately show "distinct (map (\<lambda>x. ?f (snd x)) ?xs)" by (simp only:)
  qed (auto dest: commonPrefixOf_rolled(1))
  then have d: "distinct (map le_name (collect ?roll ?mk [] ?xs))" by (simp add: distinct_map inj_on_def)
  then have "inj_on le_name (set (collect ?roll ?mk [] ?xs))" by (simp add: distinct_map)
  then show ?thesis unfolding objects_pageable_def listEntries_def
    by (intro sort_by_key [OF d]) (auto simp: listEntry_less_def dest: inj_onD)
qed

lemma ListObjects_page:
  fixes req :: ListObjectsRequest
  assumes "q_lo_BucketID req \<noteq> []" "map_of (r_bucketsByID r) (q_lo_BucketID req) \<noteq> None"
    and "(if q_lo_MaxKeys req \<le> 0 then 1000 else q_lo_MaxKeys req) = int M" "0 < M"
    and rest: "(if q_lo_ContinuationToken req = [] then listEntries req r
      else entriesAfter (listEntries req r) (q_lo_ContinuationToken req)) = rest"
  shows "ListObjects req r = Inr
      \<lparr>lor_Contents = map le_head (filter (\<lambda>e. \<not> le_prefix e) (take M rest)),
       lor_CommonPrefixes = map le_name (filter le_prefix (take M rest)),
       lor_IsTruncated = length rest > M,
       lor_NextContinuationToken = (if length rest > M then le_name (rest ! (M - 1)) else [])\<rparr>"
proof -
  have "int M - 1 = int (M - 1)" using assms(4) by simp
  with assms(1-3) show ?thesis
    unfolding ListObjects_def Let_def rest [symmetric] by (simp del: of_nat_diff)
qed

lemma list_all_objects_from:
  fixes req :: ListObjectsRequest
  assumes bucket: "q_lo_BucketID req \<noteq> []" "map_of (r_bucketsByID r) (q_lo_BucketID req) \<noteq> None"
    and ok: "objects_pageable es" and names: "\<forall>e \<in> set es. le_name e \<noteq> []" and es: "es = listEntries req r"
    and start: "(if q_lo_ContinuationToken req = [] then es else entriesAfter es (q_lo_ContinuationToken req)) = drop k es"
    and n: "length es - k < n"
  shows "concat (map lor_Contents (list_all_objects n req r)) = map le_head (filter (\<lambda>e. \<not> le_prefix e) (drop k es)) \<and>
    concat (map lor_CommonPrefixes (list_all_objects n req r)) = map le_name (filter le_prefix (drop k es))"
  using bucket es start n
proof (induction n arbitrary: k req)
  case 0
  then show ?case by simp
next
  case (Suc n)
  define M where "M = nat (if q_lo_MaxKeys req \<le> 0 then 1000 else q_lo_MaxKeys req)"
  have M: "0 < M" "(if q_lo_MaxKeys req \<le> 0 then 1000 else q_lo_MaxKeys req) = int M" by (auto simp: M_def)
  let ?rest = "drop k es"
  have page: "ListObjects req r = Inr
      \<lparr>lor_Contents = map le_head (filter (\<lambda>e. \<not> le_prefix e) (take M ?rest)),
       lor_CommonPrefixes = map le_name (filter le_prefix (take M ?rest)),
       lor_IsTruncated = length ?rest > M,
       lor_NextContinuationToken = (if length ?rest > M then le_name (?rest ! (M - 1)) else [])\<rparr>"
    using Suc.prems(4) unfolding Suc.prems(3) by (rule ListObjects_page [OF Suc.prems(1,2) M(2,1)])
  show ?case
  proof (cases "length ?rest > M")
    case False
    then show ?thesis by (simp add: page)
  next
    case True
    let ?t = "le_name (?rest ! (M - 1))"
    have "?rest ! (M - 1) \<in> set es" using True M(1) by simp
    with names have "?t \<noteq> []" by blast
    moreover have "entriesAfter es ?t = drop (k + M) es" by (rule object_pages.next_page [OF ok M(1) True])
    ultimately have IH: "concat (map lor_Contents (list_all_objects n (req\<lparr>q_lo_ContinuationToken := ?t\<rparr>) r)) =
          map le_head (filter (\<lambda>e. \<not> le_prefix e) (drop (k + M) es)) \<and>
        concat (map lor_CommonPrefixes (list_all_objects n (req\<lparr>q_lo_ContinuationToken := ?t\<rparr>) r)) =
          map le_name (filter le_prefix (drop (k + M) es))"
      using Suc.prems True M(1) by (intro Suc.IH) auto
    have "?rest = take M ?rest @ drop (k + M) es" by (metis add.commute append_take_drop_id drop_drop)
    then have "filter P ?rest = filter P (take M ?rest) @ filter P (drop (k + M) es)" for P
      by (metis filter_append)
    with IH True show ?thesis by (simp add: page)
  qed
qed

lemma length_collect: "length (collect roll mk seen xs) \<le> length xs"
  by (induction roll mk seen xs rule: collect.induct) (auto split: option.splits intro: le_SucI)

lemma keyed_image:
  "(k, e) \<in> (\<lambda>((b, k), h). (k, E k h)) ` S \<longleftrightarrow> (\<exists>b h. ((b, k), h) \<in> S \<and> e = E k h)"
  by (auto intro: rev_image_eqI)

definition visible :: "ListObjectsRequest \<Rightarrow> Repository \<Rightarrow> string \<Rightarrow> ObjectHead \<Rightarrow> bool" where
  \<comment> \<open>what a listing shows: the current, not deleted object of a key with the prefix\<close>
  "visible req r k h \<longleftrightarrow> map_of (r_heads r) (q_lo_BucketID req, k) = Some h \<and> \<not> oh_DeleteMarker h \<and>
     HasPrefix k (q_lo_Prefix req)"

lemma set_listEntries:
  assumes "map_wf (r_heads r)"
  shows "set (listEntries req r) =
    {\<lparr>le_name = k, le_prefix = False, le_head = h\<rparr> | k h. visible req r k h \<and>
       commonPrefixOf (q_lo_Prefix req) (q_lo_Delimiter req) k = None} \<union>
    {\<lparr>le_name = p, le_prefix = True, le_head = zero_ObjectHead\<rparr> | p. \<exists>k h. visible req r k h \<and>
       commonPrefixOf (q_lo_Prefix req) (q_lo_Delimiter req) k = Some p}"
proof -
  have mem: "((b, k), h) \<in> set (visibleHeads req r) \<longleftrightarrow> b = q_lo_BucketID req \<and> visible req r k h" for b k h
    unfolding visibleHeads_def visible_def using assms by (auto simp: map_wf_mem)
  show ?thesis
    unfolding listEntries_def set_sort_by set_collect set_map keyed_image mem
    by (rule arg_cong2 [where f = "(\<union>)"]) (simp, blast, simp add: setcompr_eq_image, blast?)
qed

lemma length_listEntries: "length (listEntries req r) \<le> length (r_heads r)"
  unfolding listEntries_def visibleHeads_def length_sort_by
  by (rule order_trans [OF length_collect]) simp

lemma sorted_filter_map:
  "sorted_wrt (\<lambda>a b. f a < f b) es \<Longrightarrow> \<forall>e \<in> set (filter P es). g e = f e \<Longrightarrow>
     sorted_wrt (<) (map g (filter P es))"
  by (induction es) auto

lemma head_stored_key:
  assumes inv: "obj_inv r" and h: "map_of (r_heads r) (b, k) = Some h"
  shows "oh_Key h = k"
proof -
  have ok: "obj_ok (map_of (r_heads r)) (map_of (r_versions r))" using inv by (simp add: obj_inv_def)
  obtain v where v: "map_of (r_versions r) (b, k, oh_VersionID h) = Some v" "head_of h v"
    using obj_okD_head [OF ok h] by blast
  show ?thesis using obj_okD_key [OF ok v(1)] head_of_fields [OF v(2)] by (simp add: version_key_ok_def)
qed

text \<open>C16 (functional). A client that follows the continuation token of \<open>ListObjects\<close> reads
  every visible object (the head of a key with the prefix that is not a delete marker) exactly
  once and in key order, except the keys that contain the delimiter after the prefix: those are
  reported once per common prefix, in order as well. Neither the page size nor the map's
  iteration order matters.\<close>

theorem ListObjects_complete:
  fixes req :: ListObjectsRequest and r :: Repository
  assumes inv: "obj_inv r" and keys: "\<forall>p \<in> set (r_heads r). snd (fst p) \<noteq> []"
    and bucket: "q_lo_BucketID req \<noteq> []" "map_of (r_bucketsByID r) (q_lo_BucketID req) \<noteq> None"
    and start: "q_lo_ContinuationToken req = []" and n: "length (r_heads r) < n"
  shows "let roll = commonPrefixOf (q_lo_Prefix req) (q_lo_Delimiter req);
             contents = concat (map lor_Contents (list_all_objects n req r));
             prefixes = concat (map lor_CommonPrefixes (list_all_objects n req r))
         in sorted_wrt (<) (map oh_Key contents) \<and> set contents = {h. \<exists>k. visible req r k h \<and> roll k = None} \<and>
            sorted_wrt (<) prefixes \<and> set prefixes = {p. \<exists>k h. visible req r k h \<and> roll k = Some p}"
proof -
  let ?es = "listEntries req r" and ?roll = "commonPrefixOf (q_lo_Prefix req) (q_lo_Delimiter req)"
  have wf: "map_wf (r_heads r)" using inv by (simp add: obj_inv_def)
  note mem = set_listEntries [OF wf, of req]
  have ok: "objects_pageable ?es" by (rule listEntries_keys [OF wf])
  have key: "oh_Key h = k" if "visible req r k h" for k h
    using that by (auto simp: visible_def intro: head_stored_key [OF inv])
  have "k \<noteq> []" if "visible req r k h" for k h
    using that keys by (auto simp: visible_def dest!: map_of_SomeD)
  then have names: "\<forall>e \<in> set ?es. le_name e \<noteq> []"
    unfolding mem by (auto dest: commonPrefixOf_rolled(2))
  have all: "concat (map lor_Contents (list_all_objects n req r)) = map le_head (filter (\<lambda>e. \<not> le_prefix e) ?es)"
    "concat (map lor_CommonPrefixes (list_all_objects n req r)) = map le_name (filter le_prefix ?es)"
    using list_all_objects_from [OF bucket ok names refl, of 0 n] start n length_listEntries [of req r] by simp_all
  have sorted: "sorted_wrt (\<lambda>a b. le_name a < le_name b) ?es" using ok by (simp add: objects_pageable_def)
  have "sorted_wrt (<) (map oh_Key (map le_head (filter (\<lambda>e. \<not> le_prefix e) ?es)))"
    unfolding map_map by (rule sorted_filter_map [OF sorted]) (auto simp: mem key)
  moreover have "sorted_wrt (<) (map le_name (filter le_prefix ?es))"
    by (rule sorted_filter_map [OF sorted]) simp
  moreover have "le_head ` {e \<in> set ?es. \<not> le_prefix e} = {h. \<exists>k. visible req r k h \<and> ?roll k = None}"
    unfolding mem by (auto simp: image_iff) (metis listEntry.select_convs(2,3))
  moreover have "le_name ` {e \<in> set ?es. le_prefix e} = {p. \<exists>k h. visible req r k h \<and> ?roll k = Some p}"
    unfolding mem by (auto simp: image_iff) (metis listEntry.select_convs(1,2))
  ultimately show ?thesis unfolding Let_def all by simp
qed

end
