(* ===== verification/ListingPages.thy ===== *)
theory ListingPages
  imports Listing
begin

text \<open>
  Upload listing read to the end, witnesses for the two complete listings, and the version
  listing, whose markers lose entries.
\<close>

section \<open>Upload listing\<close>

definition listed_upload :: "ListMultipartUploadsRequest \<Rightarrow> Repository \<Rightarrow> string \<Rightarrow> string \<Rightarrow> MultipartUpload \<Rightarrow> bool" where
  \<comment> \<open>what the listing shows: the active uploads of keys with the prefix\<close>
  "listed_upload req r k u up \<longleftrightarrow> map_of (r_uploads r) (q_lm_BucketID req, k, u) = Some up \<and>
     mu_State up = MultipartUploadActive \<and> HasPrefix k (q_lm_Prefix req)"

abbreviation upload_key :: "multipartUploadEntry \<Rightarrow> string \<times> string" where
  "upload_key e \<equiv> (me_name e, me_uploadID e)"

lemma keyed_image3:
  "(k, e) \<in> (\<lambda>((b, k, u), h). (k, E k u h)) ` S \<longleftrightarrow> (\<exists>b u h. ((b, k, u), h) \<in> S \<and> e = E k u h)"
  by (auto intro: rev_image_eqI)

lemma set_uploadEntries:
  assumes "map_wf (r_uploads r)"
  shows "set (multipartUploadEntries req r) =
    {\<lparr>me_name = k, me_uploadID = u, me_prefix = False, me_upload = up\<rparr> | k u up. listed_upload req r k u up \<and>
       commonPrefixOf (q_lm_Prefix req) (q_lm_Delimiter req) k = None} \<union>
    {\<lparr>me_name = p, me_uploadID = [], me_prefix = True, me_upload = zero_MultipartUpload\<rparr> | p. \<exists>k u up.
       listed_upload req r k u up \<and> commonPrefixOf (q_lm_Prefix req) (q_lm_Delimiter req) k = Some p}"
proof -
  have mem: "((b, k, u), up) \<in> set (filter (\<lambda>((b, k, u), upload). b = q_lm_BucketID req \<and>
      mu_State upload = MultipartUploadActive \<and> HasPrefix k (q_lm_Prefix req)) (r_uploads r)) \<longleftrightarrow>
      b = q_lm_BucketID req \<and> listed_upload req r k u up" for b k u up
    unfolding listed_upload_def using assms by (auto simp: map_wf_mem)
  show ?thesis
    unfolding multipartUploadEntries_def set_sort_by set_collect set_map keyed_image3 mem
    by (rule arg_cong2 [where f = "(\<union>)"]) (simp, blast, simp add: setcompr_eq_image, blast?)
qed

lemma length_uploadEntries: "length (multipartUploadEntries req r) \<le> length (r_uploads r)"
  unfolding multipartUploadEntries_def length_sort_by by (rule order_trans [OF length_collect]) simp

lemma uploadEntries_pageable:
  assumes wf: "map_wf (r_uploads r)" and ids: "\<forall>p \<in> set (r_uploads r). snd (snd (fst p)) \<noteq> []"
  shows "uploads_pageable (multipartUploadEntries req r)"
proof -
  let ?roll = "commonPrefixOf (q_lm_Prefix req) (q_lm_Delimiter req)"
  let ?mk = "\<lambda>p. \<lparr>me_name = p, me_uploadID = [], me_prefix = True, me_upload = zero_MultipartUpload\<rparr>"
  let ?ups = "filter (\<lambda>((b, k, u), upload). b = q_lm_BucketID req \<and> mu_State upload = MultipartUploadActive \<and>
               HasPrefix k (q_lm_Prefix req)) (r_uploads r)"
  let ?xs = "map (\<lambda>((b, k, u), upload). (k, \<lparr>me_name = k, me_uploadID = u, me_prefix = False, me_upload = upload\<rparr>)) ?ups"
  let ?es = "collect ?roll ?mk [] ?xs"
  have set_es: "set ?es = set (multipartUploadEntries req r)" by (simp add: multipartUploadEntries_def)
  have "u \<noteq> []" if "listed_upload req r k u up" for k u up
    using ids map_of_SomeD [of "r_uploads r"] that by (fastforce simp: listed_upload_def)
  then have alone: "b = a" if "a \<in> set ?es" "b \<in> set ?es" "me_name b = me_name a" "me_uploadID a = [] \<or> me_prefix a \<noteq> me_prefix b" for a b
    using that unfolding set_es set_uploadEntries [OF wf] by (auto dest: commonPrefixOf_rolled(1))
  have d: "distinct (map upload_key ?es)"
  proof (rule distinct_collect)
    have "map (\<lambda>x. upload_key (snd x)) ?xs = map snd (map fst ?ups)" by (auto split: prod.split)
    moreover have "inj_on snd (set (map fst ?ups))" by (auto simp: inj_on_def)
    moreover have "distinct (map fst ?ups)" using map_wf_filter [OF wf] by (simp add: map_wf_def)
    ultimately show "distinct (map (\<lambda>x. upload_key (snd x)) ?xs)" by (simp only: distinct_map [of snd])
  qed (auto dest: commonPrefixOf_rolled(1))
  have "sorted_wrt (\<lambda>a b. upload_key a < upload_key b) (multipartUploadEntries req r)"
    unfolding multipartUploadEntries_def
  proof (rule sort_by_key [OF d])
    fix a b assume "a \<in> set ?es" "b \<in> set ?es"
    then show "multipartEntry_less a b \<longleftrightarrow> upload_key a < upload_key b"
      using alone [of a b] by (auto simp: multipartEntry_less_def order.order_iff_strict)
  qed
  then show ?thesis using alone unfolding uploads_pageable_def set_es by blast
qed

lemma image_entries:
  assumes "\<And>k u x. f (E k u x) = x"
  shows "f ` {E k u x | k u x. P k u x} = {x. \<exists>k u. P k u x}"
proof (intro set_eqI iffI)
  fix x assume "x \<in> {x. \<exists>k u. P k u x}"
  then obtain k u where "P k u x" by blast
  then have "E k u x \<in> {E k u x | k u x. P k u x}" by blast
  then show "x \<in> f ` {E k u x | k u x. P k u x}" by (rule rev_image_eqI) (simp add: assms)
qed (auto simp: assms, blast)

lemma ListMultipartUploads_page:
  fixes req :: ListMultipartUploadsRequest
  assumes "q_lm_BucketID req \<noteq> []" "map_of (r_bucketsByID r) (q_lm_BucketID req) \<noteq> None"
    and "(if q_lm_MaxUploads req \<le> 0 then 1000 else q_lm_MaxUploads req) = int M" "0 < M"
    and rest: "(if q_lm_KeyMarker req = [] then multipartUploadEntries req r
      else multipartEntriesAfter (multipartUploadEntries req r) (q_lm_KeyMarker req, q_lm_UploadIDMarker req)) = rest"
  shows "ListMultipartUploads req r = Inr
      \<lparr>lmr_Uploads = map me_upload (filter (\<lambda>e. \<not> me_prefix e) (take M rest)),
       lmr_CommonPrefixes = map me_name (filter me_prefix (take M rest)),
       lmr_IsTruncated = length rest > M,
       lmr_NextKeyMarker = (if length rest > M then me_name (rest ! (M - 1)) else []),
       lmr_NextUploadIDMarker = (if length rest > M then me_uploadID (rest ! (M - 1)) else [])\<rparr>"
proof -
  have "int M - 1 = int (M - 1)" using assms(4) by simp
  with assms(1-3) show ?thesis
    unfolding ListMultipartUploads_def Let_def rest [symmetric] by (simp del: of_nat_diff)
qed

lemma list_all_uploads_from:
  fixes req :: ListMultipartUploadsRequest
  assumes bucket: "q_lm_BucketID req \<noteq> []" "map_of (r_bucketsByID r) (q_lm_BucketID req) \<noteq> None"
    and ok: "uploads_pageable es" and names: "\<forall>e \<in> set es. me_name e \<noteq> []" and es: "es = multipartUploadEntries req r"
    and start: "(if q_lm_KeyMarker req = [] then es
      else multipartEntriesAfter es (q_lm_KeyMarker req, q_lm_UploadIDMarker req)) = drop k es"
    and n: "length es - k < n"
  shows "concat (map lmr_Uploads (list_all_uploads n req r)) = map me_upload (filter (\<lambda>e. \<not> me_prefix e) (drop k es)) \<and>
    concat (map lmr_CommonPrefixes (list_all_uploads n req r)) = map me_name (filter me_prefix (drop k es))"
  using bucket es start n
proof (induction n arbitrary: k req)
  case 0
  then show ?case by simp
next
  case (Suc n)
  define M where "M = nat (if q_lm_MaxUploads req \<le> 0 then 1000 else q_lm_MaxUploads req)"
  have M: "0 < M" "(if q_lm_MaxUploads req \<le> 0 then 1000 else q_lm_MaxUploads req) = int M" by (auto simp: M_def)
  let ?rest = "drop k es"
  have page: "ListMultipartUploads req r = Inr
      \<lparr>lmr_Uploads = map me_upload (filter (\<lambda>e. \<not> me_prefix e) (take M ?rest)),
       lmr_CommonPrefixes = map me_name (filter me_prefix (take M ?rest)),
       lmr_IsTruncated = length ?rest > M,
       lmr_NextKeyMarker = (if length ?rest > M then me_name (?rest ! (M - 1)) else []),
       lmr_NextUploadIDMarker = (if length ?rest > M then me_uploadID (?rest ! (M - 1)) else [])\<rparr>"
    using Suc.prems(4) unfolding Suc.prems(3) by (rule ListMultipartUploads_page [OF Suc.prems(1,2) M(2,1)])
  show ?case
  proof (cases "length ?rest > M")
    case False
    then show ?thesis by (simp add: page)
  next
    case True
    let ?e = "?rest ! (M - 1)"
    let ?req = "req\<lparr>q_lm_KeyMarker := me_name ?e, q_lm_UploadIDMarker := me_uploadID ?e\<rparr>"
    have "?e \<in> set es" using True M(1) by simp
    with names have "me_name ?e \<noteq> []" by blast
    moreover have "multipartEntriesAfter es (upload_key ?e) = drop (k + M) es"
      by (rule upload_pages.next_page [OF ok M(1) True])
    ultimately have IH: "concat (map lmr_Uploads (list_all_uploads n ?req r)) =
          map me_upload (filter (\<lambda>e. \<not> me_prefix e) (drop (k + M) es)) \<and>
        concat (map lmr_CommonPrefixes (list_all_uploads n ?req r)) =
          map me_name (filter me_prefix (drop (k + M) es))"
      using Suc.prems True M(1) by (intro Suc.IH) auto
    have "?rest = take M ?rest @ drop (k + M) es" by (metis add.commute append_take_drop_id drop_drop)
    then have "filter P ?rest = filter P (take M ?rest) @ filter P (drop (k + M) es)" for P
      by (metis filter_append)
    with IH True show ?thesis by (simp add: page)
  qed
qed

text \<open>C28 (functional). A client that follows the key and upload id markers of
  \<open>ListMultipartUploads\<close> reads every active upload of a key with the prefix exactly once,
  ordered by key and then upload id, also where one key has many uploads split over pages;
  keys with the delimiter after the prefix are reported once per common prefix.\<close>

theorem ListMultipartUploads_complete:
  fixes req :: ListMultipartUploadsRequest and r :: Repository
  assumes inv: "mp_inv r" and keys: "\<forall>p \<in> set (r_uploads r). mu_Key (snd p) \<noteq> [] \<and> mu_UploadID (snd p) \<noteq> []"
    and bucket: "q_lm_BucketID req \<noteq> []" "map_of (r_bucketsByID r) (q_lm_BucketID req) \<noteq> None"
    and start: "q_lm_KeyMarker req = []" and n: "length (r_uploads r) < n"
  shows "let roll = commonPrefixOf (q_lm_Prefix req) (q_lm_Delimiter req);
             uploads = concat (map lmr_Uploads (list_all_uploads n req r));
             prefixes = concat (map lmr_CommonPrefixes (list_all_uploads n req r))
         in sorted_wrt (<) (map (\<lambda>up. (mu_Key up, mu_UploadID up)) uploads) \<and>
            set uploads = {up. \<exists>k u. listed_upload req r k u up \<and> roll k = None} \<and>
            sorted_wrt (<) prefixes \<and> set prefixes = {p. \<exists>k u up. listed_upload req r k u up \<and> roll k = Some p}"
proof -
  let ?es = "multipartUploadEntries req r" and ?roll = "commonPrefixOf (q_lm_Prefix req) (q_lm_Delimiter req)"
  have wf: "map_wf (r_uploads r)" using inv by (simp add: mp_inv_def)
  have stored: "fst p = (mu_BucketID (snd p), mu_Key (snd p), mu_UploadID (snd p))" if "p \<in> set (r_uploads r)" for p
    using inv that by (cases p rule: prod.exhaust) (auto simp: mp_inv_def upload_ok_def)
  have ids: "\<forall>p \<in> set (r_uploads r). snd (snd (fst p)) \<noteq> []" using keys stored by simp
  have key: "mu_Key up = k" "mu_UploadID up = u" "k \<noteq> []" if "listed_upload req r k u up" for k u up
    using that stored keys by (auto simp: listed_upload_def dest!: map_of_SomeD)
  note mem = set_uploadEntries [OF wf, of req]
  have ok: "uploads_pageable ?es" by (rule uploadEntries_pageable [OF wf ids])
  have names: "\<forall>e \<in> set ?es. me_name e \<noteq> []"
    unfolding mem using key(3) by (auto dest: commonPrefixOf_rolled(2))
  have all: "concat (map lmr_Uploads (list_all_uploads n req r)) = map me_upload (filter (\<lambda>e. \<not> me_prefix e) ?es)"
    "concat (map lmr_CommonPrefixes (list_all_uploads n req r)) = map me_name (filter me_prefix ?es)"
    using list_all_uploads_from [OF bucket ok names refl, of 0 n] start n length_uploadEntries [of req r] by simp_all
  have sorted: "sorted_wrt (\<lambda>a b. upload_key a < upload_key b) ?es" using ok by (simp add: uploads_pageable_def)
  have "sorted_wrt (<) (map (\<lambda>e. (mu_Key (me_upload e), mu_UploadID (me_upload e))) (filter (\<lambda>e. \<not> me_prefix e) ?es))"
    by (rule sorted_filter_map [OF sorted]) (auto simp: mem key)
  moreover have "sorted_wrt (<) (map me_name (filter me_prefix ?es))"
  proof -
    have "sorted_wrt (\<lambda>a b. upload_key a < upload_key b) (filter me_prefix ?es)" using sorted by (rule sorted_wrt_filter)
    then have "sorted_wrt (\<lambda>a b. me_name a < me_name b) (filter me_prefix ?es)"
      by (rule sorted_wrt_mono_rel [rotated]) (auto simp: mem)
    then show ?thesis by (simp add: sorted_wrt_map)
  qed
  moreover have "me_upload ` {e \<in> set ?es. \<not> me_prefix e} = {up. \<exists>k u. listed_upload req r k u up \<and> ?roll k = None}"
  proof -
    have "{e \<in> set ?es. \<not> me_prefix e} = {\<lparr>me_name = k, me_uploadID = u, me_prefix = False, me_upload = up\<rparr> | k u up.
        listed_upload req r k u up \<and> ?roll k = None}"
      unfolding mem by auto
    then show ?thesis by (simp add: image_entries)
  qed
  moreover have "me_name ` {e \<in> set ?es. me_prefix e} = {p. \<exists>k u up. listed_upload req r k u up \<and> ?roll k = Some p}"
  proof -
    have "{e \<in> set ?es. me_prefix e} = {\<lparr>me_name = p, me_uploadID = [], me_prefix = True,
        me_upload = zero_MultipartUpload\<rparr> | p. \<exists>k u up. listed_upload req r k u up \<and> ?roll k = Some p}"
      unfolding mem by (auto, blast)
    then show ?thesis by (simp only: setcompr_eq_image image_image) simp
  qed
  ultimately show ?thesis unfolding Let_def all by (simp add: comp_def)
qed

section \<open>Witnesses\<close>

definition demo_objects :: Repository where
  \<comment> \<open>three objects under two common prefixes and one plain key\<close>
  "demo_objects =
     (let version = (\<lambda>k. zero_ObjectVersion\<lparr>ov_BucketID := ''b'', ov_Key := k, ov_VersionID := ''v'',
                 ov_VersionSortKey := ''v'', ov_State := ObjectVersionCommitted\<rparr>);
          head = (\<lambda>k. (headFromVersion (version k) 1)\<lparr>oh_Revision := 1\<rparr>)
      in (NewWithClock 0)\<lparr>r_bucketsByID := [(''b'', zero_Bucket)],
           r_heads := map (\<lambda>k. ((''b'', k), head k)) [''z'', ''a/2'', ''a/1''],
           r_versions := map (\<lambda>k. ((''b'', k, ''v''), version k)) [''z'', ''a/2'', ''a/1'']\<rparr>)"

definition demo_list :: ListObjectsRequest where
  "demo_list = \<lparr>q_lo_BucketID = ''b'', q_lo_Prefix = [], q_lo_Delimiter = ''/'', q_lo_ContinuationToken = [],
     q_lo_MaxKeys = 1\<rparr>"

lemma demo_objects_inv: "obj_inv demo_objects"
  unfolding obj_inv_def obj_ok_def
  by (auto simp: demo_objects_def Let_def NewWithClock_def map_wf_def version_key_ok_def split: if_splits)

theorem ListObjects_complete_witness:
  "concat (map lor_CommonPrefixes (list_all_objects 4 demo_list demo_objects)) = [''a/''] \<and>
   sorted_wrt (<) (map oh_Key (concat (map lor_Contents (list_all_objects 4 demo_list demo_objects))))"
proof -
  have "\<forall>p \<in> set (r_heads demo_objects). snd (fst p) \<noteq> []" by code_simp
  moreover have "q_lo_BucketID demo_list \<noteq> []" "map_of (r_bucketsByID demo_objects) (q_lo_BucketID demo_list) \<noteq> None"
    "q_lo_ContinuationToken demo_list = []" "length (r_heads demo_objects) < 4" by code_simp+
  ultimately have "sorted_wrt (<) (map oh_Key (concat (map lor_Contents (list_all_objects 4 demo_list demo_objects))))"
    using ListObjects_complete [OF demo_objects_inv, of demo_list 4] unfolding Let_def by blast
  moreover have "concat (map lor_CommonPrefixes (list_all_objects 4 demo_list demo_objects)) = [''a/'']" by code_simp
  ultimately show ?thesis by blast
qed

definition demo_uploads :: Repository where
  \<comment> \<open>three uploads of one key\<close>
  "demo_uploads = (NewWithClock 0)\<lparr>r_bucketsByID := [(''b'', zero_Bucket)],
     r_uploads := map (\<lambda>u. ((''b'', ''k'', u), zero_MultipartUpload\<lparr>mu_BucketID := ''b'', mu_Key := ''k'',
       mu_UploadID := u, mu_State := MultipartUploadActive\<rparr>)) [''3'', ''1'', ''2'']\<rparr>"

definition demo_list_uploads :: ListMultipartUploadsRequest where
  "demo_list_uploads = \<lparr>q_lm_BucketID = ''b'', q_lm_Prefix = [], q_lm_Delimiter = [], q_lm_KeyMarker = [],
     q_lm_UploadIDMarker = [], q_lm_MaxUploads = 2\<rparr>"

theorem ListMultipartUploads_complete_witness:
  "map mu_UploadID (concat (map lmr_Uploads (list_all_uploads 4 demo_list_uploads demo_uploads))) = [''1'', ''2'', ''3''] \<and>
   sorted_wrt (<) (map (\<lambda>up. (mu_Key up, mu_UploadID up))
     (concat (map lmr_Uploads (list_all_uploads 4 demo_list_uploads demo_uploads))))"
proof -
  have "mp_inv demo_uploads" by code_simp
  moreover have "\<forall>p \<in> set (r_uploads demo_uploads). mu_Key (snd p) \<noteq> [] \<and> mu_UploadID (snd p) \<noteq> []" by code_simp
  moreover have "q_lm_BucketID demo_list_uploads \<noteq> []"
    "map_of (r_bucketsByID demo_uploads) (q_lm_BucketID demo_list_uploads) \<noteq> None"
    "q_lm_KeyMarker demo_list_uploads = []" "length (r_uploads demo_uploads) < 4" by code_simp+
  ultimately have "sorted_wrt (<) (map (\<lambda>up. (mu_Key up, mu_UploadID up))
     (concat (map lmr_Uploads (list_all_uploads 4 demo_list_uploads demo_uploads))))"
    using ListMultipartUploads_complete [of demo_uploads demo_list_uploads 4] unfolding Let_def by blast
  moreover have "map mu_UploadID (concat (map lmr_Uploads (list_all_uploads 4 demo_list_uploads demo_uploads))) =
      [''1'', ''2'', ''3'']" by code_simp
  ultimately show ?thesis by blast
qed

section \<open>Version listing\<close>

text \<open>The search predicate of \<open>versionEntriesAfter\<close> tests a version id for equality, so it
  is true at one index only and the binary search of \<open>sort.Search\<close> usually misses it. A
  client paging through the versions of one key then never sees the older ones.\<close>

fun list_all_versions :: "nat \<Rightarrow> ListObjectVersionsRequest \<Rightarrow> Repository \<Rightarrow> ListObjectVersionsResult list" where
  "list_all_versions 0 req r = []"
| "list_all_versions (Suc n) req r =
     (case ListObjectVersions req r of
        Inl e \<Rightarrow> []
      | Inr page \<Rightarrow> page # (if lvr_IsTruncated page
          then list_all_versions n (req\<lparr>q_lv_KeyMarker := lvr_NextKeyMarker page,
                 q_lv_VersionIDMarker := lvr_NextVersionIDMarker page\<rparr>) r else []))"

definition demo_versions :: Repository where
  \<comment> \<open>one key with three committed versions\<close>
  "demo_versions =
     (let version = (\<lambda>i. zero_ObjectVersion\<lparr>ov_BucketID := ''b'', ov_Key := ''k'', ov_VersionID := i,
                 ov_VersionSortKey := i, ov_State := ObjectVersionCommitted\<rparr>)
      in (NewWithClock 0)\<lparr>r_bucketsByID := [(''b'', zero_Bucket)],
           r_heads := [((''b'', ''k''), (headFromVersion (version ''3'') 1)\<lparr>oh_Revision := 1\<rparr>)],
           r_versions := map (\<lambda>i. ((''b'', ''k'', i), version i)) [''1'', ''2'', ''3'']\<rparr>)"

definition demo_list_versions :: ListObjectVersionsRequest where
  "demo_list_versions = \<lparr>q_lv_BucketID = ''b'', q_lv_Prefix = [], q_lv_Delimiter = [], q_lv_KeyMarker = [],
     q_lv_VersionIDMarker = [], q_lv_MaxKeys = 1\<rparr>"

theorem version_listing_loses_versions:
  "obj_inv demo_versions \<and>
   map (\<lambda>e. ov_VersionID (ve_version e)) (versionEntries demo_list_versions demo_versions) = [''3'', ''2'', ''1''] \<and>
   map (\<lambda>e. ov_VersionID (ove_Version e))
     (concat (map lvr_Versions (list_all_versions 10 demo_list_versions demo_versions))) = [''3'']"
proof (intro conjI)
  show "obj_inv demo_versions"
    unfolding obj_inv_def obj_ok_def
    by (auto simp: demo_versions_def Let_def NewWithClock_def map_wf_def version_key_ok_def split: if_splits)
  show "map (\<lambda>e. ov_VersionID (ve_version e)) (versionEntries demo_list_versions demo_versions) = [''3'', ''2'', ''1'']"
    by code_simp
  show "map (\<lambda>e. ov_VersionID (ove_Version e))
     (concat (map lvr_Versions (list_all_versions 10 demo_list_versions demo_versions))) = [''3'']"
    by code_simp
qed

end
