(* ===== verification/RepoProps.thy ===== *)
theory RepoProps
  imports Reachable ListingPages
begin

text \<open>
  What the invariants give for every state a sequence of calls can reach, as statements over
  the reads of the interface. The concrete run at the end of each section starts from an empty
  repository and shows that the hypotheses can hold.
\<close>

section \<open>A concrete run\<close>

definition demo_ids :: "string \<Rightarrow> id_source" where
  "demo_ids x = (\<lambda>n. Some x)"

definition demo_bucket_request :: CreateBucketRequest where
  "demo_bucket_request = \<lparr>q_cb_TenantID = ''t'', q_cb_Name = ''photos'', q_cb_Region = ''eu'',
     q_cb_ObjectLockEnabled = True\<rparr>"

definition demo_put_request :: PutObjectVersionRequest where
  "demo_put_request = \<lparr>q_po_BucketID = ''b'', q_po_Key = ''cat'', q_po_SizeBytes = 7, q_po_ETag = ''e'',
     q_po_ContentType = [], q_po_StorageClass = zero_StorageClassSnapshot,
     q_po_ServerSideEncryption = zero_ServerSideEncryption,
     q_po_SegmentRef = zero_SegmentRef\<lparr>sg_SegmentID := ''s''\<rparr>, q_po_SegmentRefs = [],
     q_po_UserMetadata = [], q_po_Tags = [],
     q_po_ObjectLockRetention = \<lparr>olr_Mode = ObjectLockModeCompliance, olr_RetainUntilDate = 100\<rparr>,
     q_po_ObjectLockLegalHold = ObjectLockLegalHoldStatus_Unset\<rparr>"

definition demo_audit :: AuditContext where
  "demo_audit = \<lparr>ac_RequestID = ''q'', ac_Reason = ''audit'', ac_Principal = zero_AuditPrincipal\<lparr>ap_AccessKeyID := ''ak''\<rparr>\<rparr>"

definition demo_delete_request :: DeleteObjectRequest where
  "demo_delete_request = \<lparr>q_do_BucketID = ''b'', q_do_Key = ''cat'', q_do_VersionID = ''v'',
     q_do_BypassGovernanceRetention = True, q_do_BypassAudit = demo_audit\<rparr>"

definition demo_bucket_state :: Repository where
  "demo_bucket_state = snd (CreateBucket 0 (demo_ids ''b'') demo_bucket_request (NewWithClock 0))"

definition demo_locked_state :: Repository where
  \<comment> \<open>one object under compliance retention until 100\<close>
  "demo_locked_state = snd (PutObjectVersion demo_env 2 (demo_ids ''v'') demo_put_request demo_bucket_state)"

definition demo_delete_state :: Repository where
  "demo_delete_state = snd (DeleteObject demo_env (\<lambda>n. 5) (demo_ids ''w'') demo_delete_request demo_locked_state)"

lemma demo_ids_ok: "x \<noteq> [] \<Longrightarrow> nul_free x \<Longrightarrow> ids_ok (demo_ids x)"
  by (simp add: demo_ids_def ids_ok_def)

lemma demo_bucket_reachable: "reachable demo_env 0 demo_bucket_state"
proof -
  have "ids_ok (demo_ids ''b'')" by (rule demo_ids_ok) code_simp+
  then have "repo_step demo_env 0 (NewWithClock 0) 0 demo_bucket_state"
    unfolding demo_bucket_state_def by (intro repo_step.bucket bucket_step.create) simp_all
  then show ?thesis unfolding reachable_def by (blast intro: repo_run.intros order_refl)
qed

lemma demo_locked_step: "repo_step demo_env 0 demo_bucket_state 2 demo_locked_state"
proof -
  have "ids_ok (demo_ids ''v'')" by (rule demo_ids_ok) code_simp+
  moreover have "segs_nul_free demo_put_request" by code_simp
  ultimately show ?thesis
    unfolding demo_locked_state_def by (intro repo_step.object object_step.put) simp_all
qed

lemma demo_locked_reachable: "reachable demo_env 2 demo_locked_state"
  using demo_bucket_reachable demo_locked_step unfolding reachable_def by (blast intro: repo_run.intros)

lemma demo_delete_run: "repo_run demo_env 2 demo_locked_state 5 demo_delete_state"
proof -
  have "ids_ok (demo_ids ''w'')" by (rule demo_ids_ok) code_simp+
  then have "repo_step demo_env 2 demo_locked_state 5 demo_delete_state"
    unfolding demo_delete_state_def by (intro repo_step.object object_step.delete) (simp_all add: readings_def)
  then show ?thesis by (blast intro: repo_run.intros)
qed

section \<open>Write once, read many\<close>

text \<open>C1 (safety). In a bucket with object lock, a committed version under compliance retention
  outlives every sequence of repository operations - puts, commits, deletes with or without a
  governance bypass, tagging, retention and legal-hold updates, relocation of its segments,
  changes of the bucket's configuration, deletion of the bucket - as long as the clock has not
  passed its retain-until date: it can still be read, and apart from its tags, its legal hold
  and a retention that is at least as long it is the version that was stored.\<close>

theorem compliance_lock_outlives_every_run:
  assumes "reachable E T r" "repo_run E T r T' r'"
    and "GetBucketObjectLock b r = Inr c" "bol_Enabled c"
    and "GetObjectVersion b k i r = Inr v" "ov_State v = ObjectVersionCommitted" "\<not> ov_DeleteMarker v"
    and "olr_Mode (ov_ObjectLockRetention v) = ObjectLockModeCompliance"
    and "T' < olr_RetainUntilDate (ov_ObjectLockRetention v)"
  shows "\<exists>v'. GetObjectVersion b k i r' = Inr v' \<and>
    v' = v\<lparr>ov_Tags := ov_Tags v', ov_ObjectLockRetention := ov_ObjectLockRetention v',
            ov_ObjectLockLegalHold := ov_ObjectLockLegalHold v'\<rparr> \<and>
    olr_Mode (ov_ObjectLockRetention v') = ObjectLockModeCompliance \<and>
    olr_RetainUntilDate (ov_ObjectLockRetention v) \<le> olr_RetainUntilDate (ov_ObjectLockRetention v')"
proof -
  have "0 \<le> T" using assms(1) repo_run_time unfolding reachable_def by fastforce
  moreover have "lock_enabled b r"
    using assms(3,4) by (auto simp: GetBucketObjectLock_def lock_enabled_def split: option.splits if_splits)
  moreover have "map_of (r_versions r) (b, k, i) = Some v"
    using assms(5) by (simp add: GetObjectVersion_def split: option.splits)
  moreover have "locked T' v" using assms(6-9) by (simp add: locked_def)
  ultimately have "kept (b, k, i) v r'"
    using kept_repo_run [OF assms(2) reachable_inv [OF assms(1)]] by blast
  then obtain v' where "map_of (r_versions r') (b, k, i) = Some v'" "stays v v'"
    by (auto simp: kept_def split: option.splits)
  then show ?thesis by (intro exI [of _ v']) (simp add: GetObjectVersion_def stays_def)
qed

theorem compliance_lock_outlives_every_run_witness:
  "fst (DeleteObject demo_env (\<lambda>n. 5) (demo_ids ''w'') demo_delete_request demo_locked_state) = Inl ErrObjectLocked \<and>
   (\<exists>v'. GetObjectVersion ''b'' ''cat'' ''v'' demo_delete_state = Inr v')"
proof -
  let ?r = demo_locked_state and ?v = "projr (GetObjectVersion ''b'' ''cat'' ''v'' demo_locked_state)"
  have "GetBucketObjectLock ''b'' ?r = Inr (projr (GetBucketObjectLock ''b'' ?r))" by code_simp
  moreover have "bol_Enabled (projr (GetBucketObjectLock ''b'' ?r))" by code_simp
  moreover have "GetObjectVersion ''b'' ''cat'' ''v'' ?r = Inr ?v" by code_simp
  moreover have "ov_State ?v = ObjectVersionCommitted" "\<not> ov_DeleteMarker ?v"
    "olr_Mode (ov_ObjectLockRetention ?v) = ObjectLockModeCompliance"
    "5 < olr_RetainUntilDate (ov_ObjectLockRetention ?v)" by code_simp+
  ultimately have "\<exists>v'. GetObjectVersion ''b'' ''cat'' ''v'' demo_delete_state = Inr v'"
    using compliance_lock_outlives_every_run [OF demo_locked_reachable demo_delete_run] by blast
  moreover have "fst (DeleteObject demo_env (\<lambda>n. 5) (demo_ids ''w'') demo_delete_request ?r) = Inl ErrObjectLocked"
    by code_simp
  ultimately show ?thesis by blast
qed

section \<open>Buckets, heads and protected references\<close>

text \<open>C12 (invariant). In every reachable state the two bucket tables are inverse to each other:
  looking a bucket up by its name finds exactly the stored bucket of that name, names and
  identifiers are unique, and every bucket with object lock has versioning enabled.\<close>

theorem bucket_tables_inverse:
  assumes "reachable E T r"
  shows "(GetBucketByName n r = Inr b \<longleftrightarrow>
      (\<exists>i. map_of (r_bucketsByID r) i = Some b \<and> bk_BucketID b = i \<and> bk_Name b = n)) \<and>
    (map_of (r_bucketsByID r) i = Some b \<longrightarrow> bk_BucketID b = i \<and>
      (bol_Enabled (bk_ObjectLock b) \<longrightarrow> bk_VersioningState b = BucketVersioningEnabled))"
proof -
  have inv: "bucket_inv r" using reachable_inv [OF assms] by (simp add: repo_inv_def)
  have "GetBucketByName n r = Inr b" if "map_of (r_bucketsByID r) i = Some b" "bk_Name b = n" for i
    using inv that by (auto simp: GetBucketByName_def bucket_inv_iff)
  then show ?thesis
    using GetBucketByName_cases [OF inv, of n b] inv by (auto simp: bucket_inv_iff bucket_ok_def)
qed

theorem bucket_tables_inverse_witness:
  "GetBucketByName ''photos'' demo_bucket_state = Inr (projr (GetBucketByName ''photos'' demo_bucket_state)) \<and>
   bk_BucketID (projr (GetBucketByName ''photos'' demo_bucket_state)) = ''b'' \<and>
   map_of (r_bucketsByID demo_bucket_state) ''b'' = Some (projr (GetBucketByName ''photos'' demo_bucket_state))"
proof -
  let ?b = "projr (GetBucketByName ''photos'' demo_bucket_state)"
  have "GetBucketByName ''photos'' demo_bucket_state = Inr ?b" "bk_BucketID ?b = ''b''" by code_simp+
  then show ?thesis
    using bucket_tables_inverse [OF demo_bucket_reachable, of "''photos''" ?b] by auto
qed

text \<open>C4 (type). In every reachable state a current object is the view of a committed version:
  the head a read returns names a stored, committed version of the same object, and its size,
  entity tag, segments, metadata, tags, encryption and lock are those of that version.\<close>

theorem head_shows_committed_version:
  assumes "reachable E T r" "GetObjectHead b k r = Inr h"
  shows "\<exists>v. GetObjectVersion b k (oh_VersionID h) r = Inr v \<and> ov_State v = ObjectVersionCommitted \<and>
    ov_BucketID v = b \<and> ov_Key v = k \<and> ov_VersionID v = oh_VersionID h \<and>
    h = (headFromVersion v (oh_LastModified h))\<lparr>oh_Revision := oh_Revision h\<rparr>"
proof -
  have "obj_inv r" using reachable_inv [OF assms(1)] by (simp add: repo_inv_def)
  note ok = obj_invD(4) [OF this]
  have h: "map_of (r_heads r) (b, k) = Some h" using assms(2) by (simp add: GetObjectHead_def split: option.splits)
  show ?thesis
    using obj_okD_head [OF ok h] obj_okD_key [OF ok]
    by (fastforce simp: GetObjectVersion_def head_of_def version_key_ok_def)
qed

theorem head_shows_committed_version_witness:
  "\<exists>v. GetObjectVersion ''b'' ''cat'' ''v'' demo_locked_state = Inr v \<and> ov_State v = ObjectVersionCommitted \<and>
     ov_SizeBytes v = 7"
proof -
  let ?h = "projr (GetObjectHead ''b'' ''cat'' demo_locked_state)"
  have h: "GetObjectHead ''b'' ''cat'' demo_locked_state = Inr ?h" "oh_VersionID ?h = ''v''" "oh_SizeBytes ?h = 7"
    by code_simp+
  then obtain v where v: "GetObjectVersion ''b'' ''cat'' ''v'' demo_locked_state = Inr v"
      "ov_State v = ObjectVersionCommitted" "?h = (headFromVersion v (oh_LastModified ?h))\<lparr>oh_Revision := oh_Revision ?h\<rparr>"
    using head_shows_committed_version [OF demo_locked_reachable h(1), unfolded h(2)] by blast
  have "ov_SizeBytes v = 7"
    using arg_cong [OF v(3), of oh_SizeBytes, unfolded h(3)] by (simp add: headFromVersion_def)
  with v show ?thesis by blast
qed



section \<open>The audit log\<close>

definition demo_audit_request :: PutAdminAuditEventRequest where
  "demo_audit_request = \<lparr>q_aa_Action = ''admin_kms_key_put'', q_aa_BucketID = [], q_aa_Key = [], q_aa_VersionID = [],
     q_aa_Details = [], q_aa_Audit = demo_audit\<rparr>"

definition demo_audit_state :: Repository where
  "demo_audit_state = snd (PutAdminAuditEvent demo_env 3 demo_audit_request demo_bucket_state)"

lemma demo_audit_reachable: "reachable demo_env 3 demo_audit_state"
proof -
  have "repo_step demo_env 0 demo_bucket_state 3 demo_audit_state"
    unfolding demo_audit_state_def by (intro repo_step.audit audit_step.admin_event) simp
  then show ?thesis using demo_bucket_reachable unfolding reachable_def by (blast intro: repo_run.intros)
qed



section \<open>Multipart uploads\<close>

lemma mp_forward_trans:
  assumes "mp_forward r r'" "mp_forward r' r''"
  shows "mp_forward r r''"
proof -
  have "uploads_forward r r''"
    using assms unfolding mp_forward_def uploads_forward_def by (metis (no_types, lifting))
  moreover have "completions_forward r r''"
    unfolding completions_forward_def
  proof (intro allI impI)
    fix key c assume "map_of (r_completions r) key = Some c"
    then obtain c' where "map_of (r_completions r') key = Some c'"
        "multipartCompletionStateRank (mcr_State c) \<le> multipartCompletionStateRank (mcr_State c')"
        "mcr_ObjectVersionID c' = mcr_ObjectVersionID c" "mcr_ETag c' = mcr_ETag c"
        "mcr_SizeBytes c' = mcr_SizeBytes c" "mcr_PartCount c' = mcr_PartCount c"
        "mcr_ExpectedHeadVersionID c' = mcr_ExpectedHeadVersionID c"
      using assms(1) unfolding mp_forward_def completions_forward_def by blast
    moreover from this(1) obtain c'' where "map_of (r_completions r'') key = Some c''"
        "multipartCompletionStateRank (mcr_State c') \<le> multipartCompletionStateRank (mcr_State c'')"
        "mcr_ObjectVersionID c'' = mcr_ObjectVersionID c'" "mcr_ETag c'' = mcr_ETag c'"
        "mcr_SizeBytes c'' = mcr_SizeBytes c'" "mcr_PartCount c'' = mcr_PartCount c'"
        "mcr_ExpectedHeadVersionID c'' = mcr_ExpectedHeadVersionID c'"
      using assms(2) unfolding mp_forward_def completions_forward_def by blast
    ultimately show "\<exists>d. map_of (r_completions r'') key = Some d \<and>
        multipartCompletionStateRank (mcr_State c) \<le> multipartCompletionStateRank (mcr_State d) \<and>
        mcr_ObjectVersionID d = mcr_ObjectVersionID c \<and> mcr_ETag d = mcr_ETag c \<and>
        mcr_SizeBytes d = mcr_SizeBytes c \<and> mcr_PartCount d = mcr_PartCount c \<and>
        mcr_ExpectedHeadVersionID d = mcr_ExpectedHeadVersionID c"
      by (intro exI [of _ c'']) simp
  qed
  ultimately show ?thesis by (simp add: mp_forward_def)
qed

lemma mp_forward_part: "multipart_part r' = multipart_part r \<Longrightarrow> mp_forward r r'"
  by (rule mp_forward_same) (simp_all add: multipart_part_def)

lemma mp_forward_step:
  assumes "repo_step E T r T' r'" "mp_inv r"
  shows "mp_forward r r'"
  using assms
proof (induction rule: repo_step.induct)
  case (multipart T T' r r')
  then show ?case by (blast intro: multipart_step_forward)
qed (blast intro: mp_forward_part side_step_parts bucket_step_parts audit_step_parts shared_step_parts
  object_step_parts attach_parts)+

lemma mp_forward_run: "repo_run E T r T' r' \<Longrightarrow> repo_inv E T r \<Longrightarrow> mp_forward r r'"
proof (induction rule: repo_run.induct)
  case (more T r T' r' T'' r'')
  then have "mp_inv r'" using repo_run_inv by (simp add: repo_inv_def)
  with more show ?case using mp_forward_step mp_forward_trans by blast
qed simp

text \<open>C10 (safety). The outcome of a multipart upload is final: over every sequence of operations,
  an upload that was completed or aborted stays so, with the version and entity tag it was
  completed with; and a completion record keeps the version, tag, size and part count it
  promised while its state only moves forward.\<close>

theorem upload_outcome_final:
  assumes "reachable E T r" "repo_run E T r T' r'"
  shows "(GetMultipartUpload req r = Inr up \<longrightarrow>
      (\<exists>up'. GetMultipartUpload req r' = Inr up' \<and>
        (mu_State up \<noteq> MultipartUploadActive \<longrightarrow> mu_State up' = mu_State up \<and>
          mu_CompletedVersionID up' = mu_CompletedVersionID up \<and> mu_CompletedETag up' = mu_CompletedETag up))) \<and>
    (GetMultipartCompletion req r = Inr c \<longrightarrow>
      (\<exists>c'. GetMultipartCompletion req r' = Inr c' \<and>
        multipartCompletionStateRank (mcr_State c) \<le> multipartCompletionStateRank (mcr_State c') \<and>
        mcr_ObjectVersionID c' = mcr_ObjectVersionID c \<and> mcr_ETag c' = mcr_ETag c \<and>
        mcr_SizeBytes c' = mcr_SizeBytes c \<and> mcr_PartCount c' = mcr_PartCount c))"
proof -
  let ?key = "(q_mu_BucketID req, q_mu_Key req, q_mu_UploadID req)"
  have fwd: "uploads_forward r r'" "completions_forward r r'"
    using mp_forward_run [OF assms(2) reachable_inv [OF assms(1)]] by (simp_all add: mp_forward_def)
  have "\<exists>up'. GetMultipartUpload req r' = Inr up' \<and>
        (mu_State up \<noteq> MultipartUploadActive \<longrightarrow> mu_State up' = mu_State up \<and>
          mu_CompletedVersionID up' = mu_CompletedVersionID up \<and> mu_CompletedETag up' = mu_CompletedETag up)"
    if "GetMultipartUpload req r = Inr up"
  proof -
    have ids: "\<not> (q_mu_BucketID req = [] \<or> q_mu_Key req = [] \<or> q_mu_UploadID req = [])"
      and "map_of (r_uploads r) ?key = Some up"
      using that by (auto simp: GetMultipartUpload_def getUploadLocked_def split: if_splits option.splits)
    then obtain up' where "map_of (r_uploads r') ?key = Some up'"
        "mu_State up \<noteq> MultipartUploadActive \<longrightarrow> mu_State up' = mu_State up \<and>
          mu_CompletedVersionID up' = mu_CompletedVersionID up \<and> mu_CompletedETag up' = mu_CompletedETag up"
      using fwd(1) unfolding uploads_forward_def by blast
    then show ?thesis using ids by (simp add: GetMultipartUpload_def getUploadLocked_def)
  qed
  moreover have "map_of (r_completions r) ?key = Some c" if "GetMultipartCompletion req r = Inr c"
    using that by (simp add: GetMultipartCompletion_def split: option.splits)
  ultimately show ?thesis
    using fwd(2) unfolding completions_forward_def by (fastforce simp: GetMultipartCompletion_def)
qed

definition demo_upload_key :: MultipartUploadRequest where
  "demo_upload_key = \<lparr>q_mu_BucketID = ''b'', q_mu_Key = ''k'', q_mu_UploadID = ''u''\<rparr>"

definition demo_part :: "int \<Rightarrow> int \<Rightarrow> PutMultipartPartRequest" where
  "demo_part n bytes = \<lparr>q_pp_BucketID = ''b'', q_pp_Key = ''k'', q_pp_UploadID = ''u'', q_pp_PartNumber = n,
     q_pp_SizeBytes = bytes, q_pp_ETag = [], q_pp_SegmentRef = zero_SegmentRef\<rparr>"

definition demo_parts_state :: Repository where
  \<comment> \<open>an upload with two parts, one of them uploaded twice\<close>
  "demo_parts_state =
     fold (\<lambda>q r. snd (PutMultipartPart 3 q r)) [demo_part 2 10, demo_part 1 4, demo_part 2 6]
       (snd (CreateMultipartUpload (\<lambda>_. 1) (demo_ids ''u'') demo_create demo_bucket_state))"

definition demo_aborted_state :: Repository where
  "demo_aborted_state = snd (AbortMultipartUpload (\<lambda>_. 4) demo_upload_key demo_parts_state)"

definition demo_late_state :: Repository where
  "demo_late_state = snd (PutMultipartPart 5 (demo_part 3 1) demo_aborted_state)"

lemma demo_multipart_step: "multipart_step r r' \<Longrightarrow> repo_run E T0 r0 T r \<Longrightarrow> T \<le> T' \<Longrightarrow> repo_run E T0 r0 T' r'"
  by (blast intro: repo_run.more repo_step.multipart)

lemma demo_parts_reachable: "reachable demo_env 3 demo_parts_state"
proof -
  obtain T0 where "0 \<le> T0" and run: "repo_run demo_env T0 (NewWithClock T0) 0 demo_bucket_state"
    using demo_bucket_reachable unfolding reachable_def by blast
  moreover have "repo_run demo_env T0 (NewWithClock T0) 3 demo_parts_state"
    unfolding demo_parts_state_def fold_simps comp_apply id_apply
    by (rule demo_multipart_step, rule multipart_step.intros)+
      (rule run, rule order_refl, rule order_refl, rule order_refl, simp)
  ultimately show ?thesis unfolding reachable_def by blast
qed

lemma demo_aborted_run: "repo_run demo_env 3 demo_parts_state 4 demo_aborted_state"
  unfolding demo_aborted_state_def
  by (rule demo_multipart_step, rule multipart_step.abort) (auto intro: repo_run.none)

lemma demo_aborted_reachable: "reachable demo_env 4 demo_aborted_state"
proof -
  obtain T0 where "0 \<le> T0" and run: "repo_run demo_env T0 (NewWithClock T0) 3 demo_parts_state"
    using demo_parts_reachable unfolding reachable_def by blast
  moreover have "repo_run demo_env T0 (NewWithClock T0) 4 demo_aborted_state"
    unfolding demo_aborted_state_def
    by (rule demo_multipart_step, rule multipart_step.abort, rule run) simp
  ultimately show ?thesis unfolding reachable_def by blast
qed

theorem upload_outcome_final_witness:
  "\<exists>up'. GetMultipartUpload demo_upload_key demo_late_state = Inr up' \<and> mu_State up' = MultipartUploadAborted"
proof -
  let ?up = "projr (GetMultipartUpload demo_upload_key demo_aborted_state)"
  have run: "repo_run demo_env 4 demo_aborted_state 5 demo_late_state"
    unfolding demo_late_state_def
    by (rule demo_multipart_step, rule multipart_step.part, rule repo_run.none) simp
  have "GetMultipartUpload demo_upload_key demo_aborted_state = Inr ?up" "mu_State ?up = MultipartUploadAborted"
    by code_simp+
  then show ?thesis
    using upload_outcome_final [OF demo_aborted_reachable run, of demo_upload_key ?up] by auto
qed

lemma sum_list_sort_by: "sum_list (map f (sort_by lt xs)) = (sum_list (map f xs) :: int)"
proof -
  have "sum_list (map f (insert_by lt x xs)) = f x + sum_list (map f xs)" for x xs
    by (induction xs) auto
  then show ?thesis by (induction xs) auto
qed

text \<open>C11 (invariant). In every reachable state the summary an active upload carries agrees with its
  parts: the part count, the total size (as a 64-bit integer) and the highest part number are
  those of the parts a listing returns, however often parts were replaced, and the listing is in
  strictly ascending order of part numbers between 1 and 10000.\<close>

theorem upload_summary_exact:
  assumes "reachable E T r" "GetMultipartUpload req r = Inr up" "mu_State up = MultipartUploadActive"
  shows "\<exists>parts. ListMultipartParts req r = Inr parts \<and> mu_PartCount up = int (length parts) \<and>
    mu_TotalPartSizeBytes up = wrap64 (sum_list (map mp_SizeBytes parts)) \<and>
    mu_MaxPartNumber up = Max (insert 0 (mp_PartNumber ` set parts)) \<and>
    sorted_wrt (\<lambda>a b. mp_PartNumber a < mp_PartNumber b) parts \<and>
    (\<forall>p \<in> set parts. 1 \<le> mp_PartNumber p \<and> mp_PartNumber p \<le> 10000)"
proof -
  let ?key = "(q_mu_BucketID req, q_mu_Key req, q_mu_UploadID req)"
  let ?ps = "parts_of ?key (r_parts r)"
  have inv: "mp_inv r" using reachable_inv [OF assms(1)] by (simp add: repo_inv_def)
  then have parts: "map_wf (r_parts r)" "\<forall>p \<in> set (r_parts r). part_ok (r_uploads r) p" by (simp_all add: mp_inv_def)
  have "map_of (r_uploads r) ?key = Some up"
    using assms(2) by (auto simp: GetMultipartUpload_def getUploadLocked_def split: if_splits option.splits)
  then have sum: "summary_ok up ?ps" using mp_inv_upload [OF inv] assms(3) by (fastforce simp: upload_ok_def)
  have "distinct ?ps" using parts_of_wf [OF parts(1)] by (simp add: map_wf_def distinct_map)
  then have "distinct (map mp_PartNumber (map snd ?ps))"
    using part_numbers_inj [OF parts] by (simp add: distinct_map comp_def)
  then have "sorted_wrt (\<lambda>a b. mp_PartNumber a < mp_PartNumber b) (listPartsLocked req r)"
    unfolding listPartsLocked_def by (rule sort_by_key) simp
  moreover have "ListMultipartParts req r = Inr (listPartsLocked req r)"
    using assms(2,3) by (simp add: ListMultipartParts_def getActiveUploadLocked_def GetMultipartUpload_def)
  moreover have "\<forall>p \<in> set (listPartsLocked req r). 1 \<le> mp_PartNumber p \<and> mp_PartNumber p \<le> 10000"
    using parts(2) by (fastforce simp: listPartsLocked_def parts_of_def part_ok_def MaxMultipartParts_def)
  ultimately show ?thesis
    using sum by (intro exI [of _ "listPartsLocked req r"])
      (simp add: summary_ok_def listPartsLocked_def sum_list_sort_by comp_def image_image)
qed

theorem upload_summary_exact_witness:
  "\<exists>parts. ListMultipartParts demo_upload_key demo_parts_state = Inr parts \<and> length parts = 2 \<and>
     sum_list (map mp_SizeBytes parts) = 10"
proof -
  let ?up = "projr (GetMultipartUpload demo_upload_key demo_parts_state)"
  have "GetMultipartUpload demo_upload_key demo_parts_state = Inr ?up" "mu_State ?up = MultipartUploadActive"
    by code_simp+
  then obtain parts where parts: "ListMultipartParts demo_upload_key demo_parts_state = Inr parts"
      "mu_PartCount ?up = int (length parts)"
    using upload_summary_exact [OF demo_parts_reachable] by blast
  moreover have "mu_PartCount ?up = 2" "sum_list (map mp_SizeBytes (projr (ListMultipartParts demo_upload_key demo_parts_state))) = 10"
    by code_simp+
  ultimately show ?thesis by simp
qed

end
