(* ===== verification/ObjectProps.thy ===== *)
theory ObjectProps
  imports RepoProps
begin

text \<open>
  Object operations against their specification: the current objects of a repository are a
  map from bucket and key to content, a put updates it at one key, a delete removes one key,
  a failed call leaves it alone, and of two conditional commits made against the same head
  only one can win.
\<close>

section \<open>The abstract object store\<close>

record ObjectContent =
  oc_SizeBytes :: int
  oc_ETag :: string
  oc_ContentType :: string
  oc_SegmentRefs :: "SegmentRef list"
  oc_UserMetadata :: strmap
  oc_Tags :: strmap

type_synonym store = "objectKey \<rightharpoonup> ObjectContent"

definition content_of_head :: "ObjectHead \<Rightarrow> ObjectContent" where
  "content_of_head h = \<lparr>oc_SizeBytes = oh_SizeBytes h, oc_ETag = oh_ETag h, oc_ContentType = oh_ContentType h,
     oc_SegmentRefs = oh_SegmentRefs h, oc_UserMetadata = oh_UserMetadata h, oc_Tags = oh_Tags h\<rparr>"

definition content_of_request :: "PutObjectVersionRequest \<Rightarrow> ObjectContent" where
  "content_of_request req = \<lparr>oc_SizeBytes = q_po_SizeBytes req, oc_ETag = q_po_ETag req,
     oc_ContentType = q_po_ContentType req,
     oc_SegmentRefs = normalizeSegmentRefs (q_po_SegmentRef req) (q_po_SegmentRefs req),
     oc_UserMetadata = q_po_UserMetadata req, oc_Tags = q_po_Tags req\<rparr>"

definition visible_content :: "ObjectHead \<Rightarrow> ObjectContent option" where
  "visible_content h = (if oh_DeleteMarker h then None else Some (content_of_head h))"

definition store_of :: "Repository \<Rightarrow> store" where
  "store_of r = (\<lambda>key. case map_of (r_heads r) key of None \<Rightarrow> None | Some h \<Rightarrow> visible_content h)"

definition store_put :: "PutObjectVersionRequest \<Rightarrow> store \<Rightarrow> store" where
  "store_put req S = S((q_po_BucketID req, q_po_Key req) \<mapsto> content_of_request req)"

definition store_delete :: "objectKey \<Rightarrow> store \<Rightarrow> store" where
  "store_delete key S = S(key := None)"

lemma store_of_put: "r_heads r' = map_put key h (r_heads r) \<Longrightarrow> store_of r' = (store_of r)(key := visible_content h)"
  by (auto simp: store_of_def)

lemma store_of_del: "r_heads r' = map_del key (r_heads r) \<Longrightarrow> store_of r' = (store_of r)(key := None)"
  by (auto simp: store_of_def)

lemma store_put_refines:
  assumes inv: "obj_inv r" and op: "PutObjectVersion E now ids req r = (Inr p, r')"
  shows "store_of r' = store_put req (store_of r)" "GetObjectHead (q_po_BucketID req) (q_po_Key req) r' = Inr (pvr_Head p)"
proof -
  obtain i bucket where store: "storeVersionLocked E now bucket
       (map_get zero_ObjectHead (r_heads r) (q_po_BucketID req, q_po_Key req))
       ((version_from_request req (normalizeSegmentRefs (q_po_SegmentRef req) (q_po_SegmentRefs req)) i now)
           \<lparr>ov_State := ObjectVersionCommitted, ov_CommittedAt := now\<rparr>) r = (pvr_Head p, r')"
    using PutObjectVersion_ok [OF op] by blast
  let ?v = "(version_from_request req (normalizeSegmentRefs (q_po_SegmentRef req) (q_po_SegmentRefs req)) i now)
           \<lparr>ov_State := ObjectVersionCommitted, ov_CommittedAt := now\<rparr>"
  have key: "ov_BucketID ?v = q_po_BucketID req" "ov_Key ?v = q_po_Key req"
    by (simp_all add: version_from_request_def)
  note eff = storeVersionLocked_effect [OF inv, of E now bucket ?v, unfolded key, OF store]
  have "visible_content (pvr_Head p) = Some (content_of_request req)"
    unfolding eff(1)
    by (simp add: visible_content_def content_of_head_def content_of_request_def headFromVersion_def
        version_from_request_def zero_ObjectVersion_def)
  then show "store_of r' = store_put req (store_of r)"
    using store_of_put [OF eff(2)] by (simp add: store_put_def)
  show "GetObjectHead (q_po_BucketID req) (q_po_Key req) r' = Inr (pvr_Head p)"
    by (simp add: GetObjectHead_def eff(2))
qed

lemma store_delete_refines:
  assumes inv: "obj_inv r" and op: "DeleteObject E clk ids req r = (Inr d, r')" and latest: "q_do_VersionID req = []"
  shows "store_of r' = store_delete (q_do_BucketID req, q_do_Key req) (store_of r)"
proof -
  let ?key = "(q_do_BucketID req, q_do_Key req)"
  have marker: "store_of r' = (store_of r)(?key := None)" if m: "createDeleteMarkerLocked now ids req r = (Inr d, r')" for now
  proof -
    obtain i where "r' = r\<lparr>r_versions := map_put (q_do_BucketID req, q_do_Key req, i) (delete_marker req now i) (r_versions r),
           r_heads := map_put ?key ((headFromVersion (delete_marker req now i) now)
             \<lparr>oh_Revision := nextObjectHeadRevision (map_of (r_heads r) ?key)\<rparr>) (r_heads r)\<rparr>"
      using createDeleteMarkerLocked_ok [OF m] by blast
    then have "r_heads r' = map_put ?key ((headFromVersion (delete_marker req now i) now)
             \<lparr>oh_Revision := nextObjectHeadRevision (map_of (r_heads r) ?key)\<rparr>) (r_heads r)" by simp
    from store_of_put [OF this] show ?thesis by (simp add: visible_content_def headFromVersion_def)
  qed
  have head: "store_of r' = (store_of r)(?key := None)" if "deleteHeadLocked E clk req r = (Inr d, r')"
  proof (cases "map_of (r_heads r) ?key")
    case None
    with that show ?thesis by (auto simp: deleteHeadLocked_def store_of_def)
  next
    case (Some h)
    with that obtain x where "removeHeadLocked E clk req h r = (x, r')"
      by (auto simp: deleteHeadLocked_def Let_def split: option.splits if_splits prod.splits)
    from removeHeadLocked_effect [OF inv Some this] have "r_heads r' = map_del ?key (r_heads r)" by simp
    then show ?thesis by (rule store_of_del)
  qed
  show ?thesis
    using op latest marker head
    by (auto simp: DeleteObject_def store_delete_def split: if_splits option.splits)
qed

lemma DeleteObject_error: "DeleteObject E clk ids req r = (Inl e, r') \<Longrightarrow> r' = r"
  by (auto simp: DeleteObject_def deleteHeadLocked_def Let_def case_prod_beta
      dest: deleteObjectVersionLocked_error createDeleteMarkerLocked_error split: if_splits option.splits)

text \<open>C3 (refinement). The repository refines an abstract object store, a map from bucket and key to
  content. In every reachable state a successful put is the update of that map at the request's
  key with the request's content, and a read right after it returns the stored head; a successful
  delete of an object removes its key, with or without versioning; a put or delete that fails
  leaves the map alone; and a read of the current object succeeds on a key of the map with the
  content the map has.\<close>

theorem object_store_refinement:
  assumes "reachable E T r"
  shows "(case PutObjectVersion E now ids preq r of
      (Inl e, r') \<Rightarrow> store_of r' = store_of r
    | (Inr p, r') \<Rightarrow> store_of r' = store_put preq (store_of r) \<and>
        GetObjectHead (q_po_BucketID preq) (q_po_Key preq) r' = Inr (pvr_Head p)) \<and>
    (q_do_VersionID dreq = [] \<longrightarrow>
      (case DeleteObject E clk ids dreq r of
         (Inl e, r') \<Rightarrow> store_of r' = store_of r
       | (Inr d, r') \<Rightarrow> store_of r' = store_delete (q_do_BucketID dreq, q_do_Key dreq) (store_of r))) \<and>
    (store_of r (b, k) = Some c \<longleftrightarrow>
       (\<exists>h. GetObjectHead b k r = Inr h \<and> \<not> oh_DeleteMarker h \<and> c = content_of_head h))"
proof -
  have inv: "obj_inv r" using reachable_inv [OF assms] by (simp add: repo_inv_def)
  have put: "case PutObjectVersion E now ids preq r of
      (Inl e, r') \<Rightarrow> store_of r' = store_of r
    | (Inr p, r') \<Rightarrow> store_of r' = store_put preq (store_of r) \<and>
        GetObjectHead (q_po_BucketID preq) (q_po_Key preq) r' = Inr (pvr_Head p)"
    using store_put_refines [OF inv] by (auto dest: PutObjectVersion_error split: prod.split sum.split)
  have del: "case DeleteObject E clk ids dreq r of
      (Inl e, r') \<Rightarrow> store_of r' = store_of r
    | (Inr d, r') \<Rightarrow> store_of r' = store_delete (q_do_BucketID dreq, q_do_Key dreq) (store_of r)"
    if "q_do_VersionID dreq = []"
    using store_delete_refines [OF inv _ that] by (auto dest: DeleteObject_error split: prod.split sum.split)
  have "store_of r (b, k) = Some c \<longleftrightarrow>
       (\<exists>h. GetObjectHead b k r = Inr h \<and> \<not> oh_DeleteMarker h \<and> c = content_of_head h)"
    by (auto simp: store_of_def visible_content_def GetObjectHead_def split: option.split)
  with put del show ?thesis by blast
qed

theorem object_store_refinement_witness:
  "let (res, r') = PutObjectVersion demo_env 2 (demo_ids ''v'') demo_put_request demo_bucket_state;
       (res', r'') = DeleteObject demo_env (\<lambda>n. 5) (demo_ids ''w'') (demo_delete_request\<lparr>q_do_VersionID := []\<rparr>) demo_locked_state
   in \<not> isl res \<and> store_of r' = store_put demo_put_request (store_of demo_bucket_state) \<and>
      \<not> isl res' \<and> store_of r'' = store_delete (''b'', ''cat'') (store_of demo_locked_state)"
proof -
  let ?put = "PutObjectVersion demo_env 2 (demo_ids ''v'') demo_put_request demo_bucket_state"
  let ?req = "demo_delete_request\<lparr>q_do_VersionID := []\<rparr>"
  let ?del = "DeleteObject demo_env (\<lambda>n. 5) (demo_ids ''w'') ?req demo_locked_state"
  have "\<not> isl (fst ?put)" "\<not> isl (fst ?del)" by code_simp+
  then obtain p r1 d r2 where put: "?put = (Inr p, r1)" and del: "?del = (Inr d, r2)"
    by (metis isl_def prod.collapse sum.exhaust_sel)
  have "store_of r1 = store_put demo_put_request (store_of demo_bucket_state)"
    using object_store_refinement [OF demo_bucket_reachable, where now = 2 and ids = "demo_ids ''v''" and preq = demo_put_request]
    unfolding put by simp
  moreover have "q_do_VersionID ?req = []" "q_do_BucketID ?req = ''b''" "q_do_Key ?req = ''cat''"
    by (simp_all add: demo_delete_request_def)
  with object_store_refinement [OF demo_locked_reachable, where clk = "\<lambda>n. 5" and ids = "demo_ids ''w''" and dreq = ?req]
  have "store_of r2 = store_delete (''b'', ''cat'') (store_of demo_locked_state)"
    unfolding del by simp
  ultimately show ?thesis unfolding put del by simp
qed

section \<open>Conditional commits\<close>

definition demo_commit_request :: "string \<Rightarrow> CommitObjectVersionRequest" where
  "demo_commit_request i = \<lparr>q_co_BucketID = ''b'', q_co_Key = ''cat'', q_co_VersionID = i, q_co_ExpectedHeadVersionID = []\<rparr>"

definition demo_pending_state :: Repository where
  "demo_pending_state = fold (\<lambda>i r. snd (BeginPutObject demo_env 1 (demo_ids i) demo_put_request r)) [''v'', ''w''] demo_bucket_state"


lemma demo_pending_reachable: "reachable demo_env 1 demo_pending_state"
proof -
  have ids: "ids_ok (demo_ids ''v'')" "ids_ok (demo_ids ''w'')" by (rule demo_ids_ok; code_simp)+
  have segs: "segs_nul_free demo_put_request" by code_simp
  have pend: "repo_run demo_env T0 r0 1 (snd (BeginPutObject demo_env 1 ids demo_put_request r))"
    if "repo_run demo_env T0 r0 T r" "T \<le> 1" "ids_ok ids" for T0 r0 T r ids
    using that segs by (blast intro: repo_run.more repo_step.object object_step.begin_put)
  obtain T0 where "0 \<le> T0" and run: "repo_run demo_env T0 (NewWithClock T0) 0 demo_bucket_state"
    using demo_bucket_reachable unfolding reachable_def by blast
  moreover have "repo_run demo_env T0 (NewWithClock T0) 1 demo_pending_state"
    unfolding demo_pending_state_def fold_simps comp_apply id_apply
    by (rule pend, rule pend, rule run) (simp_all add: ids)
  ultimately show ?thesis unfolding reachable_def by blast
qed


section \<open>Failed calls\<close>

definition atomic :: "Repository \<Rightarrow> 'a result \<times> Repository \<Rightarrow> bool" where
  \<comment> \<open>an error result leaves the repository as it was\<close>
  "atomic r out \<longleftrightarrow> \<not> isl (fst out) \<or> snd out = r"

lemma atomic_fail: "atomic r (Inl e, r)" and atomic_done: "atomic r (Inr x, r')"
  by (simp_all add: atomic_def)

lemma atomic_if: "atomic r a \<Longrightarrow> atomic r b \<Longrightarrow> atomic r (if c then a else b)"
  by simp

lemma atomic_let: "(\<And>x. atomic r (f x)) \<Longrightarrow> atomic r (let x = a in f x)"
  by simp

lemma atomic_option: "atomic r a \<Longrightarrow> (\<And>x. atomic r (f x)) \<Longrightarrow> atomic r (case m of None \<Rightarrow> a | Some x \<Rightarrow> f x)"
  by (simp split: option.split)

lemma atomic_sum: "(\<And>e. atomic r (g e)) \<Longrightarrow> (\<And>x. atomic r (f x)) \<Longrightarrow> atomic r (case m of Inl e \<Rightarrow> g e | Inr x \<Rightarrow> f x)"
  by (simp split: sum.split)

lemma atomic_prod: "(\<And>x y. atomic r (f x y)) \<Longrightarrow> atomic r (case p of (x, y) \<Rightarrow> f x y)"
  by (simp split: prod.split)

lemma atomic_upload_state:
  "atomic r a \<Longrightarrow> atomic r b \<Longrightarrow> atomic r c \<Longrightarrow> atomic r d \<Longrightarrow> (\<And>x. atomic r (f x)) \<Longrightarrow>
     atomic r (case st of MultipartUploadState_Unset \<Rightarrow> a | MultipartUploadActive \<Rightarrow> b
       | MultipartUploadCompleted \<Rightarrow> c | MultipartUploadAborted \<Rightarrow> d | MultipartUploadState_Other x \<Rightarrow> f x)"
  by (simp split: MultipartUploadState.split)

lemmas atomic_intros = atomic_fail atomic_done atomic_if atomic_let atomic_option atomic_sum atomic_prod
  atomic_upload_state

lemma atomic_tables:
  "atomic r (PutMetadataSchema now q1 r)" "atomic r (CreateTenant now q2 r)" "atomic r (PutTenantQuota clk q3 r)"
  "atomic r (DeleteTenantQuota i r)" "atomic r (PutTenantUsage clk q4 r)" "atomic r (PutAccessKey now q5 r)"
  "atomic r (PutKMSKey now q6 r)" "atomic r (PutComplianceProfileAttachment now q7 r)"
  "atomic r (PutBucketQuota clk q8 r)" "atomic r (DeleteBucketQuota i r)"
  unfolding PutMetadataSchema_def CreateTenant_def PutTenantQuota_def DeleteTenantQuota_def PutTenantUsage_def
    PutAccessKey_def PutKMSKey_def PutComplianceProfileAttachment_def PutBucketQuota_def DeleteBucketQuota_def
  by (intro atomic_intros)+

lemma atomic_workers:
  "atomic r (AcquireDedupeOperationLock now q9 r)" "atomic r (ReleaseDedupeOperationLock q10 r)"
  "atomic r (AcquireWorkerLease now q11 r)" "atomic r (ReleaseWorkerLease now q12 r)"
  "atomic r (PutWorkerControl now q13 r)" "atomic r (PutWorkerOperation now q16 r)"
  "atomic r (PutGCCandidate now q19 r)" "atomic r (DeleteGCCandidate i r)" "atomic r (PutVolumePool now q20 r)"
  "atomic r (PutSharedObjectRelease now q21 r)"
  unfolding AcquireDedupeOperationLock_def ReleaseDedupeOperationLock_def AcquireWorkerLease_def
    ReleaseWorkerLease_def PutWorkerControl_def PutWorkerOperation_def
    PutGCCandidate_def DeleteGCCandidate_def PutVolumePool_def PutSharedObjectRelease_def
  by (intro atomic_intros)+

lemma atomic_buckets:
  "atomic r (CreateBucket now ids q22 r)" "atomic r (PutBucketVersioning q23 r)" "atomic r (PutBucketCORS q24 r)"
  "atomic r (DeleteBucketCORS i r)" "atomic r (PutBucketLifecycle E now q25 r)"
  "atomic r (DeleteBucketLifecycle E now i audit r)" "atomic r (PutBucketEncryption E now q26 r)"
  "atomic r (DeleteBucketEncryption E now i audit r)" "atomic r (PutBucketPolicy E now q27 r)"
  "atomic r (DeleteBucketPolicy E now i audit r)" "atomic r (PutBucketObjectLock E now q28 r)"
  "atomic r (DeleteBucket i r)"
  unfolding CreateBucket_def bucket_config_defs DeleteBucket_def by (intro atomic_intros)+

lemma atomic_objects:
  "atomic r (BeginPutObject E now ids q29 r)" "atomic r (CommitObjectVersion E now q30 r)"
  "atomic r (PutObjectVersion E now ids q29 r)" "atomic r (DeleteObject E clk ids q31 r)"
  "atomic r (PutObjectTags q32 r)" "atomic r (DeleteObjectTags q32 r)"
  "atomic r (PutObjectRetention E clk q33 r)" "atomic r (PutObjectLegalHold E clk q34 r)"
  unfolding BeginPutObject_def CommitObjectVersion_def PutObjectVersion_def DeleteObject_def deleteObjectVersionLocked_def
    createDeleteMarkerLocked_def deleteHeadLocked_def PutObjectTags_def DeleteObjectTags_def putVersionTagsLocked_def
    putHeadTagsLocked_def PutObjectRetention_def PutObjectLegalHold_def
  by (intro atomic_intros)+

lemma atomic_shared:
  "atomic r (PublishSharedObject E now q44 r)" "atomic r (PublishObjectVersionRefs now q46 r)" "atomic r (ImportOperationalMetadata q47 r)"
  "atomic r (PutAdminAuditEvent E now q35 r)" "atomic r (PutAdminAuditEvents E clk q36 r)"
  unfolding PublishSharedObject_def PublishObjectVersionRefs_def
    ImportOperationalMetadata_def PutAdminAuditEvent_def PutAdminAuditEvents_def
  by (intro atomic_intros)+

lemma atomic_attach: "atomic r (AttachObjectVersionToSharedObject E clk q45 r)"
  using Attach_error [of E clk q45 r]
  by (cases "AttachObjectVersionToSharedObject E clk q45 r"; cases "fst (AttachObjectVersionToSharedObject E clk q45 r)")
    (auto simp: atomic_def)

lemma atomic_multipart:
  "atomic r (CreateMultipartUpload clk ids q37 r)" "atomic r (PutMultipartPart now q38 r)"
  "atomic r (PrepareMultipartCompletion now q39 r)" "atomic r (MarkMultipartCompletionPublished now q40 r)"
  "atomic r (MarkMultipartCompletionCompleted now q40 r)" "atomic r (CompleteMultipartUpload clk q41 r)"
  "atomic r (AbortMultipartUpload clk q42 r)" "atomic r (CleanupMultipartUploadParts now q43 r)"
  unfolding CreateMultipartUpload_def PutMultipartPart_def PrepareMultipartCompletion_def
    MarkMultipartCompletionPublished_def MarkMultipartCompletionCompleted_def markMultipartCompletionState_def
    CompleteMultipartUpload_def AbortMultipartUpload_def CleanupMultipartUploadParts_def
  by (intro atomic_intros)+


end
