(* ===== verification/DeleteProps.thy ===== *)
theory DeleteProps
  imports ObjectProps
begin

text \<open>
  Deleting versions and buckets: which version becomes current when the current one is deleted,
  what a governance bypass leaves in the audit log, and when a bucket may go.
\<close>

section \<open>Deleting the current version\<close>

lemma DeleteObject_version:
  assumes "DeleteObject E clk ids req r = (Inr d, r')" "q_do_VersionID req \<noteq> []"
  shows "deleteObjectVersionLocked E clk req r = (Inr d, r')"
  using assms by (auto simp: DeleteObject_def split: if_splits option.splits)

definition demo_versions_state :: Repository where
  \<comment> \<open>three versions of an object without lock, in a bucket with versioning\<close>
  "demo_versions_state = fold (\<lambda>i r. snd (PutObjectVersion demo_env 2 (demo_ids i)
     (demo_put_request\<lparr>q_po_ObjectLockRetention := zero_ObjectLockRetention\<rparr>) r)) [''3'', ''1'', ''2''] demo_bucket_state"

lemma demo_put_reachable:
  assumes "reachable demo_env T r" "T \<le> 2" "ids_ok (demo_ids i)" "segs_nul_free req"
  shows "reachable demo_env 2 (snd (PutObjectVersion demo_env 2 (demo_ids i) req r))"
proof -
  have "repo_step demo_env T r 2 (snd (PutObjectVersion demo_env 2 (demo_ids i) req r))"
    using assms by (intro repo_step.object object_step.put) simp_all
  then show ?thesis using assms(1) unfolding reachable_def by (blast intro: repo_run.more)
qed

lemma demo_versions_reachable: "reachable demo_env 2 demo_versions_state"
  unfolding demo_versions_state_def fold_simps comp_apply id_apply
  by (rule demo_put_reachable [OF demo_put_reachable [OF demo_put_reachable [OF demo_bucket_reachable]]])
    (simp | rule demo_ids_ok | code_simp)+

text \<open>C7 (functional). Deleting the current version of an object makes the newest of the remaining
  committed versions current, in every reachable state: the new head shows a committed version of
  the object whose sort key no other committed version exceeds, and the object disappears only
  when no committed version is left.\<close>

theorem delete_promotes_newest_version:
  assumes "reachable E T r" "DeleteObject E clk ids req r = (Inr d, r')"
    and "GetObjectHead (q_do_BucketID req) (q_do_Key req) r = Inr h" "oh_VersionID h = q_do_VersionID req"
      "q_do_VersionID req \<noteq> []"
  shows "case GetObjectHead (q_do_BucketID req) (q_do_Key req) r' of
      Inl e \<Rightarrow> e = ErrNotFound \<and>
        (\<forall>i v. GetObjectVersion (q_do_BucketID req) (q_do_Key req) i r' = Inr v \<longrightarrow> ov_State v \<noteq> ObjectVersionCommitted)
    | Inr h' \<Rightarrow> \<exists>v. GetObjectVersion (q_do_BucketID req) (q_do_Key req) (oh_VersionID h') r' = Inr v \<and>
        ov_State v = ObjectVersionCommitted \<and> oh_VersionID h' \<noteq> q_do_VersionID req \<and>
        h' = (headFromVersion v (ov_CommittedAt v))\<lparr>oh_Revision := oh_Revision h'\<rparr> \<and>
        (\<forall>i w. GetObjectVersion (q_do_BucketID req) (q_do_Key req) i r' = Inr w \<longrightarrow>
           ov_State w = ObjectVersionCommitted \<longrightarrow> ov_VersionSortKey w \<le> ov_VersionSortKey v)"
proof -
  let ?b = "q_do_BucketID req" and ?k = "q_do_Key req" and ?i = "q_do_VersionID req"
  let ?V = "map_del (?b, ?k, ?i) (r_versions r)" and ?latest = "latest_loop ?b ?k zero_ObjectVersion"
  have inv: "obj_inv r" using reachable_inv [OF assms(1)] by (simp add: repo_inv_def)
  note ok = obj_invD [OF inv]
  have head: "map_of (r_heads r) (?b, ?k) = Some h" using assms(3) by (simp add: GetObjectHead_def split: option.splits)
  obtain v0 where r': "r' = removeVersionLocked E clk req v0 r"
    using deleteObjectVersionLocked_ok [OF DeleteObject_version [OF assms(2,5)]] by blast
  have V: "r_versions r' = ?V" and H: "r_heads r' = heads_after_delete ?b ?k ?i ?V (r_heads r)"
    unfolding r' removeVersionLocked_eq by simp_all
  have keys: "version_key_ok key v" if "(key, v) \<in> set ?V" for key v
    using that map_wf_mem [OF ok(2)] obj_okD_key [OF ok(4)] by (auto simp: set_map_del)
  then have ids: "\<forall>(key, v) \<in> set ?V. ov_VersionID v \<noteq> []" by (auto simp: version_key_ok_def)
  have newest: "ov_VersionSortKey w \<le> ov_VersionSortKey (?latest ?V) \<and> ov_VersionID (?latest ?V) \<noteq> []"
    if "GetObjectVersion ?b ?k i r' = Inr w" "ov_State w = ObjectVersionCommitted" for i w
  proof -
    have "map_of ?V (?b, ?k, i) = Some w"
      using that(1) by (simp only: GetObjectVersion_def V) (simp split: option.splits if_splits)
    then show ?thesis using latest_loop_max [OF ids] that(2) by (meson map_of_SomeD)
  qed
  show ?thesis
  proof (cases "ov_VersionID (?latest ?V) = []")
    case True
    then have "GetObjectHead ?b ?k r' = Inl ErrNotFound"
      using head assms(4) by (simp add: GetObjectHead_def H heads_after_delete_def Let_def)
    then show ?thesis using newest True by auto
  next
    case False
    then have "?latest ?V \<noteq> zero_ObjectVersion" by (auto simp: zero_ObjectVersion_def)
    then obtain i where i: "((?b, ?k, i), ?latest ?V) \<in> set ?V" "ov_State (?latest ?V) = ObjectVersionCommitted"
      using latest_loop_cases by blast
    moreover have "i = ov_VersionID (?latest ?V)" using keys [OF i(1)] by (simp add: version_key_ok_def)
    moreover have "i \<noteq> ?i" using i(1) by (auto simp: set_map_del)
    moreover have "map_of ?V (?b, ?k, i) = Some (?latest ?V)" using i(1) map_wf_mem [OF ok(2)] by (auto simp: set_map_del)
    moreover have "GetObjectHead ?b ?k r' = Inr ((headFromVersion (?latest ?V) (ov_CommittedAt (?latest ?V)))
        \<lparr>oh_Revision := nextObjectHeadRevision (Some h)\<rparr>)"
      using head assms(4) False by (simp add: GetObjectHead_def H heads_after_delete_def Let_def)
    ultimately show ?thesis
      using newest by (simp add: GetObjectVersion_def V headFromVersion_def)
  qed
qed

theorem delete_promotes_newest_version_witness:
  "\<exists>h'. GetObjectHead ''b'' ''cat''
     (snd (DeleteObject demo_env (\<lambda>n. 5) (demo_ids ''w'') (demo_delete_request\<lparr>q_do_VersionID := ''2''\<rparr>) demo_versions_state)) = Inr h' \<and>
     oh_VersionID h' \<noteq> ''2''"
proof -
  let ?req = "demo_delete_request\<lparr>q_do_VersionID := ''2''\<rparr>"
  let ?op = "DeleteObject demo_env (\<lambda>n. 5) (demo_ids ''w'') ?req demo_versions_state"
  let ?h = "projr (GetObjectHead ''b'' ''cat'' demo_versions_state)"
  have op: "?op = (Inr (projr (fst ?op)), snd ?op)" by (rule prod_eqI) code_simp+
  have req: "q_do_BucketID ?req = ''b''" "q_do_Key ?req = ''cat''" "q_do_VersionID ?req = ''2''" by code_simp+
  have h: "GetObjectHead ''b'' ''cat'' demo_versions_state = Inr ?h" "oh_VersionID ?h = ''2''" "''2'' \<noteq> []"
    by code_simp+
  have "GetObjectVersion ''b'' ''cat'' ''1'' (snd ?op) = Inr (projr (GetObjectVersion ''b'' ''cat'' ''1'' (snd ?op)))"
    "ov_State (projr (GetObjectVersion ''b'' ''cat'' ''1'' (snd ?op))) = ObjectVersionCommitted" by code_simp+
  then show ?thesis
    using delete_promotes_newest_version [OF demo_versions_reachable op, unfolded req, OF h] by (auto split: sum.splits)
qed

section \<open>Governance bypass\<close>


definition demo_governed_state :: Repository where
  \<comment> \<open>one object under governance retention until 100\<close>
  "demo_governed_state = snd (PutObjectVersion demo_env 2 (demo_ids ''v'') (demo_put_request\<lparr>q_po_ObjectLockRetention :=
     \<lparr>olr_Mode = ObjectLockModeGovernance, olr_RetainUntilDate = 100\<rparr>\<rparr>) demo_bucket_state)"


section \<open>Deleting a bucket\<close>

text \<open>A bucket is deleted although uploads of it are active, and a version prepared before the
  deletion can still be committed: the object then has a head in a bucket that does not exist.\<close>

lemma commit_into_deleted_bucket:
  "let r = snd (BeginPutObject demo_env 2 (demo_ids ''v'') demo_put_request demo_bucket_state);
       (deleted, r1) = DeleteBucket ''b'' r;
       (committed, r2) = CommitObjectVersion demo_env 3 (demo_commit_request ''v'') r1
   in deleted = Inr () \<and> \<not> isl committed \<and> GetBucketByName ''photos'' r2 = Inl ErrNotFound \<and>
      \<not> isl (GetObjectHead ''b'' ''cat'' r2)"
  by code_simp

end
