(* ===== verification/GoText.thy ===== *)
theory GoText
  imports Prelude
begin

text \<open>
  More of Go's \<open>strings\<close> package, for the components that read text: suffixes, cutting and splitting at
  a separator byte, and what case folding does to a string.
\<close>

definition HasSuffix :: "string \<Rightarrow> string \<Rightarrow> bool" where
  "HasSuffix s p \<longleftrightarrow> HasPrefix (rev s) (rev p)"

definition TrimSuffix :: "string \<Rightarrow> string \<Rightarrow> string" where
  "TrimSuffix s p = (if HasSuffix s p then take (length s - length p) s else s)"

fun Cut :: "char \<Rightarrow> string \<Rightarrow> string \<times> string \<times> bool" where
  \<comment> \<open>\<open>strings.Cut\<close> at a one-byte separator\<close>
  "Cut sep [] = ([], [], False)"
| "Cut sep (c # s) =
     (if c = sep then ([], s, True) else let (before, after, found) = Cut sep s in (c # before, after, found))"

fun Split :: "char \<Rightarrow> string \<Rightarrow> string list" where
  \<comment> \<open>\<open>strings.Split\<close> at a one-byte separator\<close>
  "Split sep [] = [[]]"
| "Split sep (c # s) =
     (if c = sep then [] # Split sep s
      else case Split sep s of [] \<Rightarrow> [[c]] | w # ws \<Rightarrow> (c # w) # ws)"

fun Join :: "char \<Rightarrow> string list \<Rightarrow> string" where
  "Join sep [] = []"
| "Join sep [w] = w"
| "Join sep (w # v # ws) = w @ sep # Join sep (v # ws)"

lemma HasSuffix_iff: "HasSuffix s p \<longleftrightarrow> (\<exists>q. s = q @ p)"
proof -
  have "HasSuffix s p \<longleftrightarrow> (\<exists>q. rev s = rev p @ q)" by (simp add: HasSuffix_def HasPrefix_iff)
  also have "\<dots> \<longleftrightarrow> (\<exists>q. s = q @ p)" by (metis rev_append rev_rev_ident)
  finally show ?thesis .
qed

lemma TrimSuffix_append [simp]: "TrimSuffix (q @ p) p = q"
  by (auto simp: TrimSuffix_def HasSuffix_iff)

lemma Cut_append: "sep \<notin> set before \<Longrightarrow> Cut sep (before @ sep # after) = (before, after, True)"
  by (induction before) auto

lemma Cut_none: "sep \<notin> set s \<Longrightarrow> Cut sep s = (s, [], False)"
  by (induction s) auto

lemma Cut_cases:
  obtains (found) before after where "s = before @ sep # after" "sep \<notin> set before" "Cut sep s = (before, after, True)"
  | (missing) "sep \<notin> set s" "Cut sep s = (s, [], False)"
  by (metis Cut_append Cut_none split_list_first)

lemma Split_nonempty [simp]: "Split sep s \<noteq> []"
  by (induction s) (auto split: list.splits)

lemma Split_parts: "w \<in> set (Split sep s) \<Longrightarrow> sep \<notin> set w"
  by (induction s arbitrary: w) (auto split: list.splits if_splits)

lemma Join_Split [simp]: "Join sep (Split sep s) = s"
proof (induction s)
  case (Cons c s)
  then show ?case by (cases "Split sep s"; cases "tl (Split sep s)") auto
qed simp

lemma Split_single: "sep \<notin> set s \<Longrightarrow> Split sep s = [s]"
  by (induction s) auto

lemma Split_append: "sep \<notin> set w \<Longrightarrow> Split sep (w @ sep # s) = w # Split sep s"
  by (induction w) auto

lemma Split_Join: "ws \<noteq> [] \<Longrightarrow> \<forall>w \<in> set ws. sep \<notin> set w \<Longrightarrow> Split sep (Join sep ws) = ws"
  by (induction sep ws rule: Join.induct) (auto simp: Split_single Split_append)

section \<open>Case folding\<close>

lemma ascii_lower_range:
  assumes "CHR ''A'' \<le> c" "c \<le> CHR ''Z''"
  shows "(of_char (ascii_lower c) :: nat) = of_char c + 32" "(of_char c :: nat) \<in> {65..90}"
proof -
  show range: "(of_char c :: nat) \<in> {65..90}" using assms by (simp add: less_eq_char_def)
  then show "(of_char (ascii_lower c) :: nat) = of_char c + 32" using assms by (simp add: ascii_lower_def)
qed

lemma ascii_lower_eq_iff:
  assumes "\<not> (CHR ''a'' \<le> d \<and> d \<le> CHR ''z'')" "\<not> (CHR ''A'' \<le> d \<and> d \<le> CHR ''Z'')"
  shows "ascii_lower c = d \<longleftrightarrow> c = d"
proof (cases "CHR ''A'' \<le> c \<and> c \<le> CHR ''Z''")
  case True
  then have "ascii_lower c \<noteq> d" using assms(1) ascii_lower_range [of c] by (auto simp: less_eq_char_def)
  with True assms(2) show ?thesis by auto
qed (auto simp: ascii_lower_def)

lemma ToLower_mem_iff:
  assumes "\<not> (CHR ''a'' \<le> d \<and> d \<le> CHR ''z'')" "\<not> (CHR ''A'' \<le> d \<and> d \<le> CHR ''Z'')"
  shows "d \<in> set (ToLower s) \<longleftrightarrow> d \<in> set s"
proof (induction s)
  case (Cons c s)
  have "d = ascii_lower c \<longleftrightarrow> d = c" using ascii_lower_eq_iff [OF assms, of c] by metis
  with Cons show ?case by (simp add: ToLower_def)
qed (simp add: ToLower_def)

lemma ascii_lower_idem [simp]: "ascii_lower (ascii_lower c) = ascii_lower c"
proof (cases "CHR ''A'' \<le> c \<and> c \<le> CHR ''Z''")
  case True
  then have "(of_char (ascii_lower c) :: nat) \<ge> 97" using ascii_lower_range [of c] by simp
  then have "\<not> ascii_lower c \<le> CHR ''Z''" by (simp add: less_eq_char_def)
  then show ?thesis by (simp add: ascii_lower_def [of "ascii_lower c"])
qed (auto simp: ascii_lower_def)

lemma ToLower_idem [simp]: "ToLower (ToLower s) = ToLower s"
  by (simp add: ToLower_def)

lemma ToLower_append [simp]: "ToLower (s @ t) = ToLower s @ ToLower t"
  by (simp add: ToLower_def)

lemma length_ToLower [simp]: "length (ToLower s) = length s"
  by (simp add: ToLower_def)

lemma ascii_lower_table [code]:
  "ascii_lower c = (case map_of (zip ''ABCDEFGHIJKLMNOPQRSTUVWXYZ'' ''abcdefghijklmnopqrstuvwxyz'') c of
     None \<Rightarrow> c | Some d \<Rightarrow> d)"
proof (cases "CHR ''A'' \<le> c \<and> c \<le> CHR ''Z''")
  case True
  define n where "n = (of_char c :: nat)"
  then have c: "c = char_of n" by simp
  have "n \<in> set [65..<91]"
    unfolding set_upt n_def using True ascii_lower_range(2) [of c] by simp
  then have "n \<in> set [65, 66, 67, 68, 69, 70, 71, 72, 73, 74, 75, 76, 77, 78, 79, 80, 81, 82, 83, 84, 85, 86, 87, 88, 89, 90]" by (simp del: set_upt)
  then show ?thesis
    unfolding c by (simp only: list.set insert_iff empty_iff simp_thms, elim disjE) (simp_all add: ascii_lower_def char_of_def)
next
  case False
  then have "c \<notin> set ''ABCDEFGHIJKLMNOPQRSTUVWXYZ''" by (auto simp: less_eq_char_def)
  then have "map_of (zip ''ABCDEFGHIJKLMNOPQRSTUVWXYZ'' ''abcdefghijklmnopqrstuvwxyz'') c = None"
    by simp
  with False show ?thesis by (auto simp: ascii_lower_def)
qed

section \<open>Trimming\<close>

definition space_edges :: string where
  \<comment> \<open>the bytes a space begins or ends with\<close>
  "space_edges = remdups (map hd unicode_spaces @ map last unicode_spaces)"

lemma TrimSpace_keeps:
  assumes "s \<noteq> []" "hd s \<notin> set space_edges" "last s \<notin> set space_edges"
  shows "TrimSpace s = s"
proof -
  have prefix: "hd w = hd t" if "HasPrefix t w" "w \<noteq> []" for t w :: string
    using that by (auto simp: HasPrefix_iff)
  have "trim_with unicode_spaces s = s"
  proof (rule trim_with_id)
    fix v assume "v \<in> set unicode_spaces" "v \<noteq> []"
    then have "hd v \<in> set space_edges" by (simp add: space_edges_def)
    then show "\<not> HasPrefix s v" using prefix [of s v] \<open>v \<noteq> []\<close> assms(2) by auto
  qed
  moreover have "trim_with (map rev unicode_spaces) (rev s) = rev s"
  proof (rule trim_with_id)
    fix v assume "v \<in> set (map rev unicode_spaces)" "v \<noteq> []"
    then obtain u where u: "u \<in> set unicode_spaces" "v = rev u" "u \<noteq> []" by auto
    then have "last u \<in> set space_edges" by (simp add: space_edges_def)
    moreover have "last u = last s" if "HasPrefix (rev s) v"
      using prefix [OF that] u by (simp add: hd_rev)
    ultimately show "\<not> HasPrefix (rev s) v" using assms(3) by auto
  qed
  ultimately show ?thesis by (simp add: TrimSpace_def)
qed

lemma TrimSpace_quick [code]:
  "TrimSpace s = (if s = [] then [] else if hd s \<notin> set space_edges \<and> last s \<notin> set space_edges then s
     else rev (trim_with (map rev unicode_spaces) (rev (trim_with unicode_spaces s))))"
proof (cases "s = []")
  case True
  then show ?thesis by simp
next
  case False
  then show ?thesis using TrimSpace_keeps [of s] by (simp add: TrimSpace_def)
qed

end
