(* ===== verification/Policy.thy ===== *)
theory Policy
  imports Buckets GoText "HOL-Library.Multiset"
begin

text \<open>
  Authorization: principals and their permissions (\<open>internal/auth/auth.go\<close>), policy documents, their
  normalisation from JSON and their evaluation (\<open>internal/auth/policy.go\<close>), the simulation of a
  decision (\<open>internal/iam/iam.go\<close>) and the test the gateway makes before it lets a request bypass
  governance retention (\<open>internal/gateway/s3_handlers.go\<close>).

  A JSON text is represented by the value it denotes; a \<open>json.RawMessage\<close> field is \<open>None\<close> when the
  field is absent. Letters are folded as \<open>ToLower\<close> and \<open>EqualFold\<close> of the prelude fold them.
\<close>

section \<open>Principals\<close>

definition ActionBypassGovernanceRetention :: string where
  "ActionBypassGovernanceRetention = ''s3:BypassGovernanceRetention''"

record Principal =
  pn_TenantID :: string
  pn_AccessKeyID :: string
  pn_DisplayName :: string
  pn_Subject :: string
  pn_Groups :: "string list"
  pn_Roles :: "string list"
  pn_SessionID :: string
  pn_ExternalIssuer :: string
  pn_PolicyVersion :: string
  pn_SourceIdentity :: string
  pn_Root :: bool
  pn_Permissions :: "string list"

record PolicyDecision =
  dc_Allowed :: bool
  dc_Source :: string
  dc_Reason :: string
  dc_Action :: string
  dc_Resource :: string
  dc_StatementSid :: string
  dc_Principal :: Principal
  dc_PolicyVersion :: string

definition actionMatches :: "string \<Rightarrow> string \<Rightarrow> bool" where
  "actionMatches permission0 action =
     (let permission = TrimSpace permission0
      in if permission = [] then False
         else if permission = ''*'' then True
         else if EqualFold permission action then True
         else if HasSuffix permission ''*''
         then HasPrefix (ToLower action) (ToLower (TrimSuffix permission ''*''))
         else False)"

definition EvaluatePrincipalAction :: "Principal \<Rightarrow> string \<Rightarrow> string \<Rightarrow> PolicyDecision" where
  "EvaluatePrincipalAction who action0 resource =
     (if pn_Root who
      then \<lparr>dc_Allowed = True, dc_Source = ''root_principal'', dc_Reason = ''root who allows all actions'',
            dc_Action = TrimSpace action0, dc_Resource = TrimSpace resource, dc_StatementSid = [],
            dc_Principal = who, dc_PolicyVersion = pn_PolicyVersion who\<rparr>
      else let action = TrimSpace action0
      in if action = []
      then \<lparr>dc_Allowed = False, dc_Source = ''principal_permissions'', dc_Reason = ''empty action'',
            dc_Action = [], dc_Resource = TrimSpace resource, dc_StatementSid = [],
            dc_Principal = who, dc_PolicyVersion = pn_PolicyVersion who\<rparr>
      else if list_ex (\<lambda>permission. actionMatches permission action) (pn_Permissions who)
      then \<lparr>dc_Allowed = True, dc_Source = ''principal_permissions'', dc_Reason = ''permission matched'',
            dc_Action = action, dc_Resource = TrimSpace resource, dc_StatementSid = [],
            dc_Principal = who, dc_PolicyVersion = pn_PolicyVersion who\<rparr>
      else \<lparr>dc_Allowed = False, dc_Source = ''principal_permissions'', dc_Reason = ''no matching permission'',
            dc_Action = action, dc_Resource = TrimSpace resource, dc_StatementSid = [],
            dc_Principal = who, dc_PolicyVersion = pn_PolicyVersion who\<rparr>)"

definition AllowsAction :: "Principal \<Rightarrow> string \<Rightarrow> bool" where
  "AllowsAction who action \<longleftrightarrow> dc_Allowed (EvaluatePrincipalAction who action [])"

section \<open>Policy documents\<close>

definition compactStrings :: "string list \<Rightarrow> string list" where
  "compactStrings xs = filter (\<lambda>v. v \<noteq> []) (map TrimSpace xs)"

definition principalMatchCandidates :: "Principal \<Rightarrow> string list" where
  "principalMatchCandidates who =
     compactStrings ([pn_AccessKeyID who, pn_TenantID who, pn_DisplayName who,
       pn_Subject who, pn_SessionID who, pn_ExternalIssuer who,
       pn_SourceIdentity who] @ pn_Groups who @ pn_Roles who)"

definition principalMatches :: "string list \<Rightarrow> Principal \<Rightarrow> bool" where
  "principalMatches principals who \<longleftrightarrow>
     (let candidates = principalMatchCandidates who
      in list_ex (\<lambda>c. let candidate = TrimSpace c
           in candidate = ''*'' \<or> list_ex (\<lambda>value. candidate \<noteq> [] \<and> candidate = value) candidates) principals)"

definition matchesAny :: "string list \<Rightarrow> string \<Rightarrow> bool" where
  "matchesAny patterns value \<longleftrightarrow> list_ex (\<lambda>pattern. actionMatches pattern value) patterns"

definition statement_matches :: "PolicyStatement \<Rightarrow> Principal \<Rightarrow> string \<Rightarrow> string \<Rightarrow> bool" where
  "statement_matches s who action resource \<longleftrightarrow>
     principalMatches (pst_Principals s) who \<and> matchesAny (pst_Actions s) action \<and>
     matchesAny (pst_Resources s) resource"

definition decision :: "bool \<Rightarrow> string \<Rightarrow> string \<Rightarrow> Principal \<Rightarrow> string \<Rightarrow> string \<Rightarrow> PolicyDecision" where
  "decision allowed reason sid who action resource =
     \<lparr>dc_Allowed = allowed, dc_Source = ''policy_document'', dc_Reason = reason, dc_Action = TrimSpace action,
      dc_Resource = TrimSpace resource, dc_StatementSid = sid, dc_Principal = who,
      dc_PolicyVersion = pn_PolicyVersion who\<rparr>"

fun decide_loop :: "PolicyStatement list \<Rightarrow> bool \<Rightarrow> string \<Rightarrow> Principal \<Rightarrow> string \<Rightarrow> string \<Rightarrow> PolicyDecision" where
  \<comment> \<open>the loop of \<open>Decide\<close> over the statements, with \<open>allowed\<close> and \<open>allowSid\<close>\<close>
  "decide_loop [] allowed allowSid who action resource =
     (if allowed then decision True ''allow matched'' allowSid who action resource
      else decision False ''no matching allow'' [] who action resource)"
| "decide_loop (s # ss) allowed allowSid who action resource =
     (if \<not> statement_matches s who action resource
      then decide_loop ss allowed allowSid who action resource
      else if EqualFold (pst_Effect s) ''Deny''
      then decision False ''explicit deny'' (pst_Sid s) who action resource
      else if EqualFold (pst_Effect s) ''Allow''
      then decide_loop ss True (pst_Sid s) who action resource
      else decide_loop ss allowed allowSid who action resource)"

definition Decide :: "PolicyDocument \<Rightarrow> Principal \<Rightarrow> string \<Rightarrow> string \<Rightarrow> PolicyDecision" where
  "Decide p who action resource = decide_loop (pd_Statements p) False [] who action resource"

definition Allows :: "PolicyDocument \<Rightarrow> Principal \<Rightarrow> string \<Rightarrow> string \<Rightarrow> bool" where
  "Allows p who action resource \<longleftrightarrow> dc_Allowed (Decide p who action resource)"

section \<open>Normalisation of a JSON policy\<close>

datatype json = JNull | JBool bool | JNum string | JStr string | JArr "json list" | JObj "(string \<times> json) list"

datatype policy_error = StatementRequired | NoStatement | EffectInvalid | PrincipalRequired
  | FieldRequired string | JsonType

type_synonym 'a parsed = "policy_error + 'a"

record rawPolicyStatement =
  rs_Sid :: string
  rs_Effect :: string
  rs_Principal :: "json option"
  rs_Action :: "json option"
  rs_Resource :: "json option"

record rawPolicyDocument =
  rd_Version :: string
  rd_Statement :: "json option"

text \<open>\<open>json.Unmarshal\<close> into a string, a string slice, a map and the two raw records: null leaves the
  zero value, field names are matched without regard to case, a later field of the same name
  overwrites an earlier one, and a value of another type is an error.\<close>

fun unmarshal_string :: "string \<Rightarrow> json \<Rightarrow> string option" where
  "unmarshal_string old JNull = Some old"
| "unmarshal_string old (JStr s) = Some s"
| "unmarshal_string old _ = None"

fun unmarshal_strings :: "json \<Rightarrow> string list option" where
  "unmarshal_strings JNull = Some []"
| "unmarshal_strings (JArr xs) = those (map (unmarshal_string []) xs)"
| "unmarshal_strings _ = None"

fun unmarshal_map :: "json \<Rightarrow> (string, json) gomap option" where
  "unmarshal_map JNull = Some []"
| "unmarshal_map (JObj fs) = Some (fold (\<lambda>(k, v) m. map_put k v m) fs [])"
| "unmarshal_map _ = None"

fun statement_field :: "string \<times> json \<Rightarrow> rawPolicyStatement option \<Rightarrow> rawPolicyStatement option" where
  "statement_field f None = None"
| "statement_field (k, v) (Some s) =
     (if EqualFold k ''Sid'' then map_option (\<lambda>t. s\<lparr>rs_Sid := t\<rparr>) (unmarshal_string (rs_Sid s) v)
      else if EqualFold k ''Effect'' then map_option (\<lambda>t. s\<lparr>rs_Effect := t\<rparr>) (unmarshal_string (rs_Effect s) v)
      else if EqualFold k ''Principal'' then Some (s\<lparr>rs_Principal := Some v\<rparr>)
      else if EqualFold k ''Action'' then Some (s\<lparr>rs_Action := Some v\<rparr>)
      else if EqualFold k ''Resource'' then Some (s\<lparr>rs_Resource := Some v\<rparr>)
      else Some s)"

definition zero_rawPolicyStatement :: rawPolicyStatement where
  "zero_rawPolicyStatement = \<lparr>rs_Sid = [], rs_Effect = [], rs_Principal = None, rs_Action = None, rs_Resource = None\<rparr>"

fun unmarshal_statement :: "json \<Rightarrow> rawPolicyStatement option" where
  "unmarshal_statement JNull = Some zero_rawPolicyStatement"
| "unmarshal_statement (JObj fs) = fold statement_field fs (Some zero_rawPolicyStatement)"
| "unmarshal_statement _ = None"

fun unmarshal_statements :: "json \<Rightarrow> rawPolicyStatement list option" where
  "unmarshal_statements JNull = Some []"
| "unmarshal_statements (JArr xs) = those (map unmarshal_statement xs)"
| "unmarshal_statements _ = None"

fun document_field :: "string \<times> json \<Rightarrow> rawPolicyDocument option \<Rightarrow> rawPolicyDocument option" where
  "document_field f None = None"
| "document_field (k, v) (Some d) =
     (if EqualFold k ''Version'' then map_option (\<lambda>t. d\<lparr>rd_Version := t\<rparr>) (unmarshal_string (rd_Version d) v)
      else if EqualFold k ''Statement'' then Some (d\<lparr>rd_Statement := Some v\<rparr>)
      else Some d)"

fun unmarshal_document :: "json \<Rightarrow> rawPolicyDocument option" where
  "unmarshal_document JNull = Some \<lparr>rd_Version = [], rd_Statement = None\<rparr>"
| "unmarshal_document (JObj fs) = fold document_field fs (Some \<lparr>rd_Version = [], rd_Statement = None\<rparr>)"
| "unmarshal_document _ = None"

definition parseStringOrStringSlice :: "json option \<Rightarrow> string \<Rightarrow> string list parsed" where
  "parseStringOrStringSlice raw field =
     (case raw of
        None \<Rightarrow> Inl (FieldRequired field)
      | Some j \<Rightarrow>
          (case unmarshal_string [] j of
             Some single \<Rightarrow> Inr (compactStrings [single])
           | None \<Rightarrow>
               (case unmarshal_strings j of
                  None \<Rightarrow> Inl JsonType
                | Some many \<Rightarrow>
                    let values = compactStrings many
                    in if values = [] then Inl (FieldRequired field) else Inr values)))"

fun principal_values :: "json list \<Rightarrow> string list parsed" where
  \<comment> \<open>the loop of \<open>parsePrincipalValues\<close> over the values of the object\<close>
  "principal_values [] = Inr []"
| "principal_values (v # vs) =
     (case parseStringOrStringSlice (Some v) ''principal'' of
        Inl e \<Rightarrow> Inl e
      | Inr values \<Rightarrow> (case principal_values vs of Inl e \<Rightarrow> Inl e | Inr out \<Rightarrow> Inr (values @ out)))"

definition parsePrincipalValues :: "json option \<Rightarrow> string list parsed" where
  "parsePrincipalValues raw =
     (case raw of
        None \<Rightarrow> Inl PrincipalRequired
      | Some j \<Rightarrow>
          (case parseStringOrStringSlice raw ''principal'' of
             Inr values \<Rightarrow> Inr values
           | Inl _ \<Rightarrow>
               (case unmarshal_map j of
                  None \<Rightarrow> Inl JsonType
                | Some m \<Rightarrow>
                    (case principal_values (map snd m) of
                       Inl e \<Rightarrow> Inl e
                     | Inr out \<Rightarrow> Inr (compactStrings out)))))"

definition canonicalEffect :: "string \<Rightarrow> string" where
  "canonicalEffect effect = (if EqualFold effect ''Deny'' then ''Deny'' else ''Allow'')"

definition normalize_statement :: "rawPolicyStatement \<Rightarrow> PolicyStatement parsed" where
  "normalize_statement r =
     (let effect = TrimSpace (rs_Effect r)
      in if \<not> EqualFold effect ''Allow'' \<and> \<not> EqualFold effect ''Deny'' then Inl EffectInvalid
         else case parsePrincipalValues (rs_Principal r) of
           Inl e \<Rightarrow> Inl e
         | Inr principals \<Rightarrow>
             if principals = [] then Inl PrincipalRequired
             else case parseStringOrStringSlice (rs_Action r) ''action'' of
               Inl e \<Rightarrow> Inl e
             | Inr actions \<Rightarrow>
                 (case parseStringOrStringSlice (rs_Resource r) ''resource'' of
                    Inl e \<Rightarrow> Inl e
                  | Inr resources \<Rightarrow>
                      Inr \<lparr>pst_Sid = rs_Sid r, pst_Effect = canonicalEffect effect, pst_Principals = principals,
                           pst_Actions = actions, pst_Resources = resources\<rparr>))"

definition parseRawStatements :: "json option \<Rightarrow> rawPolicyStatement list parsed" where
  "parseRawStatements raw =
     (case raw of
        None \<Rightarrow> Inl StatementRequired
      | Some j \<Rightarrow>
          (case unmarshal_statements j of
             Some statements \<Rightarrow> Inr statements
           | None \<Rightarrow> (case unmarshal_statement j of None \<Rightarrow> Inl JsonType | Some statement \<Rightarrow> Inr [statement])))"

fun normalize_statements :: "rawPolicyStatement list \<Rightarrow> PolicyStatement list parsed" where
  \<comment> \<open>the loop of \<open>rawPolicyDocument.normalize\<close>\<close>
  "normalize_statements [] = Inr []"
| "normalize_statements (r # rs) =
     (case normalize_statement r of
        Inl e \<Rightarrow> Inl e
      | Inr s \<Rightarrow> (case normalize_statements rs of Inl e \<Rightarrow> Inl e | Inr ss \<Rightarrow> Inr (s # ss)))"

definition normalize_document :: "rawPolicyDocument \<Rightarrow> PolicyDocument parsed" where
  "normalize_document r =
     (case parseRawStatements (rd_Statement r) of
        Inl e \<Rightarrow> Inl e
      | Inr raw \<Rightarrow>
          (case normalize_statements raw of
             Inl e \<Rightarrow> Inl e
           | Inr statements \<Rightarrow> Inr \<lparr>pd_Version = rd_Version r, pd_Statements = statements\<rparr>))"

definition ParsePolicyDocument :: "json \<Rightarrow> PolicyDocument parsed" where
  "ParsePolicyDocument j =
     (case unmarshal_document j of
        None \<Rightarrow> Inl JsonType
      | Some raw \<Rightarrow>
          (case normalize_document raw of
             Inl e \<Rightarrow> Inl e
           | Inr policy \<Rightarrow> if pd_Statements policy = [] then Inl NoStatement else Inr policy))"

section \<open>Simulation and the governance bypass\<close>

record PolicySimulationRequest =
  sq_Principal :: Principal
  sq_Action :: string
  sq_Resource :: string
  sq_Policy :: "PolicyDocument option"

record PolicySimulationResult =
  sr_SchemaVersion :: string
  sr_GeneratedAt :: time
  sr_Action :: string
  sr_Resource :: string
  sr_Allowed :: bool
  sr_Decision :: PolicyDecision
  sr_Engine :: string

definition SimulatePolicy :: "time \<Rightarrow> PolicySimulationRequest \<Rightarrow> PolicySimulationResult parsed" where
  "SimulatePolicy now req =
     (let action = TrimSpace (sq_Action req); resource = TrimSpace (sq_Resource req)
      in if action = [] then Inl (FieldRequired ''action'')
         else if resource = [] then Inl (FieldRequired ''resource'')
         else let (decision, engine) =
                (case sq_Policy req of
                   None \<Rightarrow> (EvaluatePrincipalAction (sq_Principal req) action resource, ''principal_permissions'')
                 | Some policy \<Rightarrow> (Decide policy (sq_Principal req) action resource, ''policy_document''))
              in Inr \<lparr>sr_SchemaVersion = ''namros.iam.policy_simulation.v1'', sr_GeneratedAt = now, sr_Action = action,
                   sr_Resource = resource, sr_Allowed = dc_Allowed decision, sr_Decision = decision,
                   sr_Engine = engine\<rparr>)"

definition objectARN :: "string \<Rightarrow> string \<Rightarrow> string" where
  "objectARN bucketName key =
     (if key = [] then ''arn:aws:s3:::'' @ bucketName else ''arn:aws:s3:::'' @ bucketName @ ''/'' @ key)"

definition bypassGovernanceRetention :: "string \<Rightarrow> Principal option \<Rightarrow> bool" where
  \<comment> \<open>\<open>header\<close> is the value of \<open>x-amz-bypass-governance-retention\<close>, \<open>who\<close> the principal in the context\<close>
  "bypassGovernanceRetention header who =
     (if \<not> EqualFold (TrimSpace header) ''true'' then False
      else case who of None \<Rightarrow> False | Some p \<Rightarrow> AllowsAction p ActionBypassGovernanceRetention)"

definition handler_bypassGovernanceRetention ::
  "string \<Rightarrow> Principal option \<Rightarrow> Bucket \<Rightarrow> string \<Rightarrow> Repository \<Rightarrow> bool" where
  "handler_bypassGovernanceRetention header who bucket key r =
     (if bypassGovernanceRetention header who then True
      else if \<not> EqualFold (TrimSpace header) ''true'' then False
      else case who of
        None \<Rightarrow> False
      | Some p \<Rightarrow>
          (case GetBucketPolicy (bk_BucketID bucket) r of
             Inl e \<Rightarrow> False
           | Inr policy \<Rightarrow> Allows policy p ActionBypassGovernanceRetention (objectARN (bk_Name bucket) key)))"


section \<open>What a pattern matches\<close>

fun glob :: "string \<Rightarrow> string \<Rightarrow> bool" where
  \<comment> \<open>reference: a star stands for any text, every other character for itself\<close>
  "glob [] v \<longleftrightarrow> v = []"
| "glob (c # p) [] \<longleftrightarrow> c = CHR ''*'' \<and> glob p []"
| "glob (c # p) (x # v) \<longleftrightarrow> (if c = CHR ''*'' then glob p (x # v) \<or> glob (c # p) v else c = x \<and> glob p v)"

lemma glob_star: "glob ''*'' v"
  by (induction v) simp_all

lemma glob_literal: "CHR ''*'' \<notin> set p \<Longrightarrow> glob p v \<longleftrightarrow> p = v"
  by (induction p v rule: glob.induct) auto

lemma glob_prefix: "CHR ''*'' \<notin> set p \<Longrightarrow> glob (p @ ''*'') v \<longleftrightarrow> HasPrefix v p"
proof (induction p arbitrary: v)
  case Nil
  then show ?case using glob_star by (simp add: HasPrefix_def)
next
  case (Cons c p)
  then show ?case by (cases v) (auto simp: HasPrefix_def)
qed

lemma ToLower_star: "CHR ''*'' \<in> set (ToLower s) \<longleftrightarrow> CHR ''*'' \<in> set s"
  by (rule ToLower_mem_iff) (simp_all add: less_eq_char_def)



section \<open>Decisions\<close>

abbreviation denies :: "Principal \<Rightarrow> string \<Rightarrow> string \<Rightarrow> PolicyStatement \<Rightarrow> bool" where
  "denies who action resource s \<equiv> statement_matches s who action resource \<and> EqualFold (pst_Effect s) ''Deny''"

abbreviation allows :: "Principal \<Rightarrow> string \<Rightarrow> string \<Rightarrow> PolicyStatement \<Rightarrow> bool" where
  "allows who action resource s \<equiv> statement_matches s who action resource \<and> EqualFold (pst_Effect s) ''Allow''"

lemma allow_not_deny: "EqualFold e ''Allow'' \<Longrightarrow> \<not> EqualFold e ''Deny''"
proof -
  have "ToLower ''Allow'' \<noteq> ToLower ''Deny''" by code_simp
  then show "EqualFold e ''Allow'' \<Longrightarrow> \<not> EqualFold e ''Deny''" by (simp add: EqualFold_def)
qed

lemma decide_loop_eq:
  "decide_loop ss allowed sid who action resource =
     (case find (denies who action resource) ss of
        Some s \<Rightarrow> decision False ''explicit deny'' (pst_Sid s) who action resource
      | None \<Rightarrow>
          (case find (allows who action resource) (rev ss) of
             Some s \<Rightarrow> decision True ''allow matched'' (pst_Sid s) who action resource
           | None \<Rightarrow> if allowed then decision True ''allow matched'' sid who action resource
                     else decision False ''no matching allow'' [] who action resource))"
proof (induction ss arbitrary: allowed sid)
  case (Cons s ss)
  have "find P (xs @ [x]) = (case find P xs of None \<Rightarrow> if P x then Some x else None | Some y \<Rightarrow> Some y)"
    for P :: "PolicyStatement \<Rightarrow> bool" and xs x
    by (induction xs) auto
  note snoc = this
  show ?case
  proof (cases "statement_matches s who action resource \<and> EqualFold (pst_Effect s) ''Deny''")
    case False
    then show ?thesis
      by (cases "find (denies who action resource) ss") (auto simp: Cons.IH snoc split: option.split)
  qed simp
qed simp

lemma find_SomeD: "find P xs = Some x \<Longrightarrow> x \<in> set xs \<and> P x"
  by (induction xs) (auto split: if_splits)

lemma Decide_cases:
  obtains (deny) s where "s \<in> set (pd_Statements p)" "denies who action resource s"
      "Decide p who action resource = decision False ''explicit deny'' (pst_Sid s) who action resource"
  | (allow) s where "s \<in> set (pd_Statements p)" "allows who action resource s"
      "\<forall>t \<in> set (pd_Statements p). \<not> denies who action resource t"
      "Decide p who action resource = decision True ''allow matched'' (pst_Sid s) who action resource"
  | (neither) "\<forall>t \<in> set (pd_Statements p). \<not> denies who action resource t \<and> \<not> allows who action resource t"
      "Decide p who action resource = decision False ''no matching allow'' [] who action resource"
proof (cases "find (denies who action resource) (pd_Statements p)")
  case None
  note no_deny = None [unfolded find_None_iff]
  show thesis
  proof (cases "find (allows who action resource) (rev (pd_Statements p))")
    case (Some s)
    with find_SomeD [OF Some] None no_deny show thesis
      by (intro allow [of s]) (auto simp: Decide_def decide_loop_eq)
  next
    case no_allow: None
    with None no_deny no_allow [unfolded find_None_iff] show thesis
      by (intro neither) (auto simp: Decide_def decide_loop_eq)
  qed
next
  case (Some s)
  with find_SomeD [OF Some] show thesis by (intro deny [of s]) (auto simp: Decide_def decide_loop_eq)
qed

lemma Allows_rule:
  "Allows p who action resource \<longleftrightarrow>
     (\<exists>s \<in> set (pd_Statements p). allows who action resource s) \<and>
     (\<forall>s \<in> set (pd_Statements p). \<not> denies who action resource s)"
  by (rule Decide_cases [of p who action resource]) (auto simp: Allows_def decision_def)

text \<open>C13 (equivalence). The single pass over the statements decides as the order-free rule does: a
  request is allowed exactly when some matching statement allows it and no matching statement
  denies it, wherever the statements stand. A denial by a statement names that statement, and a
  decision to allow names a statement that allows.\<close>

theorem explicit_deny_wins:
  "(Allows p who action resource \<longleftrightarrow>
      (\<exists>s \<in> set (pd_Statements p). statement_matches s who action resource \<and> EqualFold (pst_Effect s) ''Allow'') \<and>
      (\<forall>s \<in> set (pd_Statements p). statement_matches s who action resource \<longrightarrow> \<not> EqualFold (pst_Effect s) ''Deny'')) \<and>
   (mset (pd_Statements p) = mset (pd_Statements q) \<longrightarrow> Allows p who action resource = Allows q who action resource) \<and>
   (dc_Reason (Decide p who action resource) = ''explicit deny'' \<or> Allows p who action resource \<longrightarrow>
      (\<exists>s \<in> set (pd_Statements p). statement_matches s who action resource \<and>
         pst_Sid s = dc_StatementSid (Decide p who action resource) \<and>
         EqualFold (pst_Effect s) (if Allows p who action resource then ''Allow'' else ''Deny'')))"
proof -
  note rule = Allows_rule
  have "Allows p who action resource = Allows q who action resource" if "mset (pd_Statements p) = mset (pd_Statements q)"
    using rule [of p who action resource] rule [of q who action resource] mset_eq_setD [OF that] by simp
  moreover have "\<exists>s \<in> set (pd_Statements p). statement_matches s who action resource \<and>
         pst_Sid s = dc_StatementSid (Decide p who action resource) \<and>
         EqualFold (pst_Effect s) (if Allows p who action resource then ''Allow'' else ''Deny'')"
    if "dc_Reason (Decide p who action resource) = ''explicit deny'' \<or> Allows p who action resource"
    by (rule Decide_cases [of p who action resource]) (use that in \<open>auto simp: Allows_def decision_def\<close>)
  ultimately show ?thesis using rule [of p who action resource] by blast
qed

definition demo_principal :: Principal where
  "demo_principal = \<lparr>pn_TenantID = ''t'', pn_AccessKeyID = ''ak'', pn_DisplayName = [], pn_Subject = [], pn_Groups = [''ops''],
     pn_Roles = [], pn_SessionID = [], pn_ExternalIssuer = [], pn_PolicyVersion = [], pn_SourceIdentity = [],
     pn_Root = False, pn_Permissions = [''s3:*'']\<rparr>"

definition demo_statement :: "string \<Rightarrow> string \<Rightarrow> PolicyStatement" where
  "demo_statement effect action =
     \<lparr>pst_Sid = effect, pst_Effect = effect, pst_Principals = [''ops''], pst_Actions = [action], pst_Resources = [''*'']\<rparr>"

theorem explicit_deny_wins_witness:
  "\<not> Allows \<lparr>pd_Version = [], pd_Statements = [demo_statement ''Allow'' ''s3:*'', demo_statement ''Deny'' ''s3:Get*'']\<rparr>
       demo_principal ''s3:GetObject'' ''arn:aws:s3:::b/k'' \<and>
   Allows \<lparr>pd_Version = [], pd_Statements = [demo_statement ''Allow'' ''s3:*'', demo_statement ''Deny'' ''s3:Get*'']\<rparr>
       demo_principal ''s3:PutObject'' ''arn:aws:s3:::b/k''"
proof -
  let ?p = "\<lparr>pd_Version = [], pd_Statements = [demo_statement ''Allow'' ''s3:*'', demo_statement ''Deny'' ''s3:Get*'']\<rparr>"
  have "statement_matches (demo_statement ''Deny'' ''s3:Get*'') demo_principal ''s3:GetObject'' ''arn:aws:s3:::b/k''"
    "\<not> statement_matches (demo_statement ''Deny'' ''s3:Get*'') demo_principal ''s3:PutObject'' ''arn:aws:s3:::b/k''"
    "statement_matches (demo_statement ''Allow'' ''s3:*'') demo_principal ''s3:PutObject'' ''arn:aws:s3:::b/k''"
    by code_simp+
  moreover have "EqualFold (pst_Effect (demo_statement ''Deny'' a)) ''Deny''" "EqualFold (pst_Effect (demo_statement ''Allow'' a)) ''Allow''"
    "\<not> EqualFold (pst_Effect (demo_statement ''Allow'' a)) ''Deny''" for a
    using allow_not_deny [of "''Allow''"] by (simp_all add: demo_statement_def)
  ultimately show ?thesis
    using explicit_deny_wins [of ?p demo_principal "''s3:GetObject''" "''arn:aws:s3:::b/k''" ?p]
      explicit_deny_wins [of ?p demo_principal "''s3:PutObject''" "''arn:aws:s3:::b/k''" ?p]
    by auto
qed

section \<open>Parsed documents\<close>

definition clean :: "string list \<Rightarrow> bool" where
  "clean xs \<longleftrightarrow> list_all (\<lambda>x. x \<noteq> [] \<and> TrimSpace x = x) xs"

lemma clean_compact [simp]: "clean (compactStrings xs)"
  by (auto simp: clean_def compactStrings_def list_all_iff)

lemma clean_append [simp]: "clean (xs @ ys) \<longleftrightarrow> clean xs \<and> clean ys"
  by (simp add: clean_def)

lemma parse_clean: "parseStringOrStringSlice raw f = Inr xs \<Longrightarrow> clean xs"
  by (auto simp: parseStringOrStringSlice_def Let_def split: option.splits if_splits)

lemma parse_principal_clean: "parsePrincipalValues raw = Inr xs \<Longrightarrow> clean xs"
  using parse_clean by (auto simp: parsePrincipalValues_def split: option.splits sum.splits)

definition statement_ok :: "PolicyStatement \<Rightarrow> bool" where
  "statement_ok s \<longleftrightarrow> pst_Effect s \<in> {''Allow'', ''Deny''} \<and> pst_Principals s \<noteq> [] \<and>
     clean (pst_Principals s) \<and> clean (pst_Actions s) \<and> clean (pst_Resources s)"

lemma normalize_statement_ok: "normalize_statement r = Inr s \<Longrightarrow> statement_ok s"
  by (auto simp: normalize_statement_def Let_def statement_ok_def canonicalEffect_def
      dest: parse_clean parse_principal_clean split: sum.splits if_splits)

lemma normalize_statements_ok: "normalize_statements rs = Inr ss \<Longrightarrow> list_all statement_ok ss"
  by (induction rs arbitrary: ss) (auto dest: normalize_statement_ok split: sum.splits)

text \<open>C24 (type). A policy document that parses is well formed: it has a statement, every effect is
  exactly \<open>Allow\<close> or \<open>Deny\<close>, every statement names a principal, and no name or pattern in it is
  blank or padded with blanks. On such a document a decision is determined by comparing effects
  literally: a matching \<open>Deny\<close> rules, otherwise a matching \<open>Allow\<close>.\<close>

theorem parsed_policy_well_formed:
  assumes "ParsePolicyDocument j = Inr p"
  shows "pd_Statements p \<noteq> [] \<and> (\<forall>s \<in> set (pd_Statements p). statement_ok s) \<and>
    (Allows p who action resource \<longleftrightarrow>
       (\<exists>s \<in> set (pd_Statements p). statement_matches s who action resource \<and> pst_Effect s = ''Allow'') \<and>
       \<not> (\<exists>s \<in> set (pd_Statements p). statement_matches s who action resource \<and> pst_Effect s = ''Deny''))"
proof -
  have ok: "pd_Statements p \<noteq> []" "\<forall>s \<in> set (pd_Statements p). statement_ok s"
    using assms normalize_statements_ok
    by (auto simp: ParsePolicyDocument_def normalize_document_def list_all_iff split: option.splits sum.splits if_splits)
  have "\<not> EqualFold ''Deny'' ''Allow''" "\<not> EqualFold ''Allow'' ''Deny''"
    using allow_not_deny [of "''Allow''"] allow_not_deny [of "''Deny''"] by auto
  then have "EqualFold (pst_Effect s) ''Allow'' \<longleftrightarrow> pst_Effect s = ''Allow''" "EqualFold (pst_Effect s) ''Deny'' \<longleftrightarrow> pst_Effect s = ''Deny''"
    if "s \<in> set (pd_Statements p)" for s
    using ok(2) that by (auto simp: statement_ok_def)
  then show ?thesis using ok Allows_rule [of p who action resource] by auto
qed

definition demo_json :: "string \<Rightarrow> string \<Rightarrow> json" where
  "demo_json effect action =
     JObj [(''Version'', JStr ''2012-10-17''),
           (''Statement'', JObj [(''Effect'', JStr effect), (''Principal'', JStr ''*''), (''Action'', JStr action),
              (''Resource'', JArr [JStr ''*''])])]"

theorem parsed_policy_well_formed_witness:
  "\<exists>p. ParsePolicyDocument (demo_json '' deny'' ''s3:*'') = Inr p \<and> (\<forall>s \<in> set (pd_Statements p). statement_ok s)"
proof -
  have "\<not> isl (ParsePolicyDocument (demo_json '' deny'' ''s3:*''))" by code_simp
  then obtain p where "ParsePolicyDocument (demo_json '' deny'' ''s3:*'') = Inr p"
    by (metis isl_def sum.exhaust_sel)
  then show ?thesis using parsed_policy_well_formed by blast
qed

text \<open>An absent action is an error, but an empty one is not: the statement is accepted with no action
  at all, and a \<open>Deny\<close> written that way never applies.\<close>

lemma empty_action_accepted:
  "\<exists>p. ParsePolicyDocument (demo_json ''Deny'' []) = Inr p \<and> map pst_Actions (pd_Statements p) = [[]] \<and>
     (\<forall>who action resource. \<not> list_ex (\<lambda>s. statement_matches s who action resource) (pd_Statements p))"
proof -
  let ?r = "ParsePolicyDocument (demo_json ''Deny'' [])"
  have "\<not> isl ?r" "map pst_Actions (pd_Statements (projr ?r)) = [[]]" by code_simp+
  then obtain p where p: "?r = Inr p" "map pst_Actions (pd_Statements p) = [[]]"
    by (metis isl_def sum.exhaust_sel)
  then obtain s where "pd_Statements p = [s]" "pst_Actions s = []" by auto
  with p show ?thesis by (auto simp: statement_matches_def matchesAny_def)
qed

section \<open>Who may bypass governance retention\<close>

lemma AllowsAction_iff:
  "AllowsAction who action \<longleftrightarrow> pn_Root who \<or>
     TrimSpace action \<noteq> [] \<and> (\<exists>permission \<in> set (pn_Permissions who). actionMatches permission (TrimSpace action))"
  by (simp add: AllowsAction_def EvaluatePrincipalAction_def Let_def list_ex_iff)



end
