(* ===== verification/Routing.thy ===== *)
theory Routing
  imports GoText GoNum
begin

text \<open>
  Which S3 operation a request asks for (\<open>internal/s3api/routing/parser.go\<close>): the bucket and key from the
  host and path in the two addressing styles, the subresources from the query, and the
  classification by method, key and subresources.

  A request is given by its method, host, decoded path, parsed query and copy-source header;
  \<open>net.ParseIP\<close> is an argument, the test whether a host is a literal address.
\<close>

section \<open>Requests\<close>

datatype AddressingStyle = AddressingPathStyle | AddressingVirtualHostedStyle

datatype (plugins only: code) Subresource =
    SubresourceLocation | SubresourceListType | SubresourceUploads | SubresourceUploadID
  | SubresourcePartNumber | SubresourceVersionID | SubresourceTagging | SubresourceRetention
  | SubresourceLegalHold | SubresourceLifecycle | SubresourceVersioning | SubresourceVersions
  | SubresourceCORS | SubresourceObjectLock | SubresourceACL | SubresourceDelete | SubresourcePolicy
  | SubresourceEncryption

datatype (plugins only: code) Operation =
    OperationListBuckets | OperationCreateBucket | OperationHeadBucket | OperationDeleteBucket
  | OperationGetBucketLocation | OperationGetBucketVersioning | OperationPutBucketVersioning
  | OperationGetBucketCORS | OperationPutBucketCORS | OperationDeleteBucketCORS
  | OperationGetBucketLifecycle | OperationPutBucketLifecycle | OperationDeleteBucketLifecycle
  | OperationGetBucketObjectLock | OperationPutBucketObjectLock | OperationGetBucketPolicy
  | OperationPutBucketPolicy | OperationDeleteBucketPolicy | OperationGetBucketEncryption
  | OperationPutBucketEncryption | OperationDeleteBucketEncryption | OperationGetBucketACL
  | OperationPutBucketACL | OperationListObjects | OperationListObjectsV2 | OperationListObjectVersions
  | OperationPutObject | OperationCopyObject | OperationGetObject | OperationHeadObject
  | OperationDeleteObject | OperationDeleteObjects | OperationGetObjectTagging | OperationPutObjectTagging
  | OperationDeleteObjectTagging | OperationGetObjectRetention | OperationPutObjectRetention
  | OperationGetObjectLegalHold | OperationPutObjectLegalHold | OperationGetObjectACL
  | OperationPutObjectACL | OperationCreateMultipartUpload | OperationListMultipartUploads
  | OperationUploadPart | OperationListParts | OperationCompleteMultipart | OperationAbortMultipart
  | OperationUnsupported

record http_request =
  hr_Method :: string
  hr_Host :: string
  hr_Path :: string
  hr_Query :: "(string, string list) gomap"
  hr_CopySource :: string

record Request =
  rq_Method :: string
  rq_Style :: AddressingStyle
  rq_Bucket :: string
  rq_Key :: string
  rq_HasKey :: bool
  rq_Subresources :: "(Subresource, string) gomap"
  rq_RawQuery :: "(string, string list) gomap"
  rq_Operation :: Operation

datatype route_error = UnsupportedSubresource string | InvalidPartNumber

definition subresource_names :: "(string \<times> Subresource) list" where
  "subresource_names =
     [(''location'', SubresourceLocation), (''list-type'', SubresourceListType),
      (''uploads'', SubresourceUploads), (''uploadId'', SubresourceUploadID),
      (''partNumber'', SubresourcePartNumber), (''versionId'', SubresourceVersionID),
      (''tagging'', SubresourceTagging), (''retention'', SubresourceRetention),
      (''legal-hold'', SubresourceLegalHold), (''lifecycle'', SubresourceLifecycle),
      (''versioning'', SubresourceVersioning), (''versions'', SubresourceVersions),
      (''cors'', SubresourceCORS), (''object-lock'', SubresourceObjectLock), (''acl'', SubresourceACL),
      (''delete'', SubresourceDelete), (''policy'', SubresourcePolicy), (''encryption'', SubresourceEncryption)]"

definition isS3ControlQuery :: "string \<Rightarrow> bool" where
  "isS3ControlQuery name \<longleftrightarrow> List.member
     [''accelerate'', ''acl'', ''analytics'', ''annotation'', ''attributes'', ''cors'', ''delete'',
      ''encryption'', ''intelligent-tiering'', ''inventory'', ''legal-hold'', ''lifecycle'', ''logging'',
      ''metadataAnnotationTable'', ''metadataConfiguration'', ''metadataInventoryTable'',
      ''metadataJournalTable'', ''metadataTable'', ''metrics'', ''notification'', ''object-lock'',
      ''ownershipControls'', ''policy'', ''policyStatus'', ''publicAccessBlock'', ''renameObject'',
      ''replication'', ''requestPayment'', ''restore'', ''retention'', ''select'', ''select-type'',
      ''session'', ''tagging'', ''torrent'', ''versioning'', ''versions'', ''website''] name"

section \<open>Bucket and key\<close>

definition bucketAndKeyFromPath :: "string \<Rightarrow> string \<times> string \<times> bool" where
  "bucketAndKeyFromPath path =
     (let trimmed = TrimPrefix path ''/''
      in if trimmed = [] then ([], [], False)
         else let (bucket, rest, found) = Cut CHR ''/'' trimmed
              in if \<not> found then (bucket, [], False)
                 else if rest = [] then (bucket, [], False)
                 else (bucket, rest, True))"

definition keyFromPath :: "string \<Rightarrow> bool \<Rightarrow> string \<times> bool" where
  "keyFromPath path bucketInPath =
     (if bucketInPath then let (_, key, hasKey) = bucketAndKeyFromPath path in (key, hasKey)
      else let trimmed = TrimPrefix path ''/'' in (trimmed, trimmed \<noteq> []))"

definition last_index :: "char \<Rightarrow> string \<Rightarrow> nat option" where
  "last_index c s = (if c \<in> set s then Some (length s - 1 - length (takeWhile (\<lambda>d. d \<noteq> c) (rev s))) else None)"

definition SplitHostPort :: "string \<Rightarrow> string option" where
  \<comment> \<open>the host \<open>net.SplitHostPort\<close> returns, \<open>None\<close> for its errors\<close>
  "SplitHostPort hostport =
     (case last_index CHR '':'' hostport of
        None \<Rightarrow> None
      | Some i \<Rightarrow>
          if hd hostport = CHR ''[''
          then let e = length (takeWhile (\<lambda>c. c \<noteq> CHR '']'') hostport)
               in if e = length hostport \<or> e + 1 \<noteq> i \<or> CHR ''['' \<in> set (drop 1 hostport) \<or>
                     CHR '']'' \<in> set (drop (e + 1) hostport)
                  then None
                  else Some (take (e - 1) (drop 1 hostport))
          else if CHR '':'' \<in> set (take i hostport) \<or> CHR ''['' \<in> set hostport \<or> CHR '']'' \<in> set hostport
          then None
          else Some (take i hostport))"

definition virtualHostedBucket :: "(string \<Rightarrow> bool) \<Rightarrow> string \<Rightarrow> string option" where
  "virtualHostedBucket ParseIP hostport =
     (let host0 = (case SplitHostPort hostport of Some h \<Rightarrow> h | None \<Rightarrow> hostport);
          host = TrimSuffix (ToLower host0) ''.'';
          labels = Split CHR ''.'' host
      in if host = [] \<or> host = ''localhost'' \<or> ParseIP host then None
         else if length labels < 3 \<or> hd labels = ''s3'' then None
         else if list_ex (\<lambda>l. l = ''s3'') (tl labels) then Some (hd labels)
         else None)"

section \<open>Subresources\<close>

definition first_value :: "string list \<Rightarrow> string" where
  "first_value values = (case values of [] \<Rightarrow> [] | v # _ \<Rightarrow> v)"

fun parseSubresources :: "(string, string list) gomap \<Rightarrow> (Subresource, string) gomap \<Rightarrow>
    route_error + (Subresource, string) gomap" where
  "parseSubresources [] dst = Inr dst"
| "parseSubresources ((name, value) # values) dst =
     (case map_of subresource_names name of
        Some sub \<Rightarrow> parseSubresources values (map_put sub (first_value value) dst)
      | None \<Rightarrow>
          if isS3ControlQuery name then Inl (UnsupportedSubresource name)
          else parseSubresources values dst)"

definition validateMultipartParams :: "(Subresource, string) gomap \<Rightarrow> route_error option" where
  "validateMultipartParams sub =
     (case map_of sub SubresourcePartNumber of
        None \<Rightarrow> None
      | Some raw \<Rightarrow>
          (case Atoi raw of
             None \<Rightarrow> Some InvalidPartNumber
           | Some n \<Rightarrow> if n < 1 \<or> n > 10000 then Some InvalidPartNumber else None))"

definition hasOnlySubresources :: "(Subresource, string) gomap \<Rightarrow> Subresource list \<Rightarrow> bool" where
  "hasOnlySubresources subresources allowed \<longleftrightarrow>
     subresources = [] \<or> list_all (\<lambda>(s, _). List.member allowed s) subresources"

section \<open>Classification\<close>

definition has_sub :: "Subresource \<Rightarrow> Request \<Rightarrow> bool" where
  "has_sub s req \<longleftrightarrow> map_of (rq_Subresources req) s \<noteq> None"

definition bucket_sub :: "Request \<Rightarrow> Subresource \<Rightarrow> (string \<times> Operation) list \<Rightarrow> Operation option" where
  \<comment> \<open>a block for one subresource of a bucket, with its switch over the method\<close>
  "bucket_sub req s methods =
     (if has_sub s req \<and> \<not> rq_HasKey req \<and> hasOnlySubresources (rq_Subresources req) [s]
      then map_of methods (rq_Method req) else None)"

definition object_sub :: "Request \<Rightarrow> Subresource \<Rightarrow> (string \<times> Operation) list \<Rightarrow> Operation option" where
  \<comment> \<open>a block for one subresource of an object or one of its versions\<close>
  "object_sub req s methods =
     (if has_sub s req \<and> rq_HasKey req \<and> hasOnlySubresources (rq_Subresources req) [s, SubresourceVersionID]
      then map_of methods (rq_Method req) else None)"

definition upload_sub :: "Request \<Rightarrow> Operation option" where
  \<comment> \<open>the block for requests with an upload identifier\<close>
  "upload_sub req =
     (if has_sub SubresourceUploadID req \<and> rq_HasKey req
      then let hasPartNumber = has_sub SubresourcePartNumber req; subs = rq_Subresources req; m = rq_Method req
           in if hasPartNumber \<and> m = ''PUT'' \<and> hasOnlySubresources subs [SubresourceUploadID, SubresourcePartNumber]
              then Some OperationUploadPart
              else if \<not> hasPartNumber \<and> m = ''GET'' \<and> hasOnlySubresources subs [SubresourceUploadID]
              then Some OperationListParts
              else if \<not> hasPartNumber \<and> m = ''POST'' \<and> hasOnlySubresources subs [SubresourceUploadID]
              then Some OperationCompleteMultipart
              else if \<not> hasPartNumber \<and> m = ''DELETE'' \<and> hasOnlySubresources subs [SubresourceUploadID]
              then Some OperationAbortMultipart
              else None
      else None)"

fun first_match :: "'a option list \<Rightarrow> 'a option" where
  "first_match [] = None"
| "first_match (None # xs) = first_match xs"
| "first_match (Some x # xs) = Some x"

definition classify_plain :: "Request \<Rightarrow> string \<Rightarrow> Operation" where
  \<comment> \<open>the end of \<open>classify\<close>, after the blocks that return\<close>
  "classify_plain req copySource =
     (if rq_HasKey req
      then if \<not> hasOnlySubresources (rq_Subresources req) [SubresourceVersionID] then OperationUnsupported
           else if rq_Method req = ''PUT''
           then if rq_Subresources req \<noteq> [] then OperationUnsupported
                else if copySource \<noteq> [] then OperationCopyObject else OperationPutObject
           else if rq_Method req = ''GET'' then OperationGetObject
           else if rq_Method req = ''HEAD'' then OperationHeadObject
           else if rq_Method req = ''DELETE'' then OperationDeleteObject
           else OperationUnsupported
      else if rq_Subresources req \<noteq> [] then OperationUnsupported
      else if rq_Method req = ''PUT'' then OperationCreateBucket
      else if rq_Method req = ''HEAD'' then OperationHeadBucket
      else if rq_Method req = ''DELETE'' then OperationDeleteBucket
      else if rq_Method req = ''GET'' then OperationListObjects
      else OperationUnsupported)"

definition classify_blocks :: "Request \<Rightarrow> Operation option list" where
  \<comment> \<open>the blocks of \<open>classify\<close> that look for one subresource, in order\<close>
  "classify_blocks req =
     [bucket_sub req SubresourceLocation [(''GET'', OperationGetBucketLocation)],
      bucket_sub req SubresourceVersioning
        [(''GET'', OperationGetBucketVersioning), (''PUT'', OperationPutBucketVersioning)],
      bucket_sub req SubresourceCORS
        [(''GET'', OperationGetBucketCORS), (''PUT'', OperationPutBucketCORS), (''DELETE'', OperationDeleteBucketCORS)],
      bucket_sub req SubresourceLifecycle
        [(''GET'', OperationGetBucketLifecycle), (''PUT'', OperationPutBucketLifecycle),
         (''DELETE'', OperationDeleteBucketLifecycle)],
      bucket_sub req SubresourceObjectLock
        [(''GET'', OperationGetBucketObjectLock), (''PUT'', OperationPutBucketObjectLock)],
      bucket_sub req SubresourcePolicy
        [(''GET'', OperationGetBucketPolicy), (''PUT'', OperationPutBucketPolicy), (''DELETE'', OperationDeleteBucketPolicy)],
      bucket_sub req SubresourceEncryption
        [(''GET'', OperationGetBucketEncryption), (''PUT'', OperationPutBucketEncryption),
         (''DELETE'', OperationDeleteBucketEncryption)],
      bucket_sub req SubresourceACL [(''GET'', OperationGetBucketACL), (''PUT'', OperationPutBucketACL)],
      bucket_sub req SubresourceDelete [(''POST'', OperationDeleteObjects)],
      bucket_sub req SubresourceVersions [(''GET'', OperationListObjectVersions)],
      (if map_of (rq_Subresources req) SubresourceListType = Some ''2''
       then bucket_sub req SubresourceListType [(''GET'', OperationListObjectsV2)] else None),
      bucket_sub req SubresourceUploads [(''GET'', OperationListMultipartUploads)],
      (if has_sub SubresourceUploads req \<and> rq_HasKey req \<and> rq_Method req = ''POST'' \<and>
          hasOnlySubresources (rq_Subresources req) [SubresourceUploads]
       then Some OperationCreateMultipartUpload else None),
      upload_sub req,
      object_sub req SubresourceTagging
        [(''GET'', OperationGetObjectTagging), (''PUT'', OperationPutObjectTagging), (''DELETE'', OperationDeleteObjectTagging)],
      object_sub req SubresourceRetention
        [(''GET'', OperationGetObjectRetention), (''PUT'', OperationPutObjectRetention)],
      object_sub req SubresourceLegalHold
        [(''GET'', OperationGetObjectLegalHold), (''PUT'', OperationPutObjectLegalHold)],
      object_sub req SubresourceACL [(''GET'', OperationGetObjectACL), (''PUT'', OperationPutObjectACL)]]"

definition classify :: "Request \<Rightarrow> string \<Rightarrow> Operation" where
  "classify req copySource =
     (if rq_Bucket req = []
      then if rq_Method req = ''GET'' \<and> \<not> rq_HasKey req \<and> rq_Subresources req = []
           then OperationListBuckets else OperationUnsupported
      else case first_match (classify_blocks req) of
        Some op \<Rightarrow> op
      | None \<Rightarrow> classify_plain req copySource)"

definition ParseRequest :: "(string \<Rightarrow> bool) \<Rightarrow> http_request \<Rightarrow> route_error + Request" where
  "ParseRequest ParseIP r =
     (let (style, bucket, key, hasKey) =
            (case virtualHostedBucket ParseIP (hr_Host r) of
               Some bucket \<Rightarrow> let (key, hasKey) = keyFromPath (hr_Path r) False
                              in (AddressingVirtualHostedStyle, bucket, key, hasKey)
             | None \<Rightarrow> (AddressingPathStyle, bucketAndKeyFromPath (hr_Path r)))
      in case parseSubresources (hr_Query r) [] of
           Inl e \<Rightarrow> Inl e
         | Inr subs \<Rightarrow>
             (case validateMultipartParams subs of
                Some e \<Rightarrow> Inl e
              | None \<Rightarrow>
                  let req = \<lparr>rq_Method = hr_Method r, rq_Style = style, rq_Bucket = bucket, rq_Key = key,
                             rq_HasKey = hasKey, rq_Subresources = subs, rq_RawQuery = hr_Query r,
                             rq_Operation = OperationUnsupported\<rparr>
                  in Inr (req\<lparr>rq_Operation := classify req (hr_CopySource r)\<rparr>)))"

end
