(* ===== verification/RoutingTable.thy ===== *)
theory RoutingTable
  imports Routing
begin

text \<open>
  The routing table and what the router does with it: classification is the table, the two addressing
  styles agree, and what a parsed request guarantees.
\<close>

section \<open>The routing table\<close>

text \<open>The operations on buckets and objects with the method, whether a key is addressed, the
  subresources a request must have and those it may have besides.\<close>

definition routing_table :: "(Operation \<times> string \<times> bool \<times> Subresource list \<times> Subresource list) list" where
  "routing_table =
     [(OperationGetBucketLocation, ''GET'', False, [SubresourceLocation], []),
      (OperationGetBucketVersioning, ''GET'', False, [SubresourceVersioning], []),
      (OperationPutBucketVersioning, ''PUT'', False, [SubresourceVersioning], []),
      (OperationGetBucketCORS, ''GET'', False, [SubresourceCORS], []),
      (OperationPutBucketCORS, ''PUT'', False, [SubresourceCORS], []),
      (OperationDeleteBucketCORS, ''DELETE'', False, [SubresourceCORS], []),
      (OperationGetBucketLifecycle, ''GET'', False, [SubresourceLifecycle], []),
      (OperationPutBucketLifecycle, ''PUT'', False, [SubresourceLifecycle], []),
      (OperationDeleteBucketLifecycle, ''DELETE'', False, [SubresourceLifecycle], []),
      (OperationGetBucketObjectLock, ''GET'', False, [SubresourceObjectLock], []),
      (OperationPutBucketObjectLock, ''PUT'', False, [SubresourceObjectLock], []),
      (OperationGetBucketPolicy, ''GET'', False, [SubresourcePolicy], []),
      (OperationPutBucketPolicy, ''PUT'', False, [SubresourcePolicy], []),
      (OperationDeleteBucketPolicy, ''DELETE'', False, [SubresourcePolicy], []),
      (OperationGetBucketEncryption, ''GET'', False, [SubresourceEncryption], []),
      (OperationPutBucketEncryption, ''PUT'', False, [SubresourceEncryption], []),
      (OperationDeleteBucketEncryption, ''DELETE'', False, [SubresourceEncryption], []),
      (OperationGetBucketACL, ''GET'', False, [SubresourceACL], []),
      (OperationPutBucketACL, ''PUT'', False, [SubresourceACL], []),
      (OperationDeleteObjects, ''POST'', False, [SubresourceDelete], []),
      (OperationListObjectVersions, ''GET'', False, [SubresourceVersions], []),
      (OperationListObjectsV2, ''GET'', False, [SubresourceListType], []),
      (OperationListMultipartUploads, ''GET'', False, [SubresourceUploads], []),
      (OperationCreateMultipartUpload, ''POST'', True, [SubresourceUploads], []),
      (OperationUploadPart, ''PUT'', True, [SubresourceUploadID, SubresourcePartNumber], []),
      (OperationListParts, ''GET'', True, [SubresourceUploadID], []),
      (OperationCompleteMultipart, ''POST'', True, [SubresourceUploadID], []),
      (OperationAbortMultipart, ''DELETE'', True, [SubresourceUploadID], []),
      (OperationGetObjectTagging, ''GET'', True, [SubresourceTagging], [SubresourceVersionID]),
      (OperationPutObjectTagging, ''PUT'', True, [SubresourceTagging], [SubresourceVersionID]),
      (OperationDeleteObjectTagging, ''DELETE'', True, [SubresourceTagging], [SubresourceVersionID]),
      (OperationGetObjectRetention, ''GET'', True, [SubresourceRetention], [SubresourceVersionID]),
      (OperationPutObjectRetention, ''PUT'', True, [SubresourceRetention], [SubresourceVersionID]),
      (OperationGetObjectLegalHold, ''GET'', True, [SubresourceLegalHold], [SubresourceVersionID]),
      (OperationPutObjectLegalHold, ''PUT'', True, [SubresourceLegalHold], [SubresourceVersionID]),
      (OperationGetObjectACL, ''GET'', True, [SubresourceACL], [SubresourceVersionID]),
      (OperationPutObjectACL, ''PUT'', True, [SubresourceACL], [SubresourceVersionID]),
      (OperationPutObject, ''PUT'', True, [], []),
      (OperationCopyObject, ''PUT'', True, [], []),
      (OperationGetObject, ''GET'', True, [], [SubresourceVersionID]),
      (OperationHeadObject, ''HEAD'', True, [], [SubresourceVersionID]),
      (OperationDeleteObject, ''DELETE'', True, [], [SubresourceVersionID]),
      (OperationCreateBucket, ''PUT'', False, [], []),
      (OperationHeadBucket, ''HEAD'', False, [], []),
      (OperationDeleteBucket, ''DELETE'', False, [], []),
      (OperationListObjects, ''GET'', False, [], [])]"

fun fits :: "Request \<Rightarrow> string \<Rightarrow> Operation \<times> string \<times> bool \<times> Subresource list \<times> Subresource list \<Rightarrow> bool" where
  "fits req copySource (op, m, key, must, may) \<longleftrightarrow>
     rq_Method req = m \<and> rq_HasKey req = key \<and>
     set must \<subseteq> fst ` set (rq_Subresources req) \<and> fst ` set (rq_Subresources req) \<subseteq> set must \<union> set may \<and>
     (op = OperationListObjectsV2 \<longrightarrow> map_of (rq_Subresources req) SubresourceListType = Some ''2'') \<and>
     (op = OperationCopyObject \<longrightarrow> copySource \<noteq> []) \<and> (op = OperationPutObject \<longrightarrow> copySource = [])"

definition conforms :: "Operation \<Rightarrow> Request \<Rightarrow> string \<Rightarrow> bool" where
  \<comment> \<open>the request names a bucket and is one the table has for the operation\<close>
  "conforms op req copySource \<longleftrightarrow>
     rq_Bucket req \<noteq> [] \<and> (\<exists>row \<in> set routing_table. fst row = op \<and> fits req copySource row)"

lemma has_sub_iff: "has_sub s req \<longleftrightarrow> s \<in> fst ` set (rq_Subresources req)"
  by (simp add: has_sub_def map_of_eq_None_iff)

lemma only_iff: "hasOnlySubresources m allowed \<longleftrightarrow> fst ` set m \<subseteq> set allowed"
  by (auto simp: hasOnlySubresources_def list_all_iff)

lemma first_match_mem: "first_match xs = Some x \<Longrightarrow> Some x \<in> set xs"
  by (induction xs rule: first_match.induct) auto

lemma first_match_None: "first_match xs = None \<longleftrightarrow> (\<forall>x \<in> set xs. x = None)"
  by (induction xs rule: first_match.induct) auto

lemma bucket_sub_fits:
  "bucket_sub req s ms = Some op \<Longrightarrow> op \<noteq> OperationListObjectsV2 \<Longrightarrow> op \<noteq> OperationCopyObject \<Longrightarrow>
   op \<noteq> OperationPutObject \<Longrightarrow> \<exists>m. (m, op) \<in> set ms \<and> fits req cs (op, m, False, [s], [])"
  by (auto simp: bucket_sub_def has_sub_iff only_iff dest: map_of_SomeD split: if_splits)

lemma object_sub_fits:
  "object_sub req s ms = Some op \<Longrightarrow> op \<noteq> OperationListObjectsV2 \<Longrightarrow> op \<noteq> OperationCopyObject \<Longrightarrow>
   op \<noteq> OperationPutObject \<Longrightarrow> \<exists>m. (m, op) \<in> set ms \<and> fits req cs (op, m, True, [s], [SubresourceVersionID])"
  by (auto simp: object_sub_def has_sub_iff only_iff dest: map_of_SomeD split: if_splits)

fun clash :: "Operation \<times> string \<times> bool \<times> Subresource list \<times> Subresource list \<Rightarrow>
    Operation \<times> string \<times> bool \<times> Subresource list \<times> Subresource list \<Rightarrow> bool" where
  \<comment> \<open>no request fits both rows\<close>
  "clash (op1, m1, k1, must1, may1) (op2, m2, k2, must2, may2) \<longleftrightarrow>
     k1 \<noteq> k2 \<or> list_ex (\<lambda>s. \<not> List.member (must2 @ may2) s) must1 \<or> list_ex (\<lambda>s. \<not> List.member (must1 @ may1) s) must2 \<or>
     m1 \<noteq> m2 \<or> op1 = OperationPutObject \<and> op2 = OperationCopyObject \<or> op1 = OperationCopyObject \<and> op2 = OperationPutObject"

lemma clash_disjoint:
  assumes c: "clash row1 row2" and f: "fits req cs row1"
  shows "\<not> fits req cs row2"
proof
  assume g: "fits req cs row2"
  obtain op1 m1 k1 must1 may1 op2 m2 k2 must2 may2
    where rows: "row1 = (op1, m1, k1, must1, may1)" "row2 = (op2, m2, k2, must2, may2)"
    by (cases row1; cases row2)
  note fits = f [unfolded rows fits.simps] g [unfolded rows fits.simps]
  have eq: "k1 = k2" "m1 = m2" using fits by simp_all
  have "set must1 \<subseteq> set (must2 @ may2)" "set must2 \<subseteq> set (must1 @ may1)"
    using fits by (simp_all only: set_append) (meson order_trans)+
  then have no: "\<not> list_ex (\<lambda>s. \<not> List.member (must2 @ may2) s) must1" "\<not> list_ex (\<lambda>s. \<not> List.member (must1 @ may1) s) must2"
    unfolding list_ex_iff by auto
  have "\<not> (op1 = OperationPutObject \<and> op2 = OperationCopyObject)" "\<not> (op1 = OperationCopyObject \<and> op2 = OperationPutObject)"
    using fits by meson+
  with c eq no show False unfolding rows clash.simps by blast
qed

lemma table_disjoint: "list_all (\<lambda>r1. list_all (\<lambda>r2. fst r1 = fst r2 \<or> clash r1 r2) routing_table) routing_table"
  by code_simp

lemma conforms_unique: "conforms op req cs \<Longrightarrow> conforms op' req cs \<Longrightarrow> op = op'"
  using table_disjoint clash_disjoint unfolding conforms_def list_all_iff by metis

definition plain_row :: "bool \<Rightarrow> Subresource \<Rightarrow> Subresource list \<Rightarrow> string \<times> Operation \<Rightarrow> bool" where
  "plain_row key s may = (\<lambda>(m, op). op \<notin> {OperationListObjectsV2, OperationCopyObject, OperationPutObject} \<and>
     (op, m, key, [s], may) \<in> set routing_table)"

lemma bucket_sub_row:
  assumes "list_all (plain_row False s []) ms" "bucket_sub req s ms = Some op"
  shows "\<exists>row \<in> set routing_table. fst row = op \<and> fits req cs row"
proof -
  have rows: "op \<notin> {OperationListObjectsV2, OperationCopyObject, OperationPutObject} \<and> (op, m, False, [s], []) \<in> set routing_table"
    if "(m, op) \<in> set ms" for m using assms(1) that unfolding plain_row_def list_all_iff by blast
  moreover have "\<exists>m. (m, op) \<in> set ms" using assms(2) unfolding bucket_sub_def by (metis map_of_SomeD option.distinct(1))
  ultimately obtain m where "(m, op) \<in> set ms" "fits req cs (op, m, False, [s], [])"
    using bucket_sub_fits [OF assms(2), of cs] by blast
  with rows show ?thesis by (intro bexI [of _ "(op, m, False, [s], [])"]) simp_all
qed

lemma object_sub_row:
  assumes "list_all (plain_row True s [SubresourceVersionID]) ms" "object_sub req s ms = Some op"
  shows "\<exists>row \<in> set routing_table. fst row = op \<and> fits req cs row"
proof -
  have rows: "op \<notin> {OperationListObjectsV2, OperationCopyObject, OperationPutObject} \<and> (op, m, True, [s], [SubresourceVersionID]) \<in> set routing_table"
    if "(m, op) \<in> set ms" for m using assms(1) that unfolding plain_row_def list_all_iff by blast
  moreover have "\<exists>m. (m, op) \<in> set ms" using assms(2) unfolding object_sub_def by (metis map_of_SomeD option.distinct(1))
  ultimately obtain m where "(m, op) \<in> set ms" "fits req cs (op, m, True, [s], [SubresourceVersionID])"
    using object_sub_fits [OF assms(2), of cs] by blast
  with rows show ?thesis by (intro bexI [of _ "(op, m, True, [s], [SubresourceVersionID])"]) simp_all
qed

lemmas sub_blocks = bucket_sub_def object_sub_def upload_sub_def has_sub_iff only_iff

lemma list_v2_row:
  assumes "map_of (rq_Subresources req) SubresourceListType = Some ''2''"
    "bucket_sub req SubresourceListType [(''GET'', OperationListObjectsV2)] = Some op"
  shows "\<exists>row \<in> set routing_table. fst row = op \<and> fits req cs row"
  using assms
  by (intro bexI [of _ "(OperationListObjectsV2, ''GET'', False, [SubresourceListType], [])"])
    (auto simp: sub_blocks routing_table_def split: if_splits)

lemma create_upload_row:
  assumes "has_sub SubresourceUploads req" "rq_HasKey req" "rq_Method req = ''POST''"
    "hasOnlySubresources (rq_Subresources req) [SubresourceUploads]"
  shows "\<exists>row \<in> set routing_table. fst row = OperationCreateMultipartUpload \<and> fits req cs row"
  using assms
  by (intro bexI [of _ "(OperationCreateMultipartUpload, ''POST'', True, [SubresourceUploads], [])"])
    (auto simp: sub_blocks routing_table_def)

lemma upload_sub_row:
  assumes "upload_sub req = Some op"
  shows "\<exists>row \<in> set routing_table. fst row = op \<and> fits req cs row"
proof -
  let ?S = "fst ` set (rq_Subresources req)"
  consider "op = OperationUploadPart" "rq_Method req = ''PUT''" "SubresourcePartNumber \<in> ?S" "?S \<subseteq> {SubresourceUploadID, SubresourcePartNumber}"
    | "(op, rq_Method req) \<in> {(OperationListParts, ''GET''), (OperationCompleteMultipart, ''POST''), (OperationAbortMultipart, ''DELETE'')}"
      "?S \<subseteq> {SubresourceUploadID}"
    using assms by (auto simp: sub_blocks Let_def split: if_splits)
  moreover have "SubresourceUploadID \<in> ?S" "rq_HasKey req"
    using assms by (auto simp: sub_blocks Let_def split: if_splits)
  ultimately show ?thesis by cases (auto simp: routing_table_def)
qed

lemma blocks_sound:
  assumes "Some op \<in> set (classify_blocks req)"
  shows "\<exists>row \<in> set routing_table. fst row = op \<and> fits req cs row"
proof -
  have b: ?thesis if "list_all (plain_row False s []) ms" "Some op = bucket_sub req s ms" for s ms
    using bucket_sub_row [OF that(1) that(2) [symmetric]] .
  have o: ?thesis if "list_all (plain_row True s [SubresourceVersionID]) ms" "Some op = object_sub req s ms" for s ms
    using object_sub_row [OF that(1) that(2) [symmetric]] .
  have l: ?thesis if "Some op = (if map_of (rq_Subresources req) SubresourceListType = Some ''2''
           then bucket_sub req SubresourceListType [(''GET'', OperationListObjectsV2)] else None)"
    using that list_v2_row [of req op cs] by (simp split: if_splits)
  have c: ?thesis if "Some op = (if has_sub SubresourceUploads req \<and> rq_HasKey req \<and> rq_Method req = ''POST'' \<and>
              hasOnlySubresources (rq_Subresources req) [SubresourceUploads]
           then Some OperationCreateMultipartUpload else None)"
    using that create_upload_row [of req cs] by (simp split: if_splits)
  have u: ?thesis if "Some op = upload_sub req" using upload_sub_row [OF that [symmetric]] .
  show ?thesis
    using assms unfolding classify_blocks_def
    by (simp only: list.set insert_iff empty_iff simp_thms, elim disjE)
      (erule l c u | erule b [rotated] o [rotated], simp add: plain_row_def routing_table_def)+
qed

lemma table_may: "list_all (\<lambda>(op, m, key, must, may). may = [] \<or> may = [SubresourceVersionID]) routing_table"
  by (simp add: routing_table_def)

lemma blocks_complete:
  assumes "row \<in> set routing_table" "fits req cs row"
  shows "(\<exists>x \<in> set (classify_blocks req). x \<noteq> None) \<or> classify_plain req cs \<noteq> OperationUnsupported"
proof -
  obtain op m key must may where row: "row = (op, m, key, must, may)" by (cases row)
  define S where "S = fst ` set (rq_Subresources req)"
  have e: "rq_Subresources req = [] \<longleftrightarrow> S = {}" by (simp add: S_def)
  have "may = [] \<or> may = [SubresourceVersionID]" using table_may assms(1) unfolding row list_all_iff by auto
  moreover have "set must \<subseteq> S" "S \<subseteq> set must \<union> set may" using assms(2) unfolding row S_def by simp_all
  ultimately have S: "S = set must \<or> S = set (may @ must)" by auto
  have "\<forall>(op, m, key, must, may) \<in> set routing_table. rq_Method req = m \<longrightarrow> rq_HasKey req = key \<longrightarrow>
      S = set must \<or> S = set (may @ must) \<longrightarrow> (op = OperationListObjectsV2 \<longrightarrow> map_of (rq_Subresources req) SubresourceListType = Some ''2'') \<longrightarrow>
      (\<exists>x \<in> set (classify_blocks req). x \<noteq> None) \<or> classify_plain req cs \<noteq> OperationUnsupported"
    unfolding routing_table_def list.set ball_simps prod.case
    by (intro conjI impI TrueI; elim disjE)
      (simp_all add: classify_blocks_def sub_blocks S_def [symmetric] e classify_plain_def Let_def)
  then show ?thesis using assms S unfolding row by fastforce
qed

lemma plain_sound:
  assumes "classify_plain req cs \<noteq> OperationUnsupported"
  shows "\<exists>row \<in> set routing_table. fst row = classify_plain req cs \<and> fits req cs row"
proof -
  let ?row = "(classify_plain req cs, rq_Method req, rq_HasKey req, [],
    if rq_HasKey req \<and> rq_Method req \<noteq> ''PUT'' then [SubresourceVersionID] else [])"
  have "?row \<in> set routing_table"
    using assms unfolding classify_plain_def by (simp add: routing_table_def only_iff split: if_splits)
  moreover have "fits req cs ?row"
    using assms unfolding classify_plain_def by (simp add: only_iff split: if_splits)
  ultimately show ?thesis by (intro bexI [of _ ?row]) simp_all
qed

lemma classify_conforms:
  assumes "op \<noteq> OperationListBuckets" "op \<noteq> OperationUnsupported"
  shows "classify req copySource = op \<longleftrightarrow> conforms op req copySource"
proof (cases "rq_Bucket req = []")
  case True
  then show ?thesis using assms by (auto simp: classify_def conforms_def)
next
  case False
  let ?op = "classify req copySource"
  have cl: "?op = (case first_match (classify_blocks req) of Some op \<Rightarrow> op | None \<Rightarrow> classify_plain req copySource)"
    using False by (simp add: classify_def)
  have sound: "conforms ?op req copySource" if "?op \<noteq> OperationUnsupported"
    using that False blocks_sound [OF first_match_mem] plain_sound unfolding cl conforms_def
    by (auto split: option.splits)
  show ?thesis
  proof
    assume "?op = op" then show "conforms op req copySource" using sound assms by blast
  next
    assume c: "conforms op req copySource"
    then obtain row where row: "row \<in> set routing_table" "fits req copySource row" unfolding conforms_def by blast
    have "?op \<noteq> OperationUnsupported"
    proof (cases "first_match (classify_blocks req)")
      case None
      then show ?thesis using blocks_complete [OF row] first_match_None [of "classify_blocks req"] unfolding cl by auto
    next
      case (Some x)
      then obtain row' where "row' \<in> set routing_table" "fst row' = x" using blocks_sound [OF first_match_mem] by blast
      moreover have "\<forall>r \<in> set routing_table. fst r \<noteq> OperationUnsupported" by (simp add: routing_table_def)
      ultimately show ?thesis using Some unfolding cl by auto
    qed
    then show "?op = op" using sound c conforms_unique by blast
  qed
qed

text \<open>C14 (equivalence). Classification is the routing table: a request is classified as an operation
  on a bucket or an object exactly when it names a bucket and has the method, the key or not, the
  required and no other than the permitted subresources of the table's row for that operation. In
  particular no request with an unknown combination is taken for another operation.\<close>

theorem classify_is_routing_table:
  assumes "op \<noteq> OperationListBuckets" "op \<noteq> OperationUnsupported"
  shows "classify req copySource = op \<longleftrightarrow> conforms op req copySource"
  using assms by (rule classify_conforms)

definition demo_request :: http_request where
  "demo_request = \<lparr>hr_Method = ''DELETE'', hr_Host = ''s3.example.com'', hr_Path = ''/photos/a/b'',
     hr_Query = [(''versionId'', [''v1''])], hr_CopySource = []\<rparr>"

definition demo_routed :: Request where
  "demo_routed = \<lparr>rq_Method = ''DELETE'', rq_Style = AddressingPathStyle, rq_Bucket = ''photos'', rq_Key = ''a/b'',
     rq_HasKey = True, rq_Subresources = [(SubresourceVersionID, ''v1'')], rq_RawQuery = [(''versionId'', [''v1''])],
     rq_Operation = OperationDeleteObject\<rparr>"

theorem classify_is_routing_table_witness:
  "classify demo_routed [] = OperationDeleteObject"
proof -
  have "fits demo_routed [] (OperationDeleteObject, ''DELETE'', True, [], [SubresourceVersionID])"
    by (simp add: demo_routed_def)
  then have "conforms OperationDeleteObject demo_routed []"
    unfolding conforms_def
    by (intro conjI bexI [of _ "(OperationDeleteObject, ''DELETE'', True, [], [SubresourceVersionID])"])
      (simp_all add: demo_routed_def routing_table_def)
  then show ?thesis using classify_is_routing_table [of OperationDeleteObject] by simp
qed

section \<open>Addressing\<close>

lemma SplitHostPort_none: "CHR '':'' \<notin> set h \<Longrightarrow> SplitHostPort h = None"
  by (simp add: SplitHostPort_def last_index_def)

lemma ToLower_punct:
  "CHR ''.'' \<in> set (ToLower s) \<longleftrightarrow> CHR ''.'' \<in> set s" "ascii_lower c = CHR ''.'' \<longleftrightarrow> c = CHR ''.''"
  by (rule ToLower_mem_iff ascii_lower_eq_iff; simp add: less_eq_char_def)+

lemma TrimSuffix_none: "d \<noteq> [] \<Longrightarrow> last d \<noteq> c \<Longrightarrow> TrimSuffix (s @ d) [c] = s @ d"
  by (auto simp: TrimSuffix_def HasSuffix_iff) (metis last_appendR last_snoc append.assoc)

lemma host_labels:
  assumes "d \<noteq> []" "last d \<noteq> CHR ''.''"
  shows "TrimSuffix (ToLower (s @ d)) ''.'' = ToLower (s @ d)"
proof -
  have "last (ToLower d) \<noteq> CHR ''.''" using assms by (simp add: ToLower_def last_map ToLower_punct)
  then show ?thesis using TrimSuffix_none [of "ToLower d" "CHR ''.''" "ToLower s"] assms(1) by (simp add: ToLower_def)
qed

lemma path_bucket_key:
  assumes "b \<noteq> []" "CHR ''/'' \<notin> set b"
  shows "bucketAndKeyFromPath (''/'' @ b @ ''/'' @ k) = (b, k, k \<noteq> [])"
  using Cut_append [OF assms(2), of k] assms(1)
  by (simp add: bucketAndKeyFromPath_def TrimPrefix_def HasPrefix_def)

lemma virtualHosted_eq:
  "SplitHostPort h = None \<Longrightarrow> virtualHostedBucket ParseIP h =
     (let host = TrimSuffix (ToLower h) ''.''; labels = Split CHR ''.'' host
      in if host = [] \<or> host = ''localhost'' \<or> ParseIP host then None
         else if length labels < 3 \<or> hd labels = ''s3'' then None
         else if list_ex (\<lambda>l. l = ''s3'') (tl labels) then Some (hd labels)
         else None)"
  by (simp add: virtualHostedBucket_def Let_def)

lemma classify_cong:
  assumes "rq_Method p = rq_Method q" "rq_Bucket p = rq_Bucket q" "rq_HasKey p = rq_HasKey q"
    "rq_Subresources p = rq_Subresources q"
  shows "classify p cs = classify q cs"
  unfolding classify_def classify_blocks_def classify_plain_def bucket_sub_def object_sub_def upload_sub_def has_sub_def assms ..

lemma virtual_host_bucket:
  assumes "b \<noteq> []" "ToLower b = b" "b \<noteq> ''s3''" "CHR ''.'' \<notin> set b" "CHR '':'' \<notin> set b"
    and "d \<noteq> []" "last d \<noteq> CHR ''.''" "CHR '':'' \<notin> set d" "\<not> ParseIP (ToLower (b @ ''.s3.'' @ d))"
  shows "virtualHostedBucket ParseIP (b @ ''.s3.'' @ d) = Some b"
proof -
  let ?h = "b @ ''.s3.'' @ d"
  have host: "TrimSuffix (ToLower ?h) ''.'' = ToLower ?h" using host_labels [OF assms(6,7), of "b @ ''.s3.''"] by simp
  have low: "ToLower ?h = b @ CHR ''.'' # ''s3'' @ CHR ''.'' # ToLower d" using assms(2) by simp code_simp
  have "Split CHR ''.'' (ToLower ?h) = b # ''s3'' # Split CHR ''.'' (ToLower d)"
    unfolding low using assms(4) by (simp add: Split_append)
  moreover have "ToLower ?h \<noteq> ''localhost''" "ToLower ?h \<noteq> []"
  proof (rule notI)
    assume "ToLower ?h = ''localhost''"
    then have "CHR ''.'' \<in> set ''localhost''" unfolding low by (metis in_set_conv_decomp)
    then show False by simp
  qed (simp only: low, simp)
  moreover have "SplitHostPort ?h = None" using assms(5,8) by (intro SplitHostPort_none) simp
  ultimately show ?thesis
    using assms(3,9) by (cases "Split CHR ''.'' (ToLower d)") (simp_all only: virtualHosted_eq host, auto simp: Let_def)
qed

lemma path_host:
  assumes "d \<noteq> []" "last d \<noteq> CHR ''.''" "CHR '':'' \<notin> set d"
  shows "virtualHostedBucket ParseIP (''s3.'' @ d) = None"
proof -
  let ?h = "''s3.'' @ d"
  have host: "TrimSuffix (ToLower ?h) ''.'' = ToLower ?h" using host_labels [OF assms(1,2), of "''s3.''"] by simp
  have "ToLower ''s3.'' = ''s3'' @ CHR ''.'' # []" by code_simp
  then have low: "ToLower ?h = ''s3'' @ CHR ''.'' # ToLower d" using ToLower_append [of "''s3.''" d] by (simp only: append.simps)
  have "Split CHR ''.'' (ToLower ?h) = ''s3'' # Split CHR ''.'' (ToLower d)"
    unfolding low by (rule Split_append) simp
  moreover have "SplitHostPort ?h = None" using assms(3) by (intro SplitHostPort_none) simp
  ultimately show ?thesis by (simp only: virtualHosted_eq host, simp add: Let_def)
qed


definition dotted_quad :: "string \<Rightarrow> bool" where
  \<comment> \<open>a stand-in for \<open>net.ParseIP\<close> on IPv4 literals\<close>
  "dotted_quad h \<longleftrightarrow> (let ls = Split CHR ''.'' h
     in length ls = 4 \<and> list_all (\<lambda>l. l \<noteq> [] \<and> length l \<le> 3 \<and> list_all is_digit l \<and> dec_value l \<le> 255) ls)"


text \<open>For a bucket name with a dot the host names another bucket: the first label.\<close>

lemma dotted_bucket_misrouted:
  "virtualHostedBucket dotted_quad ''my.photos.s3.example.com'' = Some ''my''"
  by code_simp

section \<open>What a parsed request guarantees\<close>

definition unsupported_query :: "http_request \<Rightarrow> bool" where
  "unsupported_query r \<longleftrightarrow>
     list_ex (\<lambda>(name, _). map_of subresource_names name = None \<and> isS3ControlQuery name) (hr_Query r)"

definition part_number_ok :: "string \<Rightarrow> bool" where
  "part_number_ok raw \<longleftrightarrow> (case Atoi raw of None \<Rightarrow> False | Some n \<Rightarrow> 1 \<le> n \<and> n \<le> 10000)"

lemma parseSubresources_error:
  "isl (parseSubresources vs dst) \<longleftrightarrow>
     list_ex (\<lambda>(name, _). map_of subresource_names name = None \<and> isS3ControlQuery name) vs"
  by (induction vs dst rule: parseSubresources.induct) (auto split: option.split)

lemma part_number_name: "map_of subresource_names name = Some SubresourcePartNumber \<longleftrightarrow> name = ''partNumber''"
  by (auto simp: subresource_names_def split: if_splits)

lemma parseSubresources_part:
  "parseSubresources vs dst = Inr subs \<Longrightarrow> distinct (map fst vs) \<Longrightarrow>
   map_of subs SubresourcePartNumber =
     (case map_of vs ''partNumber'' of Some v \<Rightarrow> Some (first_value v) | None \<Rightarrow> map_of dst SubresourcePartNumber)"
proof (induction vs arbitrary: dst)
  case (Cons p vs)
  obtain name v where p: "p = (name, v)" by (cases p)
  show ?case
  proof (cases "map_of subresource_names name")
    case None
    then have "name \<noteq> ''partNumber''" using part_number_name [of name] by simp
    then show ?thesis using Cons.IH [of dst] Cons.prems None unfolding p by (simp split: if_splits)
  next
    case (Some sub)
    then have "map_of subs SubresourcePartNumber = (case map_of vs ''partNumber'' of Some v \<Rightarrow> Some (first_value v)
        | None \<Rightarrow> map_of (map_put sub (first_value v) dst) SubresourcePartNumber)"
      using Cons.IH [of "map_put sub (first_value v) dst"] Cons.prems unfolding p by simp
    moreover have "name = ''partNumber'' \<longleftrightarrow> sub = SubresourcePartNumber" using Some part_number_name [of name] by simp
    moreover have "name = ''partNumber'' \<Longrightarrow> map_of vs ''partNumber'' = None"
      using Cons.prems(2) unfolding p by (simp add: map_of_eq_None_iff)
    ultimately show ?thesis unfolding p by (cases "name = ''partNumber''") (simp_all split: option.split)
  qed
qed simp

lemma validate_iff:
  "validateMultipartParams subs = None \<longleftrightarrow>
     (case map_of subs SubresourcePartNumber of None \<Rightarrow> True | Some raw \<Rightarrow> part_number_ok raw)"
  by (auto simp: validateMultipartParams_def part_number_ok_def not_less split: option.split)

lemma conforms_upload_part: "conforms OperationUploadPart req cs \<Longrightarrow> has_sub SubresourcePartNumber req"
  by (auto simp: conforms_def routing_table_def has_sub_iff)



end
