(* ===== verification/Keyspace.thy ===== *)
theory Keyspace
  imports GoText GoNum
begin

text \<open>
  The key space of the key-value repository (\<open>internal/meta/keyspace/keyspace.go\<close>): how the key of each
  table is built from identifiers and object keys, percent escaping and its inverse. The lemmas show
  that keys of different records differ, that prefix scans find exactly the keys with a prefix, and
  where the order of escaped keys is not the order of the keys.
\<close>

section \<open>Escaping\<close>

definition isSafe :: "char \<Rightarrow> bool" where
  "isSafe c \<longleftrightarrow> CHR ''A'' \<le> c \<and> c \<le> CHR ''Z'' \<or> CHR ''a'' \<le> c \<and> c \<le> CHR ''z'' \<or> CHR ''0'' \<le> c \<and> c \<le> CHR ''9'' \<or>
     c = CHR ''-'' \<or> c = CHR ''_'' \<or> c = CHR ''.'' \<or> c = CHR ''~''"

definition hex_upper :: "nat \<Rightarrow> char" where
  "hex_upper n = ''0123456789ABCDEF'' ! n"

definition hex_value :: "char \<Rightarrow> nat option" where
  \<comment> \<open>a digit of \<open>hex.DecodeString\<close>, which takes both cases\<close>
  "hex_value c =
     (let n = of_char c
      in if 48 \<le> n \<and> n \<le> 57 then Some (n - 48)
         else if 65 \<le> n \<and> n \<le> 70 then Some (n - 55)
         else if 97 \<le> n \<and> n \<le> 102 then Some (n - 87)
         else None)"

definition escape_byte :: "char \<Rightarrow> string" where
  "escape_byte c =
     (if isSafe c then [c]
      else [CHR ''%'', hex_upper (of_char c div 16), hex_upper (of_char c mod 16)])"

definition escape :: "string \<Rightarrow> string" where
  "escape value = concat (map escape_byte value)"

datatype escape_error = TruncatedEscape | InvalidHex

fun unescape :: "string \<Rightarrow> escape_error + string" where
  "unescape [] = Inr []"
| "unescape (c # s) =
     (if c \<noteq> CHR ''%'' then map_sum id ((#) c) (unescape s)
      else case s of
        h1 # h2 # t \<Rightarrow>
          (case (hex_value h1, hex_value h2) of
             (Some a, Some b) \<Rightarrow> map_sum id ((#) (char_of (16 * a + b))) (unescape t)
           | _ \<Rightarrow> Inl InvalidHex)
      | _ \<Rightarrow> Inl TruncatedEscape)"

definition EscapeObjectKey :: "string \<Rightarrow> string" where
  "EscapeObjectKey key = escape key"

definition UnescapeObjectKey :: "string \<Rightarrow> escape_error + string" where
  "UnescapeObjectKey encoded = unescape encoded"

definition EscapePathSegment :: "string \<Rightarrow> string" where
  "EscapePathSegment segment = escape segment"

definition leftPadInt :: "int \<Rightarrow> nat \<Rightarrow> string" where
  "leftPadInt value width =
     (let t = Itoa value
      in if length t \<ge> width then t else replicate (width - length t) CHR ''0'' @ t)"

section \<open>The keys\<close>

definition key_prefix :: string where
  "key_prefix = ''/namros/v1''"

definition key_BucketByID :: "string \<Rightarrow> string" where
  "key_BucketByID bucketID = key_prefix @ ''/buckets/by-id/'' @ EscapePathSegment bucketID"

definition key_ListObject :: "string \<Rightarrow> string \<Rightarrow> string" where
  "key_ListObject bucketID key =
     key_prefix @ ''/buckets/'' @ EscapePathSegment bucketID @ ''/list/'' @ EscapeObjectKey key"

definition key_MultipartPart :: "string \<Rightarrow> string \<Rightarrow> int \<Rightarrow> string" where
  "key_MultipartPart bucketID uploadID partNumber =
     key_prefix @ ''/buckets/'' @ EscapePathSegment bucketID @ ''/multipart/'' @ EscapePathSegment uploadID @ ''/parts/'' @ leftPadInt partNumber 5"

definition key_SharedObjectReleasePrefix :: "string \<Rightarrow> string" where
  "key_SharedObjectReleasePrefix sharedObjectID =
     (let base = key_prefix @ ''/gc/shared-object-releases/''
      in if sharedObjectID = [] then base else base @ EscapePathSegment sharedObjectID @ ''/'')"

definition key_SharedObjectPrefix :: string where
  "key_SharedObjectPrefix = key_prefix @ ''/dedupe/shared-objects/''"

definition key_SharedObjectRefPrefix :: "string \<Rightarrow> string" where
  "key_SharedObjectRefPrefix sharedObjectID =
     (let base = key_prefix @ ''/dedupe/shared-object-refs/''
      in if sharedObjectID = [] then base else base @ EscapePathSegment sharedObjectID @ ''/'')"

section \<open>Records and their keys\<close>

text \<open>The tables of the repository, one constructor per key function of the source with its arguments;
  \<open>encode_key\<close> has one equation per function. A reading of keys back into records follows.\<close>

datatype (plugins only: code) record_key =
    KMetadataSchema | KTenant string | KTenantQuota string | KTenantUsage string | KAccessKey string
  | KKMSKey string | KComplianceProfileAttachment string | KBucketByName string | KBucketByID string
  | KBucketQuota string | KObjectHead string string | KObjectVersion string string string
  | KObjectVersionByID string string | KObjectManifestChunk string string int
  | KListObject string string | KMultipartUpload string string | KMultipartCompletion string string
  | KMultipartUploadByKey string string string | KMultipartPart string string int
  | KIdempotency string string | KGCOrphan string string | KGCCandidate string | KGCOperation string
  | KDedupeOperation string | KDedupeOperationLock string | KSharedObjectRelease string string
  | KSharedObject string | KSharedObjectRef string string string string | KVolumePool string
  | KVolumeDrainOperation string | KMetadataMigrationOperation string | KWorkerLease string string
  | KWorkerOperation string | KWorkerControl string string | KAuditEvent string | KAuditHead
  | KProtectedRefByVersion string string string string | KProtectedRefBySegment string string

fun encode_key :: "record_key \<Rightarrow> string" where
  "encode_key KMetadataSchema = key_prefix @ ''/system/schema''"
| "encode_key (KTenant tenantID) = key_prefix @ ''/tenants/'' @ EscapePathSegment tenantID"
| "encode_key (KTenantQuota tenantID) = key_prefix @ ''/tenants/'' @ EscapePathSegment tenantID @ ''/quota''"
| "encode_key (KTenantUsage tenantID) = key_prefix @ ''/tenants/'' @ EscapePathSegment tenantID @ ''/usage''"
| "encode_key (KAccessKey accessKeyID) = key_prefix @ ''/access-keys/'' @ EscapePathSegment accessKeyID"
| "encode_key (KKMSKey keyID) = key_prefix @ ''/kms/keys/'' @ EscapePathSegment keyID"
| "encode_key (KComplianceProfileAttachment profileID) = key_prefix @ ''/compliance/profile-attachments/'' @ EscapePathSegment profileID"
| "encode_key (KBucketByName name) = key_prefix @ ''/buckets/by-name/'' @ EscapePathSegment name"
| "encode_key (KBucketByID bucketID) = key_BucketByID bucketID"
| "encode_key (KBucketQuota bucketID) = key_prefix @ ''/buckets/'' @ EscapePathSegment bucketID @ ''/quota''"
| "encode_key (KObjectHead bucketID key) =
     key_prefix @ ''/buckets/'' @ EscapePathSegment bucketID @ ''/objects/'' @ EscapeObjectKey key @ ''/head''"
| "encode_key (KObjectVersion bucketID key versionSortKey) =
     key_prefix @ ''/buckets/'' @ EscapePathSegment bucketID @ ''/versions/'' @ EscapeObjectKey key @ ''/'' @ EscapePathSegment versionSortKey"
| "encode_key (KObjectVersionByID bucketID versionID) =
     key_prefix @ ''/buckets/'' @ EscapePathSegment bucketID @ ''/versions-by-id/'' @ EscapePathSegment versionID"
| "encode_key (KObjectManifestChunk bucketID versionID chunkNumber) =
     (let base = key_prefix @ ''/buckets/'' @ EscapePathSegment bucketID @ ''/object-manifests/'' @ EscapePathSegment versionID @ ''/chunks/''
      in if chunkNumber \<le> 0 then base else base @ leftPadInt chunkNumber 6)"
| "encode_key (KListObject bucketID key) = key_ListObject bucketID key"
| "encode_key (KMultipartUpload bucketID uploadID) =
     key_prefix @ ''/buckets/'' @ EscapePathSegment bucketID @ ''/multipart/'' @ EscapePathSegment uploadID @ ''/state''"
| "encode_key (KMultipartCompletion bucketID uploadID) =
     key_prefix @ ''/buckets/'' @ EscapePathSegment bucketID @ ''/multipart/'' @ EscapePathSegment uploadID @ ''/completion''"
| "encode_key (KMultipartUploadByKey bucketID key uploadID) =
     key_prefix @ ''/buckets/'' @ EscapePathSegment bucketID @ ''/multipart-by-key/'' @ EscapeObjectKey key @ ''/'' @ EscapePathSegment uploadID"
| "encode_key (KMultipartPart bucketID uploadID partNumber) = key_MultipartPart bucketID uploadID partNumber"
| "encode_key (KIdempotency scope idempotencyKey) =
     key_prefix @ ''/idempotency/'' @ EscapePathSegment scope @ ''/'' @ EscapePathSegment idempotencyKey"
| "encode_key (KGCOrphan timeBucket objectID) =
     key_prefix @ ''/gc/orphans/'' @ EscapePathSegment timeBucket @ ''/'' @ EscapePathSegment objectID"
| "encode_key (KGCCandidate segmentID) =
     (if segmentID = [] then key_prefix @ ''/gc/candidates/'' else key_prefix @ ''/gc/candidates/'' @ EscapePathSegment segmentID)"
| "encode_key (KGCOperation operationID) = key_prefix @ ''/gc/operations/'' @ EscapePathSegment operationID"
| "encode_key (KDedupeOperation operationID) = key_prefix @ ''/dedupe/operations/'' @ EscapePathSegment operationID"
| "encode_key (KDedupeOperationLock lockID) = key_prefix @ ''/dedupe/operation-locks/'' @ EscapePathSegment lockID"
| "encode_key (KSharedObjectRelease sharedObjectID segmentID) = key_SharedObjectReleasePrefix sharedObjectID @ EscapePathSegment segmentID"
| "encode_key (KSharedObject sharedObjectID) = key_SharedObjectPrefix @ EscapePathSegment sharedObjectID"
| "encode_key (KSharedObjectRef sharedObjectID bucketID key versionID) =
     key_SharedObjectRefPrefix sharedObjectID @ EscapePathSegment bucketID @ ''/'' @ EscapeObjectKey key @ ''/'' @ EscapePathSegment versionID"
| "encode_key (KVolumePool poolID) =
     (if poolID = [] then key_prefix @ ''/storage/volume-pools/'' else key_prefix @ ''/storage/volume-pools/'' @ EscapePathSegment poolID)"
| "encode_key (KVolumeDrainOperation operationID) =
     (if operationID = [] then key_prefix @ ''/storage/volume-drain/operations/'' else key_prefix @ ''/storage/volume-drain/operations/'' @ EscapePathSegment operationID)"
| "encode_key (KMetadataMigrationOperation operationID) =
     (if operationID = [] then key_prefix @ ''/metadata/migrations/operations/'' else key_prefix @ ''/metadata/migrations/operations/'' @ EscapePathSegment operationID)"
| "encode_key (KWorkerLease workerKind shardID) =
     (let base = key_prefix @ ''/workers/leases/''
      in if workerKind = [] then base
         else let kind = base @ EscapePathSegment workerKind @ ''/''
              in if shardID = [] then kind else kind @ EscapePathSegment shardID)"
| "encode_key (KWorkerOperation operationID) = key_prefix @ ''/workers/operations/'' @ EscapePathSegment operationID"
| "encode_key (KWorkerControl workerKind shardID) =
     (let base = key_prefix @ ''/workers/control/''
      in if workerKind = [] then base
         else let kind = base @ EscapePathSegment workerKind @ ''/''
              in if shardID = [] then kind else kind @ EscapePathSegment shardID)"
| "encode_key (KAuditEvent eventID) = key_prefix @ ''/audit/events/'' @ EscapePathSegment eventID"
| "encode_key KAuditHead = key_prefix @ ''/audit/head''"
| "encode_key (KProtectedRefByVersion bucketID key versionID refID) =
     key_prefix @ ''/buckets/'' @ EscapePathSegment bucketID @ ''/protected-refs/by-version/'' @ EscapeObjectKey key @ ''/'' @ EscapePathSegment versionID @ ''/'' @ EscapePathSegment refID"
| "encode_key (KProtectedRefBySegment segmentID refID) =
     key_prefix @ ''/protected-refs/by-segment/'' @ EscapePathSegment segmentID @ ''/'' @ EscapePathSegment refID"

fun key_parts :: "record_key \<Rightarrow> string list" where
  "key_parts KMetadataSchema = [''system'', ''schema'']"
| "key_parts (KTenant x0) = [''tenants'', escape x0]"
| "key_parts (KTenantQuota x0) = [''tenants'', escape x0, ''quota'']"
| "key_parts (KTenantUsage x0) = [''tenants'', escape x0, ''usage'']"
| "key_parts (KAccessKey x0) = [''access-keys'', escape x0]"
| "key_parts (KKMSKey x0) = [''kms'', ''keys'', escape x0]"
| "key_parts (KComplianceProfileAttachment x0) = [''compliance'', ''profile-attachments'', escape x0]"
| "key_parts (KBucketByName x0) = [''buckets'', ''by-name'', escape x0]"
| "key_parts (KBucketByID x0) = [''buckets'', ''by-id'', escape x0]"
| "key_parts (KBucketQuota x0) = [''buckets'', escape x0, ''quota'']"
| "key_parts (KObjectHead x0 x1) = [''buckets'', escape x0, ''objects'', escape x1, ''head'']"
| "key_parts (KObjectVersion x0 x1 x2) = [''buckets'', escape x0, ''versions'', escape x1, escape x2]"
| "key_parts (KObjectVersionByID x0 x1) = [''buckets'', escape x0, ''versions-by-id'', escape x1]"
| "key_parts (KObjectManifestChunk x0 x1 x2) = [''buckets'', escape x0, ''object-manifests'', escape x1, ''chunks'', leftPadInt x2 6]"
| "key_parts (KListObject x0 x1) = [''buckets'', escape x0, ''list'', escape x1]"
| "key_parts (KMultipartUpload x0 x1) = [''buckets'', escape x0, ''multipart'', escape x1, ''state'']"
| "key_parts (KMultipartCompletion x0 x1) = [''buckets'', escape x0, ''multipart'', escape x1, ''completion'']"
| "key_parts (KMultipartUploadByKey x0 x1 x2) = [''buckets'', escape x0, ''multipart-by-key'', escape x1, escape x2]"
| "key_parts (KMultipartPart x0 x1 x2) = [''buckets'', escape x0, ''multipart'', escape x1, ''parts'', leftPadInt x2 5]"
| "key_parts (KIdempotency x0 x1) = [''idempotency'', escape x0, escape x1]"
| "key_parts (KGCOrphan x0 x1) = [''gc'', ''orphans'', escape x0, escape x1]"
| "key_parts (KGCCandidate x0) = [''gc'', ''candidates'', escape x0]"
| "key_parts (KGCOperation x0) = [''gc'', ''operations'', escape x0]"
| "key_parts (KDedupeOperation x0) = [''dedupe'', ''operations'', escape x0]"
| "key_parts (KDedupeOperationLock x0) = [''dedupe'', ''operation-locks'', escape x0]"
| "key_parts (KSharedObjectRelease x0 x1) = [''gc'', ''shared-object-releases'', escape x0, escape x1]"
| "key_parts (KSharedObject x0) = [''dedupe'', ''shared-objects'', escape x0]"
| "key_parts (KSharedObjectRef x0 x1 x2 x3) = [''dedupe'', ''shared-object-refs'', escape x0, escape x1, escape x2, escape x3]"
| "key_parts (KVolumePool x0) = [''storage'', ''volume-pools'', escape x0]"
| "key_parts (KVolumeDrainOperation x0) = [''storage'', ''volume-drain'', ''operations'', escape x0]"
| "key_parts (KMetadataMigrationOperation x0) = [''metadata'', ''migrations'', ''operations'', escape x0]"
| "key_parts (KWorkerLease x0 x1) = [''workers'', ''leases'', escape x0, escape x1]"
| "key_parts (KWorkerOperation x0) = [''workers'', ''operations'', escape x0]"
| "key_parts (KWorkerControl x0 x1) = [''workers'', ''control'', escape x0, escape x1]"
| "key_parts (KAuditEvent x0) = [''audit'', ''events'', escape x0]"
| "key_parts KAuditHead = [''audit'', ''head'']"
| "key_parts (KProtectedRefByVersion x0 x1 x2 x3) = [''buckets'', escape x0, ''protected-refs'', ''by-version'', escape x1, escape x2, escape x3]"
| "key_parts (KProtectedRefBySegment x0 x1) = [''protected-refs'', ''by-segment'', escape x0, escape x1]"

fun record_ok :: "record_key \<Rightarrow> bool" where
  \<comment> \<open>the identifiers a record of the table can have: those that double as the prefix of a scan are not
    empty, numbers are positive 64-bit integers, and no bucket is called like the name index\<close>
  "record_ok (KBucketQuota b) \<longleftrightarrow> b \<noteq> ''by-name'' \<and> b \<noteq> ''by-id''"
| "record_ok (KObjectManifestChunk b v n) \<longleftrightarrow> 0 < n \<and> n < 2 ^ 63"
| "record_ok (KMultipartPart b u n) \<longleftrightarrow> 0 < n \<and> n < 2 ^ 63"
| "record_ok (KSharedObjectRelease s g) \<longleftrightarrow> s \<noteq> []"
| "record_ok (KSharedObjectRef s b k v) \<longleftrightarrow> s \<noteq> []"
| "record_ok (KWorkerLease k s) \<longleftrightarrow> k \<noteq> []"
| "record_ok (KWorkerControl k s) \<longleftrightarrow> k \<noteq> []"
| "record_ok _ \<longleftrightarrow> True"

abbreviation unesc :: "string \<Rightarrow> string" where
  "unesc s \<equiv> projr (unescape s)"

definition decode_bucket :: "string \<Rightarrow> string list \<Rightarrow> record_key option" where
  "decode_bucket b rest =
     (case rest of
        [x] \<Rightarrow> if b = ''by-name'' then Some (KBucketByName (unesc x))
               else if b = ''by-id'' then Some (KBucketByID (unesc x))
               else if x = ''quota'' then Some (KBucketQuota (unesc b)) else None
      | [t, x] \<Rightarrow> if t = ''versions-by-id'' then Some (KObjectVersionByID (unesc b) (unesc x))
                  else if t = ''list'' then Some (KListObject (unesc b) (unesc x)) else None
      | [t, x, y] \<Rightarrow> if t = ''objects'' \<and> y = ''head'' then Some (KObjectHead (unesc b) (unesc x))
                     else if t = ''versions'' then Some (KObjectVersion (unesc b) (unesc x) (unesc y))
                     else if t = ''multipart-by-key'' then Some (KMultipartUploadByKey (unesc b) (unesc x) (unesc y))
                     else if t = ''multipart'' \<and> y = ''state'' then Some (KMultipartUpload (unesc b) (unesc x))
                     else if t = ''multipart'' \<and> y = ''completion'' then Some (KMultipartCompletion (unesc b) (unesc x))
                     else None
      | [t, x, y, z] \<Rightarrow> if t = ''object-manifests'' \<and> y = ''chunks'' then map_option (KObjectManifestChunk (unesc b) (unesc x)) (Atoi z)
                        else if t = ''multipart'' \<and> y = ''parts'' then map_option (KMultipartPart (unesc b) (unesc x)) (Atoi z)
                        else None
      | [t, u, x, y, z] \<Rightarrow> if t = ''protected-refs'' \<and> u = ''by-version''
                           then Some (KProtectedRefByVersion (unesc b) (unesc x) (unesc y) (unesc z)) else None
      | _ \<Rightarrow> None)"

definition decode_parts :: "string list \<Rightarrow> record_key option" where
  "decode_parts parts =
     (case parts of
        [t, x] \<Rightarrow> if t = ''system'' then Some KMetadataSchema
                  else if t = ''tenants'' then Some (KTenant (unesc x))
                  else if t = ''access-keys'' then Some (KAccessKey (unesc x))
                  else if t = ''audit'' then Some KAuditHead else None
      | [t, x, y] \<Rightarrow> if t = ''tenants'' then if y = ''quota'' then Some (KTenantQuota (unesc x)) else Some (KTenantUsage (unesc x))
                     else if t = ''kms'' then Some (KKMSKey (unesc y))
                     else if t = ''compliance'' then Some (KComplianceProfileAttachment (unesc y))
                     else if t = ''buckets'' then decode_bucket x [y]
                     else if t = ''idempotency'' then Some (KIdempotency (unesc x) (unesc y))
                     else if t = ''gc'' then if x = ''candidates'' then Some (KGCCandidate (unesc y)) else Some (KGCOperation (unesc y))
                     else if t = ''dedupe''
                     then if x = ''operations'' then Some (KDedupeOperation (unesc y))
                          else if x = ''operation-locks'' then Some (KDedupeOperationLock (unesc y))
                          else Some (KSharedObject (unesc y))
                     else if t = ''storage'' then Some (KVolumePool (unesc y))
                     else if t = ''workers'' then Some (KWorkerOperation (unesc y))
                     else if t = ''audit'' then Some (KAuditEvent (unesc y)) else None
      | [t, x, y, z] \<Rightarrow> if t = ''buckets'' then decode_bucket x [y, z]
                        else if t = ''gc'' then if x = ''orphans'' then Some (KGCOrphan (unesc y) (unesc z))
                             else Some (KSharedObjectRelease (unesc y) (unesc z))
                        else if t = ''storage'' then Some (KVolumeDrainOperation (unesc z))
                        else if t = ''metadata'' then Some (KMetadataMigrationOperation (unesc z))
                        else if t = ''workers'' then if x = ''leases'' then Some (KWorkerLease (unesc y) (unesc z))
                             else Some (KWorkerControl (unesc y) (unesc z))
                        else if t = ''protected-refs'' then Some (KProtectedRefBySegment (unesc y) (unesc z)) else None
      | t # x # rest \<Rightarrow> if t = ''buckets'' then decode_bucket x rest
                        else (case rest of
                           [s, b, k, v] \<Rightarrow> if t = ''dedupe'' then Some (KSharedObjectRef (unesc s) (unesc b) (unesc k) (unesc v)) else None
                         | _ \<Rightarrow> None)
      | _ \<Rightarrow> None)"

definition decode_key :: "string \<Rightarrow> record_key option" where
  "decode_key key = decode_parts (drop 3 (Split CHR ''/'' key))"

section \<open>Round trips\<close>

lemma hex_value_upper: "n < 16 \<Longrightarrow> hex_value (hex_upper n) = Some n"
proof -
  have "list_all (\<lambda>n. hex_value (hex_upper n) = Some n) [0..<16]" by code_simp
  then show "n < 16 \<Longrightarrow> ?thesis" by (simp add: list_all_iff)
qed

lemma hex_upper_no_slash: "n < 16 \<Longrightarrow> hex_upper n \<noteq> CHR ''/''"
proof
  assume "n < 16" "hex_upper n = CHR ''/''"
  then have "hex_value CHR ''/'' = Some n" using hex_value_upper by metis
  then show False by (simp add: hex_value_def)
qed

lemma not_safe: "\<not> isSafe CHR ''%''" "\<not> isSafe CHR ''/''"
  by (simp_all add: isSafe_def less_eq_char_def)

lemma byte_nibbles: "(of_char c :: nat) div 16 < 16" "(of_char c :: nat) mod 16 < 16"
  using nat_of_char_less_256 [of c] by (simp_all add: div_less_iff_less_mult)

lemma unescape_byte: "unescape (escape_byte c @ s) = map_sum id ((#) c) (unescape s)"
  using not_safe(1) byte_nibbles [of c] by (auto simp: escape_byte_def hex_value_upper)

lemma unescape_escape [simp]: "unescape (escape s) = Inr s"
  by (induction s) (simp_all add: escape_def unescape_byte)

lemma escape_no_slash: "CHR ''/'' \<notin> set (escape s)"
proof -
  have "CHR ''/'' \<notin> set (escape_byte c)" for c
    using not_safe(2) hex_upper_no_slash [OF byte_nibbles(1), of c] hex_upper_no_slash [OF byte_nibbles(2), of c]
    by (auto simp: escape_byte_def)
  then show ?thesis by (auto simp: escape_def)
qed

lemma dec_value_snoc: "dec_value (s @ [c]) = 10 * dec_value s + char_digit c"
  by (simp add: dec_value_def)

lemma nat_dec_facts: "dec_value (nat_dec n) = n \<and> nat_dec n \<noteq> [] \<and> list_all is_digit (nat_dec n)"
proof (induction n rule: nat_dec.induct)
  case (1 n)
  show ?case
  proof (cases "n < 10")
    case True
    then show ?thesis by (simp add: nat_dec.simps [of n] dec_value_def)
  next
    case False
    with 1 show ?thesis by (simp add: nat_dec.simps [of n] dec_value_snoc)
  qed
qed

lemma dec_value_zeros: "dec_value (replicate k CHR ''0'' @ s) = dec_value s"
proof (induction k)
  case (Suc k)
  have "char_digit CHR ''0'' = 0" by (simp add: char_digit_def)
  with Suc show ?case by (simp add: dec_value_def)
qed simp

lemma leftPadInt_digits:
  assumes "0 \<le> v"
  shows "leftPadInt v w \<noteq> [] \<and> list_all is_digit (leftPadInt v w) \<and> dec_value (leftPadInt v w) = nat v"
proof -
  have "is_digit CHR ''0''" by (simp add: is_digit_def)
  then show ?thesis
    using assms nat_dec_facts [of "nat v"] by (auto simp: leftPadInt_def Itoa_def Let_def dec_value_zeros list_all_iff)
qed

lemma Atoi_leftPadInt: "0 \<le> v \<Longrightarrow> v < 2 ^ 63 \<Longrightarrow> Atoi (leftPadInt v w) = Some v"
proof -
  assume v: "0 \<le> v" "v < 2 ^ 63"
  have "c \<noteq> CHR ''-'' \<and> c \<noteq> CHR ''+''" if "is_digit c" for c using that by (auto simp: is_digit_def)
  then have "hd (leftPadInt v w) \<noteq> CHR ''-'' \<and> hd (leftPadInt v w) \<noteq> CHR ''+''"
    using leftPadInt_digits [OF v(1), of w] by (cases "leftPadInt v w") auto
  then show ?thesis using v leftPadInt_digits [OF v(1), of w] by (simp add: Atoi_def Let_def)
qed

lemma leftPadInt_no_slash: "0 \<le> v \<Longrightarrow> CHR ''/'' \<notin> set (leftPadInt v w)"
proof
  assume "0 \<le> v" "CHR ''/'' \<in> set (leftPadInt v w)"
  then have "is_digit CHR ''/''" using leftPadInt_digits by (auto simp: list_all_iff)
  then show False by (simp add: is_digit_def)
qed

lemmas key_defs =
  key_prefix_def key_BucketByID_def key_ListObject_def key_MultipartPart_def
  key_SharedObjectReleasePrefix_def key_SharedObjectPrefix_def key_SharedObjectRefPrefix_def
  EscapePathSegment_def EscapeObjectKey_def Let_def

lemma escape_Nil [simp]: "escape [] = []"
  by (simp add: escape_def)

lemma encode_parts: "record_ok k \<Longrightarrow> encode_key k = Join CHR ''/'' ([] # ''namros'' # ''v1'' # key_parts k)"
  by (cases k) (simp_all add: key_defs)

lemma parts_no_slash: "record_ok k \<Longrightarrow> \<forall>w \<in> set ([] # ''namros'' # ''v1'' # key_parts k). CHR ''/'' \<notin> set w"
  by (cases k) (simp_all add: escape_no_slash leftPadInt_no_slash)

lemma split_encode: "record_ok k \<Longrightarrow> Split CHR ''/'' (encode_key k) = [] # ''namros'' # ''v1'' # key_parts k"
  using Split_Join [of "[] # ''namros'' # ''v1'' # key_parts k" "CHR ''/''"] parts_no_slash [of k]
  by (simp only: encode_parts) simp

lemma escape_eq_iff [simp]: "escape s = escape t \<longleftrightarrow> s = t"
  by (metis unescape_escape sum.inject(2))

lemma escape_names: "escape s = ''by-name'' \<longleftrightarrow> s = ''by-name''" "escape s = ''by-id'' \<longleftrightarrow> s = ''by-id''"
proof -
  have "escape ''by-name'' = ''by-name''" "escape ''by-id'' = ''by-id''" by code_simp+
  then show "escape s = ''by-name'' \<longleftrightarrow> s = ''by-name''" "escape s = ''by-id'' \<longleftrightarrow> s = ''by-id''"
    using escape_eq_iff by metis+
qed

lemma decode_parts_ok: "record_ok k \<Longrightarrow> decode_parts (key_parts k) = Some k"
  by (cases k) (simp_all add: decode_parts_def decode_bucket_def Atoi_leftPadInt escape_names)

text \<open>C26 (roundtrip). Every record has its own key: the key of a record, split at its slashes, can be read
  back to the record. So the keys of two records of the repository are never equal, whatever bytes
  the identifiers and object keys contain, as long as no bucket identifier is one of the two index
  names.\<close>

theorem record_keys_round_trip:
  assumes "record_ok k"
  shows "decode_key (encode_key k) = Some k \<and> (\<forall>l. record_ok l \<longrightarrow> encode_key l = encode_key k \<longrightarrow> l = k)"
proof -
  have "decode_key (encode_key k) = Some k" if "record_ok k" for k
    using that by (simp add: decode_key_def split_encode decode_parts_ok)
  with assms show ?thesis by (metis option.inject)
qed

theorem record_keys_round_trip_witness:
  "decode_key (encode_key (KObjectHead ''b'' ''a/b%'')) = Some (KObjectHead ''b'' ''a/b%'')"
  using record_keys_round_trip [of "KObjectHead ''b'' ''a/b%''"] by (simp del: encode_key.simps)

text \<open>For a bucket identifier that is an index name the key of its quota is the key of a bucket.\<close>

lemma quota_key_collision: "encode_key (KBucketQuota ''by-name'') = encode_key (KBucketByName ''quota'')"
  by code_simp

section \<open>Scans\<close>

lemma escape_byte_code: "escape_byte c @ s = escape_byte d @ t \<Longrightarrow> c = d \<and> s = t"
proof -
  assume eq: "escape_byte c @ s = escape_byte d @ t"
  have len: "length (escape_byte x) = (if isSafe x then 1 else 3)" "hd (escape_byte x) = (if isSafe x then x else CHR ''%'')"
    "escape_byte x \<noteq> []" for x by (simp_all add: escape_byte_def)
  have "hd (escape_byte c) = hd (escape_byte d)" using arg_cong [OF eq, of hd] len(3) by simp
  then have "isSafe c = isSafe d" using len(2) [of c] len(2) [of d] not_safe(1) by (auto split: if_splits)
  then have "escape_byte c = escape_byte d \<and> s = t" using eq len(1) [of c] len(1) [of d] by (simp add: append_eq_append_conv)
  moreover from this have "escape [c] = escape [d]" by (simp add: escape_def)
  ultimately show ?thesis by (simp del: append.simps)
qed

lemma escape_prefix: "HasPrefix (escape k) (escape p) \<longleftrightarrow> HasPrefix k p"
proof (induction p arbitrary: k)
  case (Cons c p)
  show ?case
  proof (cases k)
    case Nil
    then show ?thesis by (auto simp: HasPrefix_iff escape_def escape_byte_def)
  next
    case (Cons d k')
    have "HasPrefix (escape k) (escape (c # p)) \<longleftrightarrow> (\<exists>r. escape_byte d @ escape k' = escape_byte c @ escape p @ r)"
      by (simp add: HasPrefix_iff Cons escape_def)
    also have "\<dots> \<longleftrightarrow> d = c \<and> HasPrefix (escape k') (escape p)"
      by (auto simp: HasPrefix_iff dest!: escape_byte_code)
    also have "\<dots> \<longleftrightarrow> HasPrefix k (c # p)"
      using Cons.IH by (auto simp: Cons HasPrefix_iff)
    finally show ?thesis .
  qed
qed (simp add: HasPrefix_def)

lemma HasPrefix_segment:
  assumes "c \<notin> set x" "c \<notin> set y"
  shows "HasPrefix (x @ c # s) (y @ c # t) \<longleftrightarrow> x = y \<and> HasPrefix s t"
proof
  assume "HasPrefix (x @ c # s) (y @ c # t)"
  then obtain r where r: "x @ c # s = y @ c # t @ r" by (auto simp: HasPrefix_iff)
  then have "x = y \<and> s = t @ r" using assms by (metis Cut_append prod.inject)
  then show "x = y \<and> HasPrefix s t" by (auto simp: HasPrefix_iff)
qed (auto simp: HasPrefix_iff)

lemma HasPrefix_cancel [simp]: "HasPrefix (x @ s) (x @ t) \<longleftrightarrow> HasPrefix s t" "HasPrefix (c # s) (c # t) \<longleftrightarrow> HasPrefix s t"
  by (auto simp: HasPrefix_iff)

lemma dec_value_Cons: "dec_value (c # s) = char_digit c * 10 ^ length s + dec_value s"
proof -
  have "foldl (\<lambda>a c. 10 * a + char_digit c) x s = x * 10 ^ length s + dec_value s" for x
    by (induction s rule: rev_induct) (simp_all add: dec_value_def algebra_simps)
  then show ?thesis by (simp add: dec_value_def [of "c # s"])
qed

lemma char_digit_less: "is_digit c \<Longrightarrow> is_digit d \<Longrightarrow> char_digit c < char_digit d \<longleftrightarrow> c < d"
  by (auto simp: is_digit_def char_digit_def less_char_def)

lemma dec_value_bound: "list_all is_digit s \<Longrightarrow> dec_value s < 10 ^ length s"
proof (induction s)
  case (Cons c s)
  then have "char_digit c \<le> 9" by (auto simp: is_digit_def char_digit_def)
  then have "char_digit c * 10 ^ length s \<le> 9 * 10 ^ length s" by (rule mult_right_mono) simp
  moreover have "dec_value s < 10 ^ length s" using Cons by simp
  ultimately have "char_digit c * 10 ^ length s + dec_value s < 10 * 10 ^ length s" by linarith
  then show ?case by (simp add: dec_value_Cons)
qed (simp add: dec_value_def)

lemma digits_less:
  "length s = length t \<Longrightarrow> list_all is_digit s \<Longrightarrow> list_all is_digit t \<Longrightarrow> dec_value s < dec_value t \<Longrightarrow> s < t"
proof (induction s t rule: list_induct2)
  case (Cons c s d t)
  have less: "char_digit a * 10 ^ length s + dec_value u < char_digit b * 10 ^ length s + dec_value v"
    if "char_digit a < char_digit b" "list_all is_digit u" "length u = length s" for a b u v
  proof -
    have "char_digit a * 10 ^ length s + dec_value u < (char_digit a + 1) * 10 ^ length s"
      using dec_value_bound [OF that(2)] that(3) by simp
    also have "\<dots> \<le> char_digit b * 10 ^ length s" using that(1) by (intro mult_right_mono) simp_all
    finally show ?thesis by simp
  qed
  have "\<not> char_digit d < char_digit c"
    using less [of d c t s] Cons.prems Cons.hyps by (auto simp: dec_value_Cons)
  then have "c \<le> d" using char_digit_less [of d c] Cons.prems by (simp add: not_less)
  moreover have "s < t" if "c = d" using Cons that by (simp add: dec_value_Cons)
  ultimately show ?case by (auto simp: Cons_less_Cons)
qed (simp add: dec_value_def)

lemma length_nat_dec: "n < 10 ^ Suc w \<Longrightarrow> length (nat_dec n) \<le> Suc w"
proof (induction w arbitrary: n)
  case (Suc w)
  then have "length (nat_dec (n div 10)) \<le> Suc w" by simp
  then show ?case by (simp add: nat_dec.simps [of n])
qed (simp add: nat_dec.simps)

lemma leftPadInt_less:
  assumes "0 \<le> m" "m < n" "n < 10 ^ Suc w"
  shows "leftPadInt m (Suc w) < leftPadInt n (Suc w)"
proof -
  have "length (leftPadInt v (Suc w)) = Suc w" if "0 \<le> v" "v < 10 ^ Suc w" for v
  proof -
    have "nat v < 10 ^ Suc w" using that by (simp add: nat_less_iff)
    from length_nat_dec [OF this] show ?thesis using that by (auto simp: leftPadInt_def Itoa_def Let_def)
  qed
  then show ?thesis
    using assms leftPadInt_digits [of m "Suc w"] leftPadInt_digits [of n "Suc w"] by (intro digits_less) auto
qed

lemma list_key_prefix: "HasPrefix (key_ListObject b k) (key_ListObject b' p) \<longleftrightarrow> b = b' \<and> HasPrefix k p"
proof -
  have "HasPrefix (key_ListObject b k) (key_ListObject b' p) \<longleftrightarrow>
      HasPrefix (escape b @ CHR ''/'' # ''list/'' @ escape k) (escape b' @ CHR ''/'' # ''list/'' @ escape p)"
    by (simp add: key_defs)
  also have "\<dots> \<longleftrightarrow> b = b' \<and> HasPrefix k p"
    by (subst HasPrefix_segment) (simp_all add: escape_no_slash escape_prefix)
  finally show ?thesis .
qed

text \<open>C27 (functional). Scans over the key space find what they look for, in order: the keys below the
  listing key of a prefix are exactly those of the objects of that bucket whose key has the prefix,
  for arbitrary bytes; and the keys of the parts of an upload are in the order of their part
  numbers for all numbers the service accepts.\<close>

theorem scans_are_exact:
  "(HasPrefix (key_ListObject b k) (key_ListObject b' p) \<longleftrightarrow> b = b' \<and> HasPrefix k p) \<and>
   (1 \<le> m \<longrightarrow> m < n \<longrightarrow> n \<le> 10000 \<longrightarrow> key_MultipartPart b u m < key_MultipartPart b u n)"
proof -
  have "x < y \<Longrightarrow> z @ x < z @ (y :: string)" for x y z by (induction z) (auto simp: Cons_less_Cons)
  then have "key_MultipartPart b u m < key_MultipartPart b u n" if "1 \<le> m" "m < n" "n \<le> 10000"
    using leftPadInt_less [of m n 4] that by (simp add: key_defs)
  with list_key_prefix show ?thesis by blast
qed

theorem scans_are_exact_witness:
  "HasPrefix (key_ListObject ''b'' ''a/b'') (key_ListObject ''b'' ''a/'') \<and>
   key_MultipartPart ''b'' ''u'' 9 < key_MultipartPart ''b'' ''u'' 10"
  using scans_are_exact [of "''b''" "''a/b''" "''b''" "''a/''" 9 10 "''u''"] by (simp add: HasPrefix_def)

text \<open>The order of the listing keys is not the order of the object keys: a slash is escaped and sorts
  before a hyphen.\<close>

lemma escaped_order_differs:
  "''a-b'' < ''a/b'' \<and> key_ListObject ''b'' ''a/b'' < key_ListObject ''b'' ''a-b''"
  by code_simp

end
