(* ===== verification/Spec2Isabelle.thy ===== *)
theory Spec2Isabelle
  imports Ids DeleteProps Policy RoutingTable Keyspace
begin

text \<open>
  \<^bold>\<open>A verification development for Namros, an S3-compatible object store.\<close>

  \<^bold>\<open>The program.\<close> A gateway receives S3 requests. It routes each request to an operation
  (\<open>internal/s3api/routing\<close>), decides whether the principal may do it (\<open>internal/auth\<close>), writes segment
  data through a storage backend and keeps all metadata in a repository (\<open>internal/meta\<close>): tenants,
  keys, buckets, object heads and versions, multipart uploads, the audit log, protected references,
  journals, leases and shared objects. Background workers (garbage collection, lifecycle, drain,
  dedupe) coordinate through leases and journals in the same repository. The in-memory repository
  \<open>internal/meta/memory/repository.go\<close> is the reference implementation of the repository interface,
  against which the key-value implementations are tested; its operations are the core of this
  development.

  \<^bold>\<open>Conventions.\<close> A Go struct is a record with the fields of the source behind a short prefix, an
  enumeration a datatype, a Go map an association list (\<open>gomap\<close>) with \<open>map_put\<close>, \<open>map_del\<close> and
  \<open>map_of\<close>, so that loops over a map follow the list; \<open>int\<close> and \<open>int64\<close> are integers with \<open>wrap64\<close>
  where arithmetic can overflow, \<open>uint64\<close> is a 64-bit word. A method of the repository that may write
  is a function from its arguments and the repository to a result and the repository afterwards;
  a result is \<open>Inl\<close> of an error or \<open>Inr\<close> of a value. The clock is an argument: \<open>now\<close> where a method
  reads it once, \<open>clk :: nat \<Rightarrow> time\<close> where it reads it several times. Identifier generators are a
  function \<open>ids :: nat \<Rightarrow> string option\<close>, drawn until an unused one is found. SHA-256, the JSON
  encodings and the time format are the fields of the record \<open>Env\<close>; strings are byte strings, blanks
  are those of \<open>unicode.IsSpace\<close>, and letters are folded in the ASCII range only. Every method holds
  the repository's mutex from start to end, so a sequence of calls is a sequence of steps.

  \<^bold>\<open>The theories.\<close>
  \<^item> \<open>Prelude\<close>, \<open>GoNum\<close>, \<open>GoText\<close>: Go maps, strings, sorting, binary search, integers and decimal
    text, with the lemmas the components share; the map interface is a locale.
  \<^item> \<open>Model\<close>, \<open>Requests\<close>: the data types of \<open>model.go\<close> and the request types of \<open>repository.go\<close>.
  \<^item> \<open>Ids\<close> (\<open>meta/id/id.go\<close>): the process generator; identifiers increase and the generator's wait
    for the clock ends.
  \<^item> \<open>Repo\<close>, \<open>AuditLog\<close>, \<open>Tenants\<close>, \<open>ObjectLock\<close>, \<open>Buckets\<close>, \<open>Manifest\<close> (\<open>scale.go\<close>), \<open>Objects\<close>,
    \<open>Multipart\<close>, \<open>Listing\<close>, \<open>Coordination\<close> (\<open>worker.go\<close>), \<open>OpLogs\<close> (\<open>volume_pool.go\<close>,
    \<open>migration.go\<close>, \<open>volume_drain.go\<close>), \<open>SharedObjects\<close>, \<open>Import\<close>: the state and the operations of
    the memory repository, one definition per method, in groups as the file has them.
  \<^item> \<open>ObjectInv\<close>, \<open>ObjectSafety\<close>, \<open>Retention\<close>, \<open>MultipartInv\<close>, \<open>MultipartLife\<close>, \<open>ListingPages\<close>: the
    invariants of the tables, that every operation keeps them, what retention guarantees for one
    operation, the life of an upload, and paging.
  \<^item> \<open>Steps\<close>, \<open>Reachable\<close>: the operations as step relations per part of the state, their union
    \<open>repo_step\<close>, the runs \<open>repo_run\<close> with a clock that does not go back, and the states \<open>reachable\<close>
    from an empty repository; the invariant \<open>repo_inv\<close> holds in all of them.
  \<^item> \<open>RepoProps\<close>, \<open>ObjectProps\<close>, \<open>DeleteProps\<close>: the properties of the repository as a whole.
  \<^item> \<open>Policy\<close> (\<open>internal/auth\<close>, parts of \<open>iam.go\<close> and \<open>s3_handlers.go\<close>): parsing and evaluation of
    policies and the authorization of a governance bypass.
  \<^item> \<open>Routing\<close>, \<open>RoutingTable\<close> (\<open>routing/parser.go\<close>): from a request to its operation, and its
    equivalence with a table.
  \<^item> \<open>Keyspace\<close> (\<open>meta/keyspace/keyspace.go\<close>): the keys of the tables of the key-value repository; keys
    can be read back and prefix scans are exact.

  \<^bold>\<open>What is shown.\<close> Locked versions survive every run and garbage collection sees references for
  their segments; the repository refines a map from keys to contents; heads show committed versions;
  deletions promote the newest version and leave an audit event when they bypass governance
  retention; the audit log is tamper-evident; conditional commits have one winner; calls that fail
  change nothing; uploads have a final outcome and exact summaries; listings return everything
  exactly once; leases and locks are exclusive and fenced; identifiers are increasing; manifests lose
  no segment; reference counts can be repaired; imports keep identifiers unique; policies decide by
  the order-free rule; requests are routed by the table; records
  have distinct keys. Hypotheses about code outside the
  repository are named in the statements: \<open>ids_ok\<close> (generated identifiers are not empty and have no
  NUL), injectivity of the hash where the keys of references depend on it, \<open>no_collision\<close> for the
  audit hash.

  \<^bold>\<open>Fuel and bounds.\<close> No operation needs fuel. Loops over maps and lists are structural recursions;
  the binary search terminates by the width of its interval; the generator's wait is a
  \<open>partial_function\<close> and is shown to return when the clock advances; paging is iterated with the
  number of entries as bound and shown to be complete; cleanup is shown to end.

  \<^bold>\<open>Not modelled.\<close> The key-value repository and its TiKV and Pebble stores (the same interface over
  transactions of third-party stores; the memory repository is the reference), the storage
  backends and encryption (data I/O and ciphers), the HTTP handlers' streaming and XML, SigV4
  signatures, the console, metrics, administration tools, benchmarks and configuration (front
  ends and reporting), and the conformance suite (tests).
\<close>

end
